(* ===== verification/Prelude.thy ===== *)
theory Prelude
  imports Main "HOL-Library.Word" "HOL-Library.State_Monad"
begin

text \<open>
  Shared vocabulary of the development: machine types and the constants of the two
  libraries the engine sits between, the state-monad helpers in which the stateful C
  functions are written, a weakest-precondition calculus for them, and the big-endian
  byte/number conversions used by the key blobs.
\<close>

unbundle bit_operations_syntax

section \<open>Types and constants\<close>

type_synonym byte = "8 word"
type_synonym bytes = "8 word list"
type_synonym status = "32 word"
type_synonym ptr = nat

abbreviation (input) NULL :: ptr where "NULL \<equiv> 0"

text \<open>
  Status codes of cryptoauthlib that the engine tests for (its header
  \<^verbatim>\<open>atca_status.h\<close>); every other code is an arbitrary nonzero word.
\<close>

abbreviation (input) ATCA_SUCCESS :: status where "ATCA_SUCCESS \<equiv> 0"
abbreviation (input) ATCA_CHECKMAC_VERIFY_FAILED :: status where "ATCA_CHECKMAC_VERIFY_FAILED \<equiv> 0xD1"
abbreviation (input) ATCA_HEALTH_TEST_ERROR :: status where "ATCA_HEALTH_TEST_ERROR \<equiv> 0xD9"
abbreviation (input) ATCA_FUNC_FAIL :: status where "ATCA_FUNC_FAIL \<equiv> 0xE0"
abbreviation (input) ATCA_GEN_FAIL :: status where "ATCA_GEN_FAIL \<equiv> 0xE1"
abbreviation (input) ATCA_BAD_PARAM :: status where "ATCA_BAD_PARAM \<equiv> 0xE2"

abbreviation (input) ATCA_BLOCK_SIZE :: nat where "ATCA_BLOCK_SIZE \<equiv> 32"
abbreviation (input) ATCA_KEY_SIZE :: nat where "ATCA_KEY_SIZE \<equiv> 32"

text \<open>Return convention of the OpenSSL side (\<^verbatim>\<open>eccx08_engine.h\<close>, lines 112-114).\<close>

abbreviation (input) ENGINE_OPENSSL_SUCCESS :: int where "ENGINE_OPENSSL_SUCCESS \<equiv> 1"
abbreviation (input) ENGINE_OPENSSL_FAILURE :: int where "ENGINE_OPENSSL_FAILURE \<equiv> 0"
abbreviation (input) ENGINE_OPENSSL_ERROR :: int where "ENGINE_OPENSSL_ERROR \<equiv> -1"

section \<open>Programs as state transformers\<close>

abbreviation ret :: "'a \<Rightarrow> ('s, 'a) state" where "ret \<equiv> State_Monad.return"
abbreviation getS :: "('s, 's) state" where "getS \<equiv> State_Monad.get"

definition modify :: "('s \<Rightarrow> 's) \<Rightarrow> ('s, unit) state" where
  "modify f = State (\<lambda>s. ((), f s))"

definition gets :: "('s \<Rightarrow> 'a) \<Rightarrow> ('s, 'a) state" where
  "gets f = State (\<lambda>s. (f s, s))"

definition skip :: "('s, unit) state" where
  "skip = State_Monad.return ()"

named_theorems run_simps "evaluation of programs on a state"

lemma run_modify [simp, run_simps]: "run_state (modify f) s = ((), f s)"
  by (simp add: modify_def)

lemma run_gets [simp, run_simps]: "run_state (gets f) s = (f s, s)"
  by (simp add: gets_def)

lemma run_skip [simp, run_simps]: "run_state skip s = ((), s)"
  by (simp add: skip_def)

lemma run_if [simp, run_simps]:
  "run_state (if b then m else n) s = (if b then run_state m s else run_state n s)"
  by simp

lemma run_Let [simp, run_simps]: "run_state (Let x f) s = (let y = x in run_state (f y) s)"
  by simp

lemma run_case_option [simp, run_simps]:
  "run_state (case x of None \<Rightarrow> m | Some y \<Rightarrow> n y) s =
     (case x of None \<Rightarrow> run_state m s | Some y \<Rightarrow> run_state (n y) s)"
  by (cases x) auto

lemma run_case_prod [simp, run_simps]:
  "run_state (case x of (y, z) \<Rightarrow> m y z) s = (case x of (y, z) \<Rightarrow> run_state (m y z) s)"
  by (cases x) auto

section \<open>Weakest preconditions\<close>

text \<open>
  \<open>wp m Q s\<close>: running \<open>m\<close> from \<open>s\<close> ends with a value and a state that satisfy \<open>Q\<close>. Every
  program is total, so this is total correctness. The collection \<open>wp_simps\<close> computes
  through the control structure; \<open>wp_intros\<close> holds the specifications of operations.
\<close>

definition wp :: "('s, 'a) state \<Rightarrow> ('a \<Rightarrow> 's \<Rightarrow> bool) \<Rightarrow> 's \<Rightarrow> bool" where
  "wp m Q s = (case run_state m s of (a, t) \<Rightarrow> Q a t)"

named_theorems wp_simps "weakest preconditions of the control structure"
named_theorems wp_intros "specifications of operations as introduction rules"

lemma wp_return [simp, wp_simps]: "wp (State_Monad.return a) Q s = Q a s"
  by (simp add: wp_def)

lemma wp_bind [simp, wp_simps]:
  "wp (State_Monad.bind m f) Q s = wp m (\<lambda>a t. wp (f a) Q t) s"
  by (simp add: wp_def split: prod.splits)

lemma wp_get [simp, wp_simps]: "wp State_Monad.get Q s = Q s s"
  by (simp add: wp_def)

lemma wp_modify [simp, wp_simps]: "wp (modify f) Q s = Q () (f s)"
  by (simp add: wp_def)

lemma wp_gets [simp, wp_simps]: "wp (gets f) Q s = Q (f s) s"
  by (simp add: wp_def)

lemma wp_skip [simp, wp_simps]: "wp skip Q s = Q () s"
  by (simp add: wp_def)

lemma wp_if [simp, wp_simps]:
  "wp (if b then m else n) Q s = (if b then wp m Q s else wp n Q s)"
  by simp

lemma wp_Let [simp, wp_simps]: "wp (Let x f) Q s = (let y = x in wp (f y) Q s)"
  by simp

lemma wp_case_option [simp, wp_simps]:
  "wp (case x of None \<Rightarrow> m | Some y \<Rightarrow> n y) Q s =
     (case x of None \<Rightarrow> wp m Q s | Some y \<Rightarrow> wp (n y) Q s)"
  by (cases x) auto

lemma wp_case_prod [simp, wp_simps]:
  "wp (case x of (y, z) \<Rightarrow> m y z) Q s = (case x of (y, z) \<Rightarrow> wp (m y z) Q s)"
  by (cases x) auto

lemma wp_mono: "wp m P s \<Longrightarrow> (\<And>a t. P a t \<Longrightarrow> Q a t) \<Longrightarrow> wp m Q s"
  by (auto simp: wp_def split: prod.splits)

lemma wp_any: "wp m (\<lambda>_ _. True) s"
  by (simp add: wp_def split: prod.splits)

lemma wp_conj: "wp m (\<lambda>a t. P a t \<and> Q a t) s \<longleftrightarrow> wp m P s \<and> wp m Q s"
  by (auto simp: wp_def split: prod.splits)

lemma wp_bindI: "wp m (\<lambda>a. wp (f a) Q) s \<Longrightarrow> wp (State_Monad.bind m f) Q s"
  by simp

lemma wp_also: "wp m P s \<Longrightarrow> wp m (\<lambda>a t. P a t \<longrightarrow> Q a t) s \<Longrightarrow> wp m Q s"
  by (auto simp: wp_def split: prod.splits)

lemma wp_imp: "(p \<Longrightarrow> wp m Q s) \<Longrightarrow> wp m (\<lambda>a t. p \<longrightarrow> Q a t) s"
  by (cases p) (auto simp: wp_def split: prod.splits)

lemma wpI: "(\<And>a t. run_state m s = (a, t) \<Longrightarrow> Q a t) \<Longrightarrow> wp m Q s"
  by (auto simp: wp_def split: prod.splits)

lemma wpD: "wp m Q s \<Longrightarrow> run_state m s = (a, t) \<Longrightarrow> Q a t"
  by (auto simp: wp_def)

section \<open>Frames\<close>

text \<open>
  \<open>keeping R m\<close>: whatever state \<open>m\<close> starts from, it ends in one related to it by \<open>R\<close>. For a
  reflexive and transitive \<open>R\<close> this is closed under every construct, so that a whole
  operation is shown to keep \<open>R\<close> by the facts about its calls alone.
\<close>

definition keeping :: "('s \<Rightarrow> 's \<Rightarrow> bool) \<Rightarrow> ('s, 'a) state \<Rightarrow> bool" where
  "keeping R m \<longleftrightarrow> (\<forall>s. wp m (\<lambda>_ t. R s t) s)"

lemma keepingI: "(\<And>s. wp m (\<lambda>_ t. R s t) s) \<Longrightarrow> keeping R m"
  by (simp add: keeping_def)

lemma keepingD: "keeping R m \<Longrightarrow> wp m (\<lambda>_ t. R s t) s"
  by (simp add: keeping_def)

lemma keeping_rule: "keeping R m \<Longrightarrow> (\<And>a t. R s t \<Longrightarrow> Q a t) \<Longrightarrow> wp m Q s"
  by (rule wp_mono [OF keepingD])

lemma keeping_run: "keeping R m \<Longrightarrow> R s (snd (run_state m s))"
  by (auto simp: keeping_def wp_def split_beta)

lemma keeping_mono: "keeping R m \<Longrightarrow> (\<And>s t. R s t \<Longrightarrow> R' s t) \<Longrightarrow> keeping R' m"
  by (blast intro: keepingI keeping_rule)

locale frame =
  fixes R :: "'s \<Rightarrow> 's \<Rightarrow> bool"
  assumes frame_refl: "R s s"
    and frame_trans: "R s t \<Longrightarrow> R t u \<Longrightarrow> R s u"
begin

lemma keep_return: "keeping R (State_Monad.return a)"
  by (rule keepingI) (simp add: frame_refl)

lemma keep_get: "keeping R State_Monad.get"
  by (rule keepingI) (simp add: frame_refl)

lemma keep_gets: "keeping R (gets f)"
  by (rule keepingI) (simp add: frame_refl)

lemma keep_skip: "keeping R skip"
  by (rule keepingI) (simp add: frame_refl)

lemma keep_bind:
  assumes "keeping R m" and "\<And>a. keeping R (f a)"
  shows "keeping R (State_Monad.bind m f)"
proof (rule keepingI, simp only: wp_bind, rule keeping_rule [OF assms(1)])
  fix s a t assume "R s t"
  then show "wp (f a) (\<lambda>_. R s) t"
    by (blast intro: keeping_rule [OF assms(2)] frame_trans)
qed

lemma keep_if:
  "(b \<Longrightarrow> keeping R m) \<Longrightarrow> (\<not> b \<Longrightarrow> keeping R n) \<Longrightarrow> keeping R (if b then m else n)"
  by simp

lemma keep_option:
  "(x = None \<Longrightarrow> keeping R m) \<Longrightarrow> (\<And>y. x = Some y \<Longrightarrow> keeping R (n y))
   \<Longrightarrow> keeping R (case x of None \<Rightarrow> m | Some y \<Rightarrow> n y)"
  by (cases x) auto

lemma keep_prod:
  "(\<And>y z. x = (y, z) \<Longrightarrow> keeping R (m y z)) \<Longrightarrow> keeping R (case x of (y, z) \<Rightarrow> m y z)"
  by (cases x) auto

lemma keep_Let: "(\<And>y. y = x \<Longrightarrow> keeping R (f y)) \<Longrightarrow> keeping R (Let x f)"
  by simp

lemmas keep = keep_return keep_get keep_gets keep_skip keep_bind keep_if keep_option keep_prod keep_Let

end

section \<open>Bytes and numbers\<close>

text \<open>Big-endian value of a byte string, and its padded and minimal encodings.\<close>

definition be_val :: "bytes \<Rightarrow> nat" where
  "be_val bs = foldl (\<lambda>n b. n * 256 + unat b) 0 bs"

fun be_pad :: "nat \<Rightarrow> nat \<Rightarrow> bytes" where
  "be_pad 0 v = []"
| "be_pad (Suc n) v = be_pad n (v div 256) @ [of_nat (v mod 256)]"

fun be_len :: "nat \<Rightarrow> nat" where
  "be_len v = (if v = 0 then 0 else Suc (be_len (v div 256)))"

declare be_len.simps [simp del]

lemma be_val_Nil [simp]: "be_val [] = 0"
  by (simp add: be_val_def)

lemma be_val_snoc [simp]: "be_val (bs @ [b]) = be_val bs * 256 + unat b"
  by (simp add: be_val_def)

lemma length_be_pad [simp]: "length (be_pad n v) = n"
  by (induction n v rule: be_pad.induct) auto

lemma unat_byte_less: "unat (b :: byte) < 256"
  using unsigned_less [of b] by simp

lemma be_pad_be_val: "length bs = n \<Longrightarrow> be_pad n (be_val bs) = bs"
proof (induction bs arbitrary: n rule: rev_induct)
  case Nil
  then show ?case by simp
next
  case (snoc b bs)
  then show ?case
    by (cases n) (auto simp: unat_byte_less)
qed

lemma be_val_less: "be_val bs < 256 ^ length bs"
proof (induction bs rule: rev_induct)
  case Nil
  then show ?case by simp
next
  case (snoc b bs)
  have "be_val bs + 1 \<le> 256 ^ length bs" using snoc by simp
  then have "(be_val bs + 1) * 256 \<le> 256 ^ length bs * 256" by (rule mult_le_mono1)
  then show ?case using unat_byte_less [of b] by simp
qed

lemma be_val_be_pad: "v < 256 ^ n \<Longrightarrow> be_val (be_pad n v) = v"
  by (induction n arbitrary: v) (auto simp: unat_of_nat less_mult_imp_div_less mult.commute)

lemma be_val_ge: "bs \<noteq> [] \<Longrightarrow> hd bs \<noteq> 0 \<Longrightarrow> 256 ^ (length bs - 1) \<le> be_val bs"
proof (induction bs rule: rev_induct)
  case Nil
  then show ?case by simp
next
  case (snoc b bs)
  show ?case
  proof (cases bs)
    case Nil
    with snoc.prems show ?thesis
      by (simp add: be_val_def Suc_le_eq unat_gt_0)
  next
    case (Cons c cs)
    with snoc have "256 ^ (length bs - 1) * 256 \<le> be_val bs * 256"
      by (simp add: mult_le_mono1)
    moreover have "length (bs @ [b]) - 1 = Suc (length bs - 1)" using Cons by simp
    ultimately show ?thesis by (metis be_val_snoc power_Suc2 trans_le_add1)
  qed
qed

lemma be_len_bounds: "256 ^ n \<le> v \<Longrightarrow> v < 256 ^ Suc n \<Longrightarrow> be_len v = Suc n"
proof (induction n arbitrary: v)
  case 0
  then show ?case by (simp add: be_len.simps [of v] be_len.simps [of 0])
next
  case (Suc n)
  then have "256 ^ n \<le> v div 256" and "v div 256 < 256 ^ Suc n"
    by (simp_all add: less_eq_div_iff_mult_less_eq div_less_iff_less_mult mult.commute)
  with Suc have "be_len (v div 256) = Suc n" by blast
  moreover have "v \<noteq> 0" using Suc.prems by (metis not_less power_not_zero zero_less_iff_neq_zero zero_neq_numeral le_zero_eq)
  ultimately show ?case by (simp add: be_len.simps [of v])
qed

lemma be_len_be_val:
  assumes "bs \<noteq> []" and "hd bs \<noteq> 0"
  shows "be_len (be_val bs) = length bs"
proof -
  obtain n where n: "length bs = Suc n" using assms(1) by (cases bs) auto
  with be_val_ge [OF assms] have "256 ^ n \<le> be_val bs" by simp
  moreover have "be_val bs < 256 ^ Suc n" using be_val_less [of bs] n by simp
  ultimately show ?thesis using be_len_bounds n by simp
qed

end
