(* ===== verification/CStdio.thy ===== *)
theory CStdio
  imports Prelude
begin

text \<open>
  The fragment of the C standard library's formatted input and output that the engine
  uses: \<^verbatim>\<open>sscanf\<close> with literal characters, \<^verbatim>\<open>%<w>hhx\<close>, \<^verbatim>\<open>%<w>hu\<close> and \<^verbatim>\<open>%s\<close>, and
  \<^verbatim>\<open>snprintf\<close> with \<^verbatim>\<open>%02x\<close>. A C string is the list of its characters without the
  terminating NUL. Conversions follow the C standard (7.21.6.2): leading white space is
  skipped and does not count against the field width, the input item is the longest
  prefix of at most that width that is a prefix of a matching sequence, and a directive
  whose item is not itself matching ends the scan. Numbers here have at most two
  digits, so the saturation of \<^verbatim>\<open>strtoul\<close> is never reached.
\<close>

section \<open>Characters\<close>

definition isspace :: "char \<Rightarrow> bool" where
  "isspace c \<longleftrightarrow> (let n = (of_char c :: nat) in n = 32 \<or> (9 \<le> n \<and> n \<le> 13))"

definition digit_val :: "nat \<Rightarrow> char \<Rightarrow> nat option" where
  "digit_val base c =
     (let n = (of_char c :: nat);
          d = (if 48 \<le> n \<and> n \<le> 57 then n - 48
               else if 97 \<le> n \<and> n \<le> 102 then n - 87
               else if 65 \<le> n \<and> n \<le> 70 then n - 55
               else 99)
      in if d < base then Some d else None)"

definition hexchar :: "nat \<Rightarrow> char" where
  "hexchar d = ''0123456789abcdef'' ! d"

section \<open>Scanning\<close>

text \<open>Digits of the given base, at most \<open>w\<close> of them: their value, how many, the rest.\<close>

fun scan_digits :: "nat \<Rightarrow> nat \<Rightarrow> nat \<Rightarrow> nat \<Rightarrow> string \<Rightarrow> nat \<times> nat \<times> string" where
  "scan_digits base 0 acc k cs = (acc, k, cs)"
| "scan_digits base (Suc w) acc k [] = (acc, k, [])"
| "scan_digits base (Suc w) acc k (c # cs) =
     (case digit_val base c of
        None \<Rightarrow> (acc, k, c # cs)
      | Some d \<Rightarrow> scan_digits base w (acc * base + d) (Suc k) cs)"

text \<open>The subject sequence after an optional sign: \<^verbatim>\<open>0x\<close> prefix (base 16), then digits.\<close>

definition scan_unsigned :: "nat \<Rightarrow> nat \<Rightarrow> string \<Rightarrow> (nat \<times> string) option" where
  "scan_unsigned base w cs =
     (case (if base = 16 \<and> 2 \<le> w \<and> length cs \<ge> 2 \<and> cs ! 0 = CHR ''0''
              \<and> (cs ! 1 = CHR ''x'' \<or> cs ! 1 = CHR ''X'')
            then scan_digits base (w - 2) 0 0 (drop 2 cs)
            else scan_digits base w 0 0 cs) of
        (n, k, rest) \<Rightarrow> if k = 0 then None else Some (n, rest))"

definition scan_int :: "nat \<Rightarrow> nat \<Rightarrow> string \<Rightarrow> (int \<times> string) option" where
  "scan_int base w cs0 =
     (case dropWhile isspace cs0 of
        [] \<Rightarrow> None
      | c # cs \<Rightarrow>
          if w = 0 then None
          else if c = CHR ''-'' then map_option (\<lambda>(n, r). (- int n, r)) (scan_unsigned base (w - 1) cs)
          else if c = CHR ''+'' then map_option (\<lambda>(n, r). (int n, r)) (scan_unsigned base (w - 1) cs)
          else map_option (\<lambda>(n, r). (int n, r)) (scan_unsigned base w (c # cs)))"

datatype directive = Lit char | Hhx nat | Hu nat | Str

datatype scanned = Out_uchar byte | Out_ushort "16 word" | Out_str string

fun scan_directive :: "directive \<Rightarrow> string \<Rightarrow> (scanned list \<times> string) option" where
  "scan_directive (Lit c) cs =
     (case cs of [] \<Rightarrow> None | d # ds \<Rightarrow> if d = c then Some ([], ds) else None)"
| "scan_directive (Hhx w) cs = map_option (\<lambda>(i, r). ([Out_uchar (of_int i)], r)) (scan_int 16 w cs)"
| "scan_directive (Hu w) cs = map_option (\<lambda>(i, r). ([Out_ushort (of_int i)], r)) (scan_int 10 w cs)"
| "scan_directive Str cs =
     (case dropWhile isspace cs of
        [] \<Rightarrow> None
      | ds \<Rightarrow> Some ([Out_str (takeWhile (\<lambda>c. \<not> isspace c) ds)], dropWhile (\<lambda>c. \<not> isspace c) ds))"

text \<open>
  \<open>sscanf\<close> gives the values assigned, in order; its length is the number C returns
  (the end-of-input value \<^verbatim>\<open>EOF\<close> is also "nothing assigned": the callers only compare the
  count with a positive number).
\<close>

fun sscanf :: "directive list \<Rightarrow> string \<Rightarrow> scanned list" where
  "sscanf [] cs = []"
| "sscanf (d # ds) cs =
     (case scan_directive d cs of
        None \<Rightarrow> []
      | Some (out, rest) \<Rightarrow> out @ sscanf ds rest)"

section \<open>Printing\<close>

fun hex_digits :: "nat \<Rightarrow> string" where
  "hex_digits n = (if n < 16 then [hexchar n] else hex_digits (n div 16) @ [hexchar (n mod 16)])"

declare hex_digits.simps [simp del]

definition fmt_02x :: "nat \<Rightarrow> string" where
  "fmt_02x n = (let ds = hex_digits n in if length ds < 2 then CHR ''0'' # ds else ds)"

definition snprintf :: "nat \<Rightarrow> string \<Rightarrow> string" where
  "snprintf sz cs = take (sz - 1) cs"

section \<open>Scanning what was printed\<close>

lemma digit_val_hexchar_all:
  "\<forall>d \<in> {0,1,2,3,4,5,6,7,8,9,10,11,12,13,14,15 :: nat}. digit_val 16 (hexchar d) = Some d \<and> \<not> isspace (hexchar d)
     \<and> hexchar d \<noteq> CHR ''-'' \<and> hexchar d \<noteq> CHR ''+'' \<and> hexchar d \<noteq> CHR ''x'' \<and> hexchar d \<noteq> CHR ''X''"
  by (simp add: digit_val_def hexchar_def isspace_def Let_def)

lemma hexchar_props [simp]:
  assumes "d < 16"
  shows "digit_val 16 (hexchar d) = Some d" and "\<not> isspace (hexchar d)"
    and "hexchar d \<noteq> CHR ''-''" and "hexchar d \<noteq> CHR ''+''"
    and "hexchar d \<noteq> CHR ''x''" and "hexchar d \<noteq> CHR ''X''"
proof -
  have "d \<in> {0,1,2,3,4,5,6,7,8,9,10,11,12,13,14,15}"
    using assms unfolding insert_iff empty_iff by presburger
  from bspec [OF digit_val_hexchar_all this]
  show "digit_val 16 (hexchar d) = Some d" and "\<not> isspace (hexchar d)"
    and "hexchar d \<noteq> CHR ''-''" and "hexchar d \<noteq> CHR ''+''"
    and "hexchar d \<noteq> CHR ''x''" and "hexchar d \<noteq> CHR ''X''"
    by blast+
qed

lemma fmt_02x_byte:
  assumes "n < 256"
  shows "fmt_02x n = [hexchar (n div 16), hexchar (n mod 16)]"
proof (cases "n < 16")
  case True
  then show ?thesis
    by (simp add: fmt_02x_def hex_digits.simps [of n] hexchar_def)
next
  case False
  with assms have "n div 16 < 16" by simp
  with False show ?thesis
    by (simp add: fmt_02x_def hex_digits.simps [of n] hex_digits.simps [of "n div 16"])
qed

lemma length_fmt_02x_byte: "n < 256 \<Longrightarrow> length (fmt_02x n) = 2"
  by (simp add: fmt_02x_byte)

text \<open>A printed byte scans back, whatever follows it: the field width stops the scan.\<close>

lemma scan_fmt_02x:
  assumes "n < 256"
  shows "scan_directive (Hhx 2) (fmt_02x n @ rest) = Some ([Out_uchar (of_nat n)], rest)"
proof -
  have d: "n div 16 < 16" "n mod 16 < 16" using assms by auto
  have "scan_unsigned 16 2 (fmt_02x n @ rest) = Some (n div 16 * 16 + n mod 16, rest)"
    using d by (simp add: fmt_02x_byte [OF assms] scan_unsigned_def numeral_2_eq_2)
  then have "scan_int 16 2 (fmt_02x n @ rest) = Some (int n, rest)"
    using d by (simp add: fmt_02x_byte [OF assms] scan_int_def)
  then show ?thesis by simp
qed

lemma sscanf_lit [simp]: "sscanf (Lit c # ds) (c # cs) = sscanf ds cs"
  by simp

lemma sscanf_hhx_fmt:
  "n < 256 \<Longrightarrow> sscanf (Hhx 2 # ds) (fmt_02x n @ rest) = Out_uchar (of_nat n) # sscanf ds rest"
  by (simp add: scan_fmt_02x del: scan_directive.simps)

text \<open>A literal prefix of the format must be a prefix of the input.\<close>

lemma sscanf_lits:
  "sscanf (map Lit p @ ds) cs \<noteq> [] \<Longrightarrow> take (length p) cs = p \<and> sscanf ds (drop (length p) cs) \<noteq> []"
proof (induction p arbitrary: cs)
  case Nil
  then show ?case by simp
next
  case (Cons c p)
  then show ?case by (cases cs) (auto split: if_splits)
qed

lemma sscanf_lits_match:
  "sscanf (map Lit p @ ds) (p @ cs) = sscanf ds cs"
  by (induction p) auto

lemma snprintf_fits: "length cs < sz \<Longrightarrow> snprintf sz cs = cs"
  by (simp add: snprintf_def)

end
