(* ===== verification/Env.thy ===== *)
theory Env
  imports CStdio
begin

text \<open>
  The world of the engine. The engine's own C code sits between cryptoauthlib (the chip
  library and its operating-system layer) and OpenSSL's libcrypto; neither is part of the
  repository. Every function of theirs that the modelled code calls is a field of the record
  \<open>env\<close>, a parameter of all definitions: it takes its arguments and an opaque world and
  gives its result and the next world. Nothing is assumed about these functions here.

  The record \<open>eng\<close> is the engine's own state: the file-scope variables of the C files, the
  current world, a sticky record of undefined behaviour (\<open>ub\<close>: the first operation the C
  standard leaves undefined; the run after it means nothing) and a ghost trace of the calls
  made to the outside, newest first, over which the monitors of the development judge a run.
\<close>

section \<open>Data types of the interfaces\<close>

text \<open>
  \<^verbatim>\<open>ATCAIfaceCfg\<close>: the fields the engine touches; \<open>cfg_rest\<close> stands for the others, which it
  only copies. The bus types are the values of cryptoauthlib's \<^verbatim>\<open>ATCAIfaceType\<close>.
\<close>

record iface_cfg =
  iface_type :: nat
  i2c_bus :: byte
  i2c_slave_address :: byte
  swi_bus :: byte
  cfg_rest :: nat

abbreviation (input) ATCA_I2C_IFACE :: nat where "ATCA_I2C_IFACE \<equiv> 0"
abbreviation (input) ATCA_SWI_IFACE :: nat where "ATCA_SWI_IFACE \<equiv> 1"
abbreviation (input) ATCA_UART_IFACE :: nat where "ATCA_UART_IFACE \<equiv> 2"
abbreviation (input) ATCA_SPI_IFACE :: nat where "ATCA_SPI_IFACE \<equiv> 3"
abbreviation (input) ATCA_HID_IFACE :: nat where "ATCA_HID_IFACE \<equiv> 4"

text \<open>A \<^verbatim>\<open>BIGNUM*\<close>: its address and its value, which the engine never changes in place.\<close>

type_synonym bignum = "ptr \<times> nat"

text \<open>
  \<^verbatim>\<open>atcacert_def_t\<close> of cryptoauthlib's certificate module, with the members the repository
  initialises (\<^verbatim>\<open>cert_def_*.c\<close>), the enumerations cut down to the constants used there; pointers carry their address and what they point to.
\<close>

datatype atcacert_device_zone = DEVZONE_DATA | DEVZONE_NONE

datatype atcacert_cert_type = CERTTYPE_X509

datatype atcacert_cert_sn_src = SNSRC_STORED | SNSRC_PUB_KEY_HASH

datatype atcacert_date_format = DATEFMT_RFC5280_UTC | DATEFMT_RFC5280_GEN

record device_loc =
  dl_zone :: atcacert_device_zone
  dl_slot :: nat
  dl_is_genkey :: nat
  dl_offset :: nat
  dl_count :: nat

record cert_loc =
  cl_offset :: nat
  cl_count :: nat

record cert_element =
  ce_id :: string
  ce_device_loc :: device_loc
  ce_cert_loc :: cert_loc

record cert_meta =
  cm_type :: atcacert_cert_type
  template_id :: nat
  chain_id :: nat
  private_key_slot :: nat
  sn_source :: atcacert_cert_sn_src
  cert_sn_dev_loc :: device_loc
  issue_date_format :: atcacert_date_format
  expire_date_format :: atcacert_date_format
  tbs_cert_loc :: cert_loc
  expire_years :: nat
  public_key_dev_loc :: device_loc
  comp_cert_dev_loc :: device_loc
  std_cert_elements :: "cert_loc list"

record cert_def =
  meta :: cert_meta
  cert_elements :: "(ptr \<times> cert_element list) option"
  cert_elements_count :: nat
  cert_template :: "(ptr \<times> bytes) option"
  cert_template_size :: nat

datatype obj_class = Pkey | Eckey | Group | Point | Bn | Sig | Method | Mem | X509 | File | Bio | Engine

text \<open>
  Function pointers: null, a function of a library, or one of the engine's callbacks.
\<close>

datatype engine_fn =
    Eccx08_init | Eccx08_destroy | Eccx08_finish | Eccx08_cmd_ctrl
  | Eccx08_load_pubkey | Eccx08_load_privkey | Eccx08_pmeth_selector
  | Eccx08_pkey_ec_init | Eccx08_pkey_ec_keygen_init | Eccx08_pkey_ec_keygen
  | Eccx08_pkey_ec_sign_init | Eccx08_pkey_ec_sign
  | Eccx08_eckey_derive_init | Eccx08_eckey_derive
  | Eccx08_ecdsa_sign | Eccx08_ecdsa_sign_setup | Eccx08_ecdsa_sign_sig
  | Rand_bytes_fn | Rand_status_fn | Eccx08_sha256_selector
  | Sha256_init_fn | Sha256_update_fn | Sha256_final_fn | Eccx08_ecdh_compute_key

datatype fn_ptr = No_fn | Lib_fn ptr | Own_fn engine_fn

text \<open>OpenSSL's \<^verbatim>\<open>RAND_METHOD\<close>.\<close>

record rand_method =
  rm_seed :: fn_ptr
  rm_bytes :: fn_ptr
  rm_cleanup :: fn_ptr
  rm_add :: fn_ptr
  rm_pseudorand :: fn_ptr
  rm_status :: fn_ptr

text \<open>What the engine registers with OpenSSL's \<^verbatim>\<open>ENGINE_set_\<close> functions.\<close>

datatype engine_attr =
    Set_id string | Set_name string | Set_fn engine_fn | Set_cmd_defns | Set_EC ptr
  | Set_load_ssl_client_cert | Set_RAND | Set_ECDSA ptr | Set_ECDH

datatype chip_cmd =
    Sign byte bytes | Get_pubkey byte | Genkey byte | Random
  | Read_serial | Nonce_rand | Checkmac byte
  | Read_zone atcacert_device_zone nat nat | Read_pubkey byte | Read_cert nat
  | Sha_init | Sha_update bytes | Sha_finish | Verify_extern bytes bytes bytes | Ecdh bytes

datatype ev =
    Mutex_create status | Mutex_lock status | Mutex_unlock status | Mutex_destroy status
  | Dev_init iface_cfg status | Dev_wakeup status | Dev_sleep status | Dev_release status
  | Dev_cmd chip_cmd status
  | Cfg_malloc bool | Cfg_free
  | Obj_new obj_class ptr | Obj_ref obj_class ptr | Obj_free obj_class ptr
  | Obj_give obj_class ptr | Obj_use obj_class ptr
  | Set_private_key ptr nat | Set_public_key ptr | Set_sig ptr nat nat
  | Err_put int int string | File_write string bytes
  | Engine_set ptr engine_attr | Set_meth_sign ptr "fn_ptr list"

datatype ub = Null_deref | Buffer_overflow | Uninit_read | Out_of_bounds_read

section \<open>The functions of cryptoauthlib and OpenSSL\<close>

record 'w env =
  ext_mutex_name :: string
  cfg_ateccx08a_i2c_default :: iface_cfg
  cfg_ateccx08a_kitcdc_default :: iface_cfg
  cfg_ateccx08a_kithid_default :: iface_cfg
  cfg_atecc508a_kitcdc_default :: iface_cfg
  cfg_atecc508a_kithid_default :: iface_cfg
  ext_hal_os_create_mutex :: "ptr \<Rightarrow> string \<Rightarrow> 'w \<Rightarrow> (status \<times> ptr) \<times> 'w"
  ext_hal_os_lock_mutex :: "ptr \<Rightarrow> 'w \<Rightarrow> status \<times> 'w"
  ext_hal_os_unlock_mutex :: "ptr \<Rightarrow> 'w \<Rightarrow> status \<times> 'w"
  ext_hal_os_destroy_mutex :: "ptr \<Rightarrow> 'w \<Rightarrow> status \<times> 'w"
  ext_malloc_ok :: "'w \<Rightarrow> bool \<times> 'w"
  ext_atcab_init :: "iface_cfg \<Rightarrow> 'w \<Rightarrow> status \<times> 'w"
  ext_atcab_wakeup :: "'w \<Rightarrow> status \<times> 'w"
  ext_atcab_sleep :: "'w \<Rightarrow> status \<times> 'w"
  ext_atcab_release :: "'w \<Rightarrow> status \<times> 'w"
  ext_atcab_sign :: "byte \<Rightarrow> bytes \<Rightarrow> 'w \<Rightarrow> (status \<times> bytes) \<times> 'w"
  ext_atcab_get_pubkey :: "byte \<Rightarrow> 'w \<Rightarrow> (status \<times> bytes) \<times> 'w"
  ext_atcab_genkey :: "byte \<Rightarrow> 'w \<Rightarrow> (status \<times> bytes) \<times> 'w"
  ext_atcab_random :: "'w \<Rightarrow> (status \<times> bytes) \<times> 'w"
  ext_atcab_read_serial_number :: "'w \<Rightarrow> (status \<times> bytes) \<times> 'w"
  ext_atcab_nonce_rand :: "bytes \<Rightarrow> 'w \<Rightarrow> (status \<times> bytes) \<times> 'w"
  ext_atcah_nonce :: "bytes \<Rightarrow> bytes \<Rightarrow> 'w \<Rightarrow> (status \<times> bytes) \<times> 'w"
  ext_atcah_check_mac :: "byte \<Rightarrow> bytes \<Rightarrow> bytes \<Rightarrow> bytes \<Rightarrow> bytes \<Rightarrow> 'w \<Rightarrow> (status \<times> bytes) \<times> 'w"
  ext_atcab_checkmac :: "byte \<Rightarrow> bytes \<Rightarrow> bytes \<Rightarrow> 'w \<Rightarrow> status \<times> 'w"
  ext_atcac_sw_sha2_256 :: "bytes \<Rightarrow> 'w \<Rightarrow> (int \<times> bytes) \<times> 'w"
  ext_ERR_get_next_error_library :: "'w \<Rightarrow> int \<times> 'w"
  ext_ERR_load_strings :: "int \<Rightarrow> (int \<times> string) list \<Rightarrow> 'w \<Rightarrow> unit \<times> 'w"
  ext_ERR_put_error :: "int \<Rightarrow> int \<Rightarrow> string \<Rightarrow> 'w \<Rightarrow> unit \<times> 'w"
  ext_EVP_PKEY_new :: "'w \<Rightarrow> ptr \<times> 'w"
  ext_EVP_PKEY_free :: "ptr \<Rightarrow> 'w \<Rightarrow> unit \<times> 'w"
  ext_EVP_PKEY_assign_EC_KEY :: "ptr \<Rightarrow> ptr \<Rightarrow> 'w \<Rightarrow> int \<times> 'w"
  ext_EVP_PKEY_get1_EC_KEY :: "ptr \<Rightarrow> 'w \<Rightarrow> ptr \<times> 'w"
  ext_EVP_PKEY_copy_parameters :: "ptr \<Rightarrow> ptr \<Rightarrow> 'w \<Rightarrow> int \<times> 'w"
  ext_EVP_PKEY_CTX_get0_pkey :: "ptr \<Rightarrow> 'w \<Rightarrow> ptr"
  ext_EC_KEY_new_method :: "ptr \<Rightarrow> 'w \<Rightarrow> ptr \<times> 'w"
  ext_EC_KEY_new_by_curve_name :: "'w \<Rightarrow> ptr \<times> 'w"
  ext_EC_KEY_free :: "ptr \<Rightarrow> 'w \<Rightarrow> unit \<times> 'w"
  ext_EC_KEY_set_group :: "ptr \<Rightarrow> ptr \<Rightarrow> 'w \<Rightarrow> int \<times> 'w"
  ext_EC_KEY_get0_group :: "ptr \<Rightarrow> 'w \<Rightarrow> ptr"
  ext_EC_KEY_set_private_key :: "ptr \<Rightarrow> bignum \<Rightarrow> 'w \<Rightarrow> int \<times> 'w"
  ext_EC_KEY_get0_private_key :: "ptr \<Rightarrow> 'w \<Rightarrow> bignum option"
  ext_EC_KEY_set_public_key :: "ptr \<Rightarrow> ptr \<Rightarrow> 'w \<Rightarrow> int \<times> 'w"
  ext_EC_KEY_set_method :: "ptr \<Rightarrow> ptr \<Rightarrow> 'w \<Rightarrow> int \<times> 'w"
  ext_EC_GROUP_new_by_curve_name :: "'w \<Rightarrow> ptr \<times> 'w"
  ext_EC_GROUP_set_point_conversion_form :: "ptr \<Rightarrow> byte \<Rightarrow> 'w \<Rightarrow> unit \<times> 'w"
  ext_EC_GROUP_set_asn1_flag :: "ptr \<Rightarrow> 'w \<Rightarrow> unit \<times> 'w"
  ext_EC_GROUP_free :: "ptr \<Rightarrow> 'w \<Rightarrow> unit \<times> 'w"
  ext_EC_POINT_new :: "ptr \<Rightarrow> 'w \<Rightarrow> ptr \<times> 'w"
  ext_EC_POINT_oct2point :: "ptr \<Rightarrow> ptr \<Rightarrow> bytes \<Rightarrow> 'w \<Rightarrow> int \<times> 'w"
  ext_EC_POINT_free :: "ptr \<Rightarrow> 'w \<Rightarrow> unit \<times> 'w"
  ext_BN_bin2bn :: "bytes \<Rightarrow> 'w \<Rightarrow> bignum option \<times> 'w"
  ext_BN_free :: "bignum \<Rightarrow> 'w \<Rightarrow> unit \<times> 'w"
  ext_BN_num_bytes :: "bignum \<Rightarrow> nat"
  ext_BN_bn2bin :: "bignum \<Rightarrow> int \<times> bytes"
  ext_BN_bn2binpad :: "bignum \<Rightarrow> nat \<Rightarrow> int \<times> bytes"
  ext_ECDSA_SIG_new :: "'w \<Rightarrow> ptr \<times> 'w"
  ext_ECDSA_SIG_free :: "ptr \<Rightarrow> 'w \<Rightarrow> unit \<times> 'w"
  ext_ECDSA_SIG_set0 :: "ptr \<Rightarrow> bignum \<Rightarrow> bignum \<Rightarrow> 'w \<Rightarrow> int \<times> 'w"
  ext_i2d_ECDSA_SIG :: "ptr \<Rightarrow> 'w \<Rightarrow> (int \<times> bytes) \<times> 'w"
  ext_stack_bytes :: "nat \<Rightarrow> 'w \<Rightarrow> bytes"
  ext_call_fn :: "fn_ptr \<Rightarrow> ptr list \<Rightarrow> 'w \<Rightarrow> int \<times> 'w"
  ext_RAND_SSLeay :: rand_method
  ext_RAND_add :: "bytes option \<Rightarrow> int \<Rightarrow> 32 word \<Rightarrow> 'w \<Rightarrow> unit \<times> 'w"
  ext_RAND_bytes :: "bytes option \<Rightarrow> int \<Rightarrow> 'w \<Rightarrow> (int \<times> bytes option) \<times> 'w"
  ext_load_u32 :: "bytes \<Rightarrow> 32 word"
  ext_sha256_init :: "bytes option \<Rightarrow> 'w \<Rightarrow> (status \<times> bytes option) \<times> 'w"
  ext_sha256_update :: "bytes option \<Rightarrow> bytes \<Rightarrow> 'w \<Rightarrow> (status \<times> bytes option) \<times> 'w"
  ext_sha256_finish :: "bytes option \<Rightarrow> 'w \<Rightarrow> (status \<times> bytes option \<times> bytes) \<times> 'w"
  ext_call_sign :: "ptr \<Rightarrow> bytes option \<Rightarrow> int \<Rightarrow> ptr \<Rightarrow> 'w \<Rightarrow> ptr \<times> 'w"

section \<open>The engine's state\<close>

text \<open>\<^verbatim>\<open>eccx08_engine_config_t\<close> and \<^verbatim>\<open>eccx08_engine_key_password_t\<close> (\<^verbatim>\<open>eccx08_engine_internal.h\<close>).\<close>

record eccx08_engine_config_t =
  device_key_slot :: byte
  ecdh_key_slot :: byte
  ecdh_key_count :: byte

abbreviation (input) MAX_PASSWD_LEN :: nat where "MAX_PASSWD_LEN \<equiv> 256"

record eccx08_engine_key_password_t =
  auth_slot :: "16 word"
  password :: string

text \<open>\<^verbatim>\<open>struct _eccx08_pkey_def_f\<close> (\<^verbatim>\<open>eccx08_eckey_meth.c\<close>): the functions the engine overrides.\<close>

record pkey_def_f =
  def_init :: fn_ptr
  def_paramgen_init :: fn_ptr
  def_paramgen :: fn_ptr
  def_keygen_init :: fn_ptr
  def_keygen :: fn_ptr
  def_sign_init :: fn_ptr
  def_sign :: fn_ptr
  def_derive_init :: fn_ptr
  def_derive :: fn_ptr

text \<open>The anonymous struct \<^verbatim>\<open>global_lock\<close> of \<^verbatim>\<open>eccx08_engine.c\<close>.\<close>

record global_lock_t =
  lock_handle :: ptr
  lock_state :: int

record 'w eng =
  world :: 'w
  trace :: "ev list"
  ub :: "ub option"
  global_lock :: global_lock_t
  global_lock_recovered :: int
  ifacecfg :: "iface_cfg option"
  pCfg :: "iface_cfg option"
  eccx08_engine_config :: eccx08_engine_config_t
  err_lib :: int
  passwords :: "eccx08_engine_key_password_t list"
  current_id :: byte
  this_engine :: ptr
  eccx08_ec :: ptr
  eccx08_ec_default :: ptr
  eccx08_ecdsa :: ptr
  eccx08_ecdsa_default :: ptr
  eccx08_ecdh_default :: ptr
  eccx08_pkey_meth :: ptr
  eccx08_pkey_def_f :: pkey_def_f
  transport_key :: bytes
  g_cert_def_1_signer_ptr :: "(ptr \<times> cert_def) option"
  g_cert_def_2_device_ptr :: "(ptr \<times> cert_def) option"
  g_cert_def_3_csr_ptr :: "(ptr \<times> cert_def) option"
  g_signer_1_ca_public_key :: bytes
  eccx08_rand :: rand_method
  total_num :: "32 word"

type_synonym ('w, 'a) prog = "('w eng, 'a) state"

section \<open>Calls to the outside\<close>

text \<open>A call steps the world and logs the events it counts as.\<close>

definition call :: "('w \<Rightarrow> 'a \<times> 'w) \<Rightarrow> ('a \<Rightarrow> ev list) \<Rightarrow> ('w, 'a) prog" where
  "call f evs = State (\<lambda>s. case f (world s) of
      (a, w) \<Rightarrow> (a, s\<lparr>world := w, trace := evs a @ trace s\<rparr>))"

definition log_ev :: "ev \<Rightarrow> ('w, unit) prog" where
  "log_ev e = modify (\<lambda>s. s\<lparr>trace := e # trace s\<rparr>)"

definition flag_ub :: "ub \<Rightarrow> ('w, unit) prog" where
  "flag_ub u = modify (\<lambda>s. if ub s = None then s\<lparr>ub := Some u\<rparr> else s)"

text \<open>Event lists of constructors, reference takers and releases: \<^verbatim>\<open>NULL\<close> is no object.\<close>

definition ev_new :: "obj_class \<Rightarrow> ptr \<Rightarrow> ev list" where
  "ev_new c p = (if p = NULL then [] else [Obj_new c p])"

definition ev_ref :: "obj_class \<Rightarrow> ptr \<Rightarrow> ev list" where
  "ev_ref c p = (if p = NULL then [] else [Obj_ref c p])"

definition ev_free :: "obj_class \<Rightarrow> ptr \<Rightarrow> ev list" where
  "ev_free c p = (if p = NULL then [] else [Obj_free c p])"

lemma run_call [simp, run_simps]:
  "run_state (call f evs) s =
     (case f (world s) of (a, w) \<Rightarrow> (a, s\<lparr>world := w, trace := evs a @ trace s\<rparr>))"
  by (simp add: call_def)

lemma run_log_ev [simp, run_simps]: "run_state (log_ev e) s = ((), s\<lparr>trace := e # trace s\<rparr>)"
  by (simp add: log_ev_def)

lemma run_flag_ub [simp, run_simps]:
  "run_state (flag_ub u) s = ((), if ub s = None then s\<lparr>ub := Some u\<rparr> else s)"
  by (simp add: flag_ub_def)

lemma wp_call_eq:
  "wp (call f evs) Q s =
     (case f (world s) of (a, w) \<Rightarrow> Q a (s\<lparr>world := w, trace := evs a @ trace s\<rparr>))"
  by (simp add: wp_def split: prod.splits)

text \<open>The outside may answer anything: a postcondition must hold for every answer.\<close>

lemma wp_call [wp_intros]:
  "(\<And>a w. Q a (s\<lparr>world := w, trace := evs a @ trace s\<rparr>)) \<Longrightarrow> wp (call f evs) Q s"
  by (simp add: wp_call_eq split: prod.splits)

lemma wp_log_ev [simp, wp_simps]: "wp (log_ev e) Q s = Q () (s\<lparr>trace := e # trace s\<rparr>)"
  by (simp add: wp_def)

lemma wp_flag_ub [simp, wp_simps]:
  "wp (flag_ub u) Q s = Q () (if ub s = None then s\<lparr>ub := Some u\<rparr> else s)"
  by (simp add: wp_def)

text \<open>
  Frames: what an operation leaves alone. \<open>sess_same\<close>: the variables of the device session;
  \<open>cfg_same\<close>: configuration, passwords and method pointers; undefined behaviour stays
  recorded.
\<close>

definition sess_same :: "'w eng \<Rightarrow> 'w eng \<Rightarrow> bool" where
  "sess_same s t \<longleftrightarrow> global_lock t = global_lock s
     \<and> global_lock_recovered t = global_lock_recovered s \<and> ifacecfg t = ifacecfg s"

definition cfg_same :: "'w eng \<Rightarrow> 'w eng \<Rightarrow> bool" where
  "cfg_same s t \<longleftrightarrow> pCfg t = pCfg s \<and> eccx08_engine_config t = eccx08_engine_config s
     \<and> passwords t = passwords s \<and> current_id t = current_id s
     \<and> this_engine t = this_engine s \<and> eccx08_ec t = eccx08_ec s
     \<and> eccx08_ec_default t = eccx08_ec_default s \<and> eccx08_pkey_meth t = eccx08_pkey_meth s
     \<and> eccx08_pkey_def_f t = eccx08_pkey_def_f s
     \<and> transport_key t = transport_key s \<and> total_num t = total_num s \<and> (ub s \<noteq> None \<longrightarrow> ub t = ub s)"

lemmas frame_defs = sess_same_def cfg_same_def

lemma sess_same_refl [simp]: "sess_same s s" and cfg_same_refl [simp]: "cfg_same s s"
  by (simp_all add: frame_defs)

lemma sess_same_trans: "sess_same s t \<Longrightarrow> sess_same t u \<Longrightarrow> sess_same s u"
  and cfg_same_trans: "cfg_same s t \<Longrightarrow> cfg_same t u \<Longrightarrow> cfg_same s u"
  by (simp_all add: frame_defs)

interpretation cfg: frame cfg_same
  by unfold_locales (auto intro: cfg_same_trans)

lemma cfg_call [intro!]: "keeping cfg_same (call f evs)"
  by (rule keepingI, rule wp_call) (simp add: cfg_same_def)

lemma cfg_log_ev [intro!]: "keeping cfg_same (log_ev e)"
  and cfg_flag_ub [intro!]: "keeping cfg_same (flag_ub u)"
  by (simp_all add: keeping_def cfg_same_def)

subsection \<open>cryptoauthlib\<close>

abbreviation "hal_os_create_mutex E h name \<equiv> call (ext_hal_os_create_mutex E h name) (\<lambda>(st, p). [Mutex_create st])"
abbreviation "hal_os_lock_mutex E h \<equiv> call (ext_hal_os_lock_mutex E h) (\<lambda>st. [Mutex_lock st])"
abbreviation "hal_os_unlock_mutex E h \<equiv> call (ext_hal_os_unlock_mutex E h) (\<lambda>st. [Mutex_unlock st])"
abbreviation "hal_os_destroy_mutex E h \<equiv> call (ext_hal_os_destroy_mutex E h) (\<lambda>st. [Mutex_destroy st])"
abbreviation "malloc_cfg E \<equiv> call (ext_malloc_ok E) (\<lambda>b. [Cfg_malloc b])"
abbreviation "atcab_init E cfg \<equiv> call (ext_atcab_init E cfg) (\<lambda>st. [Dev_init cfg st])"
abbreviation "atcab_wakeup E \<equiv> call (ext_atcab_wakeup E) (\<lambda>st. [Dev_wakeup st])"
abbreviation "atcab_sleep E \<equiv> call (ext_atcab_sleep E) (\<lambda>st. [Dev_sleep st])"
abbreviation "atcab_release E \<equiv> call (ext_atcab_release E) (\<lambda>st. [Dev_release st])"
abbreviation "atcab_sign E slot dgst \<equiv> call (ext_atcab_sign E slot dgst) (\<lambda>(st, _). [Dev_cmd (Sign slot dgst) st])"
abbreviation "atcab_get_pubkey E slot \<equiv> call (ext_atcab_get_pubkey E slot) (\<lambda>(st, _). [Dev_cmd (Get_pubkey slot) st])"
abbreviation "atcab_genkey E slot \<equiv> call (ext_atcab_genkey E slot) (\<lambda>(st, _). [Dev_cmd (Genkey slot) st])"
abbreviation "atcab_random E \<equiv> call (ext_atcab_random E) (\<lambda>(st, _). [Dev_cmd Random st])"
abbreviation "atcab_hw_sha2_256_init E ctx \<equiv> call (ext_sha256_init E ctx) (\<lambda>(st, _). [Dev_cmd Sha_init st])"
abbreviation "atcab_hw_sha2_256_update E ctx bs \<equiv> call (ext_sha256_update E ctx bs) (\<lambda>(st, _). [Dev_cmd (Sha_update bs) st])"
abbreviation "atcab_hw_sha2_256_finish E ctx \<equiv> call (ext_sha256_finish E ctx) (\<lambda>(st, _). [Dev_cmd Sha_finish st])"
abbreviation "atcab_read_serial_number E \<equiv> call (ext_atcab_read_serial_number E) (\<lambda>(st, _). [Dev_cmd Read_serial st])"
abbreviation "atcab_nonce_rand E num_in \<equiv> call (ext_atcab_nonce_rand E num_in) (\<lambda>(st, _). [Dev_cmd Nonce_rand st])"
abbreviation "atcab_checkmac E slot resp other \<equiv> call (ext_atcab_checkmac E slot resp other) (\<lambda>st. [Dev_cmd (Checkmac slot) st])"
abbreviation "atcah_nonce E num_in rand_out \<equiv> call (ext_atcah_nonce E num_in rand_out) (\<lambda>_. [])"
abbreviation "atcah_check_mac E slot sn key temp other \<equiv> call (ext_atcah_check_mac E slot sn key temp other) (\<lambda>_. [])"
abbreviation "atcac_sw_sha2_256 E msg \<equiv> call (ext_atcac_sw_sha2_256 E msg) (\<lambda>_. [])"

subsection \<open>OpenSSL\<close>

abbreviation "RAND_add E buf num entropy \<equiv> call (ext_RAND_add E buf num entropy) (\<lambda>_. [])"
abbreviation "RAND_bytes E buf num \<equiv> call (ext_RAND_bytes E buf num) (\<lambda>_. [])"
abbreviation "ERR_get_next_error_library E \<equiv> call (ext_ERR_get_next_error_library E) (\<lambda>_. [])"
abbreviation "ERR_load_strings E lib strs \<equiv> call (ext_ERR_load_strings E lib strs) (\<lambda>_. [])"
abbreviation "ERR_put_error E lib reason txt \<equiv> call (ext_ERR_put_error E lib reason txt) (\<lambda>_. [Err_put lib reason txt])"
abbreviation "EVP_PKEY_new E \<equiv> call (ext_EVP_PKEY_new E) (ev_new Pkey)"
abbreviation "EVP_PKEY_free E p \<equiv> call (ext_EVP_PKEY_free E p) (\<lambda>_. ev_free Pkey p)"
abbreviation "EVP_PKEY_assign_EC_KEY E p k \<equiv> call (ext_EVP_PKEY_assign_EC_KEY E p k)
  (\<lambda>r. (if r \<noteq> 0 then [Obj_give Eckey k] else []) @ [Obj_use Pkey p])"
abbreviation "EVP_PKEY_get1_EC_KEY E p \<equiv> call (ext_EVP_PKEY_get1_EC_KEY E p) (\<lambda>k. ev_ref Eckey k @ [Obj_use Pkey p])"
abbreviation "EVP_PKEY_copy_parameters E p q \<equiv> call (ext_EVP_PKEY_copy_parameters E p q) (\<lambda>_. [Obj_use Pkey p])"
abbreviation "EC_KEY_new_method E e \<equiv> call (ext_EC_KEY_new_method E e) (ev_new Eckey)"
abbreviation "EC_KEY_new_by_curve_name E \<equiv> call (ext_EC_KEY_new_by_curve_name E) (ev_new Eckey)"
abbreviation "EC_KEY_free E k \<equiv> call (ext_EC_KEY_free E k) (\<lambda>_. ev_free Eckey k)"
abbreviation "EC_KEY_set_group E k g \<equiv> call (ext_EC_KEY_set_group E k g) (\<lambda>_. [])"
abbreviation "EC_KEY_get0_group E k \<equiv> gets (\<lambda>s. ext_EC_KEY_get0_group E k (world s))"
abbreviation "EC_KEY_set_private_key E k b \<equiv> call (ext_EC_KEY_set_private_key E k b)
  (\<lambda>r. if r \<noteq> 0 then [Set_private_key k (snd b)] else [])"
abbreviation "EC_KEY_get0_private_key E k \<equiv> gets (\<lambda>s. ext_EC_KEY_get0_private_key E k (world s))"
abbreviation "EC_KEY_set_public_key E k pt \<equiv> call (ext_EC_KEY_set_public_key E k pt) (\<lambda>_. [Set_public_key k])"
abbreviation "EC_KEY_set_method E k m \<equiv> call (ext_EC_KEY_set_method E k m) (\<lambda>_. [])"
abbreviation "EC_GROUP_new_by_curve_name E \<equiv> call (ext_EC_GROUP_new_by_curve_name E) (ev_new Group)"
abbreviation "EC_GROUP_set_point_conversion_form E g f \<equiv> call (ext_EC_GROUP_set_point_conversion_form E g f) (\<lambda>_. [])"
abbreviation "EC_GROUP_set_asn1_flag E g \<equiv> call (ext_EC_GROUP_set_asn1_flag E g) (\<lambda>_. [])"
abbreviation "EC_GROUP_free E g \<equiv> call (ext_EC_GROUP_free E g) (\<lambda>_. ev_free Group g)"
abbreviation "EC_POINT_new E g \<equiv> call (ext_EC_POINT_new E g) (ev_new Point)"
abbreviation "EC_POINT_oct2point E g pt raw \<equiv> call (ext_EC_POINT_oct2point E g pt raw) (\<lambda>_. [])"
abbreviation "EC_POINT_free E pt \<equiv> call (ext_EC_POINT_free E pt) (\<lambda>_. ev_free Point pt)"
abbreviation "BN_bin2bn E bs \<equiv> call (ext_BN_bin2bn E bs) (\<lambda>r. case r of None \<Rightarrow> [] | Some b \<Rightarrow> [Obj_new Bn (fst b)])"
abbreviation "BN_free E b \<equiv> call (ext_BN_free E b) (\<lambda>_. [Obj_free Bn (fst b)])"
abbreviation "ECDSA_SIG_new E \<equiv> call (ext_ECDSA_SIG_new E) (ev_new Sig)"
abbreviation "ECDSA_SIG_free E p \<equiv> call (ext_ECDSA_SIG_free E p) (\<lambda>_. ev_free Sig p)"
abbreviation "ECDSA_SIG_set0 E p r s \<equiv> call (ext_ECDSA_SIG_set0 E p r s)
  (\<lambda>ok. if ok \<noteq> 0 then [Set_sig p (snd r) (snd s), Obj_give Bn (fst r), Obj_give Bn (fst s)] else [])"
abbreviation "i2d_ECDSA_SIG E p \<equiv> call (ext_i2d_ECDSA_SIG E p) (\<lambda>_. [Obj_use Sig p])"
abbreviation "call_fn E f args \<equiv> call (ext_call_fn E f args) (\<lambda>_. [])"
abbreviation "call_sign E tab dgst len eckey \<equiv> call (ext_call_sign E tab dgst len eckey) (\<lambda>_. [])"
abbreviation "EVP_PKEY_CTX_get0_pkey E ctx \<equiv> gets (\<lambda>s. ext_EVP_PKEY_CTX_get0_pkey E ctx (world s))"

text \<open>The content of an uninitialised local array: whatever is on the stack.\<close>

definition stack_content :: "'w env \<Rightarrow> nat \<Rightarrow> 'w \<Rightarrow> bytes" where
  "stack_content E n w = take n (ext_stack_bytes E n w @ replicate n 0)"

lemma length_stack_content [simp]: "length (stack_content E n w) = n"
  by (simp add: stack_content_def)

abbreviation "stack_bytes E n \<equiv> gets (\<lambda>s. stack_content E n (world s))"

end
