(* ===== verification/Monitor.thy ===== *)
theory Monitor
  imports Env
begin

text \<open>
  Two monitors over the ghost trace, the abstract specifications the engine is held to.

  The chip monitor is the protocol of the shared chip: its state says whether this process
  holds the system-wide mutex and whether a device session is open. The device may be
  opened, woken, put to sleep, given a command or released only while the mutex is held;
  commands only inside a session; the mutex is not given back while a session is open, nor
  taken twice. \<open>chip_mon\<close> is \<open>None\<close> as soon as a trace breaks a rule.

  The reference monitor is the ownership discipline of OpenSSL's reference-counted objects
  (documented per function: \<^verbatim>\<open>_new\<close> and \<^verbatim>\<open>get1\<close> give the caller a reference, \<^verbatim>\<open>_free\<close> drops
  one, \<^verbatim>\<open>assign\<close> and \<^verbatim>\<open>set0\<close> hand one over, \<^verbatim>\<open>get0\<close> lends). It counts the references the
  engine holds, per class and address; releasing one that is not held (a double free, or
  the free of a borrowed object) and touching an object after its last reference is gone
  break the rules.
\<close>

section \<open>The chip monitor\<close>

record chip_state =
  held :: bool
  opened :: bool

abbreviation "chip_init \<equiv> \<lparr>held = False, opened = False\<rparr>"

fun chip_step :: "chip_state \<Rightarrow> ev \<Rightarrow> chip_state option" where
  "chip_step m (Mutex_create st) = (if held m then None else Some m)"
| "chip_step m (Mutex_lock st) =
     (if held m then None
      else if st = ATCA_SUCCESS \<or> st = ATCA_FUNC_FAIL then Some (m\<lparr>held := True\<rparr>) else Some m)"
| "chip_step m (Mutex_unlock st) =
     (if \<not> held m \<or> opened m then None
      else if st = ATCA_SUCCESS then Some (m\<lparr>held := False\<rparr>) else Some m)"
| "chip_step m (Mutex_destroy st) =
     (if opened m then None else if st = ATCA_SUCCESS then Some (m\<lparr>held := False\<rparr>) else Some m)"
| "chip_step m (Dev_init cfg st) =
     (if held m \<and> \<not> opened m then Some (m\<lparr>opened := (st = ATCA_SUCCESS)\<rparr>) else None)"
| "chip_step m (Dev_wakeup st) = (if held m \<and> opened m then Some m else None)"
| "chip_step m (Dev_sleep st) = (if held m \<and> opened m then Some m else None)"
| "chip_step m (Dev_cmd c st) = (if held m \<and> opened m then Some m else None)"
| "chip_step m (Dev_release st) = (if held m \<and> opened m then Some (m\<lparr>opened := False\<rparr>) else None)"
| "chip_step m e = Some m"

fun chip_mon :: "ev list \<Rightarrow> chip_state option" where
  "chip_mon [] = Some chip_init"
| "chip_mon (e # es) = (case chip_mon es of None \<Rightarrow> None | Some m \<Rightarrow> chip_step m e)"

text \<open>Events the chip monitor does not look at.\<close>

fun chip_silent :: "ev \<Rightarrow> bool" where
  "chip_silent (Cfg_malloc b) = True"
| "chip_silent Cfg_free = True"
| "chip_silent (Obj_new c p) = True"
| "chip_silent (Obj_ref c p) = True"
| "chip_silent (Obj_free c p) = True"
| "chip_silent (Obj_give c p) = True"
| "chip_silent (Obj_use c p) = True"
| "chip_silent (Set_private_key p n) = True"
| "chip_silent (Set_public_key p) = True"
| "chip_silent (Engine_set p a) = True"
| "chip_silent (Set_meth_sign p fs) = True"
| "chip_silent (File_write f bs) = True"
| "chip_silent (Set_sig p r s) = True"
| "chip_silent (Err_put l r d) = True"
| "chip_silent e = False"

lemma chip_mon_silent: "chip_silent e \<Longrightarrow> chip_mon (e # es) = chip_mon es"
  by (cases e) (auto split: option.splits)

lemma chip_mon_silents: "list_all chip_silent es \<Longrightarrow> chip_mon (es @ tr) = chip_mon tr"
  by (induction es) (simp_all add: chip_mon_silent del: chip_mon.simps)

lemma chip_silent_ev_obj [simp]:
  "list_all chip_silent (ev_new c p)" "list_all chip_silent (ev_ref c p)"
  "list_all chip_silent (ev_free c p)"
  by (simp_all add: ev_new_def ev_ref_def ev_free_def)

text \<open>A prefix (in time) of an accepted trace is accepted: the rules are a safety property.\<close>

lemma chip_mon_append: "chip_mon (es @ tr) \<noteq> None \<Longrightarrow> chip_mon tr \<noteq> None"
  by (induction es) (auto split: option.splits)

lemma chip_mon_cmd_locked:
  assumes "chip_mon tr \<noteq> None" and "tr = es @ Dev_cmd c st # es'"
  shows "chip_mon es' = Some \<lparr>held = True, opened = True\<rparr>"
proof -
  have "chip_mon (Dev_cmd c st # es') \<noteq> None"
    using assms chip_mon_append by blast
  then show ?thesis by (auto split: option.splits if_splits)
qed

section \<open>The reference monitor\<close>

record ref_state =
  own :: "obj_class \<Rightarrow> ptr \<Rightarrow> nat"
  shared :: "obj_class \<Rightarrow> ptr \<Rightarrow> bool"
  dead :: "obj_class \<Rightarrow> ptr \<Rightarrow> bool"

definition upd :: "('c \<Rightarrow> 'p \<Rightarrow> 'a) \<Rightarrow> 'c \<Rightarrow> 'p \<Rightarrow> 'a \<Rightarrow> 'c \<Rightarrow> 'p \<Rightarrow> 'a" where
  "upd f c p x = f(c := (f c)(p := x))"

lemma upd_apply [simp]: "upd f c p x c' p' = (if c' = c \<and> p' = p then x else f c' p')"
  by (simp add: upd_def)

definition ref_init :: ref_state where
  "ref_init = \<lparr>own = \<lambda>_ _. 0, shared = \<lambda>_ _. True, dead = \<lambda>_ _. False\<rparr>"

fun ref_step :: "ref_state \<Rightarrow> ev \<Rightarrow> ref_state option" where
  "ref_step m (Obj_new c p) =
     Some (m\<lparr>own := upd (own m) c p (Suc (own m c p)),
             shared := upd (shared m) c p False, dead := upd (dead m) c p False\<rparr>)"
| "ref_step m (Obj_ref c p) =
     (if dead m c p then None else Some (m\<lparr>own := upd (own m) c p (Suc (own m c p))\<rparr>))"
| "ref_step m (Obj_free c p) =
     (if own m c p = 0 then None
      else Some (m\<lparr>own := upd (own m) c p (own m c p - 1),
                   dead := (if own m c p = 1 \<and> \<not> shared m c p
                            then upd (dead m) c p True else dead m)\<rparr>))"
| "ref_step m (Obj_give c p) =
     (if own m c p = 0 then None
      else Some (m\<lparr>own := upd (own m) c p (own m c p - 1), shared := upd (shared m) c p True\<rparr>))"
| "ref_step m (Obj_use c p) = (if dead m c p then None else Some m)"
| "ref_step m e = Some m"

fun ref_mon :: "ev list \<Rightarrow> ref_state option" where
  "ref_mon [] = Some ref_init"
| "ref_mon (e # es) = (case ref_mon es of None \<Rightarrow> None | Some m \<Rightarrow> ref_step m e)"

text \<open>The references held after a trace, when the trace is accepted.\<close>

definition holds_refs :: "ev list \<Rightarrow> (obj_class \<Rightarrow> ptr \<Rightarrow> nat) \<Rightarrow> bool" where
  "holds_refs tr f \<longleftrightarrow> (case ref_mon tr of None \<Rightarrow> False | Some m \<Rightarrow> own m = f)"

abbreviation "no_refs \<equiv> (\<lambda>_ _. 0)"

fun ref_silent :: "ev \<Rightarrow> bool" where
  "ref_silent (Obj_new c p) = False"
| "ref_silent (Obj_ref c p) = False"
| "ref_silent (Obj_free c p) = False"
| "ref_silent (Obj_give c p) = False"
| "ref_silent (Obj_use c p) = False"
| "ref_silent e = True"

lemma ref_mon_silent: "ref_silent e \<Longrightarrow> ref_mon (e # es) = ref_mon es"
  by (cases e) (auto split: option.splits)

lemma ref_mon_silents: "list_all ref_silent es \<Longrightarrow> ref_mon (es @ tr) = ref_mon tr"
  by (induction es) (simp_all add: ref_mon_silent del: ref_mon.simps)

lemma ref_mon_append: "ref_mon (es @ tr) \<noteq> None \<Longrightarrow> ref_mon tr \<noteq> None"
  by (induction es) (auto split: option.splits)

section \<open>Classes of events\<close>

text \<open>\<open>adds P\<close>: the trace only grows, by events that satisfy \<open>P\<close>.\<close>

definition adds :: "(ev \<Rightarrow> bool) \<Rightarrow> 'w eng \<Rightarrow> 'w eng \<Rightarrow> bool" where
  "adds P s t \<longleftrightarrow> (\<exists>es. trace t = es @ trace s \<and> list_all P es)"

lemma adds_refl [simp]: "adds P s s"
  by (auto simp: adds_def)

lemma adds_trans: "adds P s t \<Longrightarrow> adds P t u \<Longrightarrow> adds P s u"
  by (auto simp: adds_def)

interpretation adds: frame "adds P" for P :: "ev \<Rightarrow> bool"
  by unfold_locales (auto intro: adds_trans)

lemma adds_call: "(\<And>a. list_all P (evs a)) \<Longrightarrow> keeping (adds P) (call f evs)"
  by (rule keepingI, rule wp_call) (auto simp: adds_def)

lemma adds_log_ev: "P e \<Longrightarrow> keeping (adds P) (log_ev e)"
  and adds_flag_ub: "keeping (adds P) (flag_ub u)"
  by (auto simp: keeping_def adds_def intro!: exI [of _ "[e]"])

lemma adds_same: "trace t = trace s \<Longrightarrow> adds P s t"
  by (simp add: adds_def)

lemmas adds_basic = adds_call adds_log_ev adds_flag_ub

lemma adds_weaken: "adds P s t \<Longrightarrow> (\<And>e. P e \<Longrightarrow> P' e) \<Longrightarrow> adds P' s t"
  unfolding adds_def by (metis list.pred_mono_strong)

lemma keeping_adds_weaken:
  "keeping (adds P) m \<Longrightarrow> (\<And>e. P e \<Longrightarrow> P' e) \<Longrightarrow> keeping (adds P') m"
  by (erule keeping_mono) (rule adds_weaken)

text \<open>Device sessions and errors, without commands and objects; any object traffic.\<close>

fun session_ev :: "ev \<Rightarrow> bool" where
  "session_ev (Dev_cmd c st) = False"
| "session_ev (Obj_new c p) = False"
| "session_ev (Obj_ref c p) = False"
| "session_ev (Obj_free c p) = False"
| "session_ev (Obj_give c p) = False"
| "session_ev (Obj_use c p) = False"
| "session_ev (Set_private_key p n) = False"
| "session_ev (Set_public_key p) = False"
| "session_ev (Set_sig p r s) = False"
| "session_ev (Engine_set p a) = False"
| "session_ev (Set_meth_sign p fs) = False"
| "session_ev (File_write f bs) = False"
| "session_ev e = True"

fun cmd_in :: "chip_cmd set \<Rightarrow> ev \<Rightarrow> bool" where
  "cmd_in C (Dev_cmd c st) = (c \<in> C)"
| "cmd_in C e = True"

lemma session_ev_cmd_in: "session_ev e \<Longrightarrow> cmd_in C e"
  by (cases e) auto

lemma session_ev_ref_silent: "session_ev e \<Longrightarrow> ref_silent e"
  by (cases e) auto

lemma chip_silent_cmd_in: "chip_silent e \<Longrightarrow> cmd_in C e"
  by (cases e) auto

lemma cmd_in_mono: "cmd_in C e \<Longrightarrow> C \<subseteq> D \<Longrightarrow> cmd_in D e"
  by (cases e) auto

lemma cmd_in_ev_obj [simp]:
  "list_all (cmd_in C) (ev_new c p)" "list_all (cmd_in C) (ev_ref c p)"
  "list_all (cmd_in C) (ev_free c p)"
  by (simp_all add: ev_new_def ev_ref_def ev_free_def)

definition refs_same :: "'w eng \<Rightarrow> 'w eng \<Rightarrow> bool" where
  "refs_same s t \<longleftrightarrow> ref_mon (trace t) = ref_mon (trace s)"

lemma adds_refs_same: "adds ref_silent s t \<Longrightarrow> refs_same s t"
  by (auto simp: adds_def refs_same_def ref_mon_silents)

lemma keeping_refs_same: "keeping (adds ref_silent) m \<Longrightarrow> keeping refs_same m"
  by (erule keeping_mono) (rule adds_refs_same)

end
