(* ===== verification/Platform.thy ===== *)
theory Platform
  imports Monitor
begin

text \<open>
  \<^verbatim>\<open>eccx08_platform.c\<close>: the choice of the bus configuration from the fields of a key, the
  default slots set at start-up, and the path helper of the debug macro.
\<close>

section \<open>Key descriptors\<close>

text \<open>\<^verbatim>\<open>eccx08_engine_key_t\<close>: 32 bytes, stored in place of an EC private key.\<close>

record eccx08_engine_key_t =
  magic :: bytes
  bus_type :: byte
  bus_num :: byte
  device_num :: byte
  slot_num :: byte
  password_id :: byte
  reserved :: bytes

section \<open>Interface configuration\<close>

definition eccx08_get_iface_default :: "'w env \<Rightarrow> nat \<Rightarrow> iface_cfg option" where
  "eccx08_get_iface_default E iType =
     (if iType = ATCA_I2C_IFACE then Some (cfg_ateccx08a_i2c_default E)
      else if iType = ATCA_UART_IFACE then Some (cfg_ateccx08a_kitcdc_default E)
      else if iType = ATCA_HID_IFACE then Some (cfg_ateccx08a_kithid_default E)
      else None)"

text \<open>
  Pointer arguments are options. The result is the return value and the new content of
  \<^verbatim>\<open>*iface\<close>.
\<close>

definition eccx08_get_iface_cfg ::
  "'w env \<Rightarrow> iface_cfg option \<Rightarrow> eccx08_engine_key_t option \<Rightarrow> int \<times> iface_cfg option" where
  "eccx08_get_iface_cfg E iface key =
     (case (iface, key) of
        (Some i, Some k) \<Rightarrow>
          (case eccx08_get_iface_default E (unat (bus_type k)) of
             Some def \<Rightarrow>
               (let i1 = (if iface_type def = ATCA_I2C_IFACE
                          then def\<lparr>i2c_bus := bus_num k, i2c_slave_address := device_num k\<rparr>
                          else if iface_type def = ATCA_SWI_IFACE
                          then def\<lparr>swi_bus := bus_num k\<rparr>
                          else def)
                in (ENGINE_OPENSSL_SUCCESS, Some i1))
           | None \<Rightarrow> (ENGINE_OPENSSL_FAILURE, iface))
      | _ \<Rightarrow> (ENGINE_OPENSSL_FAILURE, iface))"

text \<open>
  The build selects one hardware layer; each \<^verbatim>\<open>#if\<close> branch is a constructor. With none of
  the three macros \<^verbatim>\<open>pCfg\<close> keeps its value.
\<close>

datatype hal_macro = HAL_KIT_CDC | HAL_KIT_HID | HAL_I2C | HAL_other

definition eccx08_platform_init :: "'w env \<Rightarrow> hal_macro \<Rightarrow> ('w, int) prog" where
  "eccx08_platform_init E hal = do {
     (case hal of
        HAL_KIT_CDC \<Rightarrow> modify (\<lambda>s. s\<lparr>pCfg := Some (cfg_atecc508a_kitcdc_default E)\<rparr>)
      | HAL_KIT_HID \<Rightarrow> modify (\<lambda>s. s\<lparr>pCfg := Some (cfg_atecc508a_kithid_default E)\<rparr>)
      | HAL_I2C \<Rightarrow> modify (\<lambda>s. s\<lparr>pCfg := Some (cfg_ateccx08a_i2c_default E)\<rparr>)
      | HAL_other \<Rightarrow> skip);
     modify (\<lambda>s. s\<lparr>eccx08_engine_config :=
       (eccx08_engine_config s)\<lparr>device_key_slot := 0, ecdh_key_slot := 2, ecdh_key_count := 1\<rparr>\<rparr>);
     ret ENGINE_OPENSSL_SUCCESS
   }"

section \<open>File name of a path\<close>

text \<open>
  The \<^verbatim>\<open>strchr\<close> loop of \<open>eccx08_strip_path\<close> on a system whose separator is \<^verbatim>\<open>/\<close>: \<open>tmp\<close> is the
  string at the cursor, \<open>rv\<close> the value of the C variable (\<open>None\<close> is \<^verbatim>\<open>NULL\<close>).
\<close>

definition strchr :: "string \<Rightarrow> char \<Rightarrow> string option" where
  "strchr cs c = (case dropWhile (\<lambda>d. d \<noteq> c) cs of [] \<Rightarrow> None | ds \<Rightarrow> Some ds)"

lemma strchr_Some: "strchr cs c = Some ds \<Longrightarrow> ds \<noteq> [] \<and> length ds \<le> length cs"
  using length_dropWhile_le [of "\<lambda>d. d \<noteq> c" cs]
  by (cases "dropWhile (\<lambda>d. d \<noteq> c) cs") (auto simp: strchr_def)

function strip_loop :: "string \<Rightarrow> string option \<Rightarrow> string option" where
  "strip_loop tmp rv =
     (case strchr tmp CHR ''/'' of
        None \<Rightarrow> rv
      | Some ds \<Rightarrow> strip_loop (tl ds) (Some (tl ds)))"
  by pat_completeness auto
termination
proof (relation "measure (\<lambda>(tmp, rv). length tmp)")
  show "wf (measure (\<lambda>(tmp :: string, rv :: string option). length tmp))" by simp
next
  fix tmp :: string and rv :: "string option" and ds
  assume "strchr tmp CHR ''/'' = Some ds"
  then have "ds \<noteq> []" and "length ds \<le> length tmp" using strchr_Some by blast+
  then show "((tl ds, Some (tl ds)), (tmp, rv)) \<in> measure (\<lambda>(tmp, rv). length tmp)"
    by (cases ds) auto
qed

declare strip_loop.simps [simp del]

definition eccx08_strip_path :: "string option \<Rightarrow> string option" where
  "eccx08_strip_path in_str =
     (case in_str of None \<Rightarrow> Some '''' | Some cs \<Rightarrow> strip_loop cs None)"

section \<open>Lemmas\<close>

lemma strchr_append: "c \<notin> set xs \<Longrightarrow> strchr (xs @ c # ys) c = Some (c # ys)"
proof -
  assume "c \<notin> set xs"
  then have "dropWhile (\<lambda>d. d \<noteq> c) (xs @ c # ys) = c # ys"
    by (induction xs) auto
  then show ?thesis by (simp add: strchr_def)
qed

lemma strchr_None: "c \<notin> set xs \<Longrightarrow> strchr xs c = None"
  by (induction xs) (auto simp: strchr_def)

lemma strip_loop_base: "CHR ''/'' \<notin> set base \<Longrightarrow> strip_loop base rv = rv"
  by (simp add: strip_loop.simps [of base] strchr_None)

lemma strip_loop_dir:
  "CHR ''/'' \<notin> set base \<Longrightarrow> strip_loop (dir @ ''/'' @ base) rv = Some base"
proof (induction "length dir" arbitrary: dir rv rule: less_induct)
  case less
  show ?case
  proof (cases "CHR ''/'' \<in> set dir")
    case False
    with less.prems show ?thesis
      using strchr_append [of "CHR ''/''" dir base]
      by (simp add: strip_loop.simps [of "dir @ CHR ''/'' # base"] strip_loop_base)
  next
    case True
    then obtain xs ys where d: "dir = xs @ CHR ''/'' # ys" and "CHR ''/'' \<notin> set xs"
      by (meson split_list_first)
    then have "strchr (dir @ ''/'' @ base) CHR ''/'' = Some (CHR ''/'' # ys @ ''/'' @ base)"
      using strchr_append [of "CHR ''/''" xs "ys @ ''/'' @ base"] by simp
    moreover have "strip_loop (ys @ ''/'' @ base) (Some (ys @ ''/'' @ base)) = Some base"
      using d less by simp
    ultimately show ?thesis by (simp add: strip_loop.simps [of "dir @ CHR ''/'' # base"])
  qed
qed

lemma eccx08_get_iface_cfg_I2C:
  assumes "bus_type k = 0" and "iface_type (cfg_ateccx08a_i2c_default E) = ATCA_I2C_IFACE"
  shows "eccx08_get_iface_cfg E (Some i) (Some k) =
    (ENGINE_OPENSSL_SUCCESS,
     Some ((cfg_ateccx08a_i2c_default E)\<lparr>i2c_bus := bus_num k, i2c_slave_address := device_num k\<rparr>))"
  using assms by (simp add: eccx08_get_iface_cfg_def eccx08_get_iface_default_def)

lemma eccx08_get_iface_cfg_ret:
  "fst (eccx08_get_iface_cfg E (Some i) (Some k)) = ENGINE_OPENSSL_SUCCESS \<longleftrightarrow> bus_type k \<in> {0, 2, 4}"
  using word_unat_eq_iff [of "bus_type k" 0] word_unat_eq_iff [of "bus_type k" 2]
    word_unat_eq_iff [of "bus_type k" 4]
  by (auto simp: eccx08_get_iface_cfg_def eccx08_get_iface_default_def Let_def)

end
