(* ===== verification/Errors.thy ===== *)
theory Errors
  imports Platform
begin

text \<open>
  \<^verbatim>\<open>eccx08_err.c\<close>: the engine's error-string library and the one error it raises per failed
  session, with the chip status decoded into text.
\<close>

definition eccx08_atca_status_name :: "status \<Rightarrow> string" where
  "eccx08_atca_status_name status =
     (let c = status AND 0xFF in
      if c = 0xD0 then ''wake failed''
      else if c = 0xD9 then ''RNG health test failed and latched (chip status 0x08)''
      else if c = 0xE0 then ''library state error''
      else if c = 0xE1 then ''unspecified chip failure''
      else if c = 0xE5 then ''CRC error in chip response (bus collision)''
      else if c = 0xE6 then ''chip response timed out mid-frame''
      else if c = 0xE7 then ''no response from chip''
      else if c = 0xF0 then ''communication with chip failed''
      else if c = 0xF1 then ''timeout waiting for chip response''
      else ''unknown ATCA status'')"

abbreviation (input) ECCX08_R_SESSION_FAILED :: int where "ECCX08_R_SESSION_FAILED \<equiv> 100"

definition eccx08_err_load_strings :: "'w env \<Rightarrow> ('w, unit) prog" where
  "eccx08_err_load_strings E = do {
     s \<leftarrow> getS;
     (if err_lib s = 0 then do {
        lib \<leftarrow> ERR_get_next_error_library E;
        modify (\<lambda>s. s\<lparr>err_lib := lib\<rparr>);
        ERR_load_strings E lib [(0, ''ateccx08 engine'')];
        ERR_load_strings E lib [(ECCX08_R_SESSION_FAILED, ''chip session failed'')]
      } else skip)
   }"

text \<open>The text put into the 128-byte buffer \<^verbatim>\<open>data\<close>.\<close>

definition session_error_text :: "string \<Rightarrow> status \<Rightarrow> string" where
  "session_error_text op atca_status =
     snprintf 128 (''op='' @ op @ '', atca status 0x'' @ fmt_02x (unat (atca_status AND 0xFF))
                   @ '': '' @ eccx08_atca_status_name atca_status)"

definition eccx08_raise_session_error :: "'w env \<Rightarrow> string \<Rightarrow> status \<Rightarrow> ('w, unit) prog" where
  "eccx08_raise_session_error E op atca_status = do {
     eccx08_err_load_strings E;
     lib \<leftarrow> gets err_lib;
     ERR_put_error E lib ECCX08_R_SESSION_FAILED (session_error_text op atca_status)
   }"

section \<open>Lemmas\<close>

lemma status_low_byte: "unat (st AND 0xFF :: status) < 256"
proof -
  have "unat (st AND 0xFF) \<le> unat (0xFF :: status)"
    by (rule word_and_le1 [THEN word_le_nat_alt [THEN iffD1]])
  then show ?thesis by simp
qed

lemma length_status_name: "length (eccx08_atca_status_name st) \<le> 53"
  by (simp add: eccx08_atca_status_name_def Let_def)

lemma length_session_error:
  "length (''op='' @ op @ '', atca status 0x'' @ fmt_02x (unat (st AND 0xFF))
           @ '': '' @ eccx08_atca_status_name st) \<le> length op + 76"
  using length_status_name [of st] by (simp add: length_fmt_02x_byte status_low_byte)

text \<open>Raising an error changes the error library, the world and the trace, nothing else.\<close>

lemma wp_eccx08_err_load_strings [wp_intros]:
  "(\<And>t. sess_same s t \<Longrightarrow> cfg_same s t \<Longrightarrow> ub t = ub s \<Longrightarrow> trace t = trace s \<Longrightarrow> Q () t)
   \<Longrightarrow> wp (eccx08_err_load_strings E) Q s"
  by (simp add: eccx08_err_load_strings_def wp_call_eq frame_defs split: prod.splits)

lemma wp_eccx08_raise_session_error [wp_intros]:
  "(\<And>t l. sess_same s t \<Longrightarrow> cfg_same s t \<Longrightarrow> ub t = ub s
      \<Longrightarrow> trace t = Err_put l ECCX08_R_SESSION_FAILED (session_error_text op st) # trace s \<Longrightarrow> Q () t)
   \<Longrightarrow> wp (eccx08_raise_session_error E op st) Q s"
  unfolding eccx08_raise_session_error_def
  by simp (rule wp_eccx08_err_load_strings, simp add: wp_call_eq frame_defs split: prod.splits)

end
