(* ===== verification/Session.thy ===== *)
theory Session
  imports Errors
begin

text \<open>
  The device session of \<^verbatim>\<open>eccx08_engine.c\<close>: the process-wide record of the system-wide
  mutex (\<open>eccx08_global_lock\<close>, \<open>eccx08_global_unlock\<close>), and the bracket
  \<open>atcab_init_safe\<close> / \<open>atcab_release_safe\<close> inside which every chip command is run. The
  trace of a run is judged by the chip monitor; \<open>synced\<close> says that the engine's variables
  agree with the monitor's state.
\<close>

section \<open>The operations\<close>

definition set_lock_state :: "int \<Rightarrow> ('w, unit) prog" where
  "set_lock_state n = modify (\<lambda>s. s\<lparr>global_lock := (global_lock s)\<lparr>lock_state := n\<rparr>\<rparr>)"

definition set_lock_handle :: "ptr \<Rightarrow> ('w, unit) prog" where
  "set_lock_handle h = modify (\<lambda>s. s\<lparr>global_lock := (global_lock s)\<lparr>lock_handle := h\<rparr>\<rparr>)"

text \<open>Lines 88-111: take the mutex unless this process has it already.\<close>

definition lock_if_not_ours :: "'w env \<Rightarrow> ('w, status) prog" where
  "lock_if_not_ours E = do {
     s \<leftarrow> getS;
     (if lock_state (global_lock s) = 0 then do {
        status \<leftarrow> hal_os_lock_mutex E (lock_handle (global_lock s));
        (if status = ATCA_FUNC_FAIL then do {
           modify (\<lambda>s. s\<lparr>global_lock_recovered := 1\<rparr>);
           set_lock_state 1;
           ret ATCA_SUCCESS
         } else if status = ATCA_SUCCESS then do {
           set_lock_state 1;
           ret status
         } else ret status)
      } else ret ATCA_SUCCESS)
   }"

definition eccx08_global_lock :: "'w env \<Rightarrow> ('w, status) prog" where
  "eccx08_global_lock E = do {
     s \<leftarrow> getS;
     (if lock_handle (global_lock s) = NULL then do {
        (status, h) \<leftarrow> hal_os_create_mutex E (lock_handle (global_lock s)) (ext_mutex_name E);
        set_lock_handle h;
        (if status \<noteq> ATCA_SUCCESS then ret status
         else do {
           set_lock_state 0;
           lock_if_not_ours E
         })
      } else lock_if_not_ours E)
   }"

definition eccx08_global_unlock :: "'w env \<Rightarrow> ('w, status) prog" where
  "eccx08_global_unlock E = do {
     s \<leftarrow> getS;
     status \<leftarrow> hal_os_unlock_mutex E (lock_handle (global_lock s));
     (if status = ATCA_SUCCESS then set_lock_state 0 else skip);
     ret status
   }"

definition free_ifacecfg :: "('w, unit) prog" where
  "free_ifacecfg = do {
     log_ev Cfg_free;
     modify (\<lambda>s. s\<lparr>ifacecfg := None\<rparr>)
   }"

text \<open>
  Copying from the argument dereferences it: a null \<open>cfg\<close> is undefined behaviour, after
  which the content does not matter.
\<close>

definition zero_cfg :: iface_cfg where
  "zero_cfg = \<lparr>iface_type = 0, i2c_bus = 0, i2c_slave_address = 0, swi_bus = 0, cfg_rest = 0\<rparr>"

definition copy_ifacecfg :: "iface_cfg option \<Rightarrow> ('w, iface_cfg) prog" where
  "copy_ifacecfg cfg =
     (case cfg of
        Some c \<Rightarrow> do { modify (\<lambda>s. s\<lparr>ifacecfg := Some c\<rparr>); ret c }
      | None \<Rightarrow> do {
          flag_ub Null_deref;
          modify (\<lambda>s. s\<lparr>ifacecfg := Some zero_cfg\<rparr>);
          ret zero_cfg
        })"

text \<open>Lines 170-181: the device is up; resynchronise a chip whose last user died.\<close>

definition resync_recovered :: "'w env \<Rightarrow> ('w, status) prog" where
  "resync_recovered E = do {
     s \<leftarrow> getS;
     (if global_lock_recovered s \<noteq> 0 then do {
        _ \<leftarrow> atcab_wakeup E;
        _ \<leftarrow> atcab_sleep E;
        modify (\<lambda>s. s\<lparr>global_lock_recovered := 0\<rparr>)
      } else skip);
     ret ATCA_SUCCESS
   }"

text \<open>Lines 142-181: the lock is ours.\<close>

definition init_locked :: "'w env \<Rightarrow> iface_cfg option \<Rightarrow> ('w, status) prog" where
  "init_locked E cfg = do {
     s \<leftarrow> getS;
     (if ifacecfg s \<noteq> None then do {
        _ \<leftarrow> eccx08_global_unlock E;
        ret ATCA_FUNC_FAIL
      } else do {
        ok \<leftarrow> malloc_cfg E;
        (if \<not> ok then do {
           _ \<leftarrow> eccx08_global_unlock E;
           ret ATCA_FUNC_FAIL
         } else do {
           c \<leftarrow> copy_ifacecfg cfg;
           status \<leftarrow> atcab_init E c;
           (if status \<noteq> ATCA_SUCCESS then do {
              eccx08_raise_session_error E ''init'' status;
              free_ifacecfg;
              _ \<leftarrow> eccx08_global_unlock E;
              ret status
            } else resync_recovered E)
         })
      })
   }"

definition atcab_init_safe :: "'w env \<Rightarrow> iface_cfg option \<Rightarrow> ('w, status) prog" where
  "atcab_init_safe E cfg = do {
     status \<leftarrow> eccx08_global_lock E;
     (if status \<noteq> ATCA_SUCCESS then do {
        eccx08_raise_session_error E ''lock'' status;
        ret status
      } else init_locked E cfg)
   }"

definition atcab_release_safe :: "'w env \<Rightarrow> ('w, status) prog" where
  "atcab_release_safe E = do {
     status \<leftarrow> eccx08_global_lock E;
     (if status \<noteq> ATCA_SUCCESS then ret status
      else do {
        s \<leftarrow> getS;
        (if ifacecfg s = None then do {
           _ \<leftarrow> eccx08_global_unlock E;
           ret ATCA_FUNC_FAIL
         } else do {
           wake_status \<leftarrow> atcab_wakeup E;
           park_status \<leftarrow> atcab_sleep E;
           status \<leftarrow> atcab_release E;
           free_ifacecfg;
           _ \<leftarrow> eccx08_global_unlock E;
           ret status
         })
      })
   }"

section \<open>Agreement with the chip monitor\<close>

definition chip_of :: "'w eng \<Rightarrow> chip_state" where
  "chip_of s = \<lparr>held = (lock_state (global_lock s) = 1), opened = (ifacecfg s \<noteq> None)\<rparr>"

definition synced :: "'w eng \<Rightarrow> bool" where
  "synced s \<longleftrightarrow> chip_mon (trace s) = Some (chip_of s)
     \<and> lock_state (global_lock s) \<in> {0, 1}
     \<and> (lock_handle (global_lock s) = NULL \<longrightarrow> lock_state (global_lock s) = 0)"

text \<open>
  What the engine relies on of cryptoauthlib's mutex layer: a created mutex has a handle.
\<close>

definition mutex_ok :: "'w env \<Rightarrow> bool" where
  "mutex_ok E \<longleftrightarrow> (\<forall>h name w.
      fst (fst (ext_hal_os_create_mutex E h name w)) = ATCA_SUCCESS
        \<longrightarrow> snd (fst (ext_hal_os_create_mutex E h name w)) \<noteq> NULL)"

definition in_session :: "'w eng \<Rightarrow> bool" where
  "in_session s \<longleftrightarrow> synced s \<and> lock_state (global_lock s) = 1 \<and> ifacecfg s \<noteq> None"

definition no_session :: "'w eng \<Rightarrow> bool" where
  "no_session s \<longleftrightarrow> synced s \<and> ifacecfg s = None"

lemma in_session_synced [simp]: "in_session s \<Longrightarrow> synced s"
  and no_session_synced [simp]: "no_session s \<Longrightarrow> synced s"
  by (simp_all add: in_session_def no_session_def)

section \<open>Lock and unlock\<close>

named_theorems sess_defs "definitions of the session layer"
declare chip_of_def [sess_defs] synced_def [sess_defs] in_session_def [sess_defs]
  no_session_def [sess_defs] frame_defs [sess_defs] set_lock_state_def [sess_defs]
  set_lock_handle_def [sess_defs] free_ifacecfg_def [sess_defs]

definition keeps :: "'w eng \<Rightarrow> 'w eng \<Rightarrow> bool" where
  "keeps s t \<longleftrightarrow> cfg_same s t \<and> ub t = ub s"

declare keeps_def [sess_defs]

lemma keeps_refl [simp]: "keeps s s"
  by (simp add: keeps_def)

lemma keeps_trans: "keeps s t \<Longrightarrow> keeps t u \<Longrightarrow> keeps s u"
  by (auto simp: keeps_def intro: cfg_same_trans)

lemma wp_lock_if_not_ours:
  assumes "synced s" and "lock_handle (global_lock s) \<noteq> NULL"
    and "\<And>st t. st = ATCA_SUCCESS \<longleftrightarrow> lock_state (global_lock t) = 1 \<Longrightarrow> synced t
      \<Longrightarrow> ifacecfg t = ifacecfg s \<Longrightarrow> keeps s t \<Longrightarrow> Q st t"
  shows "wp (lock_if_not_ours E) Q s"
  using assms(1,2)
  by (auto simp: lock_if_not_ours_def wp_call_eq sess_defs split: prod.splits intro!: assms(3))

text \<open>Taking the lock: success exactly when the lock is now ours; the session is untouched.\<close>

lemma wp_eccx08_global_lock:
  assumes "mutex_ok E" and "synced s"
    and "\<And>st t. st = ATCA_SUCCESS \<longleftrightarrow> lock_state (global_lock t) = 1 \<Longrightarrow> synced t
      \<Longrightarrow> ifacecfg t = ifacecfg s \<Longrightarrow> keeps s t \<Longrightarrow> Q st t"
  shows "wp (eccx08_global_lock E) Q s"
proof (cases "lock_handle (global_lock s) = NULL")
  case False
  then show ?thesis
    unfolding eccx08_global_lock_def using assms(2)
    by simp (rule wp_lock_if_not_ours, auto intro: assms(3))
next
  case True
  obtain st h w where c: "ext_hal_os_create_mutex E NULL (ext_mutex_name E) (world s) = ((st, h), w)"
    by (metis prod.exhaust)
  have h: "st = ATCA_SUCCESS \<Longrightarrow> h \<noteq> NULL"
    using assms(1) c unfolding mutex_ok_def by (metis fst_conv snd_conv)
  show ?thesis
  proof (cases "st = ATCA_SUCCESS")
    case st: False
    with True assms(2) c show ?thesis
      by (auto simp: eccx08_global_lock_def wp_call_eq sess_defs intro!: assms(3))
  next
    case st: True
    with True assms(2) c h show ?thesis
      by (auto simp: eccx08_global_lock_def wp_call_eq set_lock_handle_def set_lock_state_def
          intro!: wp_lock_if_not_ours assms(3))
         (auto simp: sess_defs)
  qed
qed

lemma wp_eccx08_global_unlock:
  assumes "synced s" and "lock_state (global_lock s) = 1" and "ifacecfg s = None"
    and "\<And>st t. st = ATCA_SUCCESS \<longleftrightarrow> lock_state (global_lock t) = 0 \<Longrightarrow> synced t
      \<Longrightarrow> ifacecfg t = None \<Longrightarrow> keeps s t \<Longrightarrow> Q st t"
  shows "wp (eccx08_global_unlock E) Q s"
  using assms(1-3)
  by (auto simp: eccx08_global_unlock_def wp_call_eq sess_defs split: prod.splits intro!: assms(4))

section \<open>Opening and closing a session\<close>

text \<open>
  Every error path of \<open>atcab_init_safe\<close> entered without a session ends without one, the
  successful path ends inside one, on the interface that was asked for, with no pending
  recovery. The proof follows the function from the lock onwards.
\<close>

lemma wp_resync_recovered:
  assumes "in_session s"
    and "\<And>t. in_session t \<Longrightarrow> ifacecfg t = ifacecfg s \<Longrightarrow> global_lock_recovered t = 0
      \<Longrightarrow> keeps s t \<Longrightarrow> Q ATCA_SUCCESS t"
  shows "wp (resync_recovered E) Q s"
  using assms(1)
  by (auto simp: resync_recovered_def wp_call_eq sess_defs split: prod.splits intro!: assms(2))

text \<open>\<open>cfg\<close> may be a null pointer, as \<open>pCfg\<close> is before the engine is initialised.\<close>

definition opens :: "iface_cfg option \<Rightarrow> 'w eng \<Rightarrow> 'w eng \<Rightarrow> bool" where
  "opens cfg s t \<longleftrightarrow> cfg_same s t \<and> (cfg \<noteq> None \<longrightarrow> ub t = ub s)"

lemma opens_Some [simp]: "opens (Some c) = keeps"
  by (auto simp: opens_def keeps_def fun_eq_iff)

lemma keeps_opens: "keeps s t \<Longrightarrow> opens cfg t u \<Longrightarrow> opens cfg s u"
  by (auto simp: opens_def keeps_def intro: cfg_same_trans)

lemma wp_init_locked:
  assumes "no_session s" and "lock_state (global_lock s) = 1"
    and ok: "\<And>t. in_session t \<Longrightarrow> ifacecfg t = Some (case cfg of None \<Rightarrow> zero_cfg | Some c \<Rightarrow> c) \<Longrightarrow>
      global_lock_recovered t = 0 \<Longrightarrow> opens cfg s t \<Longrightarrow> Q ATCA_SUCCESS t"
    and err: "\<And>st t. st \<noteq> ATCA_SUCCESS \<Longrightarrow> no_session t \<Longrightarrow> opens cfg s t \<Longrightarrow> Q st t"
  shows "wp (init_locked E cfg) Q s"
proof -
  have s: "synced s" "ifacecfg s = None" using assms(1) by (simp_all add: no_session_def)
  have raise: "wp (eccx08_raise_session_error E ''init'' st)
      (\<lambda>_ u. wp (eccx08_global_unlock E) (\<lambda>_. Q st) (u\<lparr>trace := Cfg_free # trace u, ifacecfg := None\<rparr>)) t"
    if "synced (t\<lparr>ifacecfg := None\<rparr>)" "lock_state (global_lock t) = 1" "opens cfg s t" "st \<noteq> 0" for st t
    by (rule wp_eccx08_raise_session_error, rule wp_eccx08_global_unlock)
      (use that in \<open>auto simp: sess_defs opens_def intro!: err\<close>)
  have unlock: "wp (eccx08_global_unlock E) (\<lambda>_. Q st) t"
    if "synced t" "lock_state (global_lock t) = 1" "ifacecfg t = None" "opens cfg s t" "st \<noteq> 0" for st t
    by (rule wp_eccx08_global_unlock) (use that in \<open>auto simp: sess_defs opens_def intro!: err\<close>)
  have resync: "wp (resync_recovered E) Q t"
    if "in_session t" "ifacecfg t = Some (case cfg of None \<Rightarrow> zero_cfg | Some c \<Rightarrow> c)" "opens cfg s t" for t
    by (rule wp_resync_recovered) (use that in \<open>auto simp: keeps_def opens_def intro!: ok intro: cfg_same_trans\<close>)
  show ?thesis
    unfolding init_locked_def copy_ifacecfg_def using s assms(2)
    by (cases cfg)
      (auto simp: wp_call_eq free_ifacecfg_def split: prod.splits intro!: unlock resync raise,
       auto simp: sess_defs opens_def)
qed

lemma wp_init_any:
  assumes "mutex_ok E" and "no_session s"
    and ok: "\<And>t. in_session t \<Longrightarrow> ifacecfg t = Some (case cfg of None \<Rightarrow> zero_cfg | Some c \<Rightarrow> c) \<Longrightarrow>
      global_lock_recovered t = 0 \<Longrightarrow> opens cfg s t \<Longrightarrow> Q ATCA_SUCCESS t"
    and err: "\<And>st t. st \<noteq> ATCA_SUCCESS \<Longrightarrow> no_session t \<Longrightarrow> opens cfg s t \<Longrightarrow> Q st t"
  shows "wp (atcab_init_safe E cfg) Q s"
  unfolding atcab_init_safe_def
proof (simp only: wp_bind, rule wp_eccx08_global_lock [OF assms(1)])
  show "synced s" using assms(2) by simp
next
  fix st t
  assume t: "(st = ATCA_SUCCESS) = (lock_state (global_lock t) = 1)" "synced t"
    "ifacecfg t = ifacecfg s" "keeps s t"
  then have n: "no_session t" using assms(2) by (simp add: no_session_def)
  show "wp (if st \<noteq> ATCA_SUCCESS then do { eccx08_raise_session_error E ''lock'' st; ret st }
            else init_locked E cfg) Q t"
  proof (cases "st = ATCA_SUCCESS")
    case True
    with t n show ?thesis
      by simp (rule wp_init_locked, auto intro: keeps_opens ok err)
  next
    case False
    with t n show ?thesis
      by simp (rule wp_eccx08_raise_session_error, auto simp: sess_defs opens_def intro!: err)
  qed
qed

lemma wp_atcab_init_safe:
  assumes "mutex_ok E" and "no_session s"
    and "\<And>t. in_session t \<Longrightarrow> ifacecfg t = Some c \<Longrightarrow> global_lock_recovered t = 0
      \<Longrightarrow> keeps s t \<Longrightarrow> Q ATCA_SUCCESS t"
    and "\<And>st t. st \<noteq> ATCA_SUCCESS \<Longrightarrow> no_session t \<Longrightarrow> keeps s t \<Longrightarrow> Q st t"
  shows "wp (atcab_init_safe E (Some c)) Q s"
  by (rule wp_init_any [OF assms(1,2)]) (use assms(3,4) in auto)

text \<open>The way most operations open the device: with the engine's configuration, or give up.\<close>

lemma wp_open_device:
  assumes "mutex_ok E" and "no_session s"
    and "\<And>t. in_session t \<Longrightarrow> wp m Q t"
    and "\<And>st t. st \<noteq> ATCA_SUCCESS \<Longrightarrow> no_session t \<Longrightarrow> Q (failed st) t"
  shows "wp (do {
       cfg \<leftarrow> gets pCfg;
       status \<leftarrow> atcab_init_safe E cfg;
       (if status \<noteq> ATCA_SUCCESS then ret (failed status) else m)
     }) Q s"
proof (rule wp_bindI, rule wp_gets [THEN iffD2], rule wp_bindI, rule wp_init_any [OF assms(1,2)], goal_cases ok err)
  case (ok t)
  then show ?case using assms(3) by simp
qed (use assms(4) in simp)

text \<open>Opening a session inside one is refused, but gives the mutex back.\<close>

lemma wp_nested_init:
  assumes "in_session s"
    and "\<And>u w. Q ATCA_FUNC_FAIL (s\<lparr>world := w, trace := Mutex_unlock u # trace s,
      global_lock := (global_lock s)\<lparr>lock_state := (if u = ATCA_SUCCESS then 0 else 1)\<rparr>\<rparr>)"
  shows "wp (atcab_init_safe E cfg) Q s"
proof -
  obtain st w where u: "ext_hal_os_unlock_mutex E (lock_handle (global_lock s)) (world s) = (st, w)"
    by (metis prod.exhaust)
  have same: "s\<lparr>world := w, trace := tr, global_lock := (global_lock s)\<lparr>lock_state := 1\<rparr>\<rparr> = s\<lparr>world := w, trace := tr\<rparr>" for tr
    using assms(1) by (cases s; cases "global_lock s") (auto simp: sess_defs)
  from assms(2) [where u = st and w = w] assms(1) u same show ?thesis
    by (cases "st = ATCA_SUCCESS")
      (auto simp: atcab_init_safe_def eccx08_global_lock_def lock_if_not_ours_def init_locked_def
        eccx08_global_unlock_def wp_call_eq set_lock_state_def sess_defs)
qed

lemma nested_unlock: "in_session s \<Longrightarrow> chip_mon (Mutex_unlock u # trace s) = None"
  by (simp add: sess_defs)

lemma wp_atcab_release_safe:
  assumes "in_session s"
    and "\<And>st t. no_session t \<Longrightarrow> keeps s t \<Longrightarrow> Q st t"
  shows "wp (atcab_release_safe E) Q s"
proof -
  have s: "synced s" "lock_state (global_lock s) = 1" "ifacecfg s \<noteq> None"
    using assms(1) by (simp_all add: in_session_def)
  have h: "lock_handle (global_lock s) \<noteq> NULL" using s by (auto simp: synced_def)
  show ?thesis
    unfolding atcab_release_safe_def eccx08_global_lock_def lock_if_not_ours_def using s h
    by (auto simp: wp_call_eq free_ifacecfg_def split: prod.splits
        intro!: wp_eccx08_global_unlock)
       (auto simp: sess_defs intro!: assms(2))
qed

section \<open>Calls inside and outside a session\<close>

lemma in_session_cmd: "in_session s \<Longrightarrow> in_session (s\<lparr>world := w, trace := Dev_cmd c st # trace s\<rparr>)"
  by (auto simp: sess_defs)

lemma in_session_ub [simp]: "in_session (s\<lparr>ub := u\<rparr>) = in_session s"
  by (simp add: sess_defs)

text \<open>Device traffic that is allowed inside a session and does not end it.\<close>

fun chip_user :: "ev \<Rightarrow> bool" where
  "chip_user (Dev_wakeup st) = True"
| "chip_user (Dev_sleep st) = True"
| "chip_user (Dev_cmd c st) = True"
| "chip_user e = chip_silent e"

lemma chip_user_ev_obj [simp]:
  "list_all chip_user (ev_new c p)" "list_all chip_user (ev_ref c p)" "list_all chip_user (ev_free c p)"
  by (simp_all add: ev_new_def ev_ref_def ev_free_def)

lemma chip_mon_users:
  "list_all chip_user es \<Longrightarrow> chip_mon tr = Some m \<Longrightarrow> held m \<Longrightarrow> opened m
   \<Longrightarrow> chip_mon (es @ tr) = Some m"
proof (induction es)
  case (Cons e es)
  then show ?case by (cases e) auto
qed simp

lemma wp_call_in_session:
  assumes "in_session s" and "\<And>a. list_all chip_user (evs a)"
    and "\<And>a t. in_session t \<Longrightarrow> ifacecfg t = ifacecfg s \<Longrightarrow> keeps s t \<Longrightarrow> Q a t"
  shows "wp (call f evs) Q s"
proof (rule wp_call)
  fix a w
  have "chip_mon (evs a @ trace s) = Some (chip_of s)"
    using assms(1,2) by (intro chip_mon_users) (auto simp: sess_defs)
  with assms(1) show "Q a (s\<lparr>world := w, trace := evs a @ trace s\<rparr>)"
    by (intro assms(3)) (auto simp: sess_defs)
qed

lemma wp_call_no_session:
  assumes "no_session s" and "\<And>a. list_all chip_silent (evs a)"
    and "\<And>a t. no_session t \<Longrightarrow> keeps s t \<Longrightarrow> Q a t"
  shows "wp (call f evs) Q s"
proof (rule wp_call)
  fix a w
  have "chip_mon (evs a @ trace s) = chip_mon (trace s)"
    using assms(2) by (rule chip_mon_silents)
  with assms(1) show "Q a (s\<lparr>world := w, trace := evs a @ trace s\<rparr>)"
    by (intro assms(3)) (auto simp: sess_defs)
qed

section \<open>Frames of the session layer\<close>

text \<open>
  \<open>quiet\<close>: no device traffic and no change of the session's variables. \<open>safe\<close>: outside a
  session before means outside a session after, all rules of the monitor obeyed in between.
\<close>

definition quiet :: "'w eng \<Rightarrow> 'w eng \<Rightarrow> bool" where
  "quiet s t \<longleftrightarrow> chip_mon (trace t) = chip_mon (trace s) \<and> sess_same s t"

definition safe :: "'w eng \<Rightarrow> 'w eng \<Rightarrow> bool" where
  "safe s t \<longleftrightarrow> (no_session s \<longrightarrow> no_session t)"

interpretation quiet: frame quiet
  by unfold_locales (auto simp: quiet_def sess_same_def)

interpretation safe: frame safe
  by unfold_locales (auto simp: safe_def)

lemma quiet_session:
  "quiet s t \<Longrightarrow> no_session t = no_session s" "quiet s t \<Longrightarrow> in_session t = in_session s"
  "quiet s t \<Longrightarrow> synced t = synced s" "quiet s t \<Longrightarrow> ifacecfg t = ifacecfg s"
  by (auto simp: quiet_def sess_defs)

lemma quiet_safe: "keeping quiet m \<Longrightarrow> keeping safe m"
  by (erule keeping_mono) (simp add: safe_def quiet_session)

lemma quiet_call: "(\<And>a. list_all chip_silent (evs a)) \<Longrightarrow> keeping quiet (call f evs)"
  by (rule keepingI, rule wp_call) (simp add: quiet_def sess_same_def chip_mon_silents)

lemma quiet_log_ev: "chip_silent e \<Longrightarrow> keeping quiet (log_ev e)"
  by (simp add: keeping_def quiet_def sess_same_def chip_mon_silent del: chip_mon.simps)

lemma quiet_flag_ub: "keeping quiet (flag_ub u)"
  by (simp add: keeping_def quiet_def sess_same_def)

lemmas quiet_basic = quiet_call quiet_log_ev quiet_flag_ub

lemma safe_session:
  assumes "keeping safe m" and "no_session s"
  shows "wp m (\<lambda>_ t. no_session t) s"
  using keepingD [OF assms(1), of s] assms(2) by (simp add: safe_def)

lemma safeI: "(\<And>s. no_session s \<Longrightarrow> wp m (\<lambda>_ t. no_session t) s) \<Longrightarrow> keeping safe m"
  by (rule keepingI) (simp add: safe_def wp_imp)

text \<open>Closing the session, and then nothing unsafe.\<close>

lemma wp_release_then:
  assumes "in_session s" and "\<And>rel. keeping safe (f rel)"
  shows "wp (State_Monad.bind (atcab_release_safe E) f) (\<lambda>_ t. no_session t) s"
  unfolding wp_bind
  by (rule wp_atcab_release_safe [OF assms(1)]) (rule safe_session [OF assms(2)])

lemma quiet_raise: "keeping quiet (eccx08_raise_session_error E op st)"
  by (rule keepingI, rule wp_eccx08_raise_session_error)
    (simp add: quiet_def sess_same_def chip_mon_silent del: chip_mon.simps)

text \<open>No session operation touches the configuration.\<close>

lemma cfg_set_lock_state: "keeping cfg_same (set_lock_state n)"
  and cfg_set_lock_handle: "keeping cfg_same (set_lock_handle h)"
  and cfg_free_ifacecfg: "keeping cfg_same free_ifacecfg"
  and cfg_copy_ifacecfg: "keeping cfg_same (copy_ifacecfg c)"
  by (auto simp: keeping_def cfg_same_def set_lock_state_def set_lock_handle_def free_ifacecfg_def
      copy_ifacecfg_def split: option.splits)

lemma cfg_raise: "keeping cfg_same (eccx08_raise_session_error E op st)"
  by (rule keepingI, rule wp_eccx08_raise_session_error)

lemma cfg_session_modify:
  "keeping cfg_same (modify (\<lambda>s. s\<lparr>global_lock_recovered := n\<rparr>))"
  "keeping cfg_same (modify (\<lambda>s. s\<lparr>ifacecfg := c\<rparr>))"
  by (simp_all add: keeping_def cfg_same_def)

lemmas cfg_basic = cfg_call cfg_log_ev cfg_flag_ub cfg_set_lock_state cfg_set_lock_handle
  cfg_free_ifacecfg cfg_copy_ifacecfg cfg_raise cfg_session_modify

lemma cfg_global_lock: "keeping cfg_same (eccx08_global_lock E)"
  unfolding eccx08_global_lock_def lock_if_not_ours_def by (intro cfg.keep cfg_basic)

lemma cfg_global_unlock: "keeping cfg_same (eccx08_global_unlock E)"
  unfolding eccx08_global_unlock_def by (intro cfg.keep cfg_basic)

lemma cfg_atcab_init_safe: "keeping cfg_same (atcab_init_safe E c)"
  unfolding atcab_init_safe_def init_locked_def resync_recovered_def
  by (intro cfg.keep cfg_basic cfg_global_lock cfg_global_unlock)

lemma cfg_atcab_release_safe: "keeping cfg_same (atcab_release_safe E)"
  unfolding atcab_release_safe_def
  by (intro cfg.keep cfg_basic cfg_global_lock cfg_global_unlock)

lemmas cfg_sess = cfg_basic cfg_atcab_init_safe cfg_atcab_release_safe

text \<open>The session layer issues no commands and touches no objects.\<close>

lemma adds_session_modify:
  "keeping (adds P) (set_lock_state n)" "keeping (adds P) (set_lock_handle h)"
  "keeping (adds P) (modify (\<lambda>s. s\<lparr>global_lock_recovered := n\<rparr>))"
  "keeping (adds P) (modify (\<lambda>s. s\<lparr>ifacecfg := c\<rparr>))"
  by (auto simp: keeping_def adds_def set_lock_state_def set_lock_handle_def)

lemma adds_raise: "keeping (adds session_ev) (eccx08_raise_session_error E op st)"
  by (rule keepingI, rule wp_eccx08_raise_session_error) (auto simp: adds_def)

lemma adds_global_lock: "keeping (adds session_ev) (eccx08_global_lock E)"
  unfolding eccx08_global_lock_def lock_if_not_ours_def
  by (intro adds.keep adds_basic adds_session_modify) auto

lemma adds_global_unlock: "keeping (adds session_ev) (eccx08_global_unlock E)"
  unfolding eccx08_global_unlock_def
  by (intro adds.keep adds_basic adds_session_modify) auto

lemma adds_init_safe: "keeping (adds session_ev) (atcab_init_safe E c)"
  unfolding atcab_init_safe_def init_locked_def resync_recovered_def copy_ifacecfg_def free_ifacecfg_def
  by (intro adds.keep adds_basic adds_session_modify adds_raise adds_global_lock adds_global_unlock) auto

lemma adds_release_safe: "keeping (adds session_ev) (atcab_release_safe E)"
  unfolding atcab_release_safe_def free_ifacecfg_def
  by (intro adds.keep adds_basic adds_session_modify adds_global_lock adds_global_unlock) auto

lemmas adds_sess = adds_raise adds_init_safe adds_release_safe

section \<open>The interface of a device session\<close>

text \<open>
  What the clients (signing, key loading, key generation, random bytes, certificates) rely
  on: opening from outside ends inside or, with an error, outside; closing from inside ends
  outside; both keep the rest of the engine (\<open>fr\<close>).
\<close>

locale device_session =
  fixes init :: "'c \<Rightarrow> ('s, status) state"
    and release :: "('s, status) state"
    and inside :: "'s \<Rightarrow> bool"
    and outside :: "'s \<Rightarrow> bool"
    and fr :: "'s \<Rightarrow> 's \<Rightarrow> bool"
  assumes init_outside: "outside s \<Longrightarrow>
      wp (init c) (\<lambda>st t. (if st = ATCA_SUCCESS then inside t else outside t) \<and> fr s t) s"
    and release_inside: "inside s \<Longrightarrow> wp release (\<lambda>st t. outside t \<and> fr s t) s"
    and fr_refl: "fr s s"
    and fr_trans: "fr s t \<Longrightarrow> fr t u \<Longrightarrow> fr s u"
begin

lemma init_rule:
  assumes "outside s"
    and "\<And>t. inside t \<Longrightarrow> fr s t \<Longrightarrow> Q ATCA_SUCCESS t"
    and "\<And>st t. st \<noteq> ATCA_SUCCESS \<Longrightarrow> outside t \<Longrightarrow> fr s t \<Longrightarrow> Q st t"
  shows "wp (init c) Q s"
  by (rule wp_mono [OF init_outside [OF assms(1)]])
    (use assms(2,3) in \<open>auto split: if_splits\<close>)

lemma release_rule:
  assumes "inside s" and "\<And>st t. outside t \<Longrightarrow> fr s t \<Longrightarrow> Q st t"
  shows "wp release Q s"
  by (rule wp_mono [OF release_inside [OF assms(1)]]) (use assms(2) in auto)

text \<open>A client that opens, works inside and always closes ends outside.\<close>

lemma bracket:
  assumes "outside s"
    and body: "\<And>t. inside t \<Longrightarrow> wp body (\<lambda>_ u. inside u \<and> fr t u) t"
  shows "wp (do { st \<leftarrow> init c;
                  (if st \<noteq> ATCA_SUCCESS then ret (fail st)
                   else do { r \<leftarrow> body; rel \<leftarrow> release; ret (done_with r rel) }) })
         (\<lambda>_ u. outside u \<and> fr s u) s"
proof (simp only: wp_bind, rule init_rule [OF assms(1)])
  fix t assume t: "inside t" "fr s t"
  show "wp (if ATCA_SUCCESS \<noteq> ATCA_SUCCESS then ret (fail ATCA_SUCCESS)
      else do { r \<leftarrow> body; rel \<leftarrow> release; ret (done_with r rel) }) (\<lambda>_ u. outside u \<and> fr s u) t"
    by (simp, rule wp_mono [OF body [OF t(1)]], rule release_rule)
      (use t in \<open>auto intro: fr_trans\<close>)
qed auto

end

text \<open>A command of the chip used inside a session; the cure of a latched health test.\<close>

locale chip_command = device_session +
  fixes cmd :: "('s, status \<times> 'r) state"
    and wake sleep :: "('s, status) state"
  assumes cmd_inside: "inside s \<Longrightarrow> wp cmd (\<lambda>_ t. inside t \<and> fr s t) s"
    and wake_inside: "inside s \<Longrightarrow> wp wake (\<lambda>_ t. inside t \<and> fr s t) s"
    and sleep_inside: "inside s \<Longrightarrow> wp sleep (\<lambda>_ t. inside t \<and> fr s t) s"
begin

lemma cure_retry:
  assumes "inside s" and "\<And>r t. inside t \<Longrightarrow> fr s t \<Longrightarrow> Q r t"
  shows "wp (do { r \<leftarrow> cmd;
                  (if fst r = ATCA_HEALTH_TEST_ERROR
                   then do { _ \<leftarrow> wake; _ \<leftarrow> sleep; cmd } else ret r) }) Q s"
proof (simp only: wp_bind, rule wp_mono [OF cmd_inside [OF assms(1)]])
  fix r t assume t: "inside t \<and> fr s t"
  show "wp (if fst r = ATCA_HEALTH_TEST_ERROR
      then do { _ \<leftarrow> wake; _ \<leftarrow> sleep; cmd } else ret r) Q t"
    using t
    by (auto intro!: assms(2) wp_mono [OF wake_inside] wp_mono [OF sleep_inside]
        wp_mono [OF cmd_inside] intro: fr_trans)
qed

end

interpretation sess: device_session
  "\<lambda>c. atcab_init_safe E (Some c)" "atcab_release_safe E"
  "\<lambda>s. mutex_ok E \<and> in_session s" "\<lambda>s. mutex_ok E \<and> no_session s" keeps
  for E :: "'w env"
proof unfold_locales
  fix s :: "'w eng" and c
  assume s: "mutex_ok E \<and> no_session s"
  show "wp (atcab_init_safe E (Some c)) (\<lambda>st t. (if st = ATCA_SUCCESS
      then mutex_ok E \<and> in_session t else mutex_ok E \<and> no_session t) \<and> keeps s t) s"
    by (rule wp_atcab_init_safe) (use s in auto)
next
  fix s :: "'w eng"
  assume s: "mutex_ok E \<and> in_session s"
  show "wp (atcab_release_safe E) (\<lambda>st t. (mutex_ok E \<and> no_session t) \<and> keeps s t) s"
    by (rule wp_atcab_release_safe) (use s in auto)
qed (auto intro: keeps_trans)

interpretation sign_cmd: chip_command
  "\<lambda>c. atcab_init_safe E (Some c)" "atcab_release_safe E"
  "\<lambda>s. mutex_ok E \<and> in_session s" "\<lambda>s. mutex_ok E \<and> no_session s" keeps
  "atcab_sign E slot dgst" "atcab_wakeup E" "atcab_sleep E"
  for E :: "'w env" and slot and dgst
  by unfold_locales (auto intro!: wp_call_in_session split: prod.splits)

interpretation pubkey_cmd: chip_command
  "\<lambda>c. atcab_init_safe E (Some c)" "atcab_release_safe E"
  "\<lambda>s. mutex_ok E \<and> in_session s" "\<lambda>s. mutex_ok E \<and> no_session s" keeps
  "atcab_get_pubkey E slot" "atcab_wakeup E" "atcab_sleep E"
  for E :: "'w env" and slot
  by unfold_locales (auto intro!: wp_call_in_session split: prod.splits)

end
