(* ===== verification/Keys.thy ===== *)
theory Keys
  imports Session
begin

text \<open>
  Key descriptors (\<^verbatim>\<open>eccx08_eckey_meth.c\<close>, lines 106-316, and the key lookup of
  \<^verbatim>\<open>eccx08_engine.c\<close>): a key of the chip is named by a string
  \<^verbatim>\<open>ATECCx08:<bus type>:<bus>:<device>:<slot>\<close>, kept as a 32-byte structure, and carried
  through OpenSSL as the big-endian number of an EC private key.
\<close>

section \<open>Encodings\<close>

text \<open>
  An encoder, a decoder and the values it is meant for; and two encodings one after the
  other, which are again one.
\<close>

locale codec =
  fixes enc :: "'a \<Rightarrow> 'b" and dec :: "'b \<Rightarrow> 'a option" and ok :: "'a \<Rightarrow> bool"
  assumes dec_enc: "ok x \<Longrightarrow> dec (enc x) = Some x"
begin

lemma enc_inject: "ok x \<Longrightarrow> ok y \<Longrightarrow> enc x = enc y \<longleftrightarrow> x = y"
  by (metis dec_enc option.inject)

lemma dec_total: "ok x \<Longrightarrow> dec (enc x) \<noteq> None"
  by (simp add: dec_enc)

end

locale codec_pair = outer: codec enc1 dec1 ok1 + inner: codec enc2 dec2 ok2
  for enc1 :: "'a \<Rightarrow> 'b" and dec1 and ok1 and enc2 :: "'b \<Rightarrow> 'c" and dec2 and ok2 +
  assumes ok_enc: "ok1 x \<Longrightarrow> ok2 (enc1 x)"

sublocale codec_pair \<subseteq> both: codec "\<lambda>x. enc2 (enc1 x)" "\<lambda>y. Option.bind (dec2 y) dec1" ok1
  by unfold_locales (simp add: ok_enc inner.dec_enc outer.dec_enc)

section \<open>The 32-byte structure\<close>

definition string_bytes :: "string \<Rightarrow> bytes" where
  "string_bytes cs = map of_char cs"

abbreviation (input) atecc_magic :: bytes where
  "atecc_magic \<equiv> [0x41, 0x54, 0x45, 0x43, 0x43, 0x78, 0x30, 0x38]"

definition key_bytes :: "eccx08_engine_key_t \<Rightarrow> bytes" where
  "key_bytes k = magic k @ [bus_type k, bus_num k, device_num k, slot_num k, password_id k] @ reserved k"

definition byte_at :: "bytes \<Rightarrow> nat \<Rightarrow> byte" where
  "byte_at bs i = (if i < length bs then bs ! i else 0)"

text \<open>The structure overlaid on a buffer.\<close>

definition key_of_bytes :: "bytes \<Rightarrow> eccx08_engine_key_t" where
  "key_of_bytes bs = \<lparr>magic = take 8 bs, bus_type = byte_at bs 8, bus_num = byte_at bs 9,
     device_num = byte_at bs 10, slot_num = byte_at bs 11, password_id = byte_at bs 12,
     reserved = drop 13 bs\<rparr>"

definition key_wf :: "eccx08_engine_key_t \<Rightarrow> bool" where
  "key_wf k \<longleftrightarrow> length (magic k) = 8 \<and> length (reserved k) = 19"

section \<open>Default and named keys\<close>

text \<open>Pointers to a structure are options; the second result is its new content.\<close>

definition eccx08_eckey_init ::
  "eccx08_engine_config_t \<Rightarrow> eccx08_engine_key_t option \<Rightarrow> int \<times> eccx08_engine_key_t option" where
  "eccx08_eckey_init config cfg =
     (case cfg of
        Some k \<Rightarrow> (ENGINE_OPENSSL_SUCCESS,
          Some (k\<lparr>magic := string_bytes ''ATECCx08'', bus_type := 0, bus_num := 0,
                  device_num := 0xC0, slot_num := device_key_slot config\<rparr>))
      | None \<Rightarrow> (ENGINE_OPENSSL_FAILURE, None))"

definition key_format :: "directive list" where
  "key_format = map Lit ''ATECCx08:'' @
     [Hhx 2, Lit CHR '':'', Hhx 2, Lit CHR '':'', Hhx 2, Lit CHR '':'', Hhx 2]"

text \<open>\<^verbatim>\<open>sscanf\<close> stores the fields it got as far as it got.\<close>

fun store_fields :: "scanned list \<Rightarrow> eccx08_engine_key_t \<Rightarrow> eccx08_engine_key_t" where
  "store_fields [Out_uchar a] k = k\<lparr>bus_type := a\<rparr>"
| "store_fields [Out_uchar a, Out_uchar b] k = k\<lparr>bus_type := a, bus_num := b\<rparr>"
| "store_fields [Out_uchar a, Out_uchar b, Out_uchar c] k =
     k\<lparr>bus_type := a, bus_num := b, device_num := c\<rparr>"
| "store_fields [Out_uchar a, Out_uchar b, Out_uchar c, Out_uchar d] k =
     k\<lparr>bus_type := a, bus_num := b, device_num := c, slot_num := d\<rparr>"
| "store_fields _ k = k"

definition eccx08_eckey_string_to_struct ::
  "eccx08_engine_config_t \<Rightarrow> eccx08_engine_key_t option \<Rightarrow> string option \<Rightarrow> byte
   \<Rightarrow> int \<times> eccx08_engine_key_t option" where
  "eccx08_eckey_string_to_struct config out in_str passwd_id =
     (case (out, in_str) of
        (Some k, Some cs) \<Rightarrow>
          (let k1 = the (snd (eccx08_eckey_init config (Some k)));
               got = sscanf key_format cs;
               k2 = store_fields got k1
           in if length got = 4
              then (ENGINE_OPENSSL_SUCCESS, Some (k2\<lparr>password_id := passwd_id\<rparr>))
              else (ENGINE_OPENSSL_FAILURE, Some k2))
      | _ \<Rightarrow> (ENGINE_OPENSSL_FAILURE, out))"

text \<open>
  The string \<open>get_key\<close> (\<^verbatim>\<open>eccx08_cmd_defns.c\<close>, lines 282-284) prints into its 32-byte buffer.
\<close>

definition key_id_string :: "nat \<Rightarrow> nat \<Rightarrow> nat \<Rightarrow> nat \<Rightarrow> string" where
  "key_id_string bt bus dev slot =
     snprintf 32 (''ATECCx08:'' @ fmt_02x bt @ '':'' @ fmt_02x bus @ '':'' @ fmt_02x dev @ '':''
                  @ fmt_02x slot)"

section \<open>Keys inside EC keys\<close>

text \<open>
  Documented behaviour of OpenSSL's number conversions: big-endian, minimal length for
  \<^verbatim>\<open>BN_bn2bin\<close>, and for \<^verbatim>\<open>BN_bn2binpad\<close> either exactly the length asked for or \<open>-1\<close> with the
  buffer untouched.
\<close>

definition bn_ok :: "'w env \<Rightarrow> bool" where
  "bn_ok E \<longleftrightarrow>
     (\<forall>p v. ext_BN_num_bytes E (p, v) = be_len v
        \<and> ext_BN_bn2bin E (p, v) = (int (be_len v), be_pad (be_len v) v))
   \<and> (\<forall>p v n. ext_BN_bn2binpad E (p, v) n = (if v < 256 ^ n then (int n, be_pad n v) else (-1, [])))
   \<and> (\<forall>bs w b. fst (ext_BN_bin2bn E bs w) = Some b \<longrightarrow> snd b = be_val bs)"

text \<open>
  \<open>eccx08_eckey_isx08key\<close> gives its return value and the byte stored through \<^verbatim>\<open>passwd_id\<close>, if
  any. The local buffer starts uninitialised; \<^verbatim>\<open>BN_bn2binpad\<close> returning \<open>-1\<close> also counts as
  true in C, and comparing the buffer then reads it uninitialised.
\<close>

definition eccx08_eckey_isx08key :: "'w env \<Rightarrow> ptr \<Rightarrow> ('w, int \<times> byte option) prog" where
  "eccx08_eckey_isx08key E ec = do {
     bn \<leftarrow> EC_KEY_get0_private_key E ec;
     (case bn of
        None \<Rightarrow> ret (ENGINE_OPENSSL_FAILURE, None)
      | Some b \<Rightarrow> do {
          junk \<leftarrow> stack_bytes E 32;
          (case ext_BN_bn2binpad E b 32 of (r, out) \<Rightarrow>
             if r = 0 then ret (ENGINE_OPENSSL_FAILURE, None)
             else do {
               (if r < 0 then flag_ub Uninit_read else skip);
               (let buf = (if r < 0 then junk else out) in
                if take 8 buf = string_bytes ''ATECCx08''
                then ret (ENGINE_OPENSSL_SUCCESS, Some (password_id (key_of_bytes buf)))
                else ret (ENGINE_OPENSSL_FAILURE, None))
             })
        })
   }"

text \<open>Reading \<open>n\<close> bytes of an allocated buffer.\<close>

definition need_bytes :: "bytes \<Rightarrow> nat \<Rightarrow> ('w, unit) prog" where
  "need_bytes buf n = (if length buf < n then flag_ub Out_of_bounds_read else skip)"

text \<open>
  \<open>atcab_init_from_privkey_safe\<close> gives the status and the slot stored through \<^verbatim>\<open>slot_num\<close>, if
  any. The structure is overlaid on a buffer of \<^verbatim>\<open>BN_num_bytes\<close> bytes (lines 273-286): the
  bus fields and the slot are read at offsets 8 to 11.
\<close>

definition init_from_keyinfo :: "'w env \<Rightarrow> bytes \<Rightarrow> ('w, status \<times> byte option) prog" where
  "init_from_keyinfo E buf = do {
     need_bytes buf (if byte_at buf 8 = 0 then 11 else 9);
     (let (r, cfg) = eccx08_get_iface_cfg E (Some zero_cfg) (Some (key_of_bytes buf)) in
      if r = 0 then ret (ATCA_FUNC_FAIL, None)
      else do {
        status \<leftarrow> atcab_init_safe E cfg;
        (if status \<noteq> ATCA_SUCCESS then ret (status, None)
         else do {
           need_bytes buf 12;
           ret (status, Some (slot_num (key_of_bytes buf)))
         })
      })
   }"

definition atcab_init_from_privkey_safe :: "'w env \<Rightarrow> ptr \<Rightarrow> ('w, status \<times> byte option) prog" where
  "atcab_init_from_privkey_safe E key = do {
     bn \<leftarrow> EC_KEY_get0_private_key E key;
     (case bn of
        None \<Rightarrow> ret (ATCA_FUNC_FAIL, None)
      | Some b \<Rightarrow> do {
          ok \<leftarrow> call (ext_malloc_ok E) (\<lambda>_. []);
          (if \<not> ok then ret (ATCA_FUNC_FAIL, None)
           else (case ext_BN_bn2bin E b of (r, buf) \<Rightarrow>
             if r = 0 then ret (ATCA_FUNC_FAIL, None)
             else init_from_keyinfo E buf))
        })
   }"

section \<open>Lemmas\<close>

lemma string_bytes_magic [simp]: "string_bytes ''ATECCx08'' = atecc_magic"
  by (simp add: string_bytes_def)

lemma length_key_bytes [simp]: "key_wf k \<Longrightarrow> length (key_bytes k) = 32"
  by (simp add: key_bytes_def key_wf_def)

lemma key_of_bytes_key_bytes:
  assumes "key_wf k"
  shows "key_of_bytes (key_bytes k) = k"
  using assms
  by (cases k) (simp add: key_of_bytes_def key_bytes_def key_wf_def byte_at_def nth_append)

lemma drop_nth_step: "i < length bs \<Longrightarrow> drop i bs = bs ! i # drop (i + 1) bs"
  by (simp add: Cons_nth_drop_Suc)

lemma key_bytes_key_of_bytes: "length bs = 32 \<Longrightarrow> key_bytes (key_of_bytes bs) = bs"
proof -
  assume l: "length bs = 32"
  have "drop 8 bs = [bs ! 8, bs ! 9, bs ! 10, bs ! 11, bs ! 12] @ drop 13 bs"
    using l by (simp add: drop_nth_step [of 8] drop_nth_step [of 9] drop_nth_step [of 10]
        drop_nth_step [of 11] drop_nth_step [of 12])
  then have "bs = take 8 bs @ [bs ! 8, bs ! 9, bs ! 10, bs ! 11, bs ! 12] @ drop 13 bs"
    by (metis append_take_drop_id)
  with l show ?thesis by (simp add: key_bytes_def key_of_bytes_def byte_at_def)
qed

lemma eckey_init_wf:
  "length (reserved k) = 19 \<Longrightarrow> key_wf (the (snd (eccx08_eckey_init config (Some k))))"
  by (simp add: eccx08_eckey_init_def key_wf_def)

lemma eckey_init_magic [simp]:
  "magic (the (snd (eccx08_eckey_init config (Some k)))) = atecc_magic"
  by (simp add: eccx08_eckey_init_def)

lemma store_fields_frame [simp]:
  "magic (store_fields got k) = magic k" "reserved (store_fields got k) = reserved k"
  by (induction got k rule: store_fields.induct) auto

lemma string_to_struct_wf:
  "length (reserved k) = 19 \<Longrightarrow>
   eccx08_eckey_string_to_struct config (Some k) (Some cs) pid = (r, Some k') \<Longrightarrow>
   key_wf k' \<and> magic k' = atecc_magic \<and> (r = ENGINE_OPENSSL_SUCCESS \<longrightarrow> password_id k' = pid)"
  using eckey_init_wf [of k config]
  by (auto simp: eccx08_eckey_string_to_struct_def key_wf_def Let_def split: if_splits)

text \<open>Scanning a printed key name.\<close>

lemma key_id_string_bytes:
  assumes "bt < 256" "bus < 256" "dev < 256" "slot < 256"
  shows "key_id_string bt bus dev slot =
    ''ATECCx08:'' @ fmt_02x bt @ '':'' @ fmt_02x bus @ '':'' @ fmt_02x dev @ '':'' @ fmt_02x slot"
  unfolding key_id_string_def using assms
  by (intro snprintf_fits) (simp add: length_fmt_02x_byte)

lemma sscanf_key_id_string:
  assumes "bt < 256" "bus < 256" "dev < 256" "slot < 256"
  shows "sscanf key_format (key_id_string bt bus dev slot) =
    [Out_uchar (of_nat bt), Out_uchar (of_nat bus), Out_uchar (of_nat dev), Out_uchar (of_nat slot)]"
proof -
  have "sscanf key_format (key_id_string bt bus dev slot) =
     sscanf [Hhx 2, Lit CHR '':'', Hhx 2, Lit CHR '':'', Hhx 2, Lit CHR '':'', Hhx 2]
       (fmt_02x bt @ '':'' @ fmt_02x bus @ '':'' @ fmt_02x dev @ '':'' @ fmt_02x slot)"
    unfolding key_format_def key_id_string_bytes [OF assms] by (rule sscanf_lits_match)
  then show ?thesis
    using sscanf_hhx_fmt [OF assms(4), where ds = "[]" and rest = "[]"]
    by (simp only: sscanf_hhx_fmt assms append_Cons append_Nil sscanf_lit sscanf.simps(1) append_Nil2)
qed

interpretation key_blob: codec key_bytes
  "\<lambda>bs. if length bs = 32 then Some (key_of_bytes bs) else None" key_wf
  by unfold_locales (simp add: key_of_bytes_key_bytes)

interpretation key_number: codec_pair key_bytes
  "\<lambda>bs. if length bs = 32 then Some (key_of_bytes bs) else None" key_wf
  be_val "\<lambda>v. if v < 256 ^ 32 then Some (be_pad 32 v) else None" "\<lambda>bs. length bs = 32"
proof unfold_locales
  fix bs :: bytes
  assume "length bs = 32"
  then show "(if be_val bs < 256 ^ 32 then Some (be_pad 32 (be_val bs)) else None) = Some bs"
    using be_val_less [of bs] be_pad_be_val [of bs 32] by simp
qed simp

text \<open>The number of a key: below \<open>256 ^ 32\<close>, and exactly 32 bytes long.\<close>

definition key_num :: "eccx08_engine_key_t \<Rightarrow> nat" where
  "key_num k = be_val (key_bytes k)"

lemma key_num_less: "key_wf k \<Longrightarrow> key_num k < 256 ^ 32"
  using be_val_less [of "key_bytes k"] by (simp add: key_num_def)

lemma be_pad_key_num: "key_wf k \<Longrightarrow> be_pad 32 (key_num k) = key_bytes k"
  by (simp add: key_num_def be_pad_be_val)

lemma be_len_magic:
  assumes "take 8 (be_pad 32 v) = atecc_magic" and "v < 256 ^ 32"
  shows "be_len v = 32" and "be_pad (be_len v) v = be_pad 32 v"
proof -
  have v: "be_val (be_pad 32 v) = v" using assms(2) by (rule be_val_be_pad)
  have "hd (be_pad 32 v) = hd (take 8 (be_pad 32 v))"
    by (metis hd_take zero_less_numeral)
  then have "hd (be_pad 32 v) \<noteq> 0" using assms(1) by simp
  moreover have "be_pad 32 v \<noteq> []" by (metis length_be_pad list.size(3) zero_neq_numeral)
  ultimately show "be_len v = 32" using be_len_be_val [of "be_pad 32 v"] v by simp
  then show "be_pad (be_len v) v = be_pad 32 v" by simp
qed

lemma be_len_key_num:
  assumes "key_wf k" and "magic k = atecc_magic"
  shows "be_len (key_num k) = 32"
proof (rule be_len_magic(1) [OF _ key_num_less [OF assms(1)]])
  show "take 8 (be_pad 32 (key_num k)) = atecc_magic"
    using assms by (simp add: be_pad_key_num key_bytes_def)
qed

section \<open>Keys held by OpenSSL\<close>

text \<open>
  \<open>holds_key E w ec k\<close>: in world \<open>w\<close> the EC key \<open>ec\<close> holds the number of the descriptor \<open>k\<close>
  as its private key.
\<close>

definition holds_key :: "'w env \<Rightarrow> 'w \<Rightarrow> ptr \<Rightarrow> eccx08_engine_key_t \<Rightarrow> bool" where
  "holds_key E w ec k \<longleftrightarrow> key_wf k \<and> magic k = atecc_magic
     \<and> (\<exists>p. ext_EC_KEY_get0_private_key E ec w = Some (p, key_num k))"

text \<open>Only numbers that do not fit 32 bytes lead the check astray.\<close>

definition key_fits :: "'w env \<Rightarrow> 'w \<Rightarrow> ptr \<Rightarrow> bool" where
  "key_fits E w ec \<longleftrightarrow>
     (\<forall>p v. ext_EC_KEY_get0_private_key E ec w = Some (p, v) \<longrightarrow> v < 256 ^ 32)"

lemma holds_key_fits: "holds_key E w ec k \<Longrightarrow> key_fits E w ec"
  using key_num_less unfolding holds_key_def key_fits_def by fastforce

lemma magic_number_key:
  assumes "v < 256 ^ 32" and "take 8 (be_pad 32 v) = atecc_magic"
  shows "key_wf (key_of_bytes (be_pad 32 v))" and "magic (key_of_bytes (be_pad 32 v)) = atecc_magic"
    and "key_num (key_of_bytes (be_pad 32 v)) = v"
  using assms
  by (simp_all add: key_wf_def key_num_def key_bytes_key_of_bytes be_val_be_pad)
     (simp_all add: key_of_bytes_def)

lemma isx08key_holds:
  assumes "bn_ok E" and "holds_key E (world s) ec k"
  shows "run_state (eccx08_eckey_isx08key E ec) s = ((ENGINE_OPENSSL_SUCCESS, Some (password_id k)), s)"
proof -
  obtain p where p: "ext_EC_KEY_get0_private_key E ec (world s) = Some (p, key_num k)"
    and k: "key_wf k" "magic k = atecc_magic"
    using assms(2) by (auto simp: holds_key_def)
  have "ext_BN_bn2binpad E (p, key_num k) 32 = (32, key_bytes k)"
    using assms(1) key_num_less [OF k(1)] by (simp add: bn_ok_def be_pad_key_num [OF k(1)])
  with p k show ?thesis
    by (simp add: eccx08_eckey_isx08key_def key_of_bytes_key_bytes) (simp add: key_bytes_def)
qed

lemma wp_isx08key:
  assumes no: "\<And>t. (bn_ok E \<and> key_fits E (world s) ec \<Longrightarrow> t = s) \<Longrightarrow>
      world t = world s \<Longrightarrow> trace t = trace s \<Longrightarrow> sess_same s t \<Longrightarrow> cfg_same s t
      \<Longrightarrow> Q (ENGINE_OPENSSL_FAILURE, None) t"
    and yes: "\<And>t pid. (bn_ok E \<and> key_fits E (world s) ec
         \<Longrightarrow> t = s \<and> (\<exists>k. holds_key E (world s) ec k \<and> password_id k = pid)) \<Longrightarrow>
      world t = world s \<Longrightarrow> trace t = trace s \<Longrightarrow> sess_same s t \<Longrightarrow> cfg_same s t
      \<Longrightarrow> Q (ENGINE_OPENSSL_SUCCESS, Some pid) t"
  shows "wp (eccx08_eckey_isx08key E ec) Q s"
proof (cases "ext_EC_KEY_get0_private_key E ec (world s)")
  case None
  then show ?thesis
    by (simp add: eccx08_eckey_isx08key_def no)
next
  case (Some b)
  obtain r out where bn: "ext_BN_bn2binpad E b 32 = (r, out)" by fastforce
  have fit: "r = 32 \<and> out = be_pad 32 (snd b) \<and> snd b < 256 ^ 32"
    if "bn_ok E" "key_fits E (world s) ec"
    using that bn Some by (cases b) (auto simp: bn_ok_def key_fits_def)
  have held: "holds_key E (world s) ec (key_of_bytes out)"
    if "bn_ok E" "key_fits E (world s) ec" "take 8 out = atecc_magic"
    using fit [OF that(1,2)] that(3) magic_number_key [of "snd b"] Some
    by (cases b) (auto simp: holds_key_def)
  show ?thesis
    using Some bn
    apply (simp add: eccx08_eckey_isx08key_def Let_def)
    apply (intro conjI impI; (rule no | rule yes))
    apply (use fit held in \<open>auto simp: frame_defs\<close>)
    done
qed

lemma get_iface_cfg_SomeD:
  "eccx08_get_iface_cfg E (Some i) (Some k) = (r, cfg) \<Longrightarrow> \<exists>c. cfg = Some c"
  by (cases "eccx08_get_iface_default E (unat (bus_type k))")
     (auto simp: eccx08_get_iface_cfg_def Let_def)

lemma wp_need_bytes:
  "(\<And>t. world t = world s \<Longrightarrow> trace t = trace s \<Longrightarrow> sess_same s t \<Longrightarrow> cfg_same s t
     \<Longrightarrow> (n \<le> length buf \<Longrightarrow> ub t = ub s) \<Longrightarrow> Q () t) \<Longrightarrow> wp (need_bytes buf n) Q s"
  by (auto simp: need_bytes_def frame_defs)

lemma session_frame:
  assumes "trace t = trace s" and "sess_same s t"
  shows "in_session t = in_session s" and "no_session t = no_session s"
  using assms by (auto simp: sess_defs)

text \<open>
  Opening the device of a key. With a descriptor in the key: no undefined behaviour, and on
  success the session runs on the bus and device the descriptor names, with its slot.
\<close>

lemma wp_init_from_keyinfo:
  assumes E: "mutex_ok E" and s: "no_session s"
    and ok: "\<And>t. in_session t \<Longrightarrow> cfg_same s t \<Longrightarrow> (12 \<le> length buf \<Longrightarrow> ub t = ub s) \<Longrightarrow>
       eccx08_get_iface_cfg E (Some zero_cfg) (Some (key_of_bytes buf)) = (ENGINE_OPENSSL_SUCCESS, ifacecfg t)
       \<Longrightarrow> Q (ATCA_SUCCESS, Some (slot_num (key_of_bytes buf))) t"
    and err: "\<And>st t. st \<noteq> ATCA_SUCCESS \<Longrightarrow> no_session t \<Longrightarrow> cfg_same s t \<Longrightarrow>
       (12 \<le> length buf \<Longrightarrow> ub t = ub s) \<Longrightarrow> Q (st, None) t"
  shows "wp (init_from_keyinfo E buf) Q s"
  unfolding init_from_keyinfo_def wp_bind
proof (rule wp_need_bytes)
  obtain r cfg where gi: "eccx08_get_iface_cfg E (Some zero_cfg) (Some (key_of_bytes buf)) = (r, cfg)"
    by fastforce
  obtain c where c: "cfg = Some c" using get_iface_cfg_SomeD [OF gi] by blast
  fix t1 assume t1: "trace t1 = trace s" "sess_same s t1" "cfg_same s t1"
    "(if byte_at buf 8 = 0 then 11 else 9) \<le> length buf \<Longrightarrow> ub t1 = ub s"
  have n1: "no_session t1" using session_frame [OF t1(1,2)] s by simp
  have u1: "12 \<le> length buf \<Longrightarrow> ub t1 = ub s" by (rule t1(4)) simp
  have r: "r = 0 \<or> r = 1" using gi by (auto simp: eccx08_get_iface_cfg_def Let_def split: option.splits)
  have "wp (do { st \<leftarrow> atcab_init_safe E (Some c); (if st \<noteq> ATCA_SUCCESS then ret (st, None)
      else do { need_bytes buf 12; ret (st, Some (slot_num (key_of_bytes buf))) }) }) Q t1" if "r = 1"
    unfolding wp_bind
  proof (rule wp_atcab_init_safe [OF E n1], goal_cases ok err)
    case (ok t)
    show ?case
    proof (simp, rule wp_need_bytes)
      fix t2 assume t2: "trace t2 = trace t" "sess_same t t2" "cfg_same t t2"
        "12 \<le> length buf \<Longrightarrow> ub t2 = ub t"
      show "Q (ATCA_SUCCESS, Some (slot_num (key_of_bytes buf))) t2"
        using session_frame [OF t2(1,2)] t1 t2 ok u1 gi c that
        by (intro assms(3)) (auto simp: keeps_def sess_same_def intro: cfg_same_trans)
    qed
  next
    case (err st t)
    then show ?case using t1 u1 by (auto simp: keeps_def intro!: assms(4) intro: cfg_same_trans)
  qed
  then show "wp (let (r, cfg) = eccx08_get_iface_cfg E (Some zero_cfg) (Some (key_of_bytes buf)) in
      if r = 0 then ret (ATCA_FUNC_FAIL, None)
      else do {
        status \<leftarrow> atcab_init_safe E cfg;
        (if status \<noteq> ATCA_SUCCESS then ret (status, None)
         else do { need_bytes buf 12; ret (status, Some (slot_num (key_of_bytes buf))) }) }) Q t1"
    using r n1 t1 u1 by (auto simp: gi c simp del: wp_bind intro!: err)
qed

lemma wp_init_from_privkey:
  assumes E: "mutex_ok E" and s: "no_session s"
    and ok: "\<And>t slot. in_session t \<Longrightarrow> cfg_same s t \<Longrightarrow>
       (\<And>k. bn_ok E \<Longrightarrow> holds_key E (world s) ec k \<Longrightarrow>
          ub t = ub s \<and> slot = slot_num k
          \<and> eccx08_get_iface_cfg E (Some zero_cfg) (Some k) = (ENGINE_OPENSSL_SUCCESS, ifacecfg t))
       \<Longrightarrow> Q (ATCA_SUCCESS, Some slot) t"
    and err: "\<And>st t. st \<noteq> ATCA_SUCCESS \<Longrightarrow> no_session t \<Longrightarrow> cfg_same s t \<Longrightarrow>
       (\<And>k. bn_ok E \<Longrightarrow> holds_key E (world s) ec k \<Longrightarrow> ub t = ub s) \<Longrightarrow> Q (st, None) t"
  shows "wp (atcab_init_from_privkey_safe E ec) Q s"
proof (cases "ext_EC_KEY_get0_private_key E ec (world s)")
  case None
  then show ?thesis
    by (simp add: atcab_init_from_privkey_safe_def err s)
next
  case (Some b)
  obtain r buf where bn: "ext_BN_bn2bin E b = (r, buf)" by fastforce
  have held: "r = 32 \<and> length buf = 32 \<and> key_of_bytes buf = k"
    if k: "bn_ok E" "holds_key E (world s) ec k" for k
    using k bn Some key_of_bytes_key_bytes [of k] length_key_bytes [of k]
    by (cases b) (auto simp: bn_ok_def holds_key_def be_len_key_num be_pad_key_num)
  show ?thesis
    unfolding atcab_init_from_privkey_safe_def wp_bind wp_gets Some option.case bn prod.case
  proof (rule wp_call_no_session [OF s], simp)
    fix a t1 assume t1: "no_session t1" "keeps s t1"
    have "wp (init_from_keyinfo E buf) Q t1"
      by (rule wp_init_from_keyinfo [OF E t1(1)])
        (use t1 held in \<open>auto simp: keeps_def intro!: ok err intro: cfg_same_trans\<close>)
    then show "wp (if \<not> a then ret (ATCA_FUNC_FAIL, None) else
       if r = 0 then ret (ATCA_FUNC_FAIL, None) else init_from_keyinfo E buf) Q t1"
      using t1 by (auto simp: keeps_def intro!: err)
  qed
qed

section \<open>Frames\<close>

lemma quiet_isx08key: "keeping quiet (eccx08_eckey_isx08key E ec)"
  unfolding eccx08_eckey_isx08key_def by (intro quiet.keep quiet_basic)

lemma cfg_isx08key: "keeping cfg_same (eccx08_eckey_isx08key E ec)"
  unfolding eccx08_eckey_isx08key_def by (intro cfg.keep cfg_basic)

lemma cfg_init_from_privkey: "keeping cfg_same (atcab_init_from_privkey_safe E ec)"
  unfolding atcab_init_from_privkey_safe_def init_from_keyinfo_def need_bytes_def
  by (intro cfg.keep cfg_sess)

lemma adds_isx08key: "keeping (adds P) (eccx08_eckey_isx08key E ec)"
  unfolding eccx08_eckey_isx08key_def by (intro adds.keep adds_flag_ub)

lemma adds_init_from_privkey: "keeping (adds session_ev) (atcab_init_from_privkey_safe E ec)"
  unfolding atcab_init_from_privkey_safe_def init_from_keyinfo_def need_bytes_def
  by (intro adds.keep adds_basic adds_sess) auto

end
