(* ===== verification/Auth.thy ===== *)
theory Auth
  imports Keys
begin

text \<open>
  \<^verbatim>\<open>eccx08_auth.c\<close>: passwords given with a key. A password string \<^verbatim>\<open><slot>:<password>\<close> from the
  application's callback data is parsed and stored in a table of four; before a key with a
  password is used, the chip is asked to check a MAC computed from it.
\<close>

section \<open>The operations\<close>

abbreviation (input) PASSWD_SALT :: string where "PASSWD_SALT \<equiv> ''atecc-salt123''"
abbreviation (input) MAX_PASSWORDS :: nat where "MAX_PASSWORDS \<equiv> 4"
abbreviation (input) NOPASSWD_ID :: byte where "NOPASSWD_ID \<equiv> 255"
abbreviation (input) NONCE_NUMIN_SIZE :: nat where "NONCE_NUMIN_SIZE \<equiv> 20"

text \<open>
  The buffer holds \<^verbatim>\<open>MAX_PASSWD_LEN + sizeof (PASSWD_SALT) + 2\<close> bytes, the terminating NUL of
  the salt included in \<^verbatim>\<open>sizeof\<close>; the two \<^verbatim>\<open>strcpy\<close> calls write password, salt and NUL.
\<close>

definition make_key_from_password :: "'w env \<Rightarrow> string \<Rightarrow> ('w, int \<times> bytes) prog" where
  "make_key_from_password E passwd = do {
     (if MAX_PASSWD_LEN + (length PASSWD_SALT + 1) + 2 < length passwd + length PASSWD_SALT + 1
      then flag_ub Buffer_overflow else skip);
     (r, key) \<leftarrow> atcac_sw_sha2_256 E (string_bytes (passwd @ PASSWD_SALT));
     (if r \<noteq> 0 then ret (0, key) else ret (1, key))
   }"

definition do_atecc_auth :: "'w env \<Rightarrow> string \<Rightarrow> byte \<Rightarrow> ('w, status) prog" where
  "do_atecc_auth E passwd slot_id = do {
     (ok, key) \<leftarrow> make_key_from_password E passwd;
     (if ok = 0 then ret 0
      else do {
        (status, sn) \<leftarrow> atcab_read_serial_number E;
        (if status \<noteq> ATCA_SUCCESS then ret status
         else do {
           (status, rand_out) \<leftarrow> atcab_nonce_rand E (replicate NONCE_NUMIN_SIZE 0);
           (if status \<noteq> ATCA_SUCCESS then ret status
            else do {
              (status, temp_key) \<leftarrow> atcah_nonce E (replicate NONCE_NUMIN_SIZE 0) rand_out;
              (if status \<noteq> ATCA_SUCCESS then ret status
               else do {
                 (status, resp) \<leftarrow> atcah_check_mac E slot_id sn key temp_key (replicate 12 0);
                 (if status \<noteq> ATCA_SUCCESS then ret status
                  else atcab_checkmac E slot_id resp (replicate 12 0))
               })
            })
         })
      })
   }"

text \<open>The format \<^verbatim>\<open>%02hu:%s\<close>; what \<^verbatim>\<open>sscanf\<close> stores into the structure, and the count test.\<close>

definition passwd_format :: "directive list" where
  "passwd_format = [Hu 2, Lit CHR '':'', Str]"

fun store_passwd :: "scanned list \<Rightarrow> eccx08_engine_key_password_t \<Rightarrow> int \<times> eccx08_engine_key_password_t" where
  "store_passwd [Out_ushort n] p = (0, p\<lparr>auth_slot := n\<rparr>)"
| "store_passwd [Out_ushort n, Out_str cs] p = (1, p\<lparr>auth_slot := n, password := cs\<rparr>)"
| "store_passwd _ p = (0, p)"

text \<open>
  \<open>callback_data\<close> is a pointer to a pointer to the string, either of them possibly null. The
  member \<^verbatim>\<open>password\<close> has room for 257 characters and the NUL; \<^verbatim>\<open>%s\<close> has no width.
\<close>

definition eccx08_cbdata_to_password ::
  "string option option \<Rightarrow> eccx08_engine_key_password_t
   \<Rightarrow> ('w, int \<times> eccx08_engine_key_password_t) prog" where
  "eccx08_cbdata_to_password callback_data p =
     (case callback_data of
        None \<Rightarrow> ret (0, p)
      | Some None \<Rightarrow> ret (0, p)
      | Some (Some cb_pass) \<Rightarrow>
          (let (r, q) = store_passwd (sscanf passwd_format cb_pass) p in do {
             (if r = 1 \<and> MAX_PASSWD_LEN + 2 \<le> length (password q) then flag_ub Buffer_overflow else skip);
             ret (r, q)
           }))"

definition eccx08_auth_password ::
  "'w env \<Rightarrow> eccx08_engine_key_password_t option \<Rightarrow> ('w, status) prog" where
  "eccx08_auth_password E p =
     (case p of
        Some q \<Rightarrow> do_atecc_auth E (password q) (ucast (auth_slot q))
      | None \<Rightarrow> do { flag_ub Null_deref; ret ATCA_GEN_FAIL })"

text \<open>Pointers into the table are indices.\<close>

definition eccx08_get_password :: "byte \<Rightarrow> nat option" where
  "eccx08_get_password i = (if MAX_PASSWORDS \<le> unat i then None else Some (unat i))"

definition eccx08_make_password :: "('w, byte) prog" where
  "eccx08_make_password = do {
     s \<leftarrow> getS;
     (if unat (current_id s) < MAX_PASSWORDS then do {
        modify (\<lambda>s. s\<lparr>current_id := current_id s + 1\<rparr>);
        ret (current_id s)
      } else ret (current_id s))
   }"

definition eccx08_release_password :: "('w, unit) prog" where
  "eccx08_release_password = do {
     s \<leftarrow> getS;
     (if 0 < current_id s then modify (\<lambda>s. s\<lparr>current_id := current_id s - 1\<rparr>) else skip)
   }"

text \<open>The \<^verbatim>\<open>memcpy\<close> into the table (\<^verbatim>\<open>eccx08_eckey_meth.c\<close>, lines 635-637 and 653-655).\<close>

definition copy_password :: "nat option \<Rightarrow> eccx08_engine_key_password_t \<Rightarrow> ('w, unit) prog" where
  "copy_password passwd tmp =
     (case passwd of
        Some i \<Rightarrow> modify (\<lambda>s. s\<lparr>passwords := (passwords s)[i := tmp]\<rparr>)
      | None \<Rightarrow> flag_ub Null_deref)"

definition save_password :: "eccx08_engine_key_password_t \<Rightarrow> ('w, byte) prog" where
  "save_password tmp = do {
     passwd_id \<leftarrow> eccx08_make_password;
     copy_password (eccx08_get_password passwd_id) tmp;
     ret passwd_id
   }"

text \<open>
  Authorisation inside an open session, which is closed when it fails
  (\<^verbatim>\<open>eccx08_eckey_meth.c\<close>, lines 532-543; \<^verbatim>\<open>eccx08_ecdsa_sign.c\<close>, lines 121-132).
\<close>

definition authorize :: "'w env \<Rightarrow> byte \<Rightarrow> ('w, status) prog" where
  "authorize E passwd_id =
     (if passwd_id \<noteq> NOPASSWD_ID then do {
        p \<leftarrow> gets (\<lambda>s. map_option (\<lambda>i. passwords s ! i) (eccx08_get_password passwd_id));
        status \<leftarrow> eccx08_auth_password E p;
        (if status \<noteq> ATCA_SUCCESS then do {
           _ \<leftarrow> atcab_release_safe E;
           ret status
         } else ret status)
      } else ret ATCA_SUCCESS)"

section \<open>The password table\<close>

definition blank_password :: eccx08_engine_key_password_t where
  "blank_password = \<lparr>auth_slot = 0, password = ''''\<rparr>"

definition passwords_wf :: "'w eng \<Rightarrow> bool" where
  "passwords_wf s \<longleftrightarrow> length (passwords s) = MAX_PASSWORDS \<and> unat (current_id s) \<le> MAX_PASSWORDS
     \<and> (\<forall>p \<in> set (passwords s). length (password p) < MAX_PASSWD_LEN + 2)"

text \<open>An identifier that names an entry, or no password.\<close>

definition pid_ok :: "byte \<Rightarrow> bool" where
  "pid_ok i \<longleftrightarrow> i = NOPASSWD_ID \<or> unat i < MAX_PASSWORDS"

lemma passwords_wf_same: "cfg_same s t \<Longrightarrow> passwords_wf s \<Longrightarrow> passwords_wf t"
  by (simp add: passwords_wf_def cfg_same_def)

lemma unat_add_one_less:
  fixes i :: byte
  assumes "unat i < 255"
  shows "unat (i + 1) = unat i + 1"
  using assms by (simp add: unat_word_ariths)

text \<open>Filling the table: the first four passwords find a place, the fifth does not.\<close>

lemma wp_save_password:
  assumes "passwords_wf s" and "length (password p) < MAX_PASSWD_LEN + 2"
    and room: "\<And>t. unat (current_id s) < MAX_PASSWORDS \<Longrightarrow>
      t = s\<lparr>current_id := current_id s + 1, passwords := (passwords s)[unat (current_id s) := p]\<rparr> \<Longrightarrow>
      passwords_wf t \<Longrightarrow> Q (current_id s) t"
    and full: "\<And>t. current_id s = 4 \<Longrightarrow> t = (if ub s = None then s\<lparr>ub := Some Null_deref\<rparr> else s) \<Longrightarrow>
      Q (current_id s) t"
  shows "wp (save_password p) Q s"
proof (cases "unat (current_id s) < 4")
  case True
  let ?t = "s\<lparr>current_id := current_id s + 1, passwords := (passwords s)[unat (current_id s) := p]\<rparr>"
  have "passwords_wf ?t"
    using True assms(1,2) unat_add_one_less [of "current_id s"]
    by (auto simp: passwords_wf_def dest!: set_update_subset_insert [THEN subsetD])
  from room [OF True refl this] True show ?thesis
    by (simp add: save_password_def eccx08_make_password_def eccx08_get_password_def copy_password_def)
next
  case False
  with assms(1) have "unat (current_id s) = 4" by (simp add: passwords_wf_def)
  then have "current_id s = 4" by (simp add: word_unat_eq_iff)
  from full [OF this refl] False show ?thesis
    by (simp add: save_password_def eccx08_make_password_def eccx08_get_password_def copy_password_def)
qed

section \<open>Authorisation in a session\<close>

text \<open>
  The events of a successful exchange, newest first. When the hash of the password fails,
  the exchange is skipped and reported as a success.
\<close>

definition auth_events :: "byte \<Rightarrow> ev list" where
  "auth_events slot = [Dev_cmd (Checkmac slot) ATCA_SUCCESS, Dev_cmd Nonce_rand ATCA_SUCCESS,
     Dev_cmd Read_serial ATCA_SUCCESS]"

definition hash_fails :: "'w env \<Rightarrow> string \<Rightarrow> 'w \<Rightarrow> bool" where
  "hash_fails E passwd w \<longleftrightarrow> fst (fst (ext_atcac_sw_sha2_256 E (string_bytes (passwd @ PASSWD_SALT)) w)) \<noteq> 0"

lemma wp_do_atecc_auth:
  assumes "in_session s"
    and "\<And>st t. in_session t \<Longrightarrow> ifacecfg t = ifacecfg s \<Longrightarrow> cfg_same s t \<Longrightarrow>
      (length passwd < MAX_PASSWD_LEN + 2 \<Longrightarrow> ub t = ub s) \<Longrightarrow>
      (st = ATCA_SUCCESS \<Longrightarrow>
         trace t = (if hash_fails E passwd (world s) then [] else auth_events slot) @ trace s)
      \<Longrightarrow> Q st t"
  shows "wp (do_atecc_auth E passwd slot) Q s"
  using assms(1)
  apply (simp add: do_atecc_auth_def make_key_from_password_def wp_call_eq split: prod.splits)
  apply (intro conjI allI impI; rule assms(2))
  apply (auto simp: sess_defs hash_fails_def auth_events_def)
  done

definition authorized :: "'w env \<Rightarrow> byte \<Rightarrow> 'w eng \<Rightarrow> 'w eng \<Rightarrow> bool" where
  "authorized E pid s t \<longleftrightarrow>
     (case eccx08_get_password pid of
        None \<Rightarrow> pid = NOPASSWD_ID \<and> trace t = trace s
      | Some i \<Rightarrow> trace t = (if hash_fails E (password (passwords s ! i)) (world s) then []
                            else auth_events (ucast (auth_slot (passwords s ! i)))) @ trace s)"

lemma pid_ok_get_password:
  "pid_ok pid \<Longrightarrow> pid \<noteq> NOPASSWD_ID \<Longrightarrow> eccx08_get_password pid = Some (unat pid) \<and> unat pid < 4"
  by (simp add: pid_ok_def eccx08_get_password_def)

lemma wp_authorize:
  assumes s: "in_session s"
    and ok: "\<And>t. in_session t \<Longrightarrow> ifacecfg t = ifacecfg s \<Longrightarrow> cfg_same s t \<Longrightarrow>
      (passwords_wf s \<Longrightarrow> pid_ok pid \<Longrightarrow> ub t = ub s) \<Longrightarrow> authorized E pid s t \<Longrightarrow> Q ATCA_SUCCESS t"
    and err: "\<And>st t. st \<noteq> ATCA_SUCCESS \<Longrightarrow> no_session t \<Longrightarrow> cfg_same s t \<Longrightarrow>
      (passwords_wf s \<Longrightarrow> pid_ok pid \<Longrightarrow> ub t = ub s) \<Longrightarrow> Q st t"
  shows "wp (authorize E pid) Q s"
proof (cases "pid = NOPASSWD_ID")
  case True
  then show ?thesis
    by (simp add: authorize_def, intro ok) (simp_all add: s authorized_def eccx08_get_password_def)
next
  case pid: False
  have shut: "wp (atcab_release_safe E) (\<lambda>_. Q st) t"
    if "st \<noteq> ATCA_SUCCESS" "in_session t" "cfg_same s t"
      "passwords_wf s \<Longrightarrow> pid_ok pid \<Longrightarrow> ub t = ub s" for st t
    by (rule wp_atcab_release_safe [OF that(2)])
      (use that in \<open>auto simp: keeps_def intro!: err intro: cfg_same_trans\<close>)
  show ?thesis
  proof (cases "eccx08_get_password pid")
    case None
    then have "\<not> pid_ok pid" using pid_ok_get_password [of pid] pid by auto
    with None pid s show ?thesis
      by (auto simp: authorize_def eccx08_auth_password_def cfg_same_def intro!: shut)
  next
    case (Some i)
    let ?p = "passwords s ! i"
    have len: "length (password ?p) < MAX_PASSWD_LEN + 2" if "passwords_wf s" "pid_ok pid"
      using that Some pid pid_ok_get_password [of pid] by (auto simp: passwords_wf_def)
    have "wp (do { st \<leftarrow> do_atecc_auth E (password ?p) (ucast (auth_slot ?p));
       (if st \<noteq> ATCA_SUCCESS then do { _ \<leftarrow> atcab_release_safe E; ret st } else ret st) }) Q s"
      unfolding wp_bind
    proof (rule wp_do_atecc_auth [OF s], goal_cases)
      case (1 st t)
      show ?case
      proof (cases "st = ATCA_SUCCESS")
        case True
        with 1 len Some show ?thesis by (auto simp: authorized_def intro!: ok)
      next
        case False
        with 1 len show ?thesis by (auto intro!: shut)
      qed
    qed
    with Some pid show ?thesis by (simp add: authorize_def eccx08_auth_password_def)
  qed
qed

section \<open>Reading a password string\<close>

lemma digit_val_dec_all:
  "\<forall>d \<in> {0,1,2,3,4,5,6,7,8,9 :: nat}. digit_val 10 (hexchar d) = Some d"
  by (simp add: digit_val_def hexchar_def Let_def)

lemma digit_val_dec [simp]: "d < 10 \<Longrightarrow> digit_val 10 (hexchar d) = Some d"
proof -
  assume "d < 10"
  then have "d \<in> {0,1,2,3,4,5,6,7,8,9}" unfolding insert_iff empty_iff by presburger
  from bspec [OF digit_val_dec_all this] show ?thesis .
qed

definition dec2 :: "nat \<Rightarrow> string" where
  "dec2 n = [hexchar (n div 10), hexchar (n mod 10)]"

lemma scan_dec2:
  assumes "n < 100"
  shows "scan_directive (Hu 2) (dec2 n @ rest) = Some ([Out_ushort (of_nat n)], rest)"
proof -
  have d: "n div 10 < 10" "n mod 10 < 10" using assms by auto
  have "scan_unsigned 10 2 (dec2 n @ rest) = Some (n, rest)"
    using d by (simp add: dec2_def scan_unsigned_def numeral_2_eq_2)
  then have "scan_int 10 2 (dec2 n @ rest) = Some (int n, rest)"
    using d by (simp add: dec2_def scan_int_def)
  then show ?thesis by simp
qed

lemma scan_Str:
  assumes "cs \<noteq> []" and "\<forall>c \<in> set cs. \<not> isspace c"
  shows "scan_directive Str cs = Some ([Out_str cs], [])"
proof -
  have "dropWhile isspace cs = cs" using assms by (cases cs) auto
  moreover have "takeWhile (\<lambda>c. \<not> isspace c) cs = cs" "dropWhile (\<lambda>c. \<not> isspace c) cs = []"
    using assms(2) by (simp_all add: takeWhile_eq_all_conv dropWhile_eq_Nil_conv)
  ultimately show ?thesis using assms(1) by (cases cs) auto
qed

lemma sscanf_passwd:
  assumes "n < 100" and "cs \<noteq> []" and "\<forall>c \<in> set cs. \<not> isspace c"
  shows "sscanf passwd_format (dec2 n @ CHR '':'' # cs) = [Out_ushort (of_nat n), Out_str cs]"
  unfolding passwd_format_def
  by (simp add: scan_dec2 [OF assms(1)] scan_Str [OF assms(2,3)] del: scan_directive.simps(2-4))

section \<open>Frames\<close>

lemma cfg_do_atecc_auth: "keeping cfg_same (do_atecc_auth E passwd slot)"
  unfolding do_atecc_auth_def make_key_from_password_def by (intro cfg.keep cfg_sess)

lemma cfg_authorize: "keeping cfg_same (authorize E pid)"
  unfolding authorize_def eccx08_auth_password_def by (intro cfg.keep cfg_sess cfg_do_atecc_auth)

lemma quiet_cbdata: "keeping quiet (eccx08_cbdata_to_password cb p)"
  unfolding eccx08_cbdata_to_password_def by (intro quiet.keep quiet_basic)

lemma quiet_save_password: "keeping quiet (save_password p)"
  unfolding save_password_def eccx08_make_password_def copy_password_def
  by (intro quiet.keep quiet_basic) (simp_all add: keeping_def quiet_def sess_same_def)

definition auth_ev :: "byte \<Rightarrow> ev \<Rightarrow> bool" where
  "auth_ev slot e \<longleftrightarrow> session_ev e \<or> (\<exists>st. e \<in> {Dev_cmd Read_serial st, Dev_cmd Nonce_rand st,
     Dev_cmd (Checkmac slot) st})"

lemma auth_ev_ref_silent: "auth_ev slot e \<Longrightarrow> ref_silent e"
  by (auto simp: auth_ev_def session_ev_ref_silent)

lemma adds_do_atecc_auth: "keeping (adds (auth_ev slot)) (do_atecc_auth E passwd slot)"
  unfolding do_atecc_auth_def make_key_from_password_def
  by (intro adds.keep adds_basic) (auto simp: auth_ev_def)

lemma refs_authorize: "keeping refs_same (authorize E pid)"
proof (rule keeping_refs_same)
  have "keeping (adds ref_silent) (do_atecc_auth E passwd slot)" for passwd slot
    by (rule keeping_adds_weaken [OF adds_do_atecc_auth]) (rule auth_ev_ref_silent)
  moreover have "keeping (adds ref_silent) (atcab_release_safe E)"
    by (rule keeping_adds_weaken [OF adds_release_safe]) (rule session_ev_ref_silent)
  ultimately show "keeping (adds ref_silent) (authorize E pid)"
    unfolding authorize_def eccx08_auth_password_def by (intro adds.keep adds_flag_ub)
qed

text \<open>The commands an authorisation may issue: those of its entry in the password table.\<close>

definition auth_cmds :: "'w eng \<Rightarrow> byte \<Rightarrow> chip_cmd set" where
  "auth_cmds s pid = (case eccx08_get_password pid of None \<Rightarrow> {}
     | Some i \<Rightarrow> {Read_serial, Nonce_rand, Checkmac (ucast (auth_slot (passwords s ! i)))})"

lemma auth_cmds_same: "cfg_same s t \<Longrightarrow> auth_cmds t pid = auth_cmds s pid"
  by (simp add: auth_cmds_def cfg_same_def split: option.splits)

lemma wp_authorize_cmds: "wp (authorize E pid) (\<lambda>_ t. adds (cmd_in (auth_cmds s pid)) s t) s"
proof -
  have rel: "keeping (adds (cmd_in (auth_cmds s pid))) (atcab_release_safe E)"
    by (rule keeping_adds_weaken [OF adds_release_safe]) (rule session_ev_cmd_in)
  have "keeping (adds (cmd_in (auth_cmds s pid)))
      (do_atecc_auth E (password (passwords s ! i)) (ucast (auth_slot (passwords s ! i))))"
    if "eccx08_get_password pid = Some i" for i
    by (rule keeping_adds_weaken [OF adds_do_atecc_auth])
      (use that in \<open>auto simp: auth_ev_def auth_cmds_def session_ev_cmd_in\<close>)
  then have auth: "keeping (adds (cmd_in (auth_cmds s pid)))
      (eccx08_auth_password E (map_option ((!) (passwords s)) (eccx08_get_password pid)))"
    unfolding eccx08_auth_password_def
    by (cases "eccx08_get_password pid") (auto intro: adds.keep adds_flag_ub)
  have "keeping (adds (cmd_in (auth_cmds s pid))) (do {
      status \<leftarrow> eccx08_auth_password E (map_option ((!) (passwords s)) (eccx08_get_password pid));
      (if status \<noteq> ATCA_SUCCESS then do { _ \<leftarrow> atcab_release_safe E; ret status } else ret status) })"
    by (intro adds.keep auth rel)
  from keepingD [OF this, of s] show ?thesis
    by (auto simp: authorize_def)
qed

end
