(* ===== verification/Eckey.thy ===== *)
theory Eckey
  imports Auth
begin

text \<open>
  \<^verbatim>\<open>eccx08_eckey_meth.c\<close>: making and loading the keys of the chip, and the hooks of
  OpenSSL's public-key methods (context initialisation, key generation, signing,
  derivation). \<^verbatim>\<open>ATCA_OPENSSL_OLD_API\<close> is off.
\<close>

section \<open>A new key\<close>

abbreviation (input) POINT_CONVERSION_UNCOMPRESSED :: byte where "POINT_CONVERSION_UNCOMPRESSED \<equiv> 4"

text \<open>Lines 190-266, the key structure being filled in; each \<^verbatim>\<open>break\<close> is a failure.\<close>

definition fill_new_key :: "'w env \<Rightarrow> ptr \<Rightarrow> ptr \<Rightarrow> eccx08_engine_key_t \<Rightarrow> ('w, int) prog" where
  "fill_new_key E e pkey key_info = do {
     eckey \<leftarrow> EC_KEY_new_method E e;
     (if eckey = NULL then ret ENGINE_OPENSSL_FAILURE
      else do {
        group \<leftarrow> EC_GROUP_new_by_curve_name E;
        (if group = NULL then ret ENGINE_OPENSSL_FAILURE
         else do {
           EC_GROUP_set_point_conversion_form E group POINT_CONVERSION_UNCOMPRESSED;
           EC_GROUP_set_asn1_flag E group;
           _ \<leftarrow> EC_KEY_set_group E eckey group;
           EC_GROUP_free E group;
           assigned \<leftarrow> EVP_PKEY_assign_EC_KEY E pkey eckey;
           (if assigned = 0 then do {
              EC_KEY_free E eckey;
              ret ENGINE_OPENSSL_FAILURE
            } else do {
              bn \<leftarrow> BN_bin2bn E (key_bytes key_info);
              (case bn of
                 None \<Rightarrow> ret ENGINE_OPENSSL_FAILURE
               | Some b \<Rightarrow> do {
                   stored \<leftarrow> EC_KEY_set_private_key E eckey b;
                   BN_free E b;
                   (if stored = 0 then ret ENGINE_OPENSSL_FAILURE
                    else do {
                      m \<leftarrow> gets eccx08_ec;
                      done_set \<leftarrow> EC_KEY_set_method E eckey m;
                      (if done_set = 0 then ret ENGINE_OPENSSL_FAILURE
                       else ret ENGINE_OPENSSL_SUCCESS)
                    })
                 })
            })
         })
      })
   }"

text \<open>
  Lines 173-188: \<^verbatim>\<open>key_info\<close> is an uninitialised local; of its content only what is not
  overwritten survives.
\<close>

definition new_key_info ::
  "eccx08_engine_config_t \<Rightarrow> bytes \<Rightarrow> string option \<Rightarrow> byte \<Rightarrow> int \<times> eccx08_engine_key_t" where
  "new_key_info config junk key_id passwd_id =
     (let (r, k) = (case key_id of
            Some cs \<Rightarrow> eccx08_eckey_string_to_struct config (Some (key_of_bytes junk)) (Some cs) passwd_id
          | None \<Rightarrow> eccx08_eckey_init config (Some (key_of_bytes junk)))
      in (r, the k))"

lemma new_key_info_named:
  assumes "bt < 256" and "bus < 256" and "dev < 256" and "slot < 256"
  shows "new_key_info config junk (Some (key_id_string bt bus dev slot)) pid =
    (1, \<lparr>magic = atecc_magic, bus_type = of_nat bt, bus_num = of_nat bus, device_num = of_nat dev,
       slot_num = of_nat slot, password_id = pid, reserved = drop 13 junk\<rparr>)"
  by (simp add: new_key_info_def eccx08_eckey_string_to_struct_def eccx08_eckey_init_def
      sscanf_key_id_string [OF assms] key_of_bytes_def)

definition eccx08_eckey_new_key :: "'w env \<Rightarrow> ptr \<Rightarrow> string option \<Rightarrow> byte \<Rightarrow> ('w, ptr) prog" where
  "eccx08_eckey_new_key E e key_id passwd_id = do {
     pkey \<leftarrow> EVP_PKEY_new E;
     (if pkey = NULL then ret NULL
      else do {
        config \<leftarrow> gets eccx08_engine_config;
        junk \<leftarrow> stack_bytes E 32;
        r \<leftarrow> (case new_key_info config junk key_id passwd_id of (parsed, key_info) \<Rightarrow>
               if parsed = 0 then ret ENGINE_OPENSSL_FAILURE
               else fill_new_key E e pkey key_info);
        (if r = ENGINE_OPENSSL_FAILURE then EVP_PKEY_free E pkey else skip);
        ret pkey
      })
   }"

section \<open>Is it a key of the engine?\<close>

definition eccx08_pkey_isx08key :: "'w env \<Rightarrow> ptr \<Rightarrow> ('w, int \<times> byte option) prog" where
  "eccx08_pkey_isx08key E pkey =
     (if pkey = NULL then ret (ENGINE_OPENSSL_FAILURE, None)
      else do {
        ec_key \<leftarrow> EVP_PKEY_get1_EC_KEY E pkey;
        (if ec_key = NULL then ret (ENGINE_OPENSSL_FAILURE, None)
         else do {
           r \<leftarrow> eccx08_eckey_isx08key E ec_key;
           EC_KEY_free E ec_key;
           ret r
         })
      })"

section \<open>The public key\<close>

text \<open>Lines 422-453: the group of the key, or a new one put into it; \<^verbatim>\<open>NULL\<close> is a \<^verbatim>\<open>break\<close>.\<close>

definition ensure_group :: "'w env \<Rightarrow> ptr \<Rightarrow> ('w, ptr) prog" where
  "ensure_group E pEcKey = do {
     group \<leftarrow> EC_KEY_get0_group E pEcKey;
     (if group \<noteq> NULL then ret group
      else do {
        newgroup \<leftarrow> EC_GROUP_new_by_curve_name E;
        (if newgroup = NULL then ret NULL
         else do {
           EC_GROUP_set_point_conversion_form E newgroup POINT_CONVERSION_UNCOMPRESSED;
           EC_GROUP_set_asn1_flag E newgroup;
           r \<leftarrow> EC_KEY_set_group E pEcKey newgroup;
           (if r = 0 then ret NULL
            else do {
              EC_GROUP_free E newgroup;
              EC_KEY_get0_group E pEcKey
            })
         })
      })
   }"

definition eccx08_eckey_convert :: "'w env \<Rightarrow> ptr \<Rightarrow> bytes option \<Rightarrow> nat \<Rightarrow> ('w, int) prog" where
  "eccx08_eckey_convert E pEcKey pPubKeyRaw pubkeylen =
     (case pPubKeyRaw of
        None \<Rightarrow> ret ENGINE_OPENSSL_FAILURE
      | Some raw \<Rightarrow>
          if pEcKey = NULL then ret ENGINE_OPENSSL_FAILURE
          else if byte_at raw 0 \<noteq> POINT_CONVERSION_UNCOMPRESSED \<or> pubkeylen \<noteq> ATCA_BLOCK_SIZE * 2 + 1
          then ret ENGINE_OPENSSL_FAILURE
          else do {
            group \<leftarrow> ensure_group E pEcKey;
            (if group = NULL then ret ENGINE_OPENSSL_FAILURE
             else do {
               point \<leftarrow> EC_POINT_new E group;
               r \<leftarrow> EC_POINT_oct2point E group point raw;
               (if r \<noteq> 0 then do { _ \<leftarrow> EC_KEY_set_public_key E pEcKey point; skip } else skip);
               (if point \<noteq> NULL then EC_POINT_free E point else skip);
               ret (if r \<noteq> 0 then ENGINE_OPENSSL_SUCCESS else ENGINE_OPENSSL_FAILURE)
             })
          })"

text \<open>Lines 545-558: read the public key, cure a latched health test and retry once.\<close>

definition get_pubkey_retry :: "'w env \<Rightarrow> byte \<Rightarrow> ('w, status \<times> bytes) prog" where
  "get_pubkey_retry E slot = do {
     r \<leftarrow> atcab_get_pubkey E slot;
     (if fst r = ATCA_HEALTH_TEST_ERROR then do {
        _ \<leftarrow> atcab_wakeup E;
        _ \<leftarrow> atcab_sleep E;
        atcab_get_pubkey E slot
      } else ret r)
   }"

text \<open>Lines 545-588: fetch the public key of the slot, close the session, then convert.\<close>

definition fetch_pubkey :: "'w env \<Rightarrow> ptr \<Rightarrow> byte \<Rightarrow> ('w, status) prog" where
  "fetch_pubkey E eckey slot = do {
     (status, raw_pubkey) \<leftarrow> get_pubkey_retry E slot;
     rel_status \<leftarrow> atcab_release_safe E;
     (if status \<noteq> ATCA_SUCCESS then do {
        eccx08_raise_session_error E ''load pubkey'' status;
        ret status
      } else do {
        r \<leftarrow> eccx08_eckey_convert E eckey (Some (POINT_CONVERSION_UNCOMPRESSED # raw_pubkey))
               (ATCA_BLOCK_SIZE * 2 + 1);
        ret (if r = 0 then ATCA_GEN_FAIL else status)
      })
   }"

text \<open>Lines 524-588, the device part of loading; the result is \<^verbatim>\<open>status\<close> at the loop's exit.\<close>

definition read_pubkey :: "'w env \<Rightarrow> ptr \<Rightarrow> byte \<Rightarrow> ('w, status) prog" where
  "read_pubkey E eckey passwd_id = do {
     (status, slot) \<leftarrow> atcab_init_from_privkey_safe E eckey;
     (if status \<noteq> ATCA_SUCCESS then ret status
      else do {
        status \<leftarrow> authorize E passwd_id;
        (if status \<noteq> ATCA_SUCCESS then ret status
         else fetch_pubkey E eckey (case slot of Some n \<Rightarrow> n | None \<Rightarrow> 255))
      })
   }"

definition eccx08_load_pubkey_internal ::
  "'w env \<Rightarrow> ptr \<Rightarrow> ptr \<Rightarrow> string option \<Rightarrow> byte \<Rightarrow> ('w, ptr) prog" where
  "eccx08_load_pubkey_internal E e pkey0 key_id passwd_id = do {
     pkey \<leftarrow> (if pkey0 = NULL then eccx08_eckey_new_key E e key_id passwd_id else ret pkey0);
     (if pkey = NULL then ret NULL
      else do {
        eckey \<leftarrow> EVP_PKEY_get1_EC_KEY E pkey;
        status \<leftarrow> (if eckey = NULL then ret ATCA_GEN_FAIL else read_pubkey E eckey passwd_id);
        (if eckey \<noteq> NULL then EC_KEY_free E eckey else skip);
        (if status \<noteq> ATCA_SUCCESS then do {
           (if pkey0 = NULL then EVP_PKEY_free E pkey else skip);
           ret NULL
         } else ret pkey)
      })
   }"

text \<open>The functions behind \<^verbatim>\<open>ENGINE_load_public_key\<close> and \<^verbatim>\<open>ENGINE_load_private_key\<close>.\<close>

definition eccx08_load_pubkey ::
  "'w env \<Rightarrow> ptr \<Rightarrow> string option \<Rightarrow> string option option \<Rightarrow> ('w, ptr) prog" where
  "eccx08_load_pubkey E e key_id callback_data = do {
     (r, tmp_passwd) \<leftarrow> eccx08_cbdata_to_password callback_data blank_password;
     (if r \<noteq> 0 then do {
        passwd_id \<leftarrow> save_password tmp_passwd;
        eccx08_load_pubkey_internal E e NULL key_id passwd_id
      } else eccx08_load_pubkey_internal E e NULL key_id NOPASSWD_ID)
   }"

definition eccx08_load_privkey ::
  "'w env \<Rightarrow> ptr \<Rightarrow> string option \<Rightarrow> string option option \<Rightarrow> ('w, ptr) prog" where
  "eccx08_load_privkey E e key_id callback_data = do {
     (r, tmp_passwd) \<leftarrow> eccx08_cbdata_to_password callback_data blank_password;
     (if r \<noteq> 0 then do {
        passwd_id \<leftarrow> save_password tmp_passwd;
        eccx08_load_pubkey_internal E e NULL key_id passwd_id
      } else eccx08_load_pubkey_internal E e NULL key_id NOPASSWD_ID)
   }"

section \<open>The hooks of the public-key methods\<close>

definition call_default :: "'w env \<Rightarrow> fn_ptr \<Rightarrow> ptr list \<Rightarrow> ('w, int) prog" where
  "call_default E f args = (if f \<noteq> No_fn then call_fn E f args else ret ENGINE_OPENSSL_SUCCESS)"

definition eccx08_pkey_ec_init :: "'w env \<Rightarrow> ptr \<Rightarrow> ('w, int) prog" where
  "eccx08_pkey_ec_init E ctx = do {
     ok \<leftarrow> (if ctx = NULL then ret True
            else do {
              pkey \<leftarrow> EVP_PKEY_CTX_get0_pkey E ctx;
              (r, passwd_id) \<leftarrow> eccx08_pkey_isx08key E pkey;
              (if r = 0 then ret True
               else do {
                 e \<leftarrow> gets this_engine;
                 pkey2 \<leftarrow> EVP_PKEY_CTX_get0_pkey E ctx;
                 loaded \<leftarrow> eccx08_load_pubkey_internal E e pkey2 None
                   (case passwd_id of Some i \<Rightarrow> i | None \<Rightarrow> NOPASSWD_ID);
                 ret (loaded \<noteq> NULL)
               })
            });
     (if \<not> ok then ret ENGINE_OPENSSL_FAILURE
      else do {
        f \<leftarrow> gets (def_init \<circ> eccx08_pkey_def_f);
        call_default E f [ctx]
      })
   }"

definition eccx08_pkey_ec_keygen_init :: "'w env \<Rightarrow> ptr \<Rightarrow> ('w, int) prog" where
  "eccx08_pkey_ec_keygen_init E ctx = do {
     f \<leftarrow> gets (def_keygen_init \<circ> eccx08_pkey_def_f);
     call_default E f [ctx]
   }"

text \<open>Lines 787-795: make a new key pair, or read the public key of a locked slot.\<close>

definition genkey_or_pubkey :: "'w env \<Rightarrow> ('w, status \<times> bytes) prog" where
  "genkey_or_pubkey E = do {
     slot \<leftarrow> gets (device_key_slot \<circ> eccx08_engine_config);
     r \<leftarrow> atcab_genkey E slot;
     (if fst r \<noteq> ATCA_SUCCESS then atcab_get_pubkey E slot else ret r)
   }"

text \<open>Lines 777-815.\<close>

definition keygen_device :: "'w env \<Rightarrow> ptr \<Rightarrow> ('w, int) prog" where
  "keygen_device E eckey = do {
     cfg \<leftarrow> gets pCfg;
     status \<leftarrow> atcab_init_safe E cfg;
     (if status \<noteq> ATCA_SUCCESS then ret ENGINE_OPENSSL_FAILURE
      else do {
        (status, raw_pubkey) \<leftarrow> genkey_or_pubkey E;
        rel_status \<leftarrow> atcab_release_safe E;
        (if rel_status \<noteq> ATCA_SUCCESS then ret ENGINE_OPENSSL_FAILURE
         else if status \<noteq> ATCA_SUCCESS then ret ENGINE_OPENSSL_FAILURE
         else do {
           _ \<leftarrow> eccx08_eckey_convert E eckey (Some (POINT_CONVERSION_UNCOMPRESSED # raw_pubkey))
                  (ATCA_BLOCK_SIZE * 2 + 1);
           ret ENGINE_OPENSSL_SUCCESS
         })
      })
   }"

definition eccx08_pkey_ec_keygen :: "'w env \<Rightarrow> ptr \<Rightarrow> ptr \<Rightarrow> ('w, int) prog" where
  "eccx08_pkey_ec_keygen E ctx pkey =
     (if ctx = NULL \<or> pkey = NULL then ret ENGINE_OPENSSL_FAILURE
      else do {
        eckey \<leftarrow> EC_KEY_new_by_curve_name E;
        (if eckey = NULL then ret ENGINE_OPENSSL_FAILURE
         else do {
           _ \<leftarrow> EVP_PKEY_assign_EC_KEY E pkey eckey;
           from \<leftarrow> EVP_PKEY_CTX_get0_pkey E ctx;
           copied \<leftarrow> (if from \<noteq> NULL then EVP_PKEY_copy_parameters E pkey from else ret 1);
           (if copied = 0 then ret ENGINE_OPENSSL_FAILURE else keygen_device E eckey)
         })
      })"

definition eccx08_pkey_ec_sign_init :: "'w env \<Rightarrow> ptr \<Rightarrow> ('w, int) prog" where
  "eccx08_pkey_ec_sign_init E ctx = do {
     f \<leftarrow> gets (def_sign_init \<circ> eccx08_pkey_def_f);
     call_default E f [ctx]
   }"

text \<open>With \<^verbatim>\<open>ATCA_OPENSSL_ENGINE_REGISTER_ECDSA\<close> on, signing goes to the default method.\<close>

definition eccx08_pkey_ec_sign :: "'w env \<Rightarrow> ptr \<Rightarrow> ptr \<Rightarrow> ptr \<Rightarrow> ptr \<Rightarrow> nat \<Rightarrow> ('w, int) prog" where
  "eccx08_pkey_ec_sign E ctx sig siglen tbs tbslen = do {
     f \<leftarrow> gets (def_sign \<circ> eccx08_pkey_def_f);
     call_default E f [ctx, sig, siglen, tbs, tbslen]
   }"

definition eccx08_eckey_derive_init :: "'w env \<Rightarrow> ptr \<Rightarrow> ('w, int) prog" where
  "eccx08_eckey_derive_init E ctx = do {
     f \<leftarrow> gets (def_derive_init \<circ> eccx08_pkey_def_f);
     call_default E f [ctx]
   }"

definition eccx08_eckey_derive :: "'w env \<Rightarrow> ptr \<Rightarrow> ptr \<Rightarrow> ptr \<Rightarrow> ('w, int) prog" where
  "eccx08_eckey_derive E ctx key keylen = do {
     f \<leftarrow> gets (def_derive \<circ> eccx08_pkey_def_f);
     call_default E f [ctx, key, keylen]
   }"

text \<open>The method selector: return value, list of identifiers given out, method given out.\<close>

abbreviation (input) EVP_PKEY_EC :: int where "EVP_PKEY_EC \<equiv> 408"

definition eccx08_pkey_meth_ids :: "int list" where
  "eccx08_pkey_meth_ids = [EVP_PKEY_EC, 0]"

definition eccx08_pmeth_selector :: "'w eng \<Rightarrow> bool \<Rightarrow> int \<Rightarrow> int \<times> int list option \<times> ptr option" where
  "eccx08_pmeth_selector s pkey_meth_given nid =
     (if \<not> pkey_meth_given then (1, Some eccx08_pkey_meth_ids, None)
      else if nid = EVP_PKEY_EC then (ENGINE_OPENSSL_SUCCESS, None, Some (eccx08_pkey_meth s))
      else (ENGINE_OPENSSL_FAILURE, None, Some NULL))"

section \<open>Frames\<close>

text \<open>What never touches the device, and what never touches the configuration.\<close>

lemma quiet_fill_new_key: "keeping quiet (fill_new_key E e pkey key_info)"
  unfolding fill_new_key_def by (intro quiet.keep quiet_basic) (auto split: option.splits)

lemma quiet_new_key: "keeping quiet (eccx08_eckey_new_key E e key_id pid)"
  unfolding eccx08_eckey_new_key_def
  by (intro quiet.keep quiet_basic quiet_fill_new_key) auto

lemma quiet_pkey_isx08key: "keeping quiet (eccx08_pkey_isx08key E pkey)"
  unfolding eccx08_pkey_isx08key_def
  by (intro quiet.keep quiet_basic quiet_isx08key) auto

lemma quiet_convert: "keeping quiet (eccx08_eckey_convert E k raw n)"
  unfolding eccx08_eckey_convert_def ensure_group_def
  by (intro quiet.keep quiet_basic) auto

lemma cfg_new_key: "keeping cfg_same (eccx08_eckey_new_key E e key_id pid)"
  unfolding eccx08_eckey_new_key_def fill_new_key_def by (intro cfg.keep cfg_sess)

lemma cfg_pkey_isx08key: "keeping cfg_same (eccx08_pkey_isx08key E pkey)"
  unfolding eccx08_pkey_isx08key_def by (intro cfg.keep cfg_sess cfg_isx08key)

lemma cfg_convert: "keeping cfg_same (eccx08_eckey_convert E k raw n)"
  unfolding eccx08_eckey_convert_def ensure_group_def by (intro cfg.keep cfg_sess)

lemma cfg_load_pubkey_internal: "keeping cfg_same (eccx08_load_pubkey_internal E e p key_id pid)"
  unfolding eccx08_load_pubkey_internal_def read_pubkey_def fetch_pubkey_def get_pubkey_retry_def
  by (intro cfg.keep cfg_sess cfg_new_key cfg_convert cfg_init_from_privkey cfg_authorize)

section \<open>Loading a key is safe\<close>

lemma wp_get_pubkey_retry:
  assumes "mutex_ok E" and "in_session s"
    and "\<And>r t. in_session t \<Longrightarrow> keeps s t \<Longrightarrow> Q r t"
  shows "wp (get_pubkey_retry E slot) Q s"
  unfolding get_pubkey_retry_def
  by (rule pubkey_cmd.cure_retry) (use assms in auto)

lemma wp_fetch_pubkey_safe:
  assumes "mutex_ok E" and "in_session s"
  shows "wp (fetch_pubkey E eckey slot) (\<lambda>_ t. no_session t) s"
  unfolding fetch_pubkey_def
  by (rule wp_bindI, rule wp_get_pubkey_retry [OF assms])
    (auto simp: split_beta simp del: wp_bind intro!: wp_release_then safe.keep
      quiet_safe [OF quiet_raise] quiet_safe [OF quiet_convert])

lemma safe_read_pubkey:
  assumes E: "mutex_ok E"
  shows "keeping safe (read_pubkey E eckey pid)"
  unfolding read_pubkey_def
proof (rule safeI, unfold wp_bind, rule wp_init_from_privkey [OF E], assumption, goal_cases ok err)
  case (ok s t slot)
  show ?case
    by (simp, rule wp_authorize [OF ok(2)]) (simp_all add: wp_fetch_pubkey_safe [OF E])
qed simp

lemma safe_load_pubkey_internal:
  "mutex_ok E \<Longrightarrow> keeping safe (eccx08_load_pubkey_internal E e p key_id pid)"
  unfolding eccx08_load_pubkey_internal_def
  by (intro safe.keep quiet_safe [OF quiet_new_key] quiet_safe [OF quiet_call] safe_read_pubkey) auto

lemma safe_load_pubkey: "mutex_ok E \<Longrightarrow> keeping safe (eccx08_load_pubkey E e key_id cb)"
  unfolding eccx08_load_pubkey_def
  by (intro safe.keep quiet_safe [OF quiet_cbdata] quiet_safe [OF quiet_save_password]
      safe_load_pubkey_internal)

lemma safe_load_privkey: "mutex_ok E \<Longrightarrow> keeping safe (eccx08_load_privkey E e key_id cb)"
  unfolding eccx08_load_privkey_def
  by (intro safe.keep quiet_safe [OF quiet_cbdata] quiet_safe [OF quiet_save_password]
      safe_load_pubkey_internal)

lemma safe_call_default: "keeping safe (call_default E f args)"
  unfolding call_default_def by (intro safe.keep quiet_safe [OF quiet_call]) auto

lemma safe_pkey_ec_init: "mutex_ok E \<Longrightarrow> keeping safe (eccx08_pkey_ec_init E ctx)"
  unfolding eccx08_pkey_ec_init_def
  by (intro safe.keep quiet_safe [OF quiet_pkey_isx08key] safe_load_pubkey_internal safe_call_default)

lemma safe_pkey_delegates:
  "keeping safe (eccx08_pkey_ec_keygen_init E ctx)" "keeping safe (eccx08_pkey_ec_sign_init E ctx)"
  "keeping safe (eccx08_pkey_ec_sign E ctx sig siglen tbs n)"
  "keeping safe (eccx08_eckey_derive_init E ctx)" "keeping safe (eccx08_eckey_derive E ctx key keylen)"
  unfolding eccx08_pkey_ec_keygen_init_def eccx08_pkey_ec_sign_init_def eccx08_pkey_ec_sign_def
    eccx08_eckey_derive_init_def eccx08_eckey_derive_def
  by (intro safe.keep safe_call_default)+

lemma wp_genkey_or_pubkey:
  assumes "in_session s" and "\<And>r t. in_session t \<Longrightarrow> keeps s t \<Longrightarrow> Q r t"
  shows "wp (genkey_or_pubkey E) Q s"
  unfolding genkey_or_pubkey_def wp_bind wp_gets
proof (rule wp_call_in_session [OF assms(1)], goal_cases)
  case (2 r t)
  then show ?case
    by (auto intro!: assms(2) wp_call_in_session intro: keeps_trans split: prod.splits)
qed (simp split: prod.splits)

lemma safe_keygen_device:
  assumes E: "mutex_ok E"
  shows "keeping safe (keygen_device E eckey)"
  unfolding keygen_device_def
proof (rule safeI, unfold wp_bind wp_gets, rule wp_init_any [OF E], assumption, goal_cases ok err)
  case (ok s t)
  show ?case
    by (simp del: wp_bind, rule wp_bindI, rule wp_genkey_or_pubkey [OF ok(2)])
      (auto simp: split_beta simp del: wp_bind intro!: wp_release_then safe.keep
        quiet_safe [OF quiet_convert])
qed simp

lemma safe_pkey_ec_keygen: "mutex_ok E \<Longrightarrow> keeping safe (eccx08_pkey_ec_keygen E ctx pkey)"
  unfolding eccx08_pkey_ec_keygen_def
  by (intro safe.keep quiet_safe [OF quiet_call] safe_keygen_device) auto

section \<open>Which commands are issued\<close>

text \<open>
  Loading a key runs no other command than reading the public key of its slot, and the
  authorisation of its password entry.
\<close>

lemma adds_get_pubkey_retry: "keeping (adds (cmd_in {Get_pubkey slot})) (get_pubkey_retry E slot)"
  unfolding get_pubkey_retry_def
  by (intro adds.keep adds_basic) (auto split: prod.splits)

lemma adds_convert: "keeping (adds (cmd_in C)) (eccx08_eckey_convert E k raw n)"
  unfolding eccx08_eckey_convert_def ensure_group_def
  by (intro adds.keep adds_basic) auto

definition load_cmds :: "'w env \<Rightarrow> 'w eng \<Rightarrow> ptr \<Rightarrow> byte \<Rightarrow> chip_cmd set" where
  "load_cmds E s eckey pid =
     {Get_pubkey slot |slot. \<forall>k. holds_key E (world s) eckey k \<longrightarrow> slot = slot_num k} \<union> auth_cmds s pid"

lemma adds_fetch_pubkey: "keeping (adds (cmd_in {Get_pubkey slot})) (fetch_pubkey E eckey slot)"
  unfolding fetch_pubkey_def
  by (intro adds.keep adds_get_pubkey_retry adds_convert keeping_adds_weaken [OF adds_raise]
      keeping_adds_weaken [OF adds_release_safe] session_ev_cmd_in)

lemma wp_read_pubkey_cmds:
  assumes E: "mutex_ok E" "bn_ok E" and s: "no_session s"
  shows "wp (read_pubkey E eckey pid) (\<lambda>_ t. adds (cmd_in (load_cmds E s eckey pid)) s t) s"
  unfolding read_pubkey_def
proof (rule wp_bindI, rule wp_also [OF keepingD [OF adds_init_from_privkey]],
    rule wp_init_from_privkey [OF E(1) s], goal_cases ok err)
  case (ok t slot)
  let ?A = "adds (cmd_in (load_cmds E s eckey pid))"
  have slot: "{Get_pubkey slot} \<subseteq> load_cmds E s eckey pid"
    using ok(3) E(2) by (auto simp: load_cmds_def)
  have au: "auth_cmds t pid \<subseteq> load_cmds E s eckey pid"
    using auth_cmds_same [OF ok(2)] by (simp add: load_cmds_def)
  have "?A s u" if "adds session_ev s t" "adds (cmd_in (auth_cmds t pid)) t u" for u
    using adds_weaken [OF that(1) session_ev_cmd_in] adds_weaken [OF that(2) cmd_in_mono [OF _ au]]
    by (rule adds_trans)
  moreover have "wp (fetch_pubkey E eckey slot) (\<lambda>_. ?A s) u" if "?A s u" for u
    by (rule keeping_rule [OF adds_fetch_pubkey])
      (use that slot in \<open>auto elim!: adds_trans adds_weaken intro: cmd_in_mono\<close>)
  ultimately show ?case
    by (auto intro: wp_mono [OF wp_authorize_cmds])
qed (auto intro: adds_weaken session_ev_cmd_in)

end
