(* ===== verification/Ecdsa.thy ===== *)
theory Ecdsa
  imports Eckey
begin

text \<open>
  \<^verbatim>\<open>eccx08_ecdsa_sign.c\<close>: ECDSA signatures made by the chip, in the three forms OpenSSL asks
  for them, with the software method for keys that are not the engine's.
\<close>

section \<open>The operations\<close>

text \<open>Lines 134-149: sign, cure a latched health test and retry once. The chip reads 32 bytes.\<close>

definition sign_retry :: "'w env \<Rightarrow> byte \<Rightarrow> bytes \<Rightarrow> ('w, status \<times> bytes) prog" where
  "sign_retry E slot dgst = do {
     r \<leftarrow> atcab_sign E slot (take ATCA_BLOCK_SIZE dgst);
     (if fst r = ATCA_HEALTH_TEST_ERROR then do {
        _ \<leftarrow> atcab_wakeup E;
        _ \<leftarrow> atcab_sleep E;
        atcab_sign E slot (take ATCA_BLOCK_SIZE dgst)
      } else ret r)
   }"

text \<open>Lines 176-198: the two numbers of the raw signature, handed over to \<^verbatim>\<open>sig\<close>.\<close>

definition fill_sig :: "'w env \<Rightarrow> ptr \<Rightarrow> bytes \<Rightarrow> ('w, status) prog" where
  "fill_sig E sig raw_sig = do {
     r \<leftarrow> BN_bin2bn E (take ATCA_BLOCK_SIZE raw_sig);
     s \<leftarrow> BN_bin2bn E (take ATCA_BLOCK_SIZE (drop ATCA_BLOCK_SIZE raw_sig));
     (case r of
        None \<Rightarrow> do {
          (case s of None \<Rightarrow> skip | Some b \<Rightarrow> BN_free E b);
          ret ATCA_FUNC_FAIL
        }
      | Some rb \<Rightarrow>
          (case s of
             None \<Rightarrow> do { BN_free E rb; ret ATCA_FUNC_FAIL }
           | Some sb \<Rightarrow> do {
               ok \<leftarrow> ECDSA_SIG_set0 E sig rb sb;
               (if ok = 0 then do {
                  BN_free E rb;
                  BN_free E sb;
                  ret ATCA_FUNC_FAIL
                } else ret ATCA_SUCCESS)
             }))
   }"

text \<open>Lines 134-200, inside the session.\<close>

definition fetch_signature :: "'w env \<Rightarrow> ptr \<Rightarrow> byte \<Rightarrow> bytes \<Rightarrow> ('w, status) prog" where
  "fetch_signature E sig slot dgst = do {
     (status, raw_sig) \<leftarrow> sign_retry E slot dgst;
     rel_status \<leftarrow> atcab_release_safe E;
     (if status \<noteq> ATCA_SUCCESS then do {
        eccx08_raise_session_error E ''sign'' status;
        ret status
      } else fill_sig E sig raw_sig)
   }"

text \<open>Lines 111-201; the result is \<^verbatim>\<open>status\<close> at the loop's exit.\<close>

definition sign_with_device :: "'w env \<Rightarrow> ptr \<Rightarrow> ptr \<Rightarrow> byte \<Rightarrow> bytes \<Rightarrow> ('w, status) prog" where
  "sign_with_device E sig eckey passwd_id dgst = do {
     (status, slot) \<leftarrow> atcab_init_from_privkey_safe E eckey;
     (if status \<noteq> ATCA_SUCCESS then ret status
      else do {
        status \<leftarrow> authorize E passwd_id;
        (if status \<noteq> ATCA_SUCCESS then ret status
         else fetch_signature E sig (case slot of Some n \<Rightarrow> n | None \<Rightarrow> 255) dgst)
      })
   }"

definition eccx08_ecdsa_do_sign_sig :: "'w env \<Rightarrow> bytes option \<Rightarrow> int \<Rightarrow> ptr \<Rightarrow> ('w, ptr) prog" where
  "eccx08_ecdsa_do_sign_sig E dgst dgst_len eckey =
     (case dgst of
        None \<Rightarrow> ret NULL
      | Some d \<Rightarrow>
          if dgst_len < int ATCA_BLOCK_SIZE then ret NULL
          else do {
            sig \<leftarrow> ECDSA_SIG_new E;
            (if sig = NULL then ret NULL
             else do {
               (r, passwd_id) \<leftarrow> eccx08_eckey_isx08key E eckey;
               (if r \<noteq> ENGINE_OPENSSL_SUCCESS then do {
                  ECDSA_SIG_free E sig;
                  ret NULL
                } else do {
                  status \<leftarrow> sign_with_device E sig eckey
                    (case passwd_id of Some i \<Rightarrow> i | None \<Rightarrow> NOPASSWD_ID) d;
                  (if status \<noteq> ATCA_SUCCESS then do {
                     ECDSA_SIG_free E sig;
                     ret NULL
                   } else ret sig)
                })
             })
          })"

definition eccx08_ecdsa_sign_setup :: "('w, int) prog" where
  "eccx08_ecdsa_sign_setup = ret ENGINE_OPENSSL_SUCCESS"

text \<open>The return value, \<^verbatim>\<open>*siglen\<close> and the bytes written to \<^verbatim>\<open>sig\<close>.\<close>

definition eccx08_ecdsa_sign ::
  "'w env \<Rightarrow> bytes option \<Rightarrow> int \<Rightarrow> ptr \<Rightarrow> ('w, int \<times> 32 word \<times> bytes) prog" where
  "eccx08_ecdsa_sign E dgst dlen eckey = do {
     s \<leftarrow> eccx08_ecdsa_do_sign_sig E dgst dlen eckey;
     (if s = NULL then ret (0, 0, [])
      else do {
        (len, der) \<leftarrow> i2d_ECDSA_SIG E s;
        ECDSA_SIG_free E s;
        ret (1, of_int len, der)
      })
   }"

definition eccx08_ecdsa_sign_sig :: "'w env \<Rightarrow> bytes option \<Rightarrow> int \<Rightarrow> ptr \<Rightarrow> ('w, ptr) prog" where
  "eccx08_ecdsa_sign_sig E dgst dgst_len eckey = do {
     (r, passwd_id) \<leftarrow> eccx08_eckey_isx08key E eckey;
     (if r \<noteq> 0 then eccx08_ecdsa_do_sign_sig E dgst dgst_len eckey
      else do {
        dflt \<leftarrow> gets eccx08_ec_default;
        (if dflt = NULL then flag_ub Null_deref else skip);
        call_sign E dflt dgst dgst_len eckey
      })
   }"

section \<open>Signing is safe\<close>

lemma wp_sign_retry:
  assumes "mutex_ok E" and "in_session s" and "\<And>r t. in_session t \<Longrightarrow> keeps s t \<Longrightarrow> Q r t"
  shows "wp (sign_retry E slot dgst) Q s"
  unfolding sign_retry_def
  by (rule sign_cmd.cure_retry) (use assms in auto)

lemma quiet_fill_sig: "keeping quiet (fill_sig E sig raw)"
  unfolding fill_sig_def by (intro quiet.keep quiet_basic) (auto split: option.splits)

lemma wp_fetch_signature_safe:
  assumes "mutex_ok E" and "in_session s"
  shows "wp (fetch_signature E sig slot dgst) (\<lambda>_ t. no_session t) s"
  unfolding fetch_signature_def
  by (rule wp_bindI, rule wp_sign_retry [OF assms])
    (auto simp: split_beta simp del: wp_bind intro!: wp_release_then safe.keep
      quiet_safe [OF quiet_raise] quiet_safe [OF quiet_fill_sig])

lemma safe_sign_with_device:
  assumes E: "mutex_ok E"
  shows "keeping safe (sign_with_device E sig eckey pid dgst)"
  unfolding sign_with_device_def
proof (rule safeI, unfold wp_bind, rule wp_init_from_privkey [OF E], assumption, goal_cases ok err)
  case (ok s t slot)
  show ?case
    by (simp, rule wp_authorize [OF ok(2)]) (simp_all add: wp_fetch_signature_safe [OF E])
qed simp

lemma safe_do_sign_sig: "mutex_ok E \<Longrightarrow> keeping safe (eccx08_ecdsa_do_sign_sig E dgst len eckey)"
  unfolding eccx08_ecdsa_do_sign_sig_def
  by (intro safe.keep quiet_safe [OF quiet_call] quiet_safe [OF quiet_isx08key] safe_sign_with_device) auto

lemma safe_sign: "mutex_ok E \<Longrightarrow> keeping safe (eccx08_ecdsa_sign E dgst len eckey)"
  unfolding eccx08_ecdsa_sign_def
  by (intro safe.keep quiet_safe [OF quiet_call] safe_do_sign_sig) auto

lemma safe_sign_sig: "mutex_ok E \<Longrightarrow> keeping safe (eccx08_ecdsa_sign_sig E dgst len eckey)"
  unfolding eccx08_ecdsa_sign_sig_def
  by (intro safe.keep quiet_safe [OF quiet_call] quiet_safe [OF quiet_isx08key]
      quiet_safe [OF quiet_flag_ub] safe_do_sign_sig) auto

lemma cfg_sign_with_device: "keeping cfg_same (sign_with_device E sig eckey pid dgst)"
  unfolding sign_with_device_def fetch_signature_def sign_retry_def fill_sig_def
  by (intro cfg.keep cfg_sess cfg_init_from_privkey cfg_authorize)

lemma cfg_do_sign_sig: "keeping cfg_same (eccx08_ecdsa_do_sign_sig E dgst len eckey)"
  unfolding eccx08_ecdsa_do_sign_sig_def
  by (intro cfg.keep cfg_sess cfg_isx08key cfg_sign_with_device)

section \<open>What is signed, and how\<close>

text \<open>
  \<open>chip_signs E V\<close>: a signature the chip reports as good is one that \<open>V\<close> accepts for its
  slot and digest; \<open>V\<close> is any relation, in particular ECDSA verification under the slot's
  public key.
\<close>

definition chip_signs :: "'w env \<Rightarrow> (byte \<Rightarrow> bytes \<Rightarrow> bytes \<Rightarrow> bool) \<Rightarrow> bool" where
  "chip_signs E V \<longleftrightarrow>
     (\<forall>slot d w raw w'. ext_atcab_sign E slot d w = ((ATCA_SUCCESS, raw), w') \<longrightarrow> V slot d raw)"

definition raw_r :: "bytes \<Rightarrow> nat" where
  "raw_r raw = be_val (take ATCA_BLOCK_SIZE raw)"

definition raw_s :: "bytes \<Rightarrow> nat" where
  "raw_s raw = be_val (take ATCA_BLOCK_SIZE (drop ATCA_BLOCK_SIZE raw))"

text \<open>At most one retry, only after a health-test error, and only after a wake and a sleep.\<close>

definition retry_events :: "chip_cmd \<Rightarrow> status \<Rightarrow> ev list \<Rightarrow> bool" where
  "retry_events c st es \<longleftrightarrow>
     (es = [Dev_cmd c st] \<and> st \<noteq> ATCA_HEALTH_TEST_ERROR)
   \<or> (\<exists>w p. es = [Dev_cmd c st, Dev_sleep p, Dev_wakeup w, Dev_cmd c ATCA_HEALTH_TEST_ERROR])"

lemma wp_sign_retry_events:
  "wp (sign_retry E slot d)
     (\<lambda>r t. \<exists>es. trace t = es @ trace s \<and> retry_events (Sign slot (take 32 d)) (fst r) es) s"
  by (auto simp: sign_retry_def wp_call_eq retry_events_def split: prod.splits)

lemma wp_get_pubkey_retry_events:
  "wp (get_pubkey_retry E slot)
     (\<lambda>r t. \<exists>es. trace t = es @ trace s \<and> retry_events (Get_pubkey slot) (fst r) es) s"
  by (auto simp: get_pubkey_retry_def wp_call_eq retry_events_def split: prod.splits)

lemma wp_sign_retry_valid:
  "chip_signs E V \<Longrightarrow> wp (sign_retry E slot d) (\<lambda>r t. fst r = ATCA_SUCCESS \<longrightarrow> V slot (take 32 d) (snd r)) s"
  by (auto simp: sign_retry_def wp_call_eq chip_signs_def split: prod.splits) blast+

lemma wp_fill_sig:
  "bn_ok E \<Longrightarrow> wp (fill_sig E sig raw)
     (\<lambda>st t. st = ATCA_SUCCESS \<longrightarrow> hd (trace t) = Set_sig sig (raw_r raw) (raw_s raw)) s"
  by (auto simp: fill_sig_def wp_call_eq bn_ok_def raw_r_def raw_s_def split: prod.splits option.splits)
     (metis fst_conv snd_conv)+

definition signed_by :: "(byte \<Rightarrow> bytes \<Rightarrow> bytes \<Rightarrow> bool) \<Rightarrow> byte \<Rightarrow> bytes \<Rightarrow> ptr \<Rightarrow> 'w eng \<Rightarrow> bool" where
  "signed_by V slot d sig t \<longleftrightarrow>
     (\<exists>raw. V slot d raw \<and> hd (trace t) = Set_sig sig (raw_r raw) (raw_s raw))"

lemma wp_fetch_signature_valid:
  assumes "bn_ok E" and "chip_signs E V"
  shows "wp (fetch_signature E sig slot d)
    (\<lambda>st t. st = ATCA_SUCCESS \<longrightarrow> signed_by V slot (take 32 d) sig t) s"
  unfolding fetch_signature_def
proof (rule wp_bindI, rule wp_mono [OF wp_sign_retry_valid [OF assms(2)]])
  fix r t assume r: "fst r = ATCA_SUCCESS \<longrightarrow> V slot (take 32 d) (snd r)"
  have "wp (fill_sig E sig (snd r)) (\<lambda>st t. st = ATCA_SUCCESS \<longrightarrow> signed_by V slot (take 32 d) sig t) u"
    if "fst r = ATCA_SUCCESS" for u
    by (rule wp_mono [OF wp_fill_sig [OF assms(1)]]) (use r that in \<open>auto simp: signed_by_def\<close>)
  then show "wp (case r of (status, raw_sig) \<Rightarrow> do {
     rel_status \<leftarrow> atcab_release_safe E;
     (if status \<noteq> ATCA_SUCCESS then do {
        eccx08_raise_session_error E ''sign'' status;
        ret status
      } else fill_sig E sig raw_sig) }) (\<lambda>st t. st = ATCA_SUCCESS \<longrightarrow> signed_by V slot (take 32 d) sig t) t"
    by (auto simp: split_beta intro!: wpI [of "atcab_release_safe E"] wp_eccx08_raise_session_error)
qed

lemma wp_sign_with_device_valid:
  assumes "mutex_ok E" and "bn_ok E" and "chip_signs E V" and "no_session s"
    and "holds_key E (world s) eckey k"
  shows "wp (sign_with_device E sig eckey pid d)
    (\<lambda>st t. st = ATCA_SUCCESS \<longrightarrow> signed_by V (slot_num k) (take 32 d) sig t) s"
  unfolding sign_with_device_def
proof (rule wp_bindI, rule wp_init_from_privkey [OF assms(1,4)], goal_cases ok err)
  case (ok t slot)
  then have "slot = slot_num k" using assms(2,5) by blast
  with ok show ?case
    by (simp, intro wp_authorize) (auto intro: wp_fetch_signature_valid assms)
qed simp

section \<open>No signature before authorisation\<close>

fun sign_ev :: "ev \<Rightarrow> bool" where
  "sign_ev (Dev_cmd (Sign slot d) st) = True"
| "sign_ev e = False"

text \<open>New events without a signing command, or with one only after the exchange succeeded.\<close>

definition auth_first :: "byte \<Rightarrow> ev list \<Rightarrow> bool" where
  "auth_first aslot es \<longleftrightarrow> list_all (Not \<circ> sign_ev) es
     \<or> (\<exists>es1 es2. es = es2 @ auth_events aslot @ es1 \<and> list_all (Not \<circ> sign_ev) es1)"

lemma session_ev_no_sign: "session_ev e \<Longrightarrow> \<not> sign_ev e"
  by (cases e) auto

lemma auth_cmd_no_sign: "cmd_in (auth_cmds s pid) e \<Longrightarrow> \<not> sign_ev e"
  by (cases e rule: sign_ev.cases) (auto simp: auth_cmds_def split: option.splits)

lemma adds_True: "keeping (adds P) m \<Longrightarrow> keeping (adds (\<lambda>_. True)) m"
  by (erule keeping_adds_weaken) simp

lemma adds_fetch_signature: "keeping (adds (\<lambda>_. True)) (fetch_signature E sig slot d)"
  unfolding fetch_signature_def sign_retry_def fill_sig_def
  by (intro adds.keep adds_call adds_True [OF adds_release_safe] adds_True [OF adds_raise])
    (simp_all add: list_all_iff)

lemma wp_sign_with_device_auth:
  assumes "mutex_ok E" and "no_session s" and "passwords_wf s"
    and "eccx08_get_password pid = Some i"
    and "\<And>w. \<not> hash_fails E (password (passwords s ! i)) w"
  shows "wp (sign_with_device E sig eckey pid d)
    (\<lambda>_ t. \<exists>es. trace t = es @ trace s \<and> auth_first (ucast (auth_slot (passwords s ! i))) es) s"
  unfolding sign_with_device_def
proof (rule wp_bindI, rule wp_also [OF keepingD [OF adds_init_from_privkey]],
    rule wp_init_from_privkey [OF assms(1,2)], goal_cases ok err)
  case (err st t)
  then show ?case
    by (auto simp: adds_def auth_first_def list_all_iff session_ev_no_sign)
next
  case (ok t slot)
  let ?a = "ucast (auth_slot (passwords s ! i)) :: byte"
  let ?Q = "\<lambda>u. \<exists>es. trace u = es @ trace s \<and> auth_first ?a es"
  have pw: "passwords t = passwords s" using ok(2) by (simp add: cfg_same_def)
  show ?case
  proof
    assume "adds session_ev s t"
    then obtain es1 where es1: "trace t = es1 @ trace s" "list_all (Not \<circ> sign_ev) es1"
      by (auto simp: adds_def list_all_iff session_ev_no_sign)
    have fetch: "wp (fetch_signature E sig slot d) (\<lambda>_. ?Q) u" if au: "authorized E pid t u" for u
    proof (rule keeping_rule [OF adds_fetch_signature])
      fix v assume "adds (\<lambda>_. True) u v"
      then obtain es2 where "trace v = (es2 @ auth_events ?a @ es1) @ trace s"
        using au es1 assms(4,5) pw by (auto simp: authorized_def adds_def)
      with es1(2) show "?Q v" unfolding auth_first_def by blast
    qed
    have stop: "?Q u" if "adds (cmd_in (auth_cmds t pid)) t u" for u
      using that es1 auth_cmd_no_sign
      by (fastforce simp: adds_def auth_first_def list_all_iff)
    show "wp (case (ATCA_SUCCESS, Some slot) of (status, slot) \<Rightarrow>
      (if status \<noteq> ATCA_SUCCESS then ret status
       else do {
         status \<leftarrow> authorize E pid;
         (if status \<noteq> ATCA_SUCCESS then ret status
          else fetch_signature E sig (case slot of Some n \<Rightarrow> n | None \<Rightarrow> 255) d)
       })) (\<lambda>_. ?Q) t"
      by (simp, rule wp_also [OF wp_authorize_cmds], rule wp_authorize [OF ok(1)])
        (auto intro: fetch stop)
  qed
qed

end
