(* ===== verification/Cert_Defs.thy ===== *)
theory Cert_Defs
  imports Session
begin

text \<open>
  The static certificate descriptions \<^verbatim>\<open>cert_def_1_signer.c\<close>, \<^verbatim>\<open>cert_def_2_device.c\<close> and
  \<^verbatim>\<open>cert_def_3_device_csr.c\<close>: templates in DER, and the places in them that are filled in with
  data from the chip. A small DER reader checks each place against the structure of its
  template.
\<close>

text \<open>The addresses of the static arrays do not matter; they are not null and differ.\<close>

definition static_template :: "nat \<Rightarrow> ptr" where
  "static_template i = 2 * i + 1"

definition static_elements :: ptr where
  "static_elements = 2"

section \<open>The templates\<close>

definition g_cert_template_1_signer :: bytes where
  "g_cert_template_1_signer = [
     0x30, 0x82, 0x01, 0xc8, 0x30, 0x82, 0x01, 0x6e, 0xa0, 0x03, 0x02, 0x01, 0x02, 0x02, 0x10, 0x57,
     0x06, 0x2e, 0xf0, 0x05, 0xea, 0x8a, 0x70, 0x44, 0xff, 0x1b, 0x90, 0x00, 0x21, 0x78, 0xd6, 0x30,
     0x0a, 0x06, 0x08, 0x2a, 0x86, 0x48, 0xce, 0x3d, 0x04, 0x03, 0x02, 0x30, 0x30, 0x31, 0x14, 0x30,
     0x12, 0x06, 0x03, 0x55, 0x04, 0x0a, 0x0c, 0x0b, 0x45, 0x78, 0x61, 0x6d, 0x70, 0x6c, 0x65, 0x20,
     0x49, 0x6e, 0x63, 0x31, 0x18, 0x30, 0x16, 0x06, 0x03, 0x55, 0x04, 0x03, 0x0c, 0x0f, 0x45, 0x78,
     0x61, 0x6d, 0x70, 0x6c, 0x65, 0x20, 0x52, 0x6f, 0x6f, 0x74, 0x20, 0x43, 0x41, 0x30, 0x1e, 0x17,
     0x0d, 0x31, 0x37, 0x30, 0x36, 0x30, 0x37, 0x31, 0x37, 0x35, 0x36, 0x31, 0x32, 0x5a, 0x17, 0x0d,
     0x32, 0x37, 0x30, 0x36, 0x30, 0x37, 0x31, 0x37, 0x35, 0x36, 0x31, 0x32, 0x5a, 0x30, 0x34, 0x31,
     0x14, 0x30, 0x12, 0x06, 0x03, 0x55, 0x04, 0x0a, 0x0c, 0x0b, 0x45, 0x78, 0x61, 0x6d, 0x70, 0x6c,
     0x65, 0x20, 0x49, 0x6e, 0x63, 0x31, 0x1c, 0x30, 0x1a, 0x06, 0x03, 0x55, 0x04, 0x03, 0x0c, 0x13,
     0x45, 0x78, 0x61, 0x6d, 0x70, 0x6c, 0x65, 0x20, 0x53, 0x69, 0x67, 0x6e, 0x65, 0x72, 0x20, 0x46,
     0x46, 0x46, 0x46, 0x30, 0x59, 0x30, 0x13, 0x06, 0x07, 0x2a, 0x86, 0x48, 0xce, 0x3d, 0x02, 0x01,
     0x06, 0x08, 0x2a, 0x86, 0x48, 0xce, 0x3d, 0x03, 0x01, 0x07, 0x03, 0x42, 0x00, 0x04, 0xb1, 0xf5,
     0x9c, 0xbe, 0x22, 0x11, 0x7f, 0x28, 0x2f, 0x7f, 0x2e, 0xcb, 0xa2, 0x8c, 0x30, 0x3b, 0xae, 0x59,
     0x45, 0xb9, 0x5c, 0x0e, 0xba, 0xaa, 0x9b, 0x81, 0x73, 0x52, 0x63, 0x41, 0xbf, 0x37, 0x3c, 0x2e,
     0xdd, 0xcd, 0xea, 0x0e, 0x7c, 0x9d, 0x90, 0xea, 0x25, 0x9c, 0x64, 0xeb, 0xc6, 0x54, 0x47, 0x32,
     0x81, 0x63, 0xbf, 0x42, 0x5f, 0xdd, 0x5a, 0x3f, 0xd5, 0x71, 0x81, 0x9b, 0x77, 0x44, 0xa3, 0x66,
     0x30, 0x64, 0x30, 0x12, 0x06, 0x03, 0x55, 0x1d, 0x13, 0x01, 0x01, 0xff, 0x04, 0x08, 0x30, 0x06,
     0x01, 0x01, 0xff, 0x02, 0x01, 0x00, 0x30, 0x0e, 0x06, 0x03, 0x55, 0x1d, 0x0f, 0x01, 0x01, 0xff,
     0x04, 0x04, 0x03, 0x02, 0x01, 0x86, 0x30, 0x1d, 0x06, 0x03, 0x55, 0x1d, 0x0e, 0x04, 0x16, 0x04,
     0x14, 0x81, 0x1d, 0xc6, 0x7c, 0x0f, 0x18, 0x2b, 0x65, 0x96, 0xeb, 0x22, 0x73, 0xdb, 0xf3, 0x23,
     0x63, 0x6d, 0x79, 0x0f, 0xc8, 0x30, 0x1f, 0x06, 0x03, 0x55, 0x1d, 0x23, 0x04, 0x18, 0x30, 0x16,
     0x80, 0x14, 0xdb, 0x2a, 0x0d, 0x06, 0x05, 0xc7, 0x98, 0xbc, 0xda, 0xc0, 0x34, 0x67, 0x66, 0xf4,
     0xe2, 0xb0, 0x61, 0xa3, 0xd2, 0xc8, 0x30, 0x0a, 0x06, 0x08, 0x2a, 0x86, 0x48, 0xce, 0x3d, 0x04,
     0x03, 0x02, 0x03, 0x48, 0x00, 0x30, 0x45, 0x02, 0x20, 0x49, 0xfe, 0xdf, 0xc9, 0x94, 0xe3, 0x07,
     0xdb, 0x08, 0xb3, 0x99, 0x9e, 0x04, 0xe4, 0x78, 0xe5, 0xf8, 0xb9, 0x09, 0xa9, 0xf0, 0x41, 0x66,
     0xc6, 0x69, 0x1b, 0x87, 0x30, 0x86, 0x10, 0xaf, 0x64, 0x02, 0x21, 0x00, 0xc8, 0xd6, 0x86, 0x61,
     0x94, 0x95, 0xdb, 0x45, 0xb3, 0x40, 0x8e, 0xac, 0x14, 0x9a, 0x19, 0xb6, 0x8c, 0x5c, 0x79, 0x9d,
     0x06, 0xcb, 0x52, 0x08, 0xa0, 0x1f, 0x49, 0x8b, 0x22, 0x4e, 0x52, 0x71]"

definition g_cert_template_2_device :: bytes where
  "g_cert_template_2_device = [
     0x30, 0x82, 0x01, 0xa6, 0x30, 0x82, 0x01, 0x4b, 0xa0, 0x03, 0x02, 0x01, 0x02, 0x02, 0x10, 0x41,
     0xa6, 0x8b, 0xe4, 0x36, 0xdd, 0xc3, 0xd8, 0x39, 0xfa, 0xbd, 0xd7, 0x27, 0xd9, 0x74, 0xe7, 0x30,
     0x0a, 0x06, 0x08, 0x2a, 0x86, 0x48, 0xce, 0x3d, 0x04, 0x03, 0x02, 0x30, 0x34, 0x31, 0x14, 0x30,
     0x12, 0x06, 0x03, 0x55, 0x04, 0x0a, 0x0c, 0x0b, 0x45, 0x78, 0x61, 0x6d, 0x70, 0x6c, 0x65, 0x20,
     0x49, 0x6e, 0x63, 0x31, 0x1c, 0x30, 0x1a, 0x06, 0x03, 0x55, 0x04, 0x03, 0x0c, 0x13, 0x45, 0x78,
     0x61, 0x6d, 0x70, 0x6c, 0x65, 0x20, 0x53, 0x69, 0x67, 0x6e, 0x65, 0x72, 0x20, 0x46, 0x46, 0x46,
     0x46, 0x30, 0x20, 0x17, 0x0d, 0x31, 0x37, 0x30, 0x37, 0x31, 0x30, 0x32, 0x30, 0x30, 0x30, 0x30,
     0x30, 0x5a, 0x18, 0x0f, 0x33, 0x30, 0x30, 0x30, 0x31, 0x32, 0x33, 0x31, 0x32, 0x33, 0x35, 0x39,
     0x35, 0x39, 0x5a, 0x30, 0x2f, 0x31, 0x14, 0x30, 0x12, 0x06, 0x03, 0x55, 0x04, 0x0a, 0x0c, 0x0b,
     0x45, 0x78, 0x61, 0x6d, 0x70, 0x6c, 0x65, 0x20, 0x49, 0x6e, 0x63, 0x31, 0x17, 0x30, 0x15, 0x06,
     0x03, 0x55, 0x04, 0x03, 0x0c, 0x0e, 0x45, 0x78, 0x61, 0x6d, 0x70, 0x6c, 0x65, 0x20, 0x44, 0x65,
     0x76, 0x69, 0x63, 0x65, 0x30, 0x59, 0x30, 0x13, 0x06, 0x07, 0x2a, 0x86, 0x48, 0xce, 0x3d, 0x02,
     0x01, 0x06, 0x08, 0x2a, 0x86, 0x48, 0xce, 0x3d, 0x03, 0x01, 0x07, 0x03, 0x42, 0x00, 0x04, 0x96,
     0x27, 0xf1, 0x3e, 0x80, 0xac, 0xf9, 0xd4, 0x12, 0xce, 0x3b, 0x0d, 0x68, 0xf7, 0x4e, 0xb2, 0xc6,
     0x07, 0x35, 0x00, 0xb7, 0x78, 0x5b, 0xac, 0xe6, 0x50, 0x30, 0x54, 0x77, 0x7f, 0xc8, 0x62, 0x21,
     0xce, 0xf2, 0x5a, 0x9a, 0x9e, 0x86, 0x40, 0xc2, 0x29, 0xd6, 0x4a, 0x32, 0x1e, 0xb9, 0x4a, 0x1b,
     0x1c, 0x94, 0xf5, 0x39, 0x88, 0xae, 0xfe, 0x49, 0xcc, 0xfd, 0xbf, 0x8a, 0x0d, 0x34, 0xb8, 0xa3,
     0x42, 0x30, 0x40, 0x30, 0x1d, 0x06, 0x03, 0x55, 0x1d, 0x0e, 0x04, 0x16, 0x04, 0x14, 0x2d, 0xda,
     0x6c, 0x36, 0xd5, 0xa5, 0x5a, 0xce, 0x97, 0x10, 0x3d, 0xbb, 0xaf, 0x9c, 0x66, 0x2a, 0xcd, 0x3e,
     0xe6, 0xcf, 0x30, 0x1f, 0x06, 0x03, 0x55, 0x1d, 0x23, 0x04, 0x18, 0x30, 0x16, 0x80, 0x14, 0xc6,
     0x70, 0xe0, 0x5e, 0x8a, 0x45, 0x0d, 0xb8, 0x2c, 0x00, 0x2a, 0x40, 0x06, 0x39, 0x4c, 0x19, 0x58,
     0x04, 0x35, 0x76, 0x30, 0x0a, 0x06, 0x08, 0x2a, 0x86, 0x48, 0xce, 0x3d, 0x04, 0x03, 0x02, 0x03,
     0x49, 0x00, 0x30, 0x46, 0x02, 0x21, 0x00, 0xe1, 0xfc, 0x00, 0x23, 0xc1, 0x3d, 0x01, 0x3f, 0x22,
     0x31, 0x0b, 0xf0, 0xb8, 0xf4, 0xf4, 0x22, 0xfc, 0x95, 0x96, 0x33, 0x9c, 0xb9, 0x62, 0xb1, 0xfc,
     0x8a, 0x2d, 0xa8, 0x5c, 0xee, 0x67, 0x72, 0x02, 0x21, 0x00, 0xa1, 0x0d, 0x47, 0xe4, 0xfd, 0x0d,
     0x15, 0xd8, 0xde, 0xa1, 0xb5, 0x96, 0x28, 0x4e, 0x7a, 0x0b, 0xbe, 0xcc, 0xec, 0xe8, 0x8e, 0xcc,
     0x7a, 0x31, 0xb3, 0x00, 0x8b, 0xc0, 0x2e, 0x4f, 0x99, 0xc5]"

definition g_csr_template_3_device :: bytes where
  "g_csr_template_3_device = [
     0x30, 0x81, 0xfb, 0x30, 0x81, 0xa2, 0x02, 0x01, 0x00, 0x30, 0x2f, 0x31, 0x14, 0x30, 0x12, 0x06,
     0x03, 0x55, 0x04, 0x0a, 0x0c, 0x0b, 0x45, 0x78, 0x61, 0x6d, 0x70, 0x6c, 0x65, 0x20, 0x49, 0x6e,
     0x63, 0x31, 0x17, 0x30, 0x15, 0x06, 0x03, 0x55, 0x04, 0x03, 0x0c, 0x0e, 0x45, 0x78, 0x61, 0x6d,
     0x70, 0x6c, 0x65, 0x20, 0x44, 0x65, 0x76, 0x69, 0x63, 0x65, 0x30, 0x59, 0x30, 0x13, 0x06, 0x07,
     0x2a, 0x86, 0x48, 0xce, 0x3d, 0x02, 0x01, 0x06, 0x08, 0x2a, 0x86, 0x48, 0xce, 0x3d, 0x03, 0x01,
     0x07, 0x03, 0x42, 0x00, 0x04, 0xd8, 0x70, 0xa4, 0xdf, 0x98, 0xb4, 0x6a, 0x93, 0x2b, 0xf7, 0x40,
     0x39, 0x86, 0x0f, 0xed, 0xd6, 0x69, 0x03, 0x6a, 0xe7, 0xe4, 0x84, 0x9f, 0xfc, 0xfb, 0x61, 0x50,
     0x63, 0x21, 0x95, 0xa8, 0x91, 0x2c, 0x98, 0x04, 0x0e, 0x9c, 0x2f, 0x03, 0xe1, 0xe4, 0x2e, 0xc7,
     0x93, 0x8c, 0x6b, 0xf4, 0xfb, 0x98, 0x4c, 0x50, 0xdb, 0x51, 0xa3, 0xee, 0x04, 0x1b, 0x55, 0xf0,
     0x60, 0x63, 0xeb, 0x46, 0x90, 0xa0, 0x11, 0x30, 0x0f, 0x06, 0x09, 0x2a, 0x86, 0x48, 0x86, 0xf7,
     0x0d, 0x01, 0x09, 0x0e, 0x31, 0x02, 0x30, 0x00, 0x30, 0x0a, 0x06, 0x08, 0x2a, 0x86, 0x48, 0xce,
     0x3d, 0x04, 0x03, 0x02, 0x03, 0x48, 0x00, 0x30, 0x45, 0x02, 0x20, 0x26, 0xab, 0x8a, 0x4f, 0x71,
     0x2c, 0xf9, 0xbb, 0x4f, 0xfa, 0xa4, 0xcd, 0x01, 0x48, 0xf1, 0xdf, 0x9c, 0xdc, 0xff, 0xa0, 0xff,
     0x53, 0x8f, 0x35, 0x8d, 0xd4, 0x3d, 0x49, 0xc0, 0x72, 0xf5, 0x0a, 0x02, 0x21, 0x00, 0xa5, 0x9d,
     0xb4, 0x11, 0x4b, 0xa1, 0x65, 0x7c, 0xbb, 0x48, 0xcf, 0x6d, 0xf6, 0xd0, 0x6a, 0x41, 0x00, 0x96,
     0xe1, 0xe2, 0x79, 0x73, 0xdb, 0xf7, 0x97, 0x80, 0x41, 0x9b, 0x35, 0x01, 0x88, 0x5e]"

section \<open>The descriptions\<close>

definition signer_1_ca_public_key_init :: bytes where
  "signer_1_ca_public_key_init = replicate 64 0"

definition g_cert_elements_1_signer :: "cert_element list" where
  "g_cert_elements_1_signer = [
     \<lparr>ce_id = ''IssueDate'',
       ce_device_loc = \<lparr>dl_zone = DEVZONE_DATA, dl_slot = 14, dl_is_genkey = 0, dl_offset = 35 - 13, dl_count = 13\<rparr>,
       ce_cert_loc = \<lparr>cl_offset = 97, cl_count = 13\<rparr>\<rparr>,
     \<lparr>ce_id = ''ExpireDate'',
       ce_device_loc = \<lparr>dl_zone = DEVZONE_DATA, dl_slot = 14, dl_is_genkey = 0, dl_offset = 50 - 13, dl_count = 13\<rparr>,
       ce_cert_loc = \<lparr>cl_offset = 112, cl_count = 13\<rparr>\<rparr>]"

definition g_cert_def_1_signer :: cert_def where
  "g_cert_def_1_signer = \<lparr>
     meta = \<lparr>cm_type = CERTTYPE_X509, template_id = 1, chain_id = 0, private_key_slot = 0,
     sn_source = SNSRC_STORED,
     cert_sn_dev_loc = \<lparr>dl_zone = DEVZONE_DATA, dl_slot = 14, dl_is_genkey = 0, dl_offset = 20 - 16, dl_count = 16\<rparr>,
     issue_date_format = DATEFMT_RFC5280_UTC, expire_date_format = DATEFMT_RFC5280_UTC,
     tbs_cert_loc = \<lparr>cl_offset = 4, cl_count = 370\<rparr>, expire_years = 10,
     public_key_dev_loc = \<lparr>dl_zone = DEVZONE_DATA, dl_slot = 11, dl_is_genkey = 0, dl_offset = 0, dl_count = 72\<rparr>,
     comp_cert_dev_loc = \<lparr>dl_zone = DEVZONE_DATA, dl_slot = 12, dl_is_genkey = 0, dl_offset = 0, dl_count = 72\<rparr>,
     std_cert_elements = [
       \<lparr>cl_offset = 206, cl_count = 64\<rparr>,
       \<lparr>cl_offset = 386, cl_count = 74\<rparr>,
       \<lparr>cl_offset = 97, cl_count = 13\<rparr>,
       \<lparr>cl_offset = 112, cl_count = 13\<rparr>,
       \<lparr>cl_offset = 175, cl_count = 4\<rparr>,
       \<lparr>cl_offset = 15, cl_count = 16\<rparr>,
       \<lparr>cl_offset = 354, cl_count = 20\<rparr>,
       \<lparr>cl_offset = 321, cl_count = 20\<rparr>]\<rparr>,
     cert_elements = Some (static_elements, g_cert_elements_1_signer),
     cert_elements_count = length g_cert_elements_1_signer,
     cert_template = Some (static_template 1, g_cert_template_1_signer),
     cert_template_size = length g_cert_template_1_signer\<rparr>"

definition g_cert_def_2_device :: cert_def where
  "g_cert_def_2_device = \<lparr>
     meta = \<lparr>cm_type = CERTTYPE_X509, template_id = 2, chain_id = 0, private_key_slot = 0,
     sn_source = SNSRC_PUB_KEY_HASH,
     cert_sn_dev_loc = \<lparr>dl_zone = DEVZONE_NONE, dl_slot = 0, dl_is_genkey = 0, dl_offset = 0, dl_count = 0\<rparr>,
     issue_date_format = DATEFMT_RFC5280_UTC, expire_date_format = DATEFMT_RFC5280_GEN,
     tbs_cert_loc = \<lparr>cl_offset = 4, cl_count = 335\<rparr>, expire_years = 0,
     public_key_dev_loc = \<lparr>dl_zone = DEVZONE_DATA, dl_slot = 0, dl_is_genkey = 1, dl_offset = 0, dl_count = 64\<rparr>,
     comp_cert_dev_loc = \<lparr>dl_zone = DEVZONE_DATA, dl_slot = 10, dl_is_genkey = 0, dl_offset = 0, dl_count = 72\<rparr>,
     std_cert_elements = [
       \<lparr>cl_offset = 207, cl_count = 64\<rparr>,
       \<lparr>cl_offset = 351, cl_count = 75\<rparr>,
       \<lparr>cl_offset = 101, cl_count = 13\<rparr>,
       \<lparr>cl_offset = 0, cl_count = 0\<rparr>,
       \<lparr>cl_offset = 93, cl_count = 4\<rparr>,
       \<lparr>cl_offset = 15, cl_count = 16\<rparr>,
       \<lparr>cl_offset = 319, cl_count = 20\<rparr>,
       \<lparr>cl_offset = 286, cl_count = 20\<rparr>]\<rparr>,
     cert_elements = None,
     cert_elements_count = 0,
     cert_template = Some (static_template 2, g_cert_template_2_device),
     cert_template_size = length g_cert_template_2_device\<rparr>"

definition g_csr_def_3_device :: cert_def where
  "g_csr_def_3_device = \<lparr>
     meta = \<lparr>cm_type = CERTTYPE_X509, template_id = 3, chain_id = 0, private_key_slot = 0,
     sn_source = SNSRC_PUB_KEY_HASH,
     cert_sn_dev_loc = \<lparr>dl_zone = DEVZONE_NONE, dl_slot = 0, dl_is_genkey = 0, dl_offset = 0, dl_count = 0\<rparr>,
     issue_date_format = DATEFMT_RFC5280_UTC, expire_date_format = DATEFMT_RFC5280_UTC,
     tbs_cert_loc = \<lparr>cl_offset = 3, cl_count = 165\<rparr>, expire_years = 0,
     public_key_dev_loc = \<lparr>dl_zone = DEVZONE_NONE, dl_slot = 0, dl_is_genkey = 1, dl_offset = 0, dl_count = 64\<rparr>,
     comp_cert_dev_loc = \<lparr>dl_zone = DEVZONE_NONE, dl_slot = 0, dl_is_genkey = 0, dl_offset = 0, dl_count = 0\<rparr>,
     std_cert_elements = [
       \<lparr>cl_offset = 85, cl_count = 64\<rparr>,
       \<lparr>cl_offset = 180, cl_count = 74\<rparr>,
       \<lparr>cl_offset = 0, cl_count = 0\<rparr>,
       \<lparr>cl_offset = 0, cl_count = 0\<rparr>,
       \<lparr>cl_offset = 0, cl_count = 0\<rparr>,
       \<lparr>cl_offset = 0, cl_count = 0\<rparr>,
       \<lparr>cl_offset = 0, cl_count = 0\<rparr>,
       \<lparr>cl_offset = 0, cl_count = 0\<rparr>]\<rparr>,
     cert_elements = None,
     cert_elements_count = 0,
     cert_template = Some (static_template 3, g_csr_template_3_device),
     cert_template_size = length g_csr_template_3_device\<rparr>"

section \<open>Reading DER\<close>

text \<open>
  The header of the element at the head of a byte string: tag, length of the header and
  length of the content (definite lengths, short or with one or two length bytes).
\<close>

fun der_header :: "bytes \<Rightarrow> (byte \<times> nat \<times> nat) option" where
  "der_header (t # l # bs) =
     (if l < 0x80 then Some (t, 2, unat l)
      else if l = 0x81 then (case bs of a # _ \<Rightarrow> Some (t, 3, unat a) | _ \<Rightarrow> None)
      else if l = 0x82 then (case bs of a # b # _ \<Rightarrow> Some (t, 4, unat a * 256 + unat b) | _ \<Rightarrow> None)
      else None)"
| "der_header _ = None"

text \<open>
  All elements, in order: offset, tag, header length, content length. Constructed elements
  (bit 5 of the tag) are followed by their contents.
\<close>

function der_walk :: "nat \<Rightarrow> bytes \<Rightarrow> (nat \<times> byte \<times> nat \<times> nat) list option" where
  "der_walk off [] = Some []"
| "der_walk off (b # bs) =
     (case der_header (b # bs) of
        None \<Rightarrow> None
      | Some (t, h, n) \<Rightarrow>
          (if length (b # bs) < h + n \<or> h = 0 then None
           else (case der_walk (off + h + n) (drop (h + n) (b # bs)) of
             None \<Rightarrow> None
           | Some rest \<Rightarrow>
               (if bit t 5
                then (case der_walk (off + h) (take n (drop h (b # bs))) of
                        None \<Rightarrow> None
                      | Some inner \<Rightarrow> Some ((off, t, h, n) # inner @ rest))
                else Some ((off, t, h, n) # rest)))))"
  by pat_completeness auto
termination
  by (relation "measure (\<lambda>(off, bs). length bs)") auto

section \<open>Places in a template\<close>

text \<open>An element: offset, tag, length of the header, length of the content.\<close>

type_synonym der_element = "nat \<times> byte \<times> nat \<times> nat"
type_synonym der_elements = "der_element list"

definition bytes_at :: "bytes \<Rightarrow> nat \<Rightarrow> bytes \<Rightarrow> bool" where
  "bytes_at tmpl i bs \<longleftrightarrow> take (length bs) (drop i tmpl) = bs"

text \<open>
  \<open>der_child es i e k\<close>: of the elements side by side from \<open>i\<close> to \<open>e\<close> the one with number \<open>k\<close>.
  \<open>der_path\<close> goes down from an element through the numbers of the children.
\<close>

primrec der_child :: "der_elements \<Rightarrow> nat \<Rightarrow> nat \<Rightarrow> nat \<Rightarrow> der_element option" where
  "der_child es i e 0 = (if i < e then find (\<lambda>(j, t, h, n). j = i) es else None)"
| "der_child es i e (Suc k) = (case der_child es i e k of
     None \<Rightarrow> None
   | Some (j, t, h, n) \<Rightarrow> if j + h + n < e then find (\<lambda>(j', t', h', n'). j' = j + h + n) es else None)"

fun der_path :: "der_elements \<Rightarrow> der_element \<Rightarrow> nat list \<Rightarrow> der_element option" where
  "der_path es x [] = Some x"
| "der_path es (j, t, h, n) (k # ks) = (case der_child es (j + h) (j + h + n) k of
     None \<Rightarrow> None
   | Some x \<Rightarrow> der_path es x ks)"

text \<open>
  The place a path leads to when the element there has the tag: the whole element; its content
  after a prefix that must be there; its last bytes.
\<close>

definition der_place :: "der_elements \<Rightarrow> nat list \<Rightarrow> byte \<Rightarrow> (nat \<Rightarrow> nat \<Rightarrow> nat \<Rightarrow> cert_loc option) \<Rightarrow> cert_loc option" where
  "der_place es path tag f = (case es of
     [] \<Rightarrow> None
   | root # _ \<Rightarrow> (case der_path es root path of
       None \<Rightarrow> None
     | Some (j, t, h, n) \<Rightarrow> if t = tag then f j h n else None))"

definition whole :: "nat \<Rightarrow> nat \<Rightarrow> nat \<Rightarrow> cert_loc option" where
  "whole j h n = Some \<lparr>cl_offset = j, cl_count = h + n\<rparr>"

definition content_after :: "bytes \<Rightarrow> bytes \<Rightarrow> nat \<Rightarrow> nat \<Rightarrow> nat \<Rightarrow> cert_loc option" where
  "content_after tmpl prefix j h n =
     (if length prefix \<le> n \<and> bytes_at tmpl (j + h) prefix
      then Some \<lparr>cl_offset = j + h + length prefix, cl_count = n - length prefix\<rparr> else None)"

definition last_bytes :: "nat \<Rightarrow> nat \<Rightarrow> nat \<Rightarrow> nat \<Rightarrow> cert_loc option" where
  "last_bytes k j h n = (if k \<le> n then Some \<lparr>cl_offset = j + h + n - k, cl_count = k\<rparr> else None)"

text \<open>
  The child of \<open>base\<close> that is labelled with an object identifier: the first child of what
  \<open>sub\<close> leads to in it. Its value is the second child there.
\<close>

definition value_of :: "bytes \<Rightarrow> der_elements \<Rightarrow> nat list \<Rightarrow> nat list \<Rightarrow> bytes \<Rightarrow> nat list" where
  "value_of tmpl es base sub oid =
     (case find (\<lambda>k. der_place es (base @ k # sub @ [0]) 0x06 (content_after tmpl oid) \<noteq> None) [0..<8] of
        None \<Rightarrow> []
      | Some k \<Rightarrow> base @ k # sub @ [1])"

abbreviation (input) no_loc :: cert_loc where
  "no_loc \<equiv> \<lparr>cl_offset = 0, cl_count = 0\<rparr>"

abbreviation (input) template_of :: "cert_def \<Rightarrow> bytes" where
  "template_of d \<equiv> (case cert_template d of None \<Rightarrow> [] | Some (p, bs) \<Rightarrow> bs)"

text \<open>
  The structure of RFC 5280. A certificate is a sequence of the signed part, the algorithm
  and the signature. The signed part has the version, the serial number, the algorithm, the
  issuer, the validity, the subject, the public key and the extensions. \<open>Issuer\<close> and
  \<open>Subject\<close> are the numbers of the two names.
\<close>

abbreviation (input) Issuer :: nat where "Issuer \<equiv> 3"
abbreviation (input) Subject :: nat where "Subject \<equiv> 5"

text \<open>
  The places in the order of cryptoauthlib's \<^verbatim>\<open>STDCERT_\<close> enumeration: public key (after the
  unused-bits byte and the uncompressed-point byte of its bit string), signature, issue and
  expiry date (in UTC time; unused when the certificate does not expire), signer identifier
  (the last four characters of the common name in one of the names), serial number, the
  identifiers of the authority's and of the subject's key in their extensions.
\<close>

definition x509_places :: "bytes \<Rightarrow> der_elements \<Rightarrow> nat \<Rightarrow> nat \<Rightarrow> cert_loc option list" where
  "x509_places t es name years = [
     der_place es [0, 6, 1] 0x03 (content_after t [0, 4]),
     der_place es [2] 0x03 whole,
     der_place es [0, 4, 0] 0x17 (content_after t []),
     (if years = 0 then Some no_loc else der_place es [0, 4, 1] 0x17 (content_after t [])),
     der_place es (value_of t es [0, name] [0] [0x55, 0x04, 0x03]) 0x0C (last_bytes 4),
     der_place es [0, 1] 0x02 (content_after t []),
     der_place es (value_of t es [0, 7, 0] [] [0x55, 0x1d, 0x23]) 0x04 (content_after t [0x30, 0x16, 0x80, 0x14]),
     der_place es (value_of t es [0, 7, 0] [] [0x55, 0x1d, 0x0e]) 0x04 (content_after t [0x04, 0x14])]"

text \<open>A signing request (RFC 2986) has the version, the subject, the public key and attributes.\<close>

definition csr_places :: "bytes \<Rightarrow> der_elements \<Rightarrow> cert_loc option list" where
  "csr_places t es =
     [der_place es [0, 2, 1] 0x03 (content_after t [0, 4]), der_place es [2] 0x03 whole] @ replicate 6 (Some no_loc)"

text \<open>
  What is read from the chip has the size of its place: a public key the chip computes, or a
  stored one, which has four bytes of padding before each half; a stored serial number; a
  compressed certificate always has 72 bytes; the further elements are the two dates, which
  lie one after the other in their slot.
\<close>

definition chip_sizes_ok :: "cert_def \<Rightarrow> bool" where
  "chip_sizes_ok d \<longleftrightarrow> (let m = meta d in
     dl_count (public_key_dev_loc m) = 64 + (if dl_is_genkey (public_key_dev_loc m) = 0 then 8 else 0)
     \<and> cl_count (std_cert_elements m ! 0) = 64
     \<and> dl_count (cert_sn_dev_loc m) =
         (if sn_source m = SNSRC_STORED then cl_count (std_cert_elements m ! 5) else 0)
     \<and> dl_count (comp_cert_dev_loc m) = (if dl_zone (comp_cert_dev_loc m) = DEVZONE_NONE then 0 else 72))"

definition elements_ok :: "cert_def \<Rightarrow> bool" where
  "elements_ok d \<longleftrightarrow> (let std = std_cert_elements (meta d) in
     case cert_elements d of
       None \<Rightarrow> cert_elements_count d = 0
     | Some (p, ces) \<Rightarrow> cert_elements_count d = length ces
         \<and> map (\<lambda>e. (ce_id e, ce_cert_loc e)) ces = [(''IssueDate'', std ! 2), (''ExpireDate'', std ! 3)]
         \<and> list_all (\<lambda>e. dl_count (ce_device_loc e) = cl_count (ce_cert_loc e)) ces
         \<and> sorted_wrt (\<lambda>a b. dl_slot a = dl_slot b \<longrightarrow> dl_offset a + dl_count a \<le> dl_offset b)
             (cert_sn_dev_loc (meta d) # map ce_device_loc ces))"

definition places_ok :: "(bytes \<Rightarrow> der_elements \<Rightarrow> cert_loc option list) \<Rightarrow> cert_def \<Rightarrow> bool" where
  "places_ok expected d \<longleftrightarrow> (let t = template_of d in
     cert_template_size d = length t
     \<and> (case der_walk 0 t of None \<Rightarrow> False
        | Some es \<Rightarrow> der_place es [] 0x30 whole = Some \<lparr>cl_offset = 0, cl_count = length t\<rparr>
            \<and> Some (tbs_cert_loc (meta d)) = der_place es [0] 0x30 whole
            \<and> map Some (std_cert_elements (meta d)) = expected t es))"

text \<open>The elements of the templates.\<close>

definition signer_elements :: der_elements where
  "signer_elements = [
     (0, 0x30, 4, 456), (4, 0x30, 4, 366), (8, 0xa0, 2, 3), (10, 0x2, 2, 1), (13, 0x2, 2, 16), (31, 0x30, 2, 10),
     (33, 0x6, 2, 8), (43, 0x30, 2, 48), (45, 0x31, 2, 20), (47, 0x30, 2, 18), (49, 0x6, 2, 3), (54, 0xc, 2, 11),
     (67, 0x31, 2, 24), (69, 0x30, 2, 22), (71, 0x6, 2, 3), (76, 0xc, 2, 15), (93, 0x30, 2, 30), (95, 0x17, 2, 13),
     (110, 0x17, 2, 13), (125, 0x30, 2, 52), (127, 0x31, 2, 20), (129, 0x30, 2, 18), (131, 0x6, 2, 3), (136, 0xc, 2, 11),
     (149, 0x31, 2, 28), (151, 0x30, 2, 26), (153, 0x6, 2, 3), (158, 0xc, 2, 19), (179, 0x30, 2, 89), (181, 0x30, 2, 19),
     (183, 0x6, 2, 7), (192, 0x6, 2, 8), (202, 0x3, 2, 66), (270, 0xa3, 2, 102), (272, 0x30, 2, 100), (274, 0x30, 2, 18),
     (276, 0x6, 2, 3), (281, 0x1, 2, 1), (284, 0x4, 2, 8), (294, 0x30, 2, 14), (296, 0x6, 2, 3), (301, 0x1, 2, 1),
     (304, 0x4, 2, 4), (310, 0x30, 2, 29), (312, 0x6, 2, 3), (317, 0x4, 2, 22), (341, 0x30, 2, 31), (343, 0x6, 2, 3),
     (348, 0x4, 2, 24), (374, 0x30, 2, 10), (376, 0x6, 2, 8), (386, 0x3, 2, 72)]"

definition device_elements :: der_elements where
  "device_elements = [
     (0, 0x30, 4, 422), (4, 0x30, 4, 331), (8, 0xa0, 2, 3), (10, 0x2, 2, 1), (13, 0x2, 2, 16), (31, 0x30, 2, 10),
     (33, 0x6, 2, 8), (43, 0x30, 2, 52), (45, 0x31, 2, 20), (47, 0x30, 2, 18), (49, 0x6, 2, 3), (54, 0xc, 2, 11),
     (67, 0x31, 2, 28), (69, 0x30, 2, 26), (71, 0x6, 2, 3), (76, 0xc, 2, 19), (97, 0x30, 2, 32), (99, 0x17, 2, 13),
     (114, 0x18, 2, 15), (131, 0x30, 2, 47), (133, 0x31, 2, 20), (135, 0x30, 2, 18), (137, 0x6, 2, 3), (142, 0xc, 2, 11),
     (155, 0x31, 2, 23), (157, 0x30, 2, 21), (159, 0x6, 2, 3), (164, 0xc, 2, 14), (180, 0x30, 2, 89), (182, 0x30, 2, 19),
     (184, 0x6, 2, 7), (193, 0x6, 2, 8), (203, 0x3, 2, 66), (271, 0xa3, 2, 66), (273, 0x30, 2, 64), (275, 0x30, 2, 29),
     (277, 0x6, 2, 3), (282, 0x4, 2, 22), (306, 0x30, 2, 31), (308, 0x6, 2, 3), (313, 0x4, 2, 24), (339, 0x30, 2, 10),
     (341, 0x6, 2, 8), (351, 0x3, 2, 73)]"

definition csr_elements :: der_elements where
  "csr_elements = [
     (0, 0x30, 3, 251), (3, 0x30, 3, 162), (6, 0x2, 2, 1), (9, 0x30, 2, 47), (11, 0x31, 2, 20), (13, 0x30, 2, 18),
     (15, 0x6, 2, 3), (20, 0xc, 2, 11), (33, 0x31, 2, 23), (35, 0x30, 2, 21), (37, 0x6, 2, 3), (42, 0xc, 2, 14),
     (58, 0x30, 2, 89), (60, 0x30, 2, 19), (62, 0x6, 2, 7), (71, 0x6, 2, 8), (81, 0x3, 2, 66), (149, 0xa0, 2, 17),
     (151, 0x30, 2, 15), (153, 0x6, 2, 9), (164, 0x31, 2, 2), (166, 0x30, 2, 0), (168, 0x30, 2, 10), (170, 0x6, 2, 8),
     (180, 0x3, 2, 72)]"

lemma signer_walk: "der_walk 0 g_cert_template_1_signer = Some signer_elements"
  unfolding signer_elements_def by code_simp

lemma device_walk: "der_walk 0 g_cert_template_2_device = Some device_elements"
  unfolding device_elements_def by code_simp

lemma csr_walk: "der_walk 0 g_csr_template_3_device = Some csr_elements"
  unfolding csr_elements_def by code_simp

lemma template_lengths:
  "length g_cert_template_1_signer = 460" "length g_cert_template_2_device = 426"
  "length g_csr_template_3_device = 254"
  by code_simp+

text \<open>The places the structure gives are the ones of the descriptions.\<close>

lemma signer_name: "value_of g_cert_template_1_signer signer_elements [0, 5] [0] [0x55, 0x04, 0x03] = [0, 5, 1, 0, 1]"
  by code_simp

lemma signer_authority_key: "value_of g_cert_template_1_signer signer_elements [0, 7, 0] [] [0x55, 0x1d, 0x23] = [0, 7, 0, 3, 1]"
  by code_simp

lemma signer_subject_key: "value_of g_cert_template_1_signer signer_elements [0, 7, 0] [] [0x55, 0x1d, 0x0e] = [0, 7, 0, 2, 1]"
  by code_simp

lemma signer_authority_place:
  "der_place signer_elements [0, 7, 0, 3, 1] 0x04 (content_after g_cert_template_1_signer [0x30, 0x16, 0x80, 0x14])
     = Some \<lparr>cl_offset = 354, cl_count = 20\<rparr>"
  by code_simp

lemma signer_subject_place:
  "der_place signer_elements [0, 7, 0, 2, 1] 0x04 (content_after g_cert_template_1_signer [0x04, 0x14]) = Some \<lparr>cl_offset = 321, cl_count = 20\<rparr>"
  by code_simp

lemma signer_standard:
  "map Some (std_cert_elements (meta g_cert_def_1_signer)) = x509_places g_cert_template_1_signer signer_elements Subject 10"
  unfolding x509_places_def signer_name signer_authority_key signer_authority_place
    signer_subject_key signer_subject_place by code_simp

lemma signer_frame:
  "cert_template_size g_cert_def_1_signer = length g_cert_template_1_signer"
  "template_of g_cert_def_1_signer = g_cert_template_1_signer"
  "der_place signer_elements [] 0x30 whole = Some \<lparr>cl_offset = 0, cl_count = length g_cert_template_1_signer\<rparr>"
  "Some (tbs_cert_loc (meta g_cert_def_1_signer)) = der_place signer_elements [0] 0x30 whole"
  by code_simp+

lemma signer_places: "places_ok (\<lambda>t es. x509_places t es Subject 10) g_cert_def_1_signer"
  unfolding places_ok_def Let_def signer_frame signer_walk
  using signer_standard by (simp add: signer_frame)

lemma device_name: "value_of g_cert_template_2_device device_elements [0, 3] [0] [0x55, 0x04, 0x03] = [0, 3, 1, 0, 1]"
  by code_simp

lemma device_authority_key: "value_of g_cert_template_2_device device_elements [0, 7, 0] [] [0x55, 0x1d, 0x23] = [0, 7, 0, 1, 1]"
  by code_simp

lemma device_subject_key: "value_of g_cert_template_2_device device_elements [0, 7, 0] [] [0x55, 0x1d, 0x0e] = [0, 7, 0, 0, 1]"
  by code_simp

lemma device_authority_place:
  "der_place device_elements [0, 7, 0, 1, 1] 0x04 (content_after g_cert_template_2_device [0x30, 0x16, 0x80, 0x14])
     = Some \<lparr>cl_offset = 319, cl_count = 20\<rparr>"
  by code_simp

lemma device_subject_place:
  "der_place device_elements [0, 7, 0, 0, 1] 0x04 (content_after g_cert_template_2_device [0x04, 0x14]) = Some \<lparr>cl_offset = 286, cl_count = 20\<rparr>"
  by code_simp

lemma device_standard:
  "map Some (std_cert_elements (meta g_cert_def_2_device)) = x509_places g_cert_template_2_device device_elements Issuer 0"
  unfolding x509_places_def device_name device_authority_key device_authority_place
    device_subject_key device_subject_place by code_simp

lemma device_frame:
  "cert_template_size g_cert_def_2_device = length g_cert_template_2_device"
  "template_of g_cert_def_2_device = g_cert_template_2_device"
  "der_place device_elements [] 0x30 whole = Some \<lparr>cl_offset = 0, cl_count = length g_cert_template_2_device\<rparr>"
  "Some (tbs_cert_loc (meta g_cert_def_2_device)) = der_place device_elements [0] 0x30 whole"
  by code_simp+

lemma device_places: "places_ok (\<lambda>t es. x509_places t es Issuer 0) g_cert_def_2_device"
  unfolding places_ok_def Let_def device_frame device_walk
  using device_standard by (simp add: device_frame)

lemma csr_standard:
  "map Some (std_cert_elements (meta g_csr_def_3_device)) = csr_places g_csr_template_3_device csr_elements"
  by code_simp

lemma csr_frame:
  "cert_template_size g_csr_def_3_device = length g_csr_template_3_device"
  "template_of g_csr_def_3_device = g_csr_template_3_device"
  "der_place csr_elements [] 0x30 whole = Some \<lparr>cl_offset = 0, cl_count = length g_csr_template_3_device\<rparr>"
  "Some (tbs_cert_loc (meta g_csr_def_3_device)) = der_place csr_elements [0] 0x30 whole"
  by code_simp+

lemma request_places: "places_ok csr_places g_csr_def_3_device"
  unfolding places_ok_def Let_def csr_frame csr_walk
  using csr_standard by (simp add: csr_frame)

lemma chip_sizes:
  "chip_sizes_ok g_cert_def_1_signer" "chip_sizes_ok g_cert_def_2_device" "chip_sizes_ok g_csr_def_3_device"
  by code_simp+

lemma chip_elements:
  "elements_ok g_cert_def_1_signer" "elements_ok g_cert_def_2_device" "elements_ok g_csr_def_3_device"
  by code_simp+

end
