(* ===== verification/Certs.thy ===== *)
theory Certs
  imports Cert_Defs
begin

text \<open>
  \<^verbatim>\<open>eccx08_cert.c\<close> and the certificate commands of \<^verbatim>\<open>eccx08_cmd_defns.c\<close>: the copies of the
  static descriptions that the engine keeps, and reading a certificate from the chip, into a
  file or into an OpenSSL object. Compiled with \<^verbatim>\<open>ATCA_OPENSSL_ENGINE_ENABLE_CERTS\<close> and
  \<^verbatim>\<open>ATCA_OPENSSL_ENGINE_STATIC_CONFIG\<close> on.
\<close>

section \<open>The functions used\<close>

text \<open>
  Memory of \<^verbatim>\<open>OPENSSL_malloc\<close>: an address and what the memory held. Reading a certificate
  gives the bytes of the buffer up to the size reported back.
\<close>

record 'w cert_lib =
  ext_OPENSSL_malloc :: "nat \<Rightarrow> 'w \<Rightarrow> ptr \<times> 'w"
  ext_OPENSSL_free :: "ptr \<Rightarrow> 'w \<Rightarrow> unit \<times> 'w"
  ext_heap_bytes :: "nat \<Rightarrow> 'w \<Rightarrow> bytes"
  ext_heap_elements :: "nat \<Rightarrow> 'w \<Rightarrow> cert_element list"
  ext_atcab_read_zone :: "atcacert_device_zone \<Rightarrow> nat \<Rightarrow> nat \<Rightarrow> 'w \<Rightarrow> (status \<times> bytes) \<times> 'w"
  ext_atcab_read_pubkey :: "byte \<Rightarrow> 'w \<Rightarrow> (status \<times> bytes) \<times> 'w"
  ext_atcacert_public_key_remove_padding :: "bytes \<Rightarrow> bytes"
  ext_atcacert_read_cert :: "cert_def \<Rightarrow> bytes \<Rightarrow> nat \<Rightarrow> 'w \<Rightarrow> (status \<times> bytes) \<times> 'w"
  ext_d2i_X509 :: "bytes \<Rightarrow> 'w \<Rightarrow> ptr \<times> 'w"
  ext_X509_get_pubkey :: "ptr \<Rightarrow> 'w \<Rightarrow> ptr \<times> 'w"
  ext_X509_free :: "ptr \<Rightarrow> 'w \<Rightarrow> unit \<times> 'w"
  ext_fopen :: "string \<Rightarrow> 'w \<Rightarrow> ptr \<times> 'w"
  ext_fwrite :: "ptr \<Rightarrow> bytes \<Rightarrow> 'w \<Rightarrow> nat \<times> 'w"
  ext_fclose :: "ptr \<Rightarrow> 'w \<Rightarrow> unit \<times> 'w"

abbreviation "OPENSSL_malloc L n \<equiv> call (ext_OPENSSL_malloc L n) (ev_new Mem)"
abbreviation "OPENSSL_free L p \<equiv> call (ext_OPENSSL_free L p) (\<lambda>_. ev_free Mem p)"
abbreviation "atcab_read_zone L zone slot block \<equiv>
  call (ext_atcab_read_zone L zone slot block) (\<lambda>(st, _). [Dev_cmd (Read_zone zone slot block) st])"
abbreviation "atcab_read_pubkey L slot \<equiv>
  call (ext_atcab_read_pubkey L slot) (\<lambda>(st, _). [Dev_cmd (Read_pubkey slot) st])"
abbreviation "atcacert_read_cert L d ca n \<equiv>
  call (ext_atcacert_read_cert L d ca n) (\<lambda>(st, _). [Dev_cmd (Read_cert (template_id (meta d))) st])"
abbreviation "d2i_X509 L bs \<equiv> call (ext_d2i_X509 L bs) (ev_new X509)"
abbreviation "X509_get_pubkey L p \<equiv> call (ext_X509_get_pubkey L p) (\<lambda>k. ev_new Pkey k)"
abbreviation "X509_free L p \<equiv> call (ext_X509_free L p) (\<lambda>_. ev_free X509 p)"
abbreviation "fopen L name \<equiv> call (ext_fopen L name) (ev_new File)"
abbreviation "fwrite L name fd bs \<equiv> call (ext_fwrite L fd bs) (\<lambda>_. [File_write name bs])"
abbreviation "fclose L fd \<equiv> call (ext_fclose L fd) (\<lambda>_. ev_free File fd)"

section \<open>Copies of the descriptions\<close>

text \<open>
  The size of the structure and of an element are those of the C types; \<open>blank_meta\<close> stands
  for the members of a fresh structure, all overwritten by the caller.
\<close>

definition blank_meta :: cert_meta where
  "blank_meta = meta g_csr_def_3_device"

definition eccx08_cert_new :: "'w cert_lib \<Rightarrow> nat \<Rightarrow> nat \<Rightarrow> nat \<Rightarrow> nat
  \<Rightarrow> ('w, (ptr \<times> cert_def) option) prog" where
  "eccx08_cert_new L sizeof_def sizeof_element sz elements = do {
     p \<leftarrow> OPENSSL_malloc L sizeof_def;
     (if p = NULL then ret None
      else do {
        t \<leftarrow> (if sz \<noteq> 0 then OPENSSL_malloc L sz else ret NULL);
        tb \<leftarrow> gets (\<lambda>s. take sz (ext_heap_bytes L sz (world s)));
        e \<leftarrow> (if elements \<noteq> 0 then OPENSSL_malloc L (sizeof_element * elements) else ret NULL);
        eb \<leftarrow> gets (\<lambda>s. take elements (ext_heap_elements L elements (world s)));
        (if (t = NULL \<and> sz \<noteq> 0) \<or> (e = NULL \<and> elements \<noteq> 0) then do {
           (if t \<noteq> NULL then OPENSSL_free L t else skip);
           (if e \<noteq> NULL then OPENSSL_free L e else skip);
           OPENSSL_free L p;
           ret None
         } else ret (Some (p, \<lparr>meta = blank_meta,
              cert_elements = (if e = NULL then None else Some (e, eb)), cert_elements_count = elements,
              cert_template = (if t = NULL then None else Some (t, tb)), cert_template_size = sz\<rparr>)))
      })
   }"

definition free_cert_arrays :: "'w cert_lib \<Rightarrow> cert_def \<Rightarrow> ('w, unit) prog" where
  "free_cert_arrays L d = do {
     (case cert_template d of None \<Rightarrow> skip | Some (t, tb) \<Rightarrow> OPENSSL_free L t);
     (case cert_elements d of None \<Rightarrow> skip | Some (e, eb) \<Rightarrow> OPENSSL_free L e)
   }"

definition eccx08_cert_free :: "'w cert_lib \<Rightarrow> (ptr \<times> cert_def) option \<Rightarrow> ('w, int) prog" where
  "eccx08_cert_free L cert =
     (case cert of
        None \<Rightarrow> ret ENGINE_OPENSSL_SUCCESS
      | Some (p, d) \<Rightarrow> do {
          log_ev (Obj_use Mem p);
          free_cert_arrays L d;
          OPENSSL_free L p;
          ret ENGINE_OPENSSL_SUCCESS
        })"

text \<open>Lines 138-156: the three \<^verbatim>\<open>memcpy\<close> calls into the new structure.\<close>

definition copy_into :: "cert_def \<Rightarrow> cert_def \<Rightarrow> cert_def" where
  "copy_into orig copy = copy\<lparr>meta := meta orig,
     cert_template := (case (cert_template orig, cert_template copy) of
         (Some (_, bs), Some (t, tb)) \<Rightarrow>
           (if cert_template_size orig \<noteq> 0
            then Some (t, take (cert_template_size orig) bs @ drop (cert_template_size orig) tb)
            else Some (t, tb))
       | _ \<Rightarrow> cert_template copy),
     cert_elements := (case (cert_elements orig, cert_elements copy) of
         (Some (_, es), Some (e, eb)) \<Rightarrow>
           (if cert_elements_count orig \<noteq> 0
            then Some (e, take (cert_elements_count orig) es @ drop (cert_elements_count orig) eb)
            else Some (e, eb))
       | _ \<Rightarrow> cert_elements copy)\<rparr>"

definition eccx08_cert_copy :: "'w cert_lib \<Rightarrow> nat \<Rightarrow> nat \<Rightarrow> cert_def option
  \<Rightarrow> ('w, (ptr \<times> cert_def) option) prog" where
  "eccx08_cert_copy L sizeof_def sizeof_element pCertOrig =
     (case pCertOrig of
        None \<Rightarrow> ret None
      | Some orig \<Rightarrow> do {
          r \<leftarrow> eccx08_cert_new L sizeof_def sizeof_element (cert_template_size orig) (cert_elements_count orig);
          ret (case r of None \<Rightarrow> None | Some (p, copy) \<Rightarrow> Some (p, copy_into orig copy))
        })"

definition eccx08_cert_init :: "'w cert_lib \<Rightarrow> nat \<Rightarrow> nat \<Rightarrow> ('w, int) prog" where
  "eccx08_cert_init L sizeof_def sizeof_element = do {
     c1 \<leftarrow> eccx08_cert_copy L sizeof_def sizeof_element (Some g_cert_def_1_signer);
     modify (\<lambda>s. s\<lparr>g_cert_def_1_signer_ptr := c1\<rparr>);
     c2 \<leftarrow> eccx08_cert_copy L sizeof_def sizeof_element (Some g_cert_def_2_device);
     modify (\<lambda>s. s\<lparr>g_cert_def_2_device_ptr := c2\<rparr>);
     c3 \<leftarrow> eccx08_cert_copy L sizeof_def sizeof_element (Some g_csr_def_3_device);
     modify (\<lambda>s. s\<lparr>g_cert_def_3_csr_ptr := c3\<rparr>);
     ret ENGINE_OPENSSL_SUCCESS
   }"

definition eccx08_cert_cleanup :: "'w cert_lib \<Rightarrow> ('w, int) prog" where
  "eccx08_cert_cleanup L = do {
     s \<leftarrow> getS;
     _ \<leftarrow> eccx08_cert_free L (g_cert_def_1_signer_ptr s);
     _ \<leftarrow> eccx08_cert_free L (g_cert_def_2_device_ptr s);
     _ \<leftarrow> eccx08_cert_free L (g_cert_def_3_csr_ptr s);
     ret ENGINE_OPENSSL_SUCCESS
   }"

section \<open>Reading from the chip\<close>

text \<open>
  The loop of lines 204-209 reads the remaining blocks while the status is good; \<open>acc\<close> is
  the part of the buffer already filled.
\<close>

function read_blocks :: "'w cert_lib \<Rightarrow> device_loc \<Rightarrow> nat \<Rightarrow> bytes \<Rightarrow> status \<Rightarrow> ('w, status \<times> bytes) prog" where
  "read_blocks L loc i acc status =
     (if i < 3 \<and> status = ATCA_SUCCESS then do {
        (st, bs) \<leftarrow> atcab_read_zone L (dl_zone loc) (dl_slot loc) i;
        read_blocks L loc (Suc i) (acc @ bs) st
      } else ret (status, acc))"
  by pat_completeness auto
termination
  by (relation "measure (\<lambda>(L, loc, i, acc, status). 3 - i)") auto

declare read_blocks.simps [simp del]

definition eccx08_cert_load_pubkey :: "'w cert_lib \<Rightarrow> cert_def option \<Rightarrow> ('w, status) prog" where
  "eccx08_cert_load_pubkey L d = do {
     pKeyTmp \<leftarrow> OPENSSL_malloc L (ATCA_BLOCK_SIZE * 3);
     (case d of
        None \<Rightarrow> ret ATCA_BAD_PARAM
      | Some c \<Rightarrow>
          if pKeyTmp = NULL then ret ATCA_BAD_PARAM
          else do {
            (status, buf) \<leftarrow> read_blocks L (public_key_dev_loc (meta c)) 0 [] ATCA_SUCCESS;
            (if status = ATCA_SUCCESS
             then modify (\<lambda>s. s\<lparr>g_signer_1_ca_public_key := ext_atcacert_public_key_remove_padding L buf\<rparr>)
             else skip);
            OPENSSL_free L pKeyTmp;
            ret status
          })
   }"

text \<open>Inside a session: the public key of the issuer, then the certificate (lines 135-150, 280-286).\<close>

definition read_cert_body :: "'w cert_lib \<Rightarrow> cert_def \<Rightarrow> bool \<Rightarrow> nat \<Rightarrow> ('w, status \<times> bytes) prog" where
  "read_cert_body L d signer n = do {
     status \<leftarrow> (if signer then do {
         def1 \<leftarrow> gets (map_option snd \<circ> g_cert_def_1_signer_ptr);
         eccx08_cert_load_pubkey L def1
       } else do {
         (st, key) \<leftarrow> atcab_read_pubkey L 15;
         modify (\<lambda>s. s\<lparr>g_signer_1_ca_public_key := key\<rparr>);
         ret st
       });
     (if status = ATCA_SUCCESS then do {
        ca \<leftarrow> gets g_signer_1_ca_public_key;
        atcacert_read_cert L d ca n
      } else ret (status, []))
   }"

text \<open>Lines 165-176: write the bytes to the file; the status and \<^verbatim>\<open>fd\<close>, closed later.\<close>

definition write_cert_file :: "'w cert_lib \<Rightarrow> string \<Rightarrow> bytes \<Rightarrow> ('w, status \<times> ptr) prog" where
  "write_cert_file L filename bs = do {
     fd \<leftarrow> fopen L filename;
     (if fd = NULL then ret (ATCA_GEN_FAIL, NULL)
      else do {
        n \<leftarrow> fwrite L filename fd bs;
        ret (if n \<noteq> length bs then ATCA_GEN_FAIL else ATCA_SUCCESS, fd)
      })
   }"

text \<open>
  \<open>get_cert\<close>: the result is \<^verbatim>\<open>status\<close> when the loop is left, also when it is left because
  the release failed. \<open>cert_session\<close> is the loop from line 127 on.
\<close>

definition cert_session :: "'w env \<Rightarrow> 'w cert_lib \<Rightarrow> string \<Rightarrow> cert_def \<Rightarrow> bool \<Rightarrow> ('w, status \<times> ptr) prog" where
  "cert_session E L name d signer = do {
     cfg \<leftarrow> gets pCfg;
     status \<leftarrow> atcab_init_safe E cfg;
     (if status \<noteq> ATCA_SUCCESS then ret (status, NULL)
      else do {
        (status, cert) \<leftarrow> read_cert_body L d signer (cert_template_size d + 1);
        rel_status \<leftarrow> atcab_release_safe E;
        (if rel_status \<noteq> ATCA_SUCCESS then ret (status, NULL)
         else if status \<noteq> ATCA_SUCCESS then ret (status, NULL)
         else write_cert_file L name cert)
      })
   }"

definition get_cert :: "'w env \<Rightarrow> 'w cert_lib \<Rightarrow> string option \<Rightarrow> (ptr \<times> cert_def) option
  \<Rightarrow> (ptr \<times> cert_def) option \<Rightarrow> ('w, status) prog" where
  "get_cert E L filename pCertDef pSignerDef =
     (case filename of
        None \<Rightarrow> ret ATCA_BAD_PARAM
      | Some name \<Rightarrow> (case pCertDef of
          None \<Rightarrow> ret ATCA_BAD_PARAM
        | Some (_, d) \<Rightarrow>
            if name = '''' then ret ATCA_BAD_PARAM
            else do {
              pCertRaw \<leftarrow> OPENSSL_malloc L (cert_template_size d + 1);
              (status, fd) \<leftarrow> (if pCertRaw = NULL then ret (ATCA_GEN_FAIL, NULL)
                 else cert_session E L name d (pSignerDef \<noteq> None));
              (if pCertRaw \<noteq> NULL then OPENSSL_free L pCertRaw else skip);
              (if fd \<noteq> NULL then fclose L fd else skip);
              ret status
            }))"

definition get_device_cert :: "'w env \<Rightarrow> 'w cert_lib \<Rightarrow> string option \<Rightarrow> ('w, status) prog" where
  "get_device_cert E L filename = do {
     s \<leftarrow> getS;
     get_cert E L filename (g_cert_def_2_device_ptr s) (g_cert_def_1_signer_ptr s)
   }"

definition get_signer_cert :: "'w env \<Rightarrow> 'w cert_lib \<Rightarrow> string option \<Rightarrow> ('w, status) prog" where
  "get_signer_cert E L filename = do {
     s \<leftarrow> getS;
     get_cert E L filename (g_cert_def_1_signer_ptr s) None
   }"

text \<open>
  \<open>eccx08_cert_load_client\<close>: \<open>ppCert\<close> and \<open>ppKey\<close> say whether the pointers are given and what
  they point to; the result is the return value and the new contents.
\<close>

definition client_cert_session :: "'w env \<Rightarrow> 'w cert_lib \<Rightarrow> cert_def \<Rightarrow> ptr \<Rightarrow> ('w, ptr \<times> ptr) prog" where
  "client_cert_session E L d key0 = do {
     cfg \<leftarrow> gets pCfg;
     status \<leftarrow> atcab_init_safe E cfg;
     (if status \<noteq> ATCA_SUCCESS then ret (NULL, key0)
      else do {
        (status, cert) \<leftarrow> read_cert_body L d True (cert_template_size d + 1);
        rel_status \<leftarrow> atcab_release_safe E;
        (if rel_status \<noteq> ATCA_SUCCESS then ret (NULL, key0)
         else if status \<noteq> ATCA_SUCCESS then ret (NULL, key0)
         else do {
           pCert \<leftarrow> d2i_X509 L cert;
           pKey \<leftarrow> X509_get_pubkey L pCert;
           ret (pCert, pKey)
         })
      })
   }"

definition eccx08_cert_load_client :: "'w env \<Rightarrow> 'w cert_lib \<Rightarrow> ptr option \<Rightarrow> ptr option
  \<Rightarrow> ('w, int \<times> ptr option \<times> ptr option) prog" where
  "eccx08_cert_load_client E L ppCert ppKey = do {
     def2 \<leftarrow> gets g_cert_def_2_device_ptr;
     (case (ppCert, ppKey, def2) of
        (Some cert0, Some key0, Some (_, d)) \<Rightarrow> do {
          (if cert0 \<noteq> NULL then X509_free L cert0 else skip);
          pCertRaw \<leftarrow> OPENSSL_malloc L (cert_template_size d + 1);
          (pCert, pKey) \<leftarrow> (if pCertRaw = NULL then ret (NULL, key0)
             else client_cert_session E L d key0);
          (if pCertRaw \<noteq> NULL then OPENSSL_free L pCertRaw else skip);
          ret (if pCert = NULL then ENGINE_OPENSSL_FAILURE else ENGINE_OPENSSL_SUCCESS,
               Some pCert, Some pKey)
        }
      | _ \<Rightarrow> ret (ENGINE_OPENSSL_FAILURE, ppCert, ppKey))
   }"

text \<open>The control command passes no place for the key (line 228).\<close>

definition load_device_cert :: "'w env \<Rightarrow> 'w cert_lib \<Rightarrow> ptr option \<Rightarrow> ('w, status) prog" where
  "load_device_cert E L p =
     (case p of
        None \<Rightarrow> ret ATCA_BAD_PARAM
      | Some cert \<Rightarrow> do {
          (r, c, k) \<leftarrow> eccx08_cert_load_client E L (Some cert) None;
          ret (if r \<noteq> 0 then ATCA_SUCCESS else ATCA_GEN_FAIL)
        })"

definition config_device_cert :: "string option \<Rightarrow> status" where
  "config_device_cert pStr = (if pStr = None then ATCA_BAD_PARAM else ATCA_SUCCESS)"

definition config_signer_cert :: "string option \<Rightarrow> status" where
  "config_signer_cert pStr = (if pStr = None then ATCA_BAD_PARAM else ATCA_SUCCESS)"

section \<open>Safety\<close>

lemma wp_read_blocks:
  assumes "in_session s" and "\<And>r t. in_session t \<Longrightarrow> Q r t"
  shows "wp (read_blocks L loc i acc st) Q s"
  using assms
proof (induction L loc i acc st arbitrary: s rule: read_blocks.induct)
  case (1 L loc i acc st)
  show ?case
    by (subst read_blocks.simps)
      (auto simp: split_beta simp del: wp_bind
        intro!: wp_bindI wp_call_in_session [OF "1.prems"(1)] "1.IH" "1.prems")
qed

lemma quiet_modify_cert:
  "keeping quiet (modify (\<lambda>s. s\<lparr>g_signer_1_ca_public_key := k\<rparr>))"
  "keeping quiet (modify (\<lambda>s. s\<lparr>g_cert_def_1_signer_ptr := c\<rparr>))"
  "keeping quiet (modify (\<lambda>s. s\<lparr>g_cert_def_2_device_ptr := c\<rparr>))"
  "keeping quiet (modify (\<lambda>s. s\<lparr>g_cert_def_3_csr_ptr := c\<rparr>))"
  by (simp_all add: keeping_def quiet_def sess_same_def)

lemma wp_quiet_in_session:
  "keeping quiet m \<Longrightarrow> in_session s \<Longrightarrow> (\<And>r t. in_session t \<Longrightarrow> Q r t) \<Longrightarrow> wp m Q s"
  by (rule keeping_rule [where R = quiet]) (auto simp: quiet_session)

lemma wp_cert_load_pubkey:
  assumes "in_session s" and "\<And>r t. in_session t \<Longrightarrow> Q r t"
  shows "wp (eccx08_cert_load_pubkey L d) Q s"
proof -
  have "keeping quiet (if r = ATCA_SUCCESS
       then modify (\<lambda>s. s\<lparr>g_signer_1_ca_public_key := k\<rparr>) else skip)" for r k
    by (intro quiet.keep quiet_modify_cert)
  note m = wp_quiet_in_session [OF this]
  have tail: "wp (do {
       (status, buf) \<leftarrow> read_blocks L loc 0 [] ATCA_SUCCESS;
       (if status = ATCA_SUCCESS
        then modify (\<lambda>s. s\<lparr>g_signer_1_ca_public_key := ext_atcacert_public_key_remove_padding L buf\<rparr>)
        else skip);
       OPENSSL_free L p;
       ret status }) Q t" if "in_session t" for t loc p
    by (rule wp_bindI, rule wp_read_blocks [OF that], unfold split_beta, rule wp_bindI, rule m,
        assumption, simp, rule wp_call_in_session) (auto intro: assms(2))
  show ?thesis
    unfolding eccx08_cert_load_pubkey_def
    by (rule wp_bindI, rule wp_call_in_session [OF assms(1)])
      (auto simp del: wp_bind intro!: tail assms(2) split: option.splits)
qed

lemma wp_read_cert_body:
  assumes "in_session s" and "\<And>r t. in_session t \<Longrightarrow> Q r t"
  shows "wp (read_cert_body L d signer n) Q s"
proof -
  have tail: "wp (if st = ATCA_SUCCESS then do {
      ca \<leftarrow> gets g_signer_1_ca_public_key;
      atcacert_read_cert L d ca n } else ret (st, [])) Q t" if "in_session t" for st t
    by (auto intro!: assms(2) that wp_call_in_session [OF that] split: prod.splits)
  have key: "wp (do {
      (st, key) \<leftarrow> atcab_read_pubkey L 15;
      modify (\<lambda>s. s\<lparr>g_signer_1_ca_public_key := key\<rparr>);
      ret st }) (\<lambda>_ t. in_session t) s"
    by (rule wp_bindI, rule wp_call_in_session [OF assms(1)])
      (auto split: prod.splits simp: sess_defs)
  show ?thesis
    unfolding read_cert_body_def
    by (rule wp_bindI)
      (auto simp del: wp_bind intro!: tail wp_bindI wp_cert_load_pubkey [OF assms(1)] wp_mono [OF key])
qed

lemma safe_write_cert_file: "keeping safe (write_cert_file L name bs)"
  unfolding write_cert_file_def by (intro safe.keep quiet_safe [OF quiet_call]) auto

lemma safe_cert_session: "mutex_ok E \<Longrightarrow> keeping safe (cert_session E L name d signer)"
  unfolding cert_session_def
proof (rule safeI, unfold wp_bind wp_gets, rule wp_init_any, assumption, assumption, goal_cases ok err)
  case (ok s t)
  show ?case
    by (simp del: wp_bind, rule wp_bindI, rule wp_read_cert_body [OF ok(3)])
      (auto simp: split_beta simp del: wp_bind intro!: wp_release_then safe.keep safe_write_cert_file)
qed simp

lemma safe_client_cert_session: "mutex_ok E \<Longrightarrow> keeping safe (client_cert_session E L d key0)"
  unfolding client_cert_session_def
proof (rule safeI, unfold wp_bind wp_gets, rule wp_init_any, assumption, assumption, goal_cases ok err)
  case (ok s t)
  show ?case
    by (simp del: wp_bind, rule wp_bindI, rule wp_read_cert_body [OF ok(3)])
      (auto simp: split_beta simp del: wp_bind intro!: wp_release_then safe.keep quiet_safe [OF quiet_call])
qed simp

lemma safe_get_cert: "mutex_ok E \<Longrightarrow> keeping safe (get_cert E L filename d signer)"
  unfolding get_cert_def
  by (intro safe.keep quiet_safe [OF quiet_call] safe_cert_session) auto

lemma safe_cert_load_client: "mutex_ok E \<Longrightarrow> keeping safe (eccx08_cert_load_client E L ppCert ppKey)"
  unfolding eccx08_cert_load_client_def
  by (cases ppCert; cases ppKey)
    (auto intro!: safe.keep quiet_safe [OF quiet_call] safe_client_cert_session simp: split_beta)

section \<open>Copies are faithful, and nothing is lost when memory runs out\<close>

text \<open>A description whose sizes are those of its arrays.\<close>

definition cert_wf :: "cert_def \<Rightarrow> bool" where
  "cert_wf d \<longleftrightarrow> cert_template_size d = length (template_of d)
     \<and> (case cert_template d of None \<Rightarrow> True | Some (p, bs) \<Rightarrow> bs \<noteq> [])
     \<and> cert_elements_count d = (case cert_elements d of None \<Rightarrow> 0 | Some (p, es) \<Rightarrow> length es)
     \<and> (case cert_elements d of None \<Rightarrow> True | Some (p, es) \<Rightarrow> es \<noteq> [])"

text \<open>The same content at other addresses.\<close>

definition same_content :: "cert_def \<Rightarrow> cert_def \<Rightarrow> bool" where
  "same_content c d \<longleftrightarrow> meta c = meta d \<and> map_option snd (cert_template c) = map_option snd (cert_template d)
     \<and> cert_template_size c = cert_template_size d
     \<and> map_option snd (cert_elements c) = map_option snd (cert_elements d)
     \<and> cert_elements_count c = cert_elements_count d"

lemma same_content_wf: "same_content c d \<Longrightarrow> cert_wf d \<Longrightarrow> cert_wf c"
  by (cases "cert_template c"; cases "cert_template d"; cases "cert_elements c"; cases "cert_elements d")
    (auto simp: same_content_def cert_wf_def split: prod.splits)

definition cert_refs :: "(ptr \<times> cert_def) option \<Rightarrow> ptr list" where
  "cert_refs c = (case c of None \<Rightarrow> []
     | Some (p, d) \<Rightarrow> p # (case cert_template d of None \<Rightarrow> [] | Some (t, _) \<Rightarrow> [t])
                      @ (case cert_elements d of None \<Rightarrow> [] | Some (e, _) \<Rightarrow> [e]))"

text \<open>\<open>count_refs f ps\<close>: one more reference to each block of memory in the list.\<close>

definition count_refs :: "(obj_class \<Rightarrow> ptr \<Rightarrow> nat) \<Rightarrow> ptr list \<Rightarrow> obj_class \<Rightarrow> ptr \<Rightarrow> nat" where
  "count_refs f ps = (\<lambda>c p. f c p + (if c = Mem then count_list ps p else 0))"

lemma cert_wf_sizes:
  assumes "cert_wf d"
  shows "cert_template_size d = 0 \<longleftrightarrow> cert_template d = None"
    and "cert_elements_count d = 0 \<longleftrightarrow> cert_elements d = None"
  using assms by (auto simp: cert_wf_def split: option.splits)

lemma wp_cert_copy:
  assumes "cert_wf d"
  shows "wp (eccx08_cert_copy L n k (Some d)) (\<lambda>r t.
    case r of None \<Rightarrow> True | Some (p, c) \<Rightarrow> p \<noteq> NULL \<and> same_content c d) s"
  using assms cert_wf_sizes [OF assms]
  by (cases "cert_template d"; cases "cert_elements d")
    (auto simp: eccx08_cert_copy_def eccx08_cert_new_def wp_call_eq copy_into_def same_content_def
      cert_wf_def split: prod.splits option.splits)

lemma wp_cert_copy_refs:
  assumes "cert_wf d" and "ref_mon (trace s) = Some m"
  shows "wp (eccx08_cert_copy L n k (Some d)) (\<lambda>r t.
    \<exists>m'. ref_mon (trace t) = Some m' \<and> own m' = count_refs (own m) (cert_refs r)) s"
  using assms cert_wf_sizes [OF assms(1)]
  by (cases "cert_template d"; cases "cert_elements d")
    (auto simp: eccx08_cert_copy_def eccx08_cert_new_def wp_call_eq copy_into_def cert_refs_def
      count_refs_def ev_new_def ev_free_def fun_eq_iff split: prod.splits option.splits)

lemma static_certs_wf:
  "cert_wf g_cert_def_1_signer" "cert_wf g_cert_def_2_device" "cert_wf g_csr_def_3_device"
  using template_lengths
  by (auto simp: cert_wf_def g_cert_def_1_signer_def g_cert_def_2_device_def g_csr_def_3_device_def
      g_cert_elements_1_signer_def)

section \<open>Cleaning up\<close>

text \<open>Freeing only lowers the counts; the structure itself is freed last.\<close>

definition fewer :: "ptr \<Rightarrow> nat \<Rightarrow> 'w eng \<Rightarrow> bool" where
  "fewer p k s \<longleftrightarrow> (\<forall>m. ref_mon (trace s) = Some m \<longrightarrow> own m Mem p \<le> k)"

definition fewer_than :: "ptr \<Rightarrow> 'w eng \<Rightarrow> 'w eng \<Rightarrow> bool" where
  "fewer_than p s t \<longleftrightarrow> (\<forall>k. fewer p k s \<longrightarrow> fewer p k t)"

interpretation fewer: frame "fewer_than p" for p
  by unfold_locales (auto simp: fewer_than_def)

lemma fewer_free: "keeping (fewer_than p) (OPENSSL_free L q)"
  by (rule keepingI, rule wp_call) (auto simp: fewer_than_def fewer_def ev_free_def split: option.splits if_splits)

lemma fewer_use: "keeping (fewer_than p) (log_ev (Obj_use Mem q))"
  by (auto simp: keeping_def fewer_than_def fewer_def split: option.splits if_splits)

lemma fewer_free_arrays: "keeping (fewer_than p) (free_cert_arrays L d)"
  unfolding free_cert_arrays_def by (intro fewer.keep fewer_free)

lemma fewer_cert_free: "keeping (fewer_than p) (eccx08_cert_free L c)"
  unfolding eccx08_cert_free_def by (intro fewer.keep fewer_free fewer_use fewer_free_arrays)

lemma wp_cert_free_last:
  assumes "fewer p (Suc k) s" and "p \<noteq> NULL"
  shows "wp (eccx08_cert_free L (Some (p, d))) (\<lambda>_ t. fewer p k t) s"
  unfolding eccx08_cert_free_def option.case prod.case
proof (rule wp_bindI, rule keeping_rule [OF fewer_use], rule wp_bindI,
    rule keeping_rule [OF fewer_free_arrays], rule wp_bindI, rule wp_call)
  fix x w t u
  assume "fewer_than p s t" "fewer_than p t u"
  then have "fewer p (Suc k) u" using assms(1) by (auto simp: fewer_than_def)
  with assms(2) show "wp (ret ENGINE_OPENSSL_SUCCESS) (\<lambda>_. fewer p k)
      (u\<lparr>world := w, trace := ev_free Mem p @ trace u\<rparr>)"
    by (auto simp: fewer_def ev_free_def split: option.splits if_splits)
qed

lemma wp_cleanup_fewer:
  assumes "g_cert_def_1_signer_ptr s = Some (p, d)" and "p \<noteq> NULL" and "fewer p (Suc k) s"
  shows "wp (eccx08_cert_cleanup L) (\<lambda>_ t. fewer p k t) s"
proof -
  have "keeping (fewer_than p) (do {
     _ \<leftarrow> eccx08_cert_free L c2;
     _ \<leftarrow> eccx08_cert_free L c3;
     ret ENGINE_OPENSSL_SUCCESS })" for c2 c3
    by (intro fewer.keep fewer_cert_free)
  note rest = keeping_rule [OF this]
  show ?thesis
    unfolding eccx08_cert_cleanup_def
    by (rule wp_bindI, unfold wp_get assms(1), rule wp_bindI,
        rule wp_mono [OF wp_cert_free_last [OF assms(3,2)]], rule rest)
      (auto simp: fewer_than_def)
qed

text \<open>Cleaning up does not reset the pointers, so a second time frees memory that is gone.\<close>

definition cert_ptrs_same :: "'w eng \<Rightarrow> 'w eng \<Rightarrow> bool" where
  "cert_ptrs_same s t \<longleftrightarrow> g_cert_def_1_signer_ptr t = g_cert_def_1_signer_ptr s
     \<and> g_cert_def_2_device_ptr t = g_cert_def_2_device_ptr s
     \<and> g_cert_def_3_csr_ptr t = g_cert_def_3_csr_ptr s"

interpretation ptrs: frame cert_ptrs_same
  by unfold_locales (auto simp: cert_ptrs_same_def)

lemma ptrs_call: "keeping cert_ptrs_same (call f evs)"
  by (rule keepingI, rule wp_call) (simp add: cert_ptrs_same_def)

lemma ptrs_log_ev: "keeping cert_ptrs_same (log_ev e)"
  by (simp add: keeping_def cert_ptrs_same_def)

lemma ptrs_cleanup: "keeping cert_ptrs_same (eccx08_cert_cleanup L)"
  unfolding eccx08_cert_cleanup_def eccx08_cert_free_def free_cert_arrays_def
  by (intro ptrs.keep ptrs_call ptrs_log_ev)

lemma wp_cert_free_gone:
  assumes "fewer p 0 s" and "p \<noteq> NULL"
  shows "wp (eccx08_cert_free L (Some (p, d))) (\<lambda>_ t. ref_mon (trace t) = None) s"
  unfolding eccx08_cert_free_def option.case prod.case
proof (rule wp_bindI, rule keeping_rule [OF fewer_use], rule wp_bindI,
    rule keeping_rule [OF fewer_free_arrays], rule wp_bindI, rule wp_call)
  fix x w t u
  assume "fewer_than p s t" "fewer_than p t u"
  then have "fewer p 0 u" using assms(1) by (auto simp: fewer_than_def)
  with assms(2) show "wp (ret ENGINE_OPENSSL_SUCCESS) (\<lambda>_ t. ref_mon (trace t) = None)
      (u\<lparr>world := w, trace := ev_free Mem p @ trace u\<rparr>)"
    by (auto simp: fewer_def ev_free_def split: option.splits)
qed

lemma adds_cert_free: "keeping (adds (\<lambda>_. True)) (eccx08_cert_free L c)"
  unfolding eccx08_cert_free_def free_cert_arrays_def
  by (intro adds.keep adds_basic) (simp_all add: list_all_iff)

lemma adds_rejected: "adds P s t \<Longrightarrow> ref_mon (trace s) = None \<Longrightarrow> ref_mon (trace t) = None"
  using ref_mon_append by (fastforce simp: adds_def)

lemma wp_cleanup_gone:
  assumes "g_cert_def_1_signer_ptr s = Some (p, d)" and "p \<noteq> NULL" and "fewer p 0 s"
  shows "wp (eccx08_cert_cleanup L) (\<lambda>_ t. ref_mon (trace t) = None) s"
proof -
  have "keeping (adds (\<lambda>_. True)) (do {
     _ \<leftarrow> eccx08_cert_free L c2;
     _ \<leftarrow> eccx08_cert_free L c3;
     ret ENGINE_OPENSSL_SUCCESS })" for c2 c3
    by (intro adds.keep adds_cert_free)
  note rest = keeping_rule [OF this]
  show ?thesis
    unfolding eccx08_cert_cleanup_def
    by (rule wp_bindI, unfold wp_get assms(1), rule wp_bindI,
        rule wp_mono [OF wp_cert_free_gone [OF assms(3,2)]], rule rest)
      (rule adds_rejected)
qed

section \<open>Results of the certificate commands\<close>

lemma run_load_device_cert:
  "fst (run_state (load_device_cert E L (Some c)) s) = ATCA_GEN_FAIL"
  by (cases "g_cert_def_2_device_ptr s")
    (auto simp: load_device_cert_def eccx08_cert_load_client_def)

text \<open>Writing needs a clean release: without one no file is written, whatever is returned.\<close>

fun file_ev :: "ev \<Rightarrow> bool" where
  "file_ev (File_write f bs) = True"
| "file_ev e = False"

lemma session_ev_no_file: "session_ev e \<Longrightarrow> \<not> file_ev e"
  by (cases e) auto

lemma wp_release_fails:
  assumes "\<And>w. fst (ext_atcab_release E w) \<noteq> ATCA_SUCCESS" and "\<And>st t. st \<noteq> ATCA_SUCCESS \<Longrightarrow> Q st t"
  shows "wp (atcab_release_safe E) Q s"
proof -
  have "ext_atcab_release E w = (st, w') \<Longrightarrow> st \<noteq> ATCA_SUCCESS" for w st w'
    using assms(1) [of w] by simp
  then show ?thesis
    unfolding atcab_release_safe_def
    by (auto simp: wp_call_eq free_ifacecfg_def split: prod.splits intro!: assms(2) wpI [of "eccx08_global_lock E"]
        wpI [of "eccx08_global_unlock E"])
qed

abbreviation (input) no_file :: "ev \<Rightarrow> bool" where "no_file \<equiv> \<lambda>e. \<not> file_ev e"

lemma no_file_read_blocks: "keeping (adds no_file) (read_blocks L loc i acc st)"
proof (induction L loc i acc st rule: read_blocks.induct)
  case (1 L loc i acc st)
  show ?case
    by (subst read_blocks.simps) (intro adds.keep adds_call "1.IH", auto split: prod.splits)
qed

lemma no_file_objects [simp]:
  "list_all no_file (ev_new c p)" "list_all no_file (ev_free c p)"
  by (simp_all add: ev_new_def ev_free_def)

lemma no_file_read_cert_body: "keeping (adds no_file) (read_cert_body L d signer n)"
  unfolding read_cert_body_def eccx08_cert_load_pubkey_def
  by (intro adds.keep adds_basic no_file_read_blocks)
    (auto simp: keeping_def adds_def split: prod.splits)

lemma no_file_sess:
  "keeping (adds no_file) (atcab_init_safe E cfg)" "keeping (adds no_file) (atcab_release_safe E)"
  by (rule keeping_adds_weaken [OF adds_init_safe session_ev_no_file], assumption)
     (rule keeping_adds_weaken [OF adds_release_safe session_ev_no_file], assumption)

lemma no_file_cert_session:
  assumes "\<And>w. fst (ext_atcab_release E w) \<noteq> ATCA_SUCCESS"
  shows "keeping (adds no_file) (cert_session E L name d signer)"
proof -
  have tail: "keeping (adds no_file) (do {
     rel_status \<leftarrow> atcab_release_safe E;
     (if rel_status \<noteq> ATCA_SUCCESS then ret (status, NULL)
      else if status \<noteq> ATCA_SUCCESS then ret (status, NULL)
      else write_cert_file L name cert) })" for status cert
    by (rule keepingI, rule wp_bindI, rule wp_also [OF keepingD [OF no_file_sess(2)]],
        rule wp_release_fails [OF assms]) simp
  show ?thesis
    unfolding cert_session_def
    by (intro tail adds.keep adds_basic no_file_read_cert_body no_file_sess)
qed

lemma no_file_get_cert:
  assumes "\<And>w. fst (ext_atcab_release E w) \<noteq> ATCA_SUCCESS"
  shows "keeping (adds no_file) (get_cert E L filename d signer)"
  unfolding get_cert_def
  by (intro adds.keep adds_basic no_file_cert_session assms) simp_all

end
