(* ===== verification/Cmds.thy ===== *)
theory Cmds
  imports Ecdsa Certs
begin

text \<open>
  \<^verbatim>\<open>eccx08_cmd_defns.c\<close>: the table of control commands and the function that runs them. The
  preprocessor options that select commands are a record, \<open>build\<close>.
\<close>

section \<open>Build options and command numbers\<close>

record build =
  ENABLE_RAND :: bool
  ENABLE_SHA256 :: bool
  ENABLE_CERTS :: bool
  REGISTER_ECDH :: bool
  REGISTER_PKEY :: bool

text \<open>The defaults of \<^verbatim>\<open>eccx08_engine.h\<close>.\<close>

definition default_build :: build where
  "default_build = \<lparr>ENABLE_RAND = False, ENABLE_SHA256 = False, ENABLE_CERTS = False, REGISTER_ECDH = False, REGISTER_PKEY = True\<rparr>"

abbreviation (input) ENGINE_CMD_BASE :: int where "ENGINE_CMD_BASE \<equiv> 200"
abbreviation (input) ECCX08_CMD_GET_VERSION :: int where "ECCX08_CMD_GET_VERSION \<equiv> 200"
abbreviation (input) ECCX08_CMD_GET_KEY :: int where "ECCX08_CMD_GET_KEY \<equiv> 201"
abbreviation (input) ECCX08_CMD_GET_DEVICE_CERT :: int where "ECCX08_CMD_GET_DEVICE_CERT \<equiv> 202"
abbreviation (input) ECCX08_CMD_GET_SIGNER_CERT :: int where "ECCX08_CMD_GET_SIGNER_CERT \<equiv> 203"
abbreviation (input) ECCX08_CMD_LOAD_CERT_CTRL :: int where "ECCX08_CMD_LOAD_CERT_CTRL \<equiv> 204"
abbreviation (input) ECCX08_CMD_KEY_SLOT :: int where "ECCX08_CMD_KEY_SLOT \<equiv> 205"
abbreviation (input) ECCX08_CMD_TRANSPORT_KEY :: int where "ECCX08_CMD_TRANSPORT_KEY \<equiv> 206"
abbreviation (input) ECCX08_CMD_ECDH_SLOT :: int where "ECCX08_CMD_ECDH_SLOT \<equiv> 207"
abbreviation (input) ECCX08_CMD_ECDH_SLOTS :: int where "ECCX08_CMD_ECDH_SLOTS \<equiv> 208"
abbreviation (input) ECCX08_CMD_DEVICE_CERT :: int where "ECCX08_CMD_DEVICE_CERT \<equiv> 209"
abbreviation (input) ECCX08_CMD_SIGNER_CERT :: int where "ECCX08_CMD_SIGNER_CERT \<equiv> 210"
abbreviation (input) ECCX08_CMD_MAX :: int where "ECCX08_CMD_MAX \<equiv> 211"

abbreviation (input) ENGINE_CMD_FLAG_NUMERIC :: nat where "ENGINE_CMD_FLAG_NUMERIC \<equiv> 1"
abbreviation (input) ENGINE_CMD_FLAG_STRING :: nat where "ENGINE_CMD_FLAG_STRING \<equiv> 2"
abbreviation (input) ENGINE_CMD_FLAG_NO_INPUT :: nat where "ENGINE_CMD_FLAG_NO_INPUT \<equiv> 4"
abbreviation (input) ENGINE_CMD_FLAG_INTERNAL :: nat where "ENGINE_CMD_FLAG_INTERNAL \<equiv> 8"

text \<open>\<^verbatim>\<open>ENGINE_CMD_DEFN\<close>; the terminating element has no name.\<close>

record cmd_defn =
  cmd_num :: int
  cmd_name :: "string option"
  cmd_desc :: "string option"
  cmd_flags :: nat

definition defn :: "int \<Rightarrow> string \<Rightarrow> string \<Rightarrow> nat \<Rightarrow> cmd_defn" where
  "defn n name desc flags = \<lparr>cmd_num = n, cmd_name = Some name, cmd_desc = Some desc, cmd_flags = flags\<rparr>"

definition eccx08_cmd_defns :: "build \<Rightarrow> cmd_defn list" where
  "eccx08_cmd_defns b =
     [defn ECCX08_CMD_GET_VERSION ''VERSION'' ''Get engine version'' ENGINE_CMD_FLAG_NO_INPUT,
      defn ECCX08_CMD_GET_KEY ''GET_DEVICE_KEY''
        ''Get engine key structure for DEVICE_KEY_SLOT and stores in the provided file''
        ENGINE_CMD_FLAG_STRING] @
     (if ENABLE_CERTS b then
       [defn ECCX08_CMD_GET_DEVICE_CERT ''GET_DEVICE_CERT''
          ''Get device certificate from hardware and stores in the provided filename''
          ENGINE_CMD_FLAG_STRING,
        defn ECCX08_CMD_GET_SIGNER_CERT ''GET_SIGNER_CERT''
          ''Get signer certificate from hardware and stores in the provided filename''
          ENGINE_CMD_FLAG_STRING,
        defn ECCX08_CMD_LOAD_CERT_CTRL ''LOAD_CERT_CTRL''
          ''Load the device certificate into an OpenSSL cert'' ENGINE_CMD_FLAG_INTERNAL]
      else []) @
     [defn ECCX08_CMD_KEY_SLOT ''SET_KEY_SLOT'' ''Where to find the device private key''
        ENGINE_CMD_FLAG_NUMERIC,
      defn ECCX08_CMD_TRANSPORT_KEY ''set_transport_key''
        ''Binary blob with the transport key secret (32 bytes)''
        (ENGINE_CMD_FLAG_STRING OR ENGINE_CMD_FLAG_INTERNAL),
      defn ECCX08_CMD_ECDH_SLOT ''set_ecdh_slot'' ''Base slot for ecdh key(s)''
        (ENGINE_CMD_FLAG_NUMERIC OR ENGINE_CMD_FLAG_INTERNAL),
      defn ECCX08_CMD_ECDH_SLOTS ''set_ecdh_count''
        ''Number of sequential slots to use for ecdh key(s) - e.g. ecdh_key_slot...ecdh_key_slot+ecdh_slot_count-1''
        (ENGINE_CMD_FLAG_NUMERIC OR ENGINE_CMD_FLAG_INTERNAL)] @
     (if ENABLE_CERTS b then
       [defn ECCX08_CMD_DEVICE_CERT ''set_device_cert_def'' ''Device Cert Configuration Section''
          (ENGINE_CMD_FLAG_STRING OR ENGINE_CMD_FLAG_INTERNAL),
        defn ECCX08_CMD_SIGNER_CERT ''set_signer_cert_def'' ''Signer Cert Configuration Section''
          (ENGINE_CMD_FLAG_STRING OR ENGINE_CMD_FLAG_INTERNAL)]
      else []) @
     [\<lparr>cmd_num = 0, cmd_name = None, cmd_desc = None, cmd_flags = 0\<rparr>]"

section \<open>Writing a key file\<close>

record 'w bio_lib =
  ext_BIO_new_file :: "'w \<Rightarrow> ptr \<times> 'w"
  ext_BIO_write_filename :: "ptr \<Rightarrow> string option \<Rightarrow> 'w \<Rightarrow> int \<times> 'w"
  ext_PEM_write_bio_ECPrivateKey :: "ptr \<Rightarrow> ptr \<Rightarrow> 'w \<Rightarrow> int \<times> 'w"
  ext_BIO_free :: "ptr \<Rightarrow> 'w \<Rightarrow> unit \<times> 'w"

text \<open>Lines 290-304: the key as a PEM file.\<close>

definition write_key_file :: "'w env \<Rightarrow> 'w bio_lib \<Rightarrow> ptr \<Rightarrow> string option \<Rightarrow> ('w, status) prog" where
  "write_key_file E B pkey filename = do {
     ec \<leftarrow> EVP_PKEY_get1_EC_KEY E pkey;
     (if ec = NULL then ret ATCA_GEN_FAIL
      else do {
        bio \<leftarrow> call (ext_BIO_new_file B) (ev_new Bio);
        _ \<leftarrow> call (ext_BIO_write_filename B bio filename) (\<lambda>_. []);
        status \<leftarrow> (if bio \<noteq> NULL then do {
            r \<leftarrow> call (ext_PEM_write_bio_ECPrivateKey B bio ec) (\<lambda>_. []);
            call (ext_BIO_free B bio) (\<lambda>_. ev_free Bio bio);
            ret (if r \<noteq> 0 then ATCA_SUCCESS else ATCA_GEN_FAIL)
          } else ret ATCA_GEN_FAIL);
        EC_KEY_free E ec;
        ret status
      })
   }"

definition get_key :: "'w env \<Rightarrow> 'w bio_lib \<Rightarrow> ptr \<Rightarrow> 16 word \<Rightarrow> string option \<Rightarrow> ('w, status) prog" where
  "get_key E B e keyid filename = do {
     p \<leftarrow> gets pCfg;
     cfg \<leftarrow> (case p of Some c \<Rightarrow> ret c | None \<Rightarrow> do { flag_ub Null_deref; ret zero_cfg });
     (let key_str = key_id_string (iface_type cfg) (unat (i2c_bus cfg)) (unat (i2c_slave_address cfg)) (unat keyid)
      in do {
        pkey \<leftarrow> eccx08_load_pubkey E e (Some key_str) None;
        (if pkey = NULL then ret ATCA_GEN_FAIL
         else do {
           status \<leftarrow> write_key_file E B pkey filename;
           EVP_PKEY_free E pkey;
           ret status
         })
      })
   }"

section \<open>The settings\<close>

definition set_device_key_slot :: "32 word \<Rightarrow> ('w, status) prog" where
  "set_device_key_slot i =
     (if i < 16 then do {
        modify (\<lambda>s. s\<lparr>eccx08_engine_config := (eccx08_engine_config s)\<lparr>device_key_slot := ucast i\<rparr>\<rparr>);
        ret ATCA_SUCCESS
      } else ret ATCA_BAD_PARAM)"

definition set_ecdh_slot :: "32 word \<Rightarrow> ('w, status) prog" where
  "set_ecdh_slot i =
     (if i < 16 then do {
        modify (\<lambda>s. s\<lparr>eccx08_engine_config := (eccx08_engine_config s)\<lparr>ecdh_key_slot := ucast i\<rparr>\<rparr>);
        ret ATCA_SUCCESS
      } else ret ATCA_BAD_PARAM)"

definition set_ecdh_count :: "32 word \<Rightarrow> ('w, status) prog" where
  "set_ecdh_count i =
     (if i < 16 then do {
        modify (\<lambda>s. s\<lparr>eccx08_engine_config := (eccx08_engine_config s)\<lparr>ecdh_key_count := ucast i\<rparr>\<rparr>);
        ret ATCA_SUCCESS
      } else ret ATCA_BAD_PARAM)"

text \<open>The \<^verbatim>\<open>memcpy\<close> reads 32 bytes at \<open>p\<close>.\<close>

definition set_transport_key :: "bytes option \<Rightarrow> ('w, status) prog" where
  "set_transport_key p =
     (case p of
        None \<Rightarrow> ret ATCA_BAD_PARAM
      | Some bs \<Rightarrow> do {
          need_bytes bs 32;
          modify (\<lambda>s. s\<lparr>transport_key := take 32 bs\<rparr>);
          ret ATCA_SUCCESS
        })"

section \<open>The control function\<close>

text \<open>The argument \<^verbatim>\<open>void *p\<close>, as each command reads it; \<open>None\<close> is the null pointer.\<close>

record ctrl_ptr =
  as_string :: "string option"
  as_cert_params :: "ptr option"
  as_bytes :: "bytes option"

text \<open>The parameter \<^verbatim>\<open>long i\<close> is passed on as \<^verbatim>\<open>uint32_t\<close>.\<close>

definition run_cmd :: "build \<Rightarrow> 'w env \<Rightarrow> 'w cert_lib \<Rightarrow> 'w bio_lib \<Rightarrow> ptr \<Rightarrow> int \<Rightarrow> int \<Rightarrow> ctrl_ptr
  \<Rightarrow> ('w, status) prog" where
  "run_cmd b E L B e cmd i p =
     (if cmd = ECCX08_CMD_GET_VERSION then ret ATCA_SUCCESS
      else if cmd = ECCX08_CMD_GET_KEY then do {
        slot \<leftarrow> gets (device_key_slot \<circ> eccx08_engine_config);
        get_key E B e (ucast slot) (as_string p)
      }
      else if ENABLE_CERTS b \<and> cmd = ECCX08_CMD_GET_DEVICE_CERT then get_device_cert E L (as_string p)
      else if ENABLE_CERTS b \<and> cmd = ECCX08_CMD_GET_SIGNER_CERT then get_signer_cert E L (as_string p)
      else if ENABLE_CERTS b \<and> cmd = ECCX08_CMD_LOAD_CERT_CTRL then load_device_cert E L (as_cert_params p)
      else if ENABLE_CERTS b \<and> cmd = ECCX08_CMD_DEVICE_CERT then ret (config_device_cert (as_string p))
      else if ENABLE_CERTS b \<and> cmd = ECCX08_CMD_SIGNER_CERT then ret (config_signer_cert (as_string p))
      else if cmd = ECCX08_CMD_KEY_SLOT then set_device_key_slot (word_of_int i)
      else if REGISTER_ECDH b \<and> cmd = ECCX08_CMD_ECDH_SLOT then set_ecdh_slot (word_of_int i)
      else if REGISTER_ECDH b \<and> cmd = ECCX08_CMD_ECDH_SLOTS then set_ecdh_count (word_of_int i)
      else if REGISTER_ECDH b \<and> cmd = ECCX08_CMD_TRANSPORT_KEY then set_transport_key (as_bytes p)
      else ret ATCA_GEN_FAIL)"

definition eccx08_cmd_ctrl :: "build \<Rightarrow> 'w env \<Rightarrow> 'w cert_lib \<Rightarrow> 'w bio_lib \<Rightarrow> ptr \<Rightarrow> int \<Rightarrow> int \<Rightarrow> ctrl_ptr
  \<Rightarrow> ('w, int) prog" where
  "eccx08_cmd_ctrl b E L B e cmd i p =
     (if cmd < ENGINE_CMD_BASE \<or> ECCX08_CMD_MAX \<le> cmd then ret ENGINE_OPENSSL_SUCCESS
      else do {
        status \<leftarrow> run_cmd b E L B e cmd i p;
        ret (if status = ATCA_SUCCESS then ENGINE_OPENSSL_SUCCESS else ENGINE_OPENSSL_FAILURE)
      })"

section \<open>Lemmas\<close>

text \<open>The slots of the configuration are slots of the chip.\<close>

definition config_wf :: "eccx08_engine_config_t \<Rightarrow> bool" where
  "config_wf c \<longleftrightarrow> unat (device_key_slot c) < 16 \<and> unat (ecdh_key_slot c) < 16
     \<and> unat (ecdh_key_count c) < 16"

lemma unat_ucast_slot: "i < 16 \<Longrightarrow> unat (ucast (i :: 32 word) :: byte) = unat i"
  by (simp add: word_less_nat_alt unsigned_ucast_eq take_bit_nat_eq_self)

lemma slot_in_range: "i < 16 \<Longrightarrow> unat (ucast (i :: 32 word) :: byte) < 16"
  by (simp add: unat_ucast_slot word_less_nat_alt)

definition config_kept :: "'w eng \<Rightarrow> 'w eng \<Rightarrow> bool" where
  "config_kept s t \<longleftrightarrow> (config_wf (eccx08_engine_config s) \<longrightarrow> config_wf (eccx08_engine_config t))"

lemma set_slots_wf:
  "keeping config_kept (set_device_key_slot i)" "keeping config_kept (set_ecdh_slot i)"
  "keeping config_kept (set_ecdh_count i)"
  by (auto simp: keeping_def config_kept_def set_device_key_slot_def set_ecdh_slot_def
      set_ecdh_count_def config_wf_def slot_in_range)

lemma quiet_setters:
  "keeping quiet (set_device_key_slot i)" "keeping quiet (set_ecdh_slot i)"
  "keeping quiet (set_ecdh_count i)" "keeping quiet (set_transport_key p)"
  by (auto simp: keeping_def quiet_def sess_same_def set_device_key_slot_def set_ecdh_slot_def
      set_ecdh_count_def set_transport_key_def need_bytes_def split: option.splits)

lemma quiet_write_key_file: "keeping quiet (write_key_file E B pkey filename)"
  unfolding write_key_file_def by (intro quiet.keep quiet_basic) auto

lemma safe_get_key: "mutex_ok E \<Longrightarrow> keeping safe (get_key E B e keyid filename)"
  unfolding get_key_def
  by (intro safe.keep quiet_safe [OF quiet_flag_ub] safe_load_pubkey quiet_safe [OF quiet_call]
      quiet_safe [OF quiet_write_key_file]) auto

lemma safe_cmd_ctrl: "mutex_ok E \<Longrightarrow> keeping safe (eccx08_cmd_ctrl b E L B e cmd i p)"
  unfolding eccx08_cmd_ctrl_def run_cmd_def get_device_cert_def get_signer_cert_def load_device_cert_def
  by (intro safe.keep safe_get_key safe_get_cert safe_cert_load_client
      quiet_safe [OF quiet_setters(1)] quiet_safe [OF quiet_setters(2)]
      quiet_safe [OF quiet_setters(3)] quiet_safe [OF quiet_setters(4)])

end
