(* ===== verification/Methods.thy ===== *)
theory Methods
  imports Cmds
begin

text \<open>
  The method tables the engine hands to OpenSSL: \<open>eccx08_ec_init\<close>, \<open>eccx08_ec_cleanup\<close> and
  \<open>eccx08_pkey_meth_init\<close> of \<^verbatim>\<open>eccx08_eckey_meth.c\<close>, \<open>eccx08_ecdsa_init_meth\<close> of
  \<^verbatim>\<open>eccx08_ecdsa_sign.c\<close>.
\<close>

section \<open>The functions used\<close>

text \<open>The entries of an \<^verbatim>\<open>EVP_PKEY_METHOD\<close> the engine looks at.\<close>

datatype pmeth_entry = P_init | P_keygen_init | P_keygen | P_sign_init | P_sign | P_derive_init | P_derive

record 'w meth_lib =
  ext_EC_KEY_get_default_method :: "'w \<Rightarrow> ptr"
  ext_EC_KEY_METHOD_new :: "ptr \<Rightarrow> 'w \<Rightarrow> ptr \<times> 'w"
  ext_EC_KEY_METHOD_free :: "ptr \<Rightarrow> 'w \<Rightarrow> unit \<times> 'w"
  ext_EC_KEY_METHOD_set_sign :: "ptr \<Rightarrow> fn_ptr list \<Rightarrow> 'w \<Rightarrow> unit \<times> 'w"
  ext_EVP_PKEY_meth_new :: "'w \<Rightarrow> ptr \<times> 'w"
  ext_EVP_PKEY_meth_find :: "'w \<Rightarrow> ptr"
  ext_EVP_PKEY_meth_copy :: "ptr \<Rightarrow> ptr \<Rightarrow> 'w \<Rightarrow> unit \<times> 'w"
  ext_EVP_PKEY_meth_get :: "ptr \<Rightarrow> pmeth_entry \<Rightarrow> 'w \<Rightarrow> fn_ptr"
  ext_EVP_PKEY_meth_set :: "ptr \<Rightarrow> (pmeth_entry \<times> fn_ptr) list \<Rightarrow> 'w \<Rightarrow> unit \<times> 'w"
  ext_EVP_PKEY_meth_free :: "ptr \<Rightarrow> 'w \<Rightarrow> unit \<times> 'w"

abbreviation "EVP_PKEY_meth_get M p x \<equiv> gets (\<lambda>s. ext_EVP_PKEY_meth_get M p x (world s))"
abbreviation "EVP_PKEY_meth_set M p fs \<equiv> call (ext_EVP_PKEY_meth_set M p fs) (\<lambda>_. [])"

section \<open>EC key methods\<close>

definition eccx08_ecdsa_init_meth :: "'w meth_lib \<Rightarrow> ptr \<Rightarrow> ('w, int) prog" where
  "eccx08_ecdsa_init_meth M pMethod =
     (if pMethod = NULL then ret ENGINE_OPENSSL_FAILURE
      else do {
        call (ext_EC_KEY_METHOD_set_sign M pMethod
            [Own_fn Eccx08_ecdsa_sign, Own_fn Eccx08_ecdsa_sign_setup, Own_fn Eccx08_ecdsa_sign_sig])
          (\<lambda>_. [Obj_use Method pMethod, Set_meth_sign pMethod
            [Own_fn Eccx08_ecdsa_sign, Own_fn Eccx08_ecdsa_sign_setup, Own_fn Eccx08_ecdsa_sign_sig]]);
        ret ENGINE_OPENSSL_SUCCESS
      })"

definition eccx08_ec_cleanup :: "'w meth_lib \<Rightarrow> ('w, int) prog" where
  "eccx08_ec_cleanup M = do {
     p \<leftarrow> gets eccx08_ec;
     (if p \<noteq> NULL then do {
        call (ext_EC_KEY_METHOD_free M p) (\<lambda>_. ev_free Method p);
        modify (\<lambda>s. s\<lparr>eccx08_ec := NULL\<rparr>)
      } else skip);
     ret ENGINE_OPENSSL_SUCCESS
   }"

text \<open>
  \<open>ATCA_OPENSSL_ENGINE_ECDSA\<close> on, \<open>ATCA_OPENSSL_ENGINE_ECDH\<close> off (the defaults). The second
  result is \<^verbatim>\<open>*ppMethod\<close>, whose address is always given.
\<close>

definition eccx08_ec_init :: "'w meth_lib \<Rightarrow> ('w, int \<times> ptr) prog" where
  "eccx08_ec_init M = do {
     d \<leftarrow> gets eccx08_ec_default;
     (if d = NULL then modify (\<lambda>s. s\<lparr>eccx08_ec_default := ext_EC_KEY_get_default_method M (world s)\<rparr>)
      else skip);
     p \<leftarrow> gets eccx08_ec;
     dflt \<leftarrow> gets eccx08_ec_default;
     (if p = NULL then do {
        q \<leftarrow> call (ext_EC_KEY_METHOD_new M dflt) (ev_new Method);
        modify (\<lambda>s. s\<lparr>eccx08_ec := q\<rparr>)
      } else skip);
     p \<leftarrow> gets eccx08_ec;
     (if p = NULL then ret (ENGINE_OPENSSL_FAILURE, NULL)
      else do {
        r \<leftarrow> eccx08_ecdsa_init_meth M p;
        (if r = 0 then do {
           _ \<leftarrow> eccx08_ec_cleanup M;
           ret (ENGINE_OPENSSL_FAILURE, NULL)
         } else ret (ENGINE_OPENSSL_SUCCESS, p))
      })
   }"

section \<open>Public-key methods\<close>

definition own_pmeth :: "(pmeth_entry \<times> fn_ptr) list" where
  "own_pmeth = [(P_init, Own_fn Eccx08_pkey_ec_init),
     (P_keygen_init, Own_fn Eccx08_pkey_ec_keygen_init), (P_keygen, Own_fn Eccx08_pkey_ec_keygen),
     (P_sign_init, Own_fn Eccx08_pkey_ec_sign_init), (P_sign, Own_fn Eccx08_pkey_ec_sign),
     (P_derive_init, Own_fn Eccx08_eckey_derive_init), (P_derive, Own_fn Eccx08_eckey_derive)]"

text \<open>Lines 1121-1125: keep the functions that are about to be replaced.\<close>

definition save_defaults :: "'w meth_lib \<Rightarrow> ptr \<Rightarrow> ('w, unit) prog" where
  "save_defaults M p = do {
     a \<leftarrow> EVP_PKEY_meth_get M p P_init;
     b \<leftarrow> EVP_PKEY_meth_get M p P_keygen_init;
     c \<leftarrow> EVP_PKEY_meth_get M p P_keygen;
     d \<leftarrow> EVP_PKEY_meth_get M p P_sign_init;
     e \<leftarrow> EVP_PKEY_meth_get M p P_sign;
     f \<leftarrow> EVP_PKEY_meth_get M p P_derive_init;
     g \<leftarrow> EVP_PKEY_meth_get M p P_derive;
     modify (\<lambda>s. s\<lparr>eccx08_pkey_def_f := (eccx08_pkey_def_f s)\<lparr>def_init := a, def_keygen_init := b, def_keygen := c,
       def_sign_init := d, def_sign := e, def_derive_init := f, def_derive := g\<rparr>\<rparr>)
   }"

definition eccx08_pkey_meth_init :: "'w meth_lib \<Rightarrow> ('w, int) prog" where
  "eccx08_pkey_meth_init M = do {
     p \<leftarrow> gets eccx08_pkey_meth;
     (if p = NULL then do {
        q \<leftarrow> call (ext_EVP_PKEY_meth_new M) (\<lambda>_. []);
        modify (\<lambda>s. s\<lparr>eccx08_pkey_meth := q\<rparr>)
      } else skip);
     p \<leftarrow> gets eccx08_pkey_meth;
     (if p = NULL then ret ENGINE_OPENSSL_FAILURE
      else do {
        defaults \<leftarrow> gets (\<lambda>s. ext_EVP_PKEY_meth_find M (world s));
        call (ext_EVP_PKEY_meth_copy M p defaults) (\<lambda>_. []);
        save_defaults M p;
        EVP_PKEY_meth_set M p (take 1 own_pmeth);
        EVP_PKEY_meth_set M p (take 2 (drop 1 own_pmeth));
        EVP_PKEY_meth_set M p (take 2 (drop 3 own_pmeth));
        EVP_PKEY_meth_set M p (drop 5 own_pmeth);
        ret ENGINE_OPENSSL_SUCCESS
      })
   }"

definition eccx08_pkey_meth_cleanup :: "'w meth_lib \<Rightarrow> ('w, int) prog" where
  "eccx08_pkey_meth_cleanup M = do {
     p \<leftarrow> gets eccx08_pkey_meth;
     (if p \<noteq> NULL then do {
        call (ext_EVP_PKEY_meth_free M p) (\<lambda>_. []);
        modify (\<lambda>s. s\<lparr>eccx08_pkey_meth := NULL\<rparr>)
      } else skip);
     ret ENGINE_OPENSSL_SUCCESS
   }"

section \<open>Lemmas\<close>

text \<open>
  Documented behaviour of the accessors of a method table: a copy has the entries of its
  source, setting entries changes those, of that table only.
\<close>

definition pmeth_ok :: "'w meth_lib \<Rightarrow> bool" where
  "pmeth_ok M \<longleftrightarrow>
     (\<forall>p q x w. ext_EVP_PKEY_meth_get M p x (snd (ext_EVP_PKEY_meth_copy M p q w)) = ext_EVP_PKEY_meth_get M q x w)
   \<and> (\<forall>p fs x w. ext_EVP_PKEY_meth_get M p x (snd (ext_EVP_PKEY_meth_set M p fs w)) =
        (case map_of fs x of Some f \<Rightarrow> f | None \<Rightarrow> ext_EVP_PKEY_meth_get M p x w))"

definition defaults_of :: "'w meth_lib \<Rightarrow> ptr \<Rightarrow> 'w \<Rightarrow> pkey_def_f \<Rightarrow> pkey_def_f" where
  "defaults_of M p w d = d\<lparr>def_init := ext_EVP_PKEY_meth_get M p P_init w,
     def_keygen_init := ext_EVP_PKEY_meth_get M p P_keygen_init w,
     def_keygen := ext_EVP_PKEY_meth_get M p P_keygen w,
     def_sign_init := ext_EVP_PKEY_meth_get M p P_sign_init w,
     def_sign := ext_EVP_PKEY_meth_get M p P_sign w,
     def_derive_init := ext_EVP_PKEY_meth_get M p P_derive_init w,
     def_derive := ext_EVP_PKEY_meth_get M p P_derive w\<rparr>"

lemma pmeth_okD:
  assumes "pmeth_ok M"
  shows "ext_EVP_PKEY_meth_copy M p q w = (u, w') \<Longrightarrow>
      ext_EVP_PKEY_meth_get M p x w' = ext_EVP_PKEY_meth_get M q x w"
    and "ext_EVP_PKEY_meth_set M p fs w = (u, w') \<Longrightarrow>
      ext_EVP_PKEY_meth_get M p x w' = (case map_of fs x of Some f \<Rightarrow> f | None \<Rightarrow> ext_EVP_PKEY_meth_get M p x w)"
  using assms unfolding pmeth_ok_def by (metis snd_conv)+

text \<open>
  Whatever the table held before (the engine's own functions, when it is bound a second
  time), the functions kept are those of OpenSSL's table, and afterwards the seven entries
  are the engine's.
\<close>

lemma wp_pkey_meth_init:
  assumes "pmeth_ok M" and "eccx08_pkey_meth s \<noteq> NULL"
  shows "wp (eccx08_pkey_meth_init M) (\<lambda>r t. r = ENGINE_OPENSSL_SUCCESS
    \<and> eccx08_pkey_meth t = eccx08_pkey_meth s
    \<and> eccx08_pkey_def_f t = defaults_of M (ext_EVP_PKEY_meth_find M (world s)) (world s) (eccx08_pkey_def_f s)
    \<and> (\<forall>x. ext_EVP_PKEY_meth_get M (eccx08_pkey_meth t) x (world t) = the (map_of own_pmeth x))) s"
  using assms(2)
  by (simp add: eccx08_pkey_meth_init_def save_defaults_def wp_call_eq own_pmeth_def split: prod.splits)
    (auto simp: defaults_of_def pmeth_okD(1) [OF assms(1)] pmeth_okD(2) [OF assms(1)],
      metis pmeth_entry.exhaust)

lemma quiet_meth_modify:
  "keeping quiet (modify (\<lambda>s. s\<lparr>eccx08_ec := p\<rparr>))"
  "keeping quiet (modify (\<lambda>s. s\<lparr>eccx08_ec_default := f s\<rparr>))"
  "keeping quiet (modify (\<lambda>s. s\<lparr>eccx08_pkey_meth := p\<rparr>))"
  "keeping quiet (modify (\<lambda>s. s\<lparr>eccx08_pkey_def_f := g s\<rparr>))"
  by (simp_all add: keeping_def quiet_def sess_same_def)

lemma quiet_ec_cleanup: "keeping quiet (eccx08_ec_cleanup M)"
  unfolding eccx08_ec_cleanup_def by (intro quiet.keep quiet_basic quiet_meth_modify) auto

lemma quiet_ec_init: "keeping quiet (eccx08_ec_init M)"
  unfolding eccx08_ec_init_def eccx08_ecdsa_init_meth_def
  by (intro quiet.keep quiet_basic quiet_meth_modify quiet_ec_cleanup) auto

lemma quiet_pkey_meth_init: "keeping quiet (eccx08_pkey_meth_init M)"
  unfolding eccx08_pkey_meth_init_def save_defaults_def
  by (intro quiet.keep quiet_basic quiet_meth_modify) auto

end
