(* ===== verification/Rand.thy ===== *)
theory Rand
  imports Session
begin

text \<open>
  \<^verbatim>\<open>eccx08_rand.c\<close>: random bytes from the chip. Both variants of \<open>RAND_eccx08_rand_bytes\<close> are
  modelled: the default one, which takes every byte from the chip, and the one built with
  \<^verbatim>\<open>ATCA_OPENSSL_ENGINE_RAND_SEED_ONLY\<close>, which is meant to seed OpenSSL's generator. A buffer
  is the memory from the pointer to the end of its object; \<open>None\<close> is \<^verbatim>\<open>NULL\<close>.
\<close>

section \<open>Memory of the caller\<close>

definition write_at :: "nat \<Rightarrow> bytes \<Rightarrow> bytes \<Rightarrow> bytes" where
  "write_at off bs mem = take off mem @ bs @ drop (off + length bs) mem"

lemma length_write_at [simp]: "off + length bs \<le> length mem \<Longrightarrow> length (write_at off bs mem) = length mem"
  by (simp add: write_at_def)

lemma write_at_twice:
  assumes "off + length xs + length ys \<le> length mem"
  shows "write_at (off + length xs) ys (write_at off xs mem) = write_at off (xs @ ys) mem"
  using assms by (simp add: write_at_def add.commute add.left_commute)

definition store_at :: "nat \<Rightarrow> bytes \<Rightarrow> bytes \<Rightarrow> ('w, bytes) prog" where
  "store_at off bs mem =
     (if off + length bs \<le> length mem then ret (write_at off bs mem)
      else do { flag_ub Buffer_overflow; ret mem })"

section \<open>All bytes from the chip\<close>

text \<open>
  The \<^verbatim>\<open>do\<close> loop (lines 135-156): the results are \<^verbatim>\<open>num\<close> at its exit and the memory. A negative
  \<^verbatim>\<open>num\<close> takes the second branch and reaches \<^verbatim>\<open>memcpy\<close> as an enormous size.
\<close>

function rand_loop :: "'w env \<Rightarrow> bytes \<Rightarrow> nat \<Rightarrow> int \<Rightarrow> ('w, int \<times> bytes) prog" where
  "rand_loop E mem off num =
     (if int ATCA_BLOCK_SIZE \<le> num then do {
        (status, block) \<leftarrow> atcab_random E;
        (if status = ATCA_SUCCESS then do {
           mem \<leftarrow> store_at off block mem;
           (if 0 < num - int ATCA_BLOCK_SIZE
            then rand_loop E mem (off + ATCA_BLOCK_SIZE) (num - int ATCA_BLOCK_SIZE)
            else ret (num - int ATCA_BLOCK_SIZE, mem))
         } else ret (num, mem))
      } else do {
        (status, block) \<leftarrow> atcab_random E;
        (if status = ATCA_SUCCESS then do {
           mem \<leftarrow> (if num < 0 then do { flag_ub Buffer_overflow; ret mem }
                  else store_at off (take (nat num) block) mem);
           ret (0, mem)
         } else ret (num, mem))
      })"
  by pat_completeness auto
termination
  by (relation "measure (\<lambda>(E, mem, off, num). nat num)") auto

declare rand_loop.simps [simp del]

definition RAND_eccx08_rand_bytes :: "'w env \<Rightarrow> bytes option \<Rightarrow> int \<Rightarrow> ('w, int \<times> bytes option) prog" where
  "RAND_eccx08_rand_bytes E buf num =
     (case buf of
        None \<Rightarrow> ret (ENGINE_OPENSSL_FAILURE, None)
      | Some mem \<Rightarrow>
          if num = 0 then ret (ENGINE_OPENSSL_FAILURE, Some mem)
          else do {
            cfg \<leftarrow> gets pCfg;
            status \<leftarrow> atcab_init_safe E cfg;
            (if status \<noteq> ATCA_SUCCESS then ret (ENGINE_OPENSSL_FAILURE, Some mem)
             else do {
               (num, mem) \<leftarrow> rand_loop E mem 0 num;
               _ \<leftarrow> atcab_release_safe E;
               ret (if num \<noteq> 0 then ENGINE_OPENSSL_FAILURE else ENGINE_OPENSSL_SUCCESS, Some mem)
             })
          })"

definition RAND_eccx08_rand_status :: "('w, int) prog" where
  "RAND_eccx08_rand_status = ret ENGINE_OPENSSL_SUCCESS"

section \<open>Seeding OpenSSL's generator\<close>

abbreviation (input) MAX_RAND_BYTES :: "32 word" where "MAX_RAND_BYTES \<equiv> 10037"

text \<open>
  Lines 76-86: the result says whether the function goes on (\<open>False\<close> is a \<^verbatim>\<open>goto done\<close>). What
  reaches \<^verbatim>\<open>add\<close> is the caller's buffer and the first word of the chip's answer as a number.
\<close>

definition reseed :: "'w env \<Rightarrow> bytes option \<Rightarrow> int \<Rightarrow> ('w, bool) prog" where
  "reseed E buf num = do {
     cfg \<leftarrow> gets pCfg;
     status \<leftarrow> atcab_init_safe E cfg;
     (if status \<noteq> ATCA_SUCCESS then ret False
      else do {
        (status, block) \<leftarrow> atcab_random E;
        (if status \<noteq> ATCA_SUCCESS then ret False
         else do {
           status \<leftarrow> atcab_release_safe E;
           (if status \<noteq> ATCA_SUCCESS then ret False
            else do {
              RAND_add E buf num (ext_load_u32 E (take 4 block));
              ret True
            })
         })
      })
   }"

definition RAND_eccx08_rand_bytes_seed_only ::
  "'w env \<Rightarrow> bytes option \<Rightarrow> int \<Rightarrow> ('w, int \<times> bytes option) prog" where
  "RAND_eccx08_rand_bytes_seed_only E buf num = do {
     n \<leftarrow> gets total_num;
     (if MAX_RAND_BYTES < n then modify (\<lambda>s. s\<lparr>total_num := 0\<rparr>) else skip);
     n \<leftarrow> gets total_num;
     go \<leftarrow> (if n = 0 then reseed E buf num else ret True);
     (if \<not> go then ret (0, buf)
      else do {
        modify (\<lambda>s. s\<lparr>total_num := total_num s + of_int num\<rparr>);
        RAND_bytes E buf num
      })
   }"

definition RAND_eccx08_rand_status_seed_only :: "('w, int) prog" where
  "RAND_eccx08_rand_status_seed_only = do {
     n \<leftarrow> gets total_num;
     ret (if MAX_RAND_BYTES < n then ENGINE_OPENSSL_FAILURE else ENGINE_OPENSSL_SUCCESS)
   }"

section \<open>The method table\<close>

text \<open>Lines 182-189: the initial value of \<^verbatim>\<open>eccx08_rand\<close>.\<close>

definition eccx08_rand_method :: rand_method where
  "eccx08_rand_method = \<lparr>rm_seed = No_fn, rm_bytes = Own_fn Rand_bytes_fn, rm_cleanup = No_fn,
     rm_add = No_fn, rm_pseudorand = Own_fn Rand_bytes_fn, rm_status = Own_fn Rand_status_fn\<rparr>"

definition eccx08_rand_init :: "'w env \<Rightarrow> ('w, int) prog" where
  "eccx08_rand_init E = do {
     modify (\<lambda>s. s\<lparr>eccx08_rand := (eccx08_rand s)
       \<lparr>rm_seed := rm_seed (ext_RAND_SSLeay E), rm_cleanup := rm_cleanup (ext_RAND_SSLeay E)\<rparr>\<rparr>);
     ret ENGINE_OPENSSL_SUCCESS
   }"

section \<open>Safety\<close>

lemma quiet_rand_init: "keeping quiet (eccx08_rand_init E)"
  by (simp add: keeping_def eccx08_rand_init_def quiet_def sess_same_def)

lemma cfg_rand_init: "keeping cfg_same (eccx08_rand_init E)"
  by (simp add: keeping_def eccx08_rand_init_def cfg_same_def)

lemma quiet_store_at: "keeping quiet (store_at off bs mem)"
  unfolding store_at_def by (intro quiet.keep quiet_basic)

lemma wp_rand_loop_session:
  assumes "in_session s" and "\<And>r t. in_session t \<Longrightarrow> Q r t"
  shows "wp (rand_loop E mem off num) Q s"
  using assms
proof (induction E mem off num arbitrary: s rule: rand_loop.induct)
  case (1 E mem off num)
  note random = wp_call_in_session [OF "1.prems"(1)]
  have IH: "wp (rand_loop E m (off + ATCA_BLOCK_SIZE) (num - int ATCA_BLOCK_SIZE)) Q t"
    if "0 < num - int ATCA_BLOCK_SIZE" "in_session t" for m t
    by (rule "1.IH") (use that "1.prems"(2) in auto)
  show ?case
    by (subst rand_loop.simps)
      (auto simp: split_beta store_at_def simp del: wp_bind
        intro!: wp_bindI random IH [simplified] "1.prems"(2))
qed

lemma wp_rand_session:
  assumes "mutex_ok E" and "no_session s"
  shows "wp (do {
       status \<leftarrow> atcab_init_safe E cfg;
       (if status \<noteq> ATCA_SUCCESS then ret (ENGINE_OPENSSL_FAILURE, Some mem)
        else do {
          (num, mem) \<leftarrow> rand_loop E mem 0 num;
          _ \<leftarrow> atcab_release_safe E;
          ret (if num \<noteq> 0 then ENGINE_OPENSSL_FAILURE else ENGINE_OPENSSL_SUCCESS, Some mem)
        })
     }) (\<lambda>_ t. no_session t) s"
proof (rule wp_bindI, rule wp_init_any [OF assms], goal_cases ok err)
  case (ok t)
  show ?case
    by (simp del: wp_bind, rule wp_bindI, rule wp_rand_loop_session [OF ok(1)])
      (auto simp: split_beta simp del: wp_bind intro!: wp_release_then safe.keep)
qed simp

lemma safe_rand_bytes: "mutex_ok E \<Longrightarrow> keeping safe (RAND_eccx08_rand_bytes E buf num)"
  unfolding RAND_eccx08_rand_bytes_def
  by (intro safe.keep safeI wp_rand_session)

lemma cfg_rand_loop: "keeping cfg_same (rand_loop E mem off num)"
proof (induction E mem off num rule: rand_loop.induct)
  case (1 E mem off num)
  show ?case
    by (subst rand_loop.simps) (unfold store_at_def, intro cfg.keep cfg_sess "1.IH", auto)
qed

lemma cfg_rand_bytes: "keeping cfg_same (RAND_eccx08_rand_bytes E buf num)"
  unfolding RAND_eccx08_rand_bytes_def by (intro cfg.keep cfg_sess cfg_rand_loop)

end
