(* ===== verification/Sha256.thy ===== *)
theory Sha256
  imports Session
begin

text \<open>
  \<^verbatim>\<open>eccx08_sha256.c\<close>: SHA-256 digests made by the chip. A digest keeps the device session, and
  with it the system-wide mutex, from its initialisation to its end: the chip holds the state
  of one digest at a time. The context of OpenSSL is seen through the two members used:
  \<^verbatim>\<open>md_data\<close> (\<open>None\<close> is \<^verbatim>\<open>NULL\<close>) and the size of the data in the digest's description.
\<close>

record md_ctx =
  md_data :: "bytes option"
  ctx_size :: nat

section \<open>The operations\<close>

definition eccx08_sha256_init :: "'w env \<Rightarrow> md_ctx \<Rightarrow> ('w, int \<times> md_ctx) prog" where
  "eccx08_sha256_init E ctx = do {
     cfg \<leftarrow> gets pCfg;
     status \<leftarrow> atcab_init_safe E cfg;
     (status, data) \<leftarrow> (if status = ATCA_SUCCESS then atcab_hw_sha2_256_init E (md_data ctx)
                      else ret (status, md_data ctx));
     (if status \<noteq> ATCA_SUCCESS then do { _ \<leftarrow> atcab_release_safe E; skip } else skip);
     ret (if status = ATCA_SUCCESS then 1 else 0, ctx\<lparr>md_data := data\<rparr>)
   }"

definition eccx08_sha256_update :: "'w env \<Rightarrow> md_ctx \<Rightarrow> bytes \<Rightarrow> ('w, int \<times> md_ctx) prog" where
  "eccx08_sha256_update E ctx data = do {
     (status, d) \<leftarrow> atcab_hw_sha2_256_update E (md_data ctx) data;
     ret (if status = ATCA_SUCCESS then 1 else 0, ctx\<lparr>md_data := d\<rparr>)
   }"

definition eccx08_sha256_final :: "'w env \<Rightarrow> md_ctx \<Rightarrow> ('w, int \<times> md_ctx \<times> bytes) prog" where
  "eccx08_sha256_final E ctx = do {
     (status, d, md) \<leftarrow> atcab_hw_sha2_256_finish E (md_data ctx);
     _ \<leftarrow> atcab_release_safe E;
     ret (if status = ATCA_SUCCESS then 1 else 0, ctx\<lparr>md_data := d\<rparr>, md)
   }"

text \<open>The copy reads and writes \<^verbatim>\<open>to->digest->ctx_size\<close> bytes.\<close>

definition eccx08_sha256_copy :: "md_ctx \<Rightarrow> md_ctx \<Rightarrow> ('w, int \<times> md_ctx) prog" where
  "eccx08_sha256_copy to from =
     (case (md_data to, md_data from) of
        (Some t, Some f) \<Rightarrow> do {
          (if length f < ctx_size to then flag_ub Out_of_bounds_read else skip);
          (if length t < ctx_size to then flag_ub Buffer_overflow else skip);
          ret (1, to\<lparr>md_data := Some (take (ctx_size to) f @ drop (ctx_size to) t)\<rparr>)
        }
      | _ \<Rightarrow> ret (1, to))"

definition eccx08_sha256_cleanup :: "md_ctx \<Rightarrow> ('w, int) prog" where
  "eccx08_sha256_cleanup ctx = ret 1"

text \<open>
  The result, \<^verbatim>\<open>*digest\<close> (whether the engine's method is returned) and \<^verbatim>\<open>*nids\<close>; \<open>wanted\<close> says
  whether the caller passed a place for the digest.
\<close>

abbreviation (input) NID_sha256 :: int where "NID_sha256 \<equiv> 672"

definition eccx08_digest_ids :: "int list" where
  "eccx08_digest_ids = [NID_sha256]"

definition eccx08_sha256_selector :: "bool \<Rightarrow> int \<Rightarrow> int \<times> bool \<times> int list option" where
  "eccx08_sha256_selector wanted nid =
     (if \<not> wanted then (2, False, Some eccx08_digest_ids)
      else if nid = NID_sha256 then (1, True, None)
      else (0, False, None))"

text \<open>
  The method the selector hands out, a structure of OpenSSL 1.0.2; \<open>context_bytes\<close> is
  \<^verbatim>\<open>sizeof(atca_sha256_ctx_t)\<close>, and the members that the macro \<^verbatim>\<open>EVP_PKEY_ECDSA_method\<close> fills are
  left out. The copy and the clean-up above are not in it.
\<close>

record evp_md =
  md_type :: int
  md_pkey_type :: int
  md_size :: nat
  md_flags :: int
  md_init :: fn_ptr
  md_update :: fn_ptr
  md_final :: fn_ptr
  md_copy :: fn_ptr
  md_cleanup :: fn_ptr
  md_block_size :: nat
  md_ctx_size :: nat
  md_ctrl :: fn_ptr

definition eccx08_sha256_method :: "nat \<Rightarrow> evp_md" where
  "eccx08_sha256_method context_bytes = \<lparr>
     md_type = NID_sha256,
     md_pkey_type = 794,
     md_size = 32,
     md_flags = 4,
     md_init = Own_fn Sha256_init_fn,
     md_update = Own_fn Sha256_update_fn,
     md_final = Own_fn Sha256_final_fn,
     md_copy = No_fn,
     md_cleanup = No_fn,
     md_block_size = 64,
     md_ctx_size = context_bytes,
     md_ctrl = No_fn\<rparr>"

section \<open>Sessions of digests\<close>

text \<open>Releasing outside a session is refused and stays outside.\<close>

lemma wp_release_outside:
  assumes "mutex_ok E" and "no_session s"
  shows "wp (atcab_release_safe E) (\<lambda>_ t. no_session t \<and> keeps s t) s"
proof -
  have s: "synced s" "ifacecfg s = None" using assms(2) by (simp_all add: no_session_def)
  show ?thesis
    unfolding atcab_release_safe_def
    by (rule wp_bindI, rule wp_eccx08_global_lock [OF assms(1) s(1)])
      (use s in \<open>auto intro!: wp_eccx08_global_unlock simp: no_session_def intro: keeps_trans\<close>)
qed

lemma wp_sha256_init:
  assumes "mutex_ok E" and "no_session s"
  shows "wp (eccx08_sha256_init E ctx) (\<lambda>(r, _) t. if r = 1 then in_session t else no_session t) s"
  unfolding eccx08_sha256_init_def
proof (rule wp_bindI, simp del: wp_bind, rule wp_bindI, rule wp_init_any [OF assms], goal_cases ok err)
  case (ok t)
  show ?case
    by (auto simp: split_beta simp del: wp_bind intro!: wp_bindI wp_call_in_session [OF ok(1)] wp_atcab_release_safe)
next
  case (err st t)
  then show ?case
    by (simp, intro wp_mono [OF wp_release_outside [OF assms(1) err(2)]]) simp
qed

lemma wp_sha256_update:
  assumes "in_session s"
  shows "wp (eccx08_sha256_update E ctx data) (\<lambda>_ t. in_session t) s"
  unfolding eccx08_sha256_update_def
  by (auto simp: split_beta simp del: wp_bind intro!: wp_bindI wp_call_in_session [OF assms])

lemma wp_sha256_final:
  assumes "in_session s"
  shows "wp (eccx08_sha256_final E ctx) (\<lambda>_ t. no_session t) s"
  unfolding eccx08_sha256_final_def
  by (auto simp: split_beta simp del: wp_bind
      intro!: wp_bindI wp_call_in_session [OF assms] wp_atcab_release_safe)

lemma cfg_sha256:
  "keeping cfg_same (eccx08_sha256_init E ctx)" "keeping cfg_same (eccx08_sha256_update E ctx data)"
  "keeping cfg_same (eccx08_sha256_final E ctx)"
  unfolding eccx08_sha256_init_def eccx08_sha256_update_def eccx08_sha256_final_def
  by (intro cfg.keep cfg_sess)+

end
