(* ===== verification/Engine.thy ===== *)
theory Engine
  imports Methods Rand Sha256
begin

text \<open>
  The life of the engine (\<^verbatim>\<open>eccx08_engine.c\<close>): binding it to OpenSSL, initialising, finishing
  and destroying it.
\<close>

section \<open>The functions used\<close>

record 'w engine_lib =
  ext_ENGINE_set :: "ptr \<Rightarrow> engine_attr \<Rightarrow> 'w \<Rightarrow> int \<times> 'w"
  ext_ENGINE_new :: "'w \<Rightarrow> ptr \<times> 'w"
  ext_ENGINE_free :: "ptr \<Rightarrow> 'w \<Rightarrow> unit \<times> 'w"
  ext_ENGINE_add :: "ptr \<Rightarrow> 'w \<Rightarrow> int \<times> 'w"
  ext_ERR_clear_error :: "'w \<Rightarrow> unit \<times> 'w"

text \<open>A registration is logged when OpenSSL accepts it.\<close>

abbreviation "ENGINE_set G e a \<equiv> call (ext_ENGINE_set G e a) (\<lambda>r. if r \<noteq> 0 then [Engine_set e a] else [])"

section \<open>The operations\<close>

definition engine_eccx08_id :: string where "engine_eccx08_id = ''ateccx08''"
definition engine_eccx08_name :: string where "engine_eccx08_name = ''Microchip ATECCx08 Engine''"

definition eccx08_destroy :: "'w env \<Rightarrow> ('w, int) prog" where
  "eccx08_destroy E = do {
     h \<leftarrow> gets (lock_handle \<circ> global_lock);
     st \<leftarrow> hal_os_destroy_mutex E h;
     (if st \<noteq> 0 then ret ENGINE_OPENSSL_FAILURE
      else do {
        set_lock_state 0;
        set_lock_handle NULL;
        ret ENGINE_OPENSSL_SUCCESS
      })
   }"

text \<open>Lines 337-344.\<close>

definition init_mutex :: "'w env \<Rightarrow> ('w, bool) prog" where
  "init_mutex E = do {
     s \<leftarrow> getS;
     (if lock_handle (global_lock s) = NULL then do {
         (st, h) \<leftarrow> hal_os_create_mutex E (lock_handle (global_lock s)) (ext_mutex_name E);
         set_lock_handle h;
         (if st \<noteq> 0 then ret False
          else do { set_lock_state 0; ret True })
       } else ret True)
   }"

text \<open>\<open>hal\<close> and \<open>b\<close> are the build; the sizes are those of the C types of the certificate copies.\<close>

definition eccx08_init :: "build \<Rightarrow> hal_macro \<Rightarrow> 'w env \<Rightarrow> 'w cert_lib \<Rightarrow> nat \<Rightarrow> nat \<Rightarrow> ('w, int) prog" where
  "eccx08_init b hal E L sizeof_def sizeof_element = do {
     eccx08_err_load_strings E;
     ok \<leftarrow> init_mutex E;
     (if \<not> ok then ret ENGINE_OPENSSL_FAILURE
      else do {
        _ \<leftarrow> eccx08_platform_init E hal;
        (if ENABLE_CERTS b then do { _ \<leftarrow> eccx08_cert_init L sizeof_def sizeof_element; skip } else skip);
        (if ENABLE_RAND b then do { _ \<leftarrow> eccx08_rand_init E; skip } else skip);
        ret ENGINE_OPENSSL_SUCCESS
      })
   }"

definition eccx08_finish :: "build \<Rightarrow> 'w cert_lib \<Rightarrow> 'w meth_lib \<Rightarrow> ('w, int) prog" where
  "eccx08_finish b L M = do {
     (if ENABLE_CERTS b then do { _ \<leftarrow> eccx08_cert_cleanup L; skip } else skip);
     _ \<leftarrow> eccx08_ec_cleanup M;
     ret ENGINE_OPENSSL_SUCCESS
   }"

text \<open>
  \<open>bind_helper\<close> is a sequence of steps each of which may fail and end it; \<open>all_steps\<close> is
  that control flow.
\<close>

fun all_steps :: "('w, int) prog list \<Rightarrow> ('w, int) prog" where
  "all_steps [] = ret ENGINE_OPENSSL_SUCCESS"
| "all_steps (m # ms) = do {
     r \<leftarrow> m;
     (if r = 0 then ret ENGINE_OPENSSL_FAILURE else all_steps ms)
   }"

definition bind_ec :: "'w meth_lib \<Rightarrow> 'w engine_lib \<Rightarrow> ptr \<Rightarrow> ('w, int) prog" where
  "bind_ec M G e = do {
     (r, meth) \<leftarrow> eccx08_ec_init M;
     (if r = 0 then ret 0 else ENGINE_set G e (Set_EC meth))
   }"

definition bind_steps :: "build \<Rightarrow> 'w meth_lib \<Rightarrow> 'w engine_lib \<Rightarrow> ptr \<Rightarrow> ('w, int) prog list" where
  "bind_steps b M G e =
     [ENGINE_set G e (Set_id engine_eccx08_id),
      ENGINE_set G e (Set_name engine_eccx08_name),
      ENGINE_set G e (Set_fn Eccx08_init),
      ENGINE_set G e (Set_fn Eccx08_destroy),
      ENGINE_set G e (Set_fn Eccx08_finish),
      ENGINE_set G e (Set_fn Eccx08_cmd_ctrl),
      ENGINE_set G e Set_cmd_defns] @
     (if ENABLE_RAND b then [ENGINE_set G e Set_RAND] else []) @
     (if ENABLE_SHA256 b then [ENGINE_set G e (Set_fn Eccx08_sha256_selector)] else []) @
     (if ENABLE_CERTS b then [ENGINE_set G e Set_load_ssl_client_cert] else []) @
     [bind_ec M G e,
      ENGINE_set G e (Set_fn Eccx08_load_pubkey),
      ENGINE_set G e (Set_fn Eccx08_load_privkey)] @
     (if REGISTER_PKEY b then [eccx08_pkey_meth_init M, ENGINE_set G e (Set_fn Eccx08_pmeth_selector)] else [])"

definition bind_helper :: "build \<Rightarrow> 'w meth_lib \<Rightarrow> 'w engine_lib \<Rightarrow> ptr \<Rightarrow> string option \<Rightarrow> ('w, int) prog" where
  "bind_helper b M G e ident =
     (if ident \<noteq> None \<and> ident \<noteq> Some engine_eccx08_id then ret ENGINE_OPENSSL_FAILURE
      else do {
        rv \<leftarrow> all_steps (bind_steps b M G e);
        (if rv \<noteq> 0 then modify (\<lambda>s. s\<lparr>this_engine := e\<rparr>) else skip);
        ret rv
      })"

definition ENGINE_ateccx08 :: "build \<Rightarrow> 'w meth_lib \<Rightarrow> 'w engine_lib \<Rightarrow> ('w, ptr) prog" where
  "ENGINE_ateccx08 b M G = do {
     eng \<leftarrow> call (ext_ENGINE_new G) (ev_new Engine);
     (if eng = NULL then ret NULL
      else do {
        r \<leftarrow> bind_helper b M G eng (Some engine_eccx08_id);
        (if r = 0 then do {
           call (ext_ENGINE_free G eng) (\<lambda>_. ev_free Engine eng);
           ret NULL
         } else ret eng)
      })
   }"

definition ENGINE_load_ateccx08 :: "build \<Rightarrow> 'w meth_lib \<Rightarrow> 'w engine_lib \<Rightarrow> ('w, unit) prog" where
  "ENGINE_load_ateccx08 b M G = do {
     toadd \<leftarrow> ENGINE_ateccx08 b M G;
     (if toadd = NULL then skip
      else do {
        _ \<leftarrow> call (ext_ENGINE_add G toadd) (\<lambda>_. [Obj_use Engine toadd]);
        call (ext_ENGINE_free G toadd) (\<lambda>_. ev_free Engine toadd);
        call (ext_ERR_clear_error G) (\<lambda>_. [])
      })
   }"

section \<open>Safety\<close>

lemma safe_err_load_strings: "keeping safe (eccx08_err_load_strings E)"
  by (rule quiet_safe, rule keepingI, rule wp_eccx08_err_load_strings)
    (simp add: quiet_def)

lemma quiet_platform_init: "keeping quiet (eccx08_platform_init E hal)"
  by (cases hal) (simp_all add: keeping_def quiet_def sess_same_def eccx08_platform_init_def)

lemma quiet_cert_copy: "keeping quiet (eccx08_cert_copy L n k d)"
  unfolding eccx08_cert_copy_def eccx08_cert_new_def by (intro quiet.keep quiet_basic) auto

lemma quiet_cert_init: "keeping quiet (eccx08_cert_init L n k)"
  unfolding eccx08_cert_init_def by (intro quiet.keep quiet_cert_copy quiet_modify_cert)

lemma quiet_cert_cleanup: "keeping quiet (eccx08_cert_cleanup L)"
  unfolding eccx08_cert_cleanup_def eccx08_cert_free_def free_cert_arrays_def
  by (intro quiet.keep quiet_basic) auto

lemma safe_destroy: "keeping safe (eccx08_destroy E)"
  by (rule safeI) (auto simp: eccx08_destroy_def wp_call_eq sess_defs split: prod.splits)

lemma safe_init_mutex: "keeping safe (init_mutex E)"
  by (rule safeI) (auto simp: init_mutex_def wp_call_eq sess_defs split: prod.splits)

lemma safe_init: "keeping safe (eccx08_init b hal E L n k)"
  unfolding eccx08_init_def
  by (intro safe.keep safe_err_load_strings safe_init_mutex quiet_safe [OF quiet_platform_init]
      quiet_safe [OF quiet_cert_init] quiet_safe [OF quiet_rand_init])

lemma safe_finish: "keeping safe (eccx08_finish b L M)"
  unfolding eccx08_finish_def
  by (intro safe.keep quiet_safe [OF quiet_cert_cleanup] quiet_safe [OF quiet_ec_cleanup])

lemma quiet_all_steps: "(\<And>m. m \<in> set ms \<Longrightarrow> keeping quiet m) \<Longrightarrow> keeping quiet (all_steps ms)"
  by (induction ms) (auto intro!: quiet.keep)

lemma quiet_engine_set: "keeping quiet (ENGINE_set G e a)"
  by (rule quiet_call) simp

lemma quiet_bind_steps: "m \<in> set (bind_steps b M G e) \<Longrightarrow> keeping quiet m"
  by (auto simp: bind_steps_def bind_ec_def split: if_splits
      intro!: quiet.keep quiet_engine_set quiet_ec_init quiet_pkey_meth_init)

lemma safe_bind_helper: "keeping safe (bind_helper b M G e ident)"
proof -
  have "keeping quiet (modify (\<lambda>s. s\<lparr>this_engine := e\<rparr>))"
    by (simp add: keeping_def quiet_def sess_same_def)
  then show ?thesis
    unfolding bind_helper_def
    by (intro quiet_safe quiet.keep quiet_all_steps quiet_bind_steps)
qed

end
