(* ===== verification/Verify.thy ===== *)
theory Verify
  imports Ecdsa Certs
begin

text \<open>
  Verification of ECDSA signatures by the chip (\<^verbatim>\<open>eccx08_ecdsa_do_verify\<close> of
  \<^verbatim>\<open>eccx08_ecdsa_sign.c\<close>, compiled with \<^verbatim>\<open>ATCA_OPENSSL_ENGINE_ENABLE_HW_VERIFY\<close>).
\<close>

section \<open>The functions used\<close>

text \<open>
  The encoding of a point is empty when there is none; the conversion form is a byte, as the
  first byte of an encoding is. \<open>verified\<close> is the flag the chip library stores.
\<close>

record 'w verify_lib =
  ext_ECDSA_SIG_get0 :: "ptr \<Rightarrow> 'w \<Rightarrow> bignum \<times> bignum"
  ext_EC_KEY_get0_public_key :: "ptr \<Rightarrow> 'w \<Rightarrow> ptr"
  ext_EC_GROUP_get_point_conversion_form :: "ptr \<Rightarrow> 'w \<Rightarrow> byte"
  ext_EC_POINT_point2oct :: "ptr \<Rightarrow> ptr \<Rightarrow> byte \<Rightarrow> 'w \<Rightarrow> bytes"
  ext_atcab_verify_extern :: "bytes \<Rightarrow> bytes \<Rightarrow> bytes \<Rightarrow> 'w \<Rightarrow> (status \<times> bool) \<times> 'w"

abbreviation "atcab_verify_extern V dgst sig pub \<equiv>
  call (ext_atcab_verify_extern V dgst sig pub) (\<lambda>(st, _). [Dev_cmd (Verify_extern dgst sig pub) st])"

section \<open>The operations\<close>

text \<open>
  Lines 294-309: the numbers written into the 64-byte buffer, whose old content is \<open>buf\<close>; no
  result is a \<^verbatim>\<open>goto done\<close>. \<^verbatim>\<open>len\<close> is unsigned, so that a negative result is a large one.
\<close>

definition raw_signature :: "'w env \<Rightarrow> bignum \<Rightarrow> bignum \<Rightarrow> bytes \<Rightarrow> bytes option" where
  "raw_signature E r s buf =
     (if ATCA_BLOCK_SIZE < ext_BN_num_bytes E r then None
      else if ATCA_BLOCK_SIZE < ext_BN_num_bytes E s then None
      else case ext_BN_bn2bin E r of (rlen, rb) \<Rightarrow>
        if rlen < 0 \<or> int ATCA_BLOCK_SIZE < rlen then None
        else case ext_BN_bn2bin E s of (slen, sb) \<Rightarrow>
          if slen < 0 \<or> int ATCA_BLOCK_SIZE < slen then None
          else let buf = rb @ drop (length rb) buf
               in Some (take ATCA_BLOCK_SIZE buf @ sb @ drop (ATCA_BLOCK_SIZE + length sb) buf))"

text \<open>Lines 328-340: the session; the chip library reads 32, 64 and 64 bytes of its arguments.\<close>

definition verify_in_session :: "'w env \<Rightarrow> 'w verify_lib \<Rightarrow> bytes \<Rightarrow> bytes \<Rightarrow> bytes \<Rightarrow> ('w, status \<times> bool) prog" where
  "verify_in_session E V dgst raw_sig raw_pubkey = do {
     cfg \<leftarrow> gets pCfg;
     status \<leftarrow> atcab_init_safe E cfg;
     (if status \<noteq> ATCA_SUCCESS then ret (status, False)
      else do {
        (if length dgst < ATCA_BLOCK_SIZE \<or> length raw_pubkey < 1 + 2 * ATCA_BLOCK_SIZE
         then flag_ub Out_of_bounds_read else skip);
        r \<leftarrow> atcab_verify_extern V (take ATCA_BLOCK_SIZE dgst) raw_sig
               (take (2 * ATCA_BLOCK_SIZE) (drop 1 raw_pubkey));
        _ \<leftarrow> atcab_release_safe E;
        ret r
      })
   }"

text \<open>Lines 311-340: the public key in a buffer of its own. The result is \<^verbatim>\<open>raw_pubkey\<close> as well.\<close>

definition verify_with_pubkey ::
  "'w env \<Rightarrow> 'w cert_lib \<Rightarrow> 'w verify_lib \<Rightarrow> bytes \<Rightarrow> bytes \<Rightarrow> ptr \<Rightarrow> ('w, status \<times> bool \<times> ptr) prog" where
  "verify_with_pubkey E L V dgst raw_sig eckey = do {
     group \<leftarrow> EC_KEY_get0_group E eckey;
     form \<leftarrow> gets (\<lambda>s. ext_EC_GROUP_get_point_conversion_form V group (world s));
     pub \<leftarrow> gets (\<lambda>s. ext_EC_KEY_get0_public_key V eckey (world s));
     oct \<leftarrow> gets (\<lambda>s. ext_EC_POINT_point2oct V group pub form (world s));
     raw_pubkey \<leftarrow> OPENSSL_malloc L (length oct);
     junk \<leftarrow> gets (\<lambda>s. ext_heap_bytes L (length oct) (world s));
     (if raw_pubkey = NULL then ret (ATCA_GEN_FAIL, False, NULL)
      else do {
        (status, verified) \<leftarrow> verify_in_session E V dgst raw_sig (if pub \<noteq> NULL then oct else junk);
        ret (status, verified, raw_pubkey)
      })
   }"

definition eccx08_ecdsa_do_verify ::
  "'w env \<Rightarrow> 'w cert_lib \<Rightarrow> 'w verify_lib \<Rightarrow> bytes \<Rightarrow> ptr \<Rightarrow> ptr \<Rightarrow> ('w, int) prog" where
  "eccx08_ecdsa_do_verify E L V dgst sig eckey = do {
     raw_sig \<leftarrow> OPENSSL_malloc L (2 * ATCA_BLOCK_SIZE);
     junk \<leftarrow> gets (\<lambda>s. ext_heap_bytes L (2 * ATCA_BLOCK_SIZE) (world s));
     numbers \<leftarrow> gets (\<lambda>s. ext_ECDSA_SIG_get0 V sig (world s));
     (status, verified, raw_pubkey) \<leftarrow>
       (if raw_sig = NULL then ret (ATCA_GEN_FAIL, False, NULL)
        else case raw_signature E (fst numbers) (snd numbers) junk of
          None \<Rightarrow> ret (ATCA_GEN_FAIL, False, NULL)
        | Some raw \<Rightarrow> verify_with_pubkey E L V dgst raw eckey);
     (if raw_sig \<noteq> NULL then OPENSSL_free L raw_sig else skip);
     (if raw_pubkey \<noteq> NULL then OPENSSL_free L raw_pubkey else skip);
     ret (if status \<noteq> ATCA_SUCCESS then ENGINE_OPENSSL_ERROR
          else if verified then ENGINE_OPENSSL_SUCCESS
          else ENGINE_OPENSSL_FAILURE)
   }"

section \<open>Safety\<close>

lemma wp_verify_in_session:
  assumes "mutex_ok E" and "no_session s"
  shows "wp (verify_in_session E V dgst raw_sig raw_pubkey) (\<lambda>_ t. no_session t) s"
proof -
  have body: "wp (do {
      r \<leftarrow> atcab_verify_extern V d g p;
      _ \<leftarrow> atcab_release_safe E;
      ret r }) (\<lambda>_ t. no_session t) u" if "in_session u" for u :: "'a eng" and d g p
    by (rule wp_bindI, rule wp_call_in_session [OF that])
      (auto simp: split_beta simp del: wp_bind intro!: wp_release_then safe.keep)
  show ?thesis
    unfolding verify_in_session_def
    by (rule wp_open_device [OF assms]) (rule wp_bindI, auto simp del: wp_bind intro!: body)
qed

lemma safe_verify_in_session: "mutex_ok E \<Longrightarrow> keeping safe (verify_in_session E V dgst raw_sig raw_pubkey)"
  by (rule safeI) (rule wp_verify_in_session)

lemma safe_do_verify: "mutex_ok E \<Longrightarrow> keeping safe (eccx08_ecdsa_do_verify E L V dgst sig eckey)"
  unfolding eccx08_ecdsa_do_verify_def verify_with_pubkey_def
  by (intro safe.keep safe_verify_in_session quiet_safe [OF quiet_call]) auto

end
