(* ===== verification/Ecdh.thy ===== *)
theory Ecdh
  imports Verify Methods
begin

text \<open>
  \<^verbatim>\<open>eccx08_ecdh.c\<close>: a shared secret computed by the chip. The file is not part of the default
  build; it calls \<open>eccx08_eckey_isx08key\<close> without its second argument, which is read here as
  null. Objects of class \<open>Mem\<close> stand for the temporary context and the buffers.
\<close>

section \<open>The functions used\<close>

text \<open>
  \<^verbatim>\<open>KDF\<close> gets the buffer and the size of the output and gives the output and its new size,
  \<^verbatim>\<open>None\<close> when it fails; \<open>ext_default_compute_key\<close> is OpenSSL's own method.
\<close>

type_synonym kdf = "bytes \<Rightarrow> nat \<Rightarrow> (bytes \<times> nat) option"

record 'w ecdh_lib =
  ext_BN_CTX_new :: "'w \<Rightarrow> ptr \<times> 'w"
  ext_BN_CTX_free :: "ptr \<Rightarrow> 'w \<Rightarrow> unit \<times> 'w"
  ext_EC_GROUP_get_degree :: "ptr \<Rightarrow> 'w \<Rightarrow> nat"
  ext_atcab_ecdh_enc :: "byte \<Rightarrow> bytes \<Rightarrow> bytes \<Rightarrow> byte \<Rightarrow> 'w \<Rightarrow> (status \<times> bytes) \<times> 'w"
  ext_EC_KEY_METHOD_set_compute_key :: "ptr \<Rightarrow> fn_ptr \<Rightarrow> 'w \<Rightarrow> unit \<times> 'w"
  ext_default_compute_key :: "bytes \<Rightarrow> nat \<Rightarrow> ptr \<Rightarrow> ptr \<Rightarrow> kdf option \<Rightarrow> 'w \<Rightarrow> (int \<times> bytes) \<times> 'w"

abbreviation (input) INT_MAX :: nat where "INT_MAX \<equiv> 2147483647"

section \<open>The operations\<close>

text \<open>
  Lines 115-141: the peer's key is written to \<^verbatim>\<open>raw_key\<close> and then the key pair's own public key
  over it. The results are \<^verbatim>\<open>raw_key\<close>, its content and \<^verbatim>\<open>shared_secret\<close>; the content is missing
  for a \<^verbatim>\<open>goto err\<close>.
\<close>

definition ecdh_raw_key ::
  "'w env \<Rightarrow> 'w cert_lib \<Rightarrow> 'w verify_lib \<Rightarrow> ptr \<Rightarrow> ptr \<Rightarrow> ('w, ptr \<times> bytes option \<times> ptr) prog" where
  "ecdh_raw_key E L V pub_key ecdh = do {
     group \<leftarrow> EC_KEY_get0_group E ecdh;
     form \<leftarrow> gets (\<lambda>s. ext_EC_GROUP_get_point_conversion_form V group (world s));
     len \<leftarrow> gets (\<lambda>s. length (ext_EC_POINT_point2oct V group pub_key form (world s)));
     (if len = 0 then ret (NULL, None, NULL)
      else do {
        raw_key \<leftarrow> OPENSSL_malloc L len;
        peer \<leftarrow> gets (\<lambda>s. ext_EC_POINT_point2oct V group pub_key form (world s));
        (if raw_key = NULL then ret (NULL, None, NULL)
         else if peer = [] \<or> len < length peer then ret (raw_key, None, NULL)
         else do {
           shared_secret \<leftarrow> OPENSSL_malloc L ATCA_BLOCK_SIZE;
           own_key \<leftarrow> gets (\<lambda>s. ext_EC_POINT_point2oct V group
             (ext_EC_KEY_get0_public_key V ecdh (world s)) form (world s));
           (if shared_secret = NULL then ret (raw_key, None, NULL)
            else if own_key = [] \<or> len < length own_key then ret (raw_key, None, shared_secret)
            else ret (raw_key, Some (own_key @ drop (length own_key) peer), shared_secret))
         })
      })
   }"

text \<open>
  Lines 143-167: the chip, in a session of its own. \<^verbatim>\<open>memset\<close> gets the null pointer \<^verbatim>\<open>buf\<close>; only a
  size of zero leaves it harmless. The secret is printed whether or not the command worked;
  the buffer starts as fresh memory.
\<close>

definition ecdh_secret ::
  "'w env \<Rightarrow> 'w cert_lib \<Rightarrow> 'w ecdh_lib \<Rightarrow> nat \<Rightarrow> bytes \<Rightarrow> ('w, status \<times> bytes) prog" where
  "ecdh_secret E L D buflen raw_key = do {
     (if buflen \<noteq> ATCA_BLOCK_SIZE then flag_ub Null_deref else skip);
     cfg \<leftarrow> gets pCfg;
     status \<leftarrow> atcab_init_safe E cfg;
     (if status \<noteq> ATCA_SUCCESS then ret (status, [])
      else do {
        (if length raw_key < 1 + 2 * ATCA_BLOCK_SIZE then flag_ub Out_of_bounds_read else skip);
        key \<leftarrow> gets transport_key;
        (status, secret) \<leftarrow> call (ext_atcab_ecdh_enc D 0 (take (2 * ATCA_BLOCK_SIZE) (drop 1 raw_key)) key 4)
          (\<lambda>(st, _). [Dev_cmd (Ecdh (take (2 * ATCA_BLOCK_SIZE) (drop 1 raw_key))) st]);
        junk \<leftarrow> gets (\<lambda>s. ext_heap_bytes L ATCA_BLOCK_SIZE (world s));
        _ \<leftarrow> atcab_release_safe E;
        log_ev (File_write ''stdout'' (if status = ATCA_SUCCESS then secret else junk));
        ret (status, secret)
      })
   }"

text \<open>Lines 169-189: the secret at the end of a new buffer, through \<^verbatim>\<open>KDF\<close> or cut to the output.\<close>

definition ecdh_output ::
  "'w cert_lib \<Rightarrow> nat \<Rightarrow> bytes \<Rightarrow> bytes \<Rightarrow> nat \<Rightarrow> kdf option \<Rightarrow> ('w, int \<times> bytes \<times> ptr) prog" where
  "ecdh_output L buflen secret out outlen KDF = do {
     p \<leftarrow> OPENSSL_malloc L buflen;
     junk \<leftarrow> gets (\<lambda>s. ext_heap_bytes L buflen (world s));
     (if p = NULL then ret (-1, out, NULL)
      else do {
        (if buflen < ATCA_BLOCK_SIZE then flag_ub Buffer_overflow else skip);
        (let buf = take (buflen - ATCA_BLOCK_SIZE) junk @ secret in
         case KDF of
           Some f \<Rightarrow> (case f buf outlen of
               None \<Rightarrow> ret (-1, out, p)
             | Some (res, n) \<Rightarrow> ret (int n, res, p))
         | None \<Rightarrow>
             let n = min outlen buflen
             in ret (int n, take n buf @ drop n out, p))
      })
   }"

text \<open>Lines 102-219, for a key of the engine.\<close>

definition ecdh_with_device ::
  "'w env \<Rightarrow> 'w cert_lib \<Rightarrow> 'w verify_lib \<Rightarrow> 'w ecdh_lib \<Rightarrow> bytes \<Rightarrow> nat \<Rightarrow> ptr \<Rightarrow> ptr \<Rightarrow> kdf option
   \<Rightarrow> ('w, int \<times> bytes) prog" where
  "ecdh_with_device E L V D out outlen pub_key ecdh KDF =
     (if INT_MAX < outlen then ret (-1, out)
      else do {
        ctx \<leftarrow> call (ext_BN_CTX_new D) (ev_new Mem);
        (if ctx = NULL then ret (-1, out)
         else do {
           (raw_key, content, shared_secret) \<leftarrow> ecdh_raw_key E L V pub_key ecdh;
           (res, out, buf) \<leftarrow> (case content of
               None \<Rightarrow> ret (-1, out, NULL)
             | Some bs \<Rightarrow> do {
                 group \<leftarrow> EC_KEY_get0_group E ecdh;
                 degree \<leftarrow> gets (\<lambda>s. ext_EC_GROUP_get_degree D group (world s));
                 (status, secret) \<leftarrow> ecdh_secret E L D ((degree + 7) div 8) bs;
                 (if status \<noteq> ATCA_SUCCESS then ret (-1, out, NULL)
                  else ecdh_output L ((degree + 7) div 8) secret out outlen KDF)
               });
           call (ext_BN_CTX_free D ctx) (\<lambda>_. ev_free Mem ctx);
           (if buf \<noteq> NULL then OPENSSL_free L buf else skip);
           (if raw_key \<noteq> NULL then OPENSSL_free L raw_key else skip);
           (if shared_secret \<noteq> NULL then OPENSSL_free L shared_secret else skip);
           ret (res, out)
         })
      })"

text \<open>
  For any other key the code calls through the static pointer to the default method, which is
  null unless the method of the old interface has been set up.
\<close>

definition eccx08_ecdh_compute_key ::
  "'w env \<Rightarrow> 'w cert_lib \<Rightarrow> 'w verify_lib \<Rightarrow> 'w ecdh_lib \<Rightarrow> bytes \<Rightarrow> nat \<Rightarrow> ptr \<Rightarrow> ptr \<Rightarrow> kdf option
   \<Rightarrow> ('w, int \<times> bytes) prog" where
  "eccx08_ecdh_compute_key E L V D out outlen pub_key ecdh KDF = do {
     (r, _) \<leftarrow> eccx08_eckey_isx08key E ecdh;
     (if r = 0 then do {
        dflt \<leftarrow> gets eccx08_ecdh_default;
        (if dflt = NULL then flag_ub Null_deref else skip);
        call (ext_default_compute_key D out outlen pub_key ecdh KDF) (\<lambda>_. [])
      }
      else ecdh_with_device E L V D out outlen pub_key ecdh KDF)
   }"

definition ecxx08_ecdh_init_meth :: "'w ecdh_lib \<Rightarrow> ptr \<Rightarrow> ('w, int) prog" where
  "ecxx08_ecdh_init_meth D pMethod =
     (if pMethod = NULL then ret ENGINE_OPENSSL_FAILURE
      else do {
        call (ext_EC_KEY_METHOD_set_compute_key D pMethod (Own_fn Eccx08_ecdh_compute_key))
          (\<lambda>_. [Obj_use Method pMethod]);
        ret ENGINE_OPENSSL_SUCCESS
      })"

text \<open>
  \<open>eccx08_ec_init\<close> with ECDH on (lines 1060-1066 of \<^verbatim>\<open>eccx08_eckey_meth.c\<close> compiled in): the table
  gets the key agreement first. The code calls the function by a name it does not have; the
  one that is there is meant.
\<close>

definition eccx08_ec_init_ecdh :: "'w meth_lib \<Rightarrow> 'w ecdh_lib \<Rightarrow> ('w, int \<times> ptr) prog" where
  "eccx08_ec_init_ecdh M D = do {
     d \<leftarrow> gets eccx08_ec_default;
     (if d = NULL then modify (\<lambda>s. s\<lparr>eccx08_ec_default := ext_EC_KEY_get_default_method M (world s)\<rparr>)
      else skip);
     p \<leftarrow> gets eccx08_ec;
     dflt \<leftarrow> gets eccx08_ec_default;
     (if p = NULL then do {
        q \<leftarrow> call (ext_EC_KEY_METHOD_new M dflt) (ev_new Method);
        modify (\<lambda>s. s\<lparr>eccx08_ec := q\<rparr>)
      } else skip);
     p \<leftarrow> gets eccx08_ec;
     (if p = NULL then ret (ENGINE_OPENSSL_FAILURE, NULL)
      else do {
        r \<leftarrow> ecxx08_ecdh_init_meth D p;
        (if r = 0 then do {
           _ \<leftarrow> eccx08_ec_cleanup M;
           ret (ENGINE_OPENSSL_FAILURE, NULL)
         } else do {
           r \<leftarrow> eccx08_ecdsa_init_meth M p;
           (if r = 0 then do {
              _ \<leftarrow> eccx08_ec_cleanup M;
              ret (ENGINE_OPENSSL_FAILURE, NULL)
            } else ret (ENGINE_OPENSSL_SUCCESS, p))
         })
      })
   }"

lemma quiet_ec_init_ecdh: "keeping quiet (eccx08_ec_init_ecdh M D)"
  unfolding eccx08_ec_init_ecdh_def ecxx08_ecdh_init_meth_def eccx08_ecdsa_init_meth_def
  by (intro quiet.keep quiet_basic quiet_meth_modify quiet_ec_cleanup) auto

text \<open>On a table that is there already it registers the key agreement and does the rest.\<close>

lemma ec_init_ecdh_registers_both:
  assumes "eccx08_ec s \<noteq> NULL"
  shows "run_state (eccx08_ec_init_ecdh M D) s = run_state (do {
      d \<leftarrow> gets eccx08_ec_default;
      (if d = NULL then modify (\<lambda>s. s\<lparr>eccx08_ec_default := ext_EC_KEY_get_default_method M (world s)\<rparr>)
       else skip);
      _ \<leftarrow> ecxx08_ecdh_init_meth D (eccx08_ec s);
      _ \<leftarrow> eccx08_ecdsa_init_meth M (eccx08_ec s);
      ret (ENGINE_OPENSSL_SUCCESS, eccx08_ec s) }) s"
  using assms
  by (simp add: eccx08_ec_init_ecdh_def ecxx08_ecdh_init_meth_def eccx08_ecdsa_init_meth_def split_beta)

section \<open>Safety\<close>

lemma wp_ecdh_secret:
  assumes "mutex_ok E" and "no_session s"
  shows "wp (ecdh_secret E L D buflen raw_key) (\<lambda>_ t. no_session t) s"
proof -
  have outside: "no_session (t\<lparr>ub := u\<rparr>) = no_session t"
    "no_session (t\<lparr>trace := File_write f bs # trace t\<rparr>) = no_session t" for t :: "'a eng" and u f bs
    by (auto simp: sess_defs split: option.splits)
  have run: "wp (do {
      key \<leftarrow> gets transport_key;
      (status, secret) \<leftarrow> call (ext_atcab_ecdh_enc D 0 k key 4) (\<lambda>(st, _). [Dev_cmd (Ecdh k) st]);
      junk \<leftarrow> gets (\<lambda>s. ext_heap_bytes L ATCA_BLOCK_SIZE (world s));
      _ \<leftarrow> atcab_release_safe E;
      log_ev (File_write ''stdout'' (if status = ATCA_SUCCESS then secret else junk));
      ret (status, secret) }) (\<lambda>_ t. no_session t) u" if "in_session u" for u :: "'a eng" and k
    by (auto simp: split_beta outside intro!: wp_call_in_session [OF that] wp_atcab_release_safe)
  show ?thesis
    unfolding ecdh_secret_def
  proof (rule wp_bindI, rule wp_mono [of _ "\<lambda>_. no_session"], goal_cases)
    case 2
    show ?case
      by (rule wp_open_device [OF assms(1) 2]) (rule wp_bindI, auto simp: outside simp del: wp_bind intro!: run)
  qed (use assms(2) in \<open>auto simp: outside\<close>)
qed

lemma safe_ecdh_secret: "mutex_ok E \<Longrightarrow> keeping safe (ecdh_secret E L D buflen raw_key)"
  by (rule safeI) (rule wp_ecdh_secret)

lemma safe_ecdh_compute_key: "mutex_ok E \<Longrightarrow> keeping safe (eccx08_ecdh_compute_key E L V D out outlen pub_key ecdh KDF)"
  unfolding eccx08_ecdh_compute_key_def ecdh_with_device_def ecdh_raw_key_def ecdh_output_def
  by (intro safe.keep safe_ecdh_secret quiet_safe [OF quiet_isx08key] quiet_safe [OF quiet_call] quiet_safe [OF quiet_flag_ub])
    auto

end
