(* ===== verification/Run.thy ===== *)
theory Run
  imports Engine Ecdh
begin

text \<open>
  Runs of the engine: OpenSSL calls its entry points in any order, and between two calls the
  world moves on (other processes use the chip, OpenSSL and the application go on). The
  reachable states of this transition system satisfy the engine's invariant.
\<close>

section \<open>What the entry points keep\<close>

definition tame_state :: "'w eng \<Rightarrow> bool" where
  "tame_state s \<longleftrightarrow> config_wf (eccx08_engine_config s) \<and> (ub s = None \<longrightarrow> passwords_wf s)"

definition tame :: "'w eng \<Rightarrow> 'w eng \<Rightarrow> bool" where
  "tame s t \<longleftrightarrow> (tame_state s \<longrightarrow> tame_state t)"

interpretation tame: frame tame
  by unfold_locales (auto simp: tame_def)

lemma cfg_tame: "cfg_same s t \<Longrightarrow> tame s t"
  by (auto simp: tame_def tame_state_def cfg_same_def passwords_wf_def)

lemma keeping_tame: "keeping cfg_same m \<Longrightarrow> keeping tame m"
  by (erule keeping_mono) (rule cfg_tame)

lemma tame_modify:
  assumes "\<And>s. eccx08_engine_config (f s) = eccx08_engine_config s" "\<And>s. passwords (f s) = passwords s"
    "\<And>s. current_id (f s) = current_id s" "\<And>s. ub (f s) = ub s"
  shows "keeping tame (modify f)"
  using assms by (simp add: keeping_def tame_def tame_state_def passwords_wf_def)

lemma tame_call: "keeping tame (call f evs)"
  by (rule keeping_tame [OF cfg_call])

lemmas tame_basic = tame_call keeping_tame [OF cfg_log_ev] keeping_tame [OF cfg_flag_ub]

lemma store_passwd_one: "fst (store_passwd got p) \<noteq> 0 \<Longrightarrow> fst (store_passwd got p) = 1"
  by (induction got p rule: store_passwd.induct) auto

text \<open>Parsing the callback data and storing a password found there.\<close>

definition new_password :: "string option option \<Rightarrow> ('w, byte) prog" where
  "new_password cb = do {
     (r, tmp) \<leftarrow> eccx08_cbdata_to_password cb blank_password;
     (if r \<noteq> 0 then save_password tmp else ret NOPASSWD_ID)
   }"

lemma wp_load_pubkey_eq:
  "wp (eccx08_load_pubkey E e key_id cb) Q s =
   wp (do { pid \<leftarrow> new_password cb; eccx08_load_pubkey_internal E e NULL key_id pid }) Q s"
  "wp (eccx08_load_privkey E e key_id cb) Q s =
   wp (do { pid \<leftarrow> new_password cb; eccx08_load_pubkey_internal E e NULL key_id pid }) Q s"
  by (simp_all add: eccx08_load_pubkey_def eccx08_load_privkey_def new_password_def split_beta
      if_distrib [of "\<lambda>m. wp m _ _"] cong: if_cong)

lemma tame_new_password: "keeping tame (new_password cb)"
proof (rule keepingI)
  fix s :: "'a eng"
  have flagged: "wp (save_password p) (\<lambda>_. tame s) t"
    if "ub t \<noteq> None" "eccx08_engine_config t = eccx08_engine_config s" for t and p
    using that
    by (auto simp: save_password_def eccx08_make_password_def copy_password_def tame_def tame_state_def
        split: option.splits)
  have good: "wp (save_password p) (\<lambda>_. tame s) s" if "length (password p) < 258" for p
  proof (cases "passwords_wf s")
    case True
    then show ?thesis
      by (rule wp_save_password) (use that in \<open>auto simp: tame_def tame_state_def\<close>)
  next
    case False
    then show ?thesis using flagged [of s p]
      by (cases "ub s") (auto simp: tame_def tame_state_def save_password_def wp_def split_beta)
  qed
  have saved: "wp (save_password p) (\<lambda>_. tame s) t"
    if "ub t = None \<Longrightarrow> t = s \<and> length (password p) < 258" "eccx08_engine_config t = eccx08_engine_config s"
    for p t
    using that flagged [of t p] good [of p] by (cases "ub t") auto
  show "wp (new_password cb) (\<lambda>_. tame s) s"
    unfolding new_password_def eccx08_cbdata_to_password_def
    by (auto simp: tame.frame_refl Let_def split_beta split: option.splits
        intro!: saved dest: store_passwd_one)
qed

lemma tame_load_pubkey:
  "keeping tame (eccx08_load_pubkey E e key_id cb)" "keeping tame (eccx08_load_privkey E e key_id cb)"
  by (rule keepingI, unfold wp_load_pubkey_eq, rule keepingD,
      intro tame.keep tame_new_password keeping_tame [OF cfg_load_pubkey_internal])+

lemma cfg_call_default: "keeping cfg_same (call_default E f args)"
  unfolding call_default_def by (intro cfg.keep cfg_basic)

lemma cfg_pkey_ec_init: "keeping cfg_same (eccx08_pkey_ec_init E ctx)"
  unfolding eccx08_pkey_ec_init_def
  by (intro cfg.keep cfg_pkey_isx08key cfg_load_pubkey_internal cfg_call_default)

lemma cfg_pkey_delegates:
  "keeping cfg_same (eccx08_pkey_ec_keygen_init E ctx)" "keeping cfg_same (eccx08_pkey_ec_sign_init E ctx)"
  "keeping cfg_same (eccx08_pkey_ec_sign E ctx sig siglen tbs n)"
  "keeping cfg_same (eccx08_eckey_derive_init E ctx)" "keeping cfg_same (eccx08_eckey_derive E ctx key keylen)"
  unfolding eccx08_pkey_ec_keygen_init_def eccx08_pkey_ec_sign_init_def eccx08_pkey_ec_sign_def
    eccx08_eckey_derive_init_def eccx08_eckey_derive_def
  by (intro cfg.keep cfg_call_default)+

lemma cfg_pkey_ec_keygen: "keeping cfg_same (eccx08_pkey_ec_keygen E ctx pkey)"
  unfolding eccx08_pkey_ec_keygen_def keygen_device_def genkey_or_pubkey_def
  by (intro cfg.keep cfg_sess cfg_convert)

lemma cfg_sign: "keeping cfg_same (eccx08_ecdsa_sign E dgst len eckey)"
  unfolding eccx08_ecdsa_sign_def by (intro cfg.keep cfg_sess cfg_do_sign_sig)

lemma cfg_sign_sig: "keeping cfg_same (eccx08_ecdsa_sign_sig E dgst len eckey)"
  unfolding eccx08_ecdsa_sign_sig_def by (intro cfg.keep cfg_sess cfg_isx08key cfg_do_sign_sig)

lemma cfg_do_verify: "keeping cfg_same (eccx08_ecdsa_do_verify E L V dgst sig eckey)"
  unfolding eccx08_ecdsa_do_verify_def verify_with_pubkey_def verify_in_session_def
  by (intro cfg.keep cfg_basic cfg_sess)

lemma cfg_ecdh_compute_key: "keeping cfg_same (eccx08_ecdh_compute_key E L V D out outlen pub ecdh KDF)"
  unfolding eccx08_ecdh_compute_key_def ecdh_with_device_def ecdh_raw_key_def ecdh_secret_def ecdh_output_def
  by (intro cfg.keep cfg_basic cfg_sess cfg_isx08key)

lemma tame_setters:
  "keeping tame (set_device_key_slot i)" "keeping tame (set_ecdh_slot i)" "keeping tame (set_ecdh_count i)"
  "keeping tame (set_transport_key p)"
  by (auto simp: keeping_def tame_def tame_state_def passwords_wf_def set_device_key_slot_def
      set_ecdh_slot_def set_ecdh_count_def set_transport_key_def need_bytes_def config_wf_def slot_in_range
      split: option.splits)

lemma tame_read_blocks: "keeping tame (read_blocks L loc i acc st)"
proof (induction L loc i acc st rule: read_blocks.induct)
  case (1 L loc i acc st)
  show ?case
    by (subst read_blocks.simps) (intro tame.keep tame_call "1.IH", auto)
qed

lemma tame_cert_modify:
  "keeping tame (modify (\<lambda>s. s\<lparr>g_signer_1_ca_public_key := k\<rparr>))"
  "keeping tame (modify (\<lambda>s. s\<lparr>g_cert_def_1_signer_ptr := c\<rparr>))"
  "keeping tame (modify (\<lambda>s. s\<lparr>g_cert_def_2_device_ptr := c\<rparr>))"
  "keeping tame (modify (\<lambda>s. s\<lparr>g_cert_def_3_csr_ptr := c\<rparr>))"
  by (rule tame_modify; simp)+

lemma tame_read_cert_body: "keeping tame (read_cert_body L d signer n)"
  unfolding read_cert_body_def eccx08_cert_load_pubkey_def
  by (intro tame.keep tame_basic tame_read_blocks tame_cert_modify)

lemma tame_get_cert: "keeping tame (get_cert E L filename d signer)"
  unfolding get_cert_def cert_session_def write_cert_file_def
  by (intro tame.keep tame_basic tame_read_cert_body keeping_tame [OF cfg_atcab_init_safe]
      keeping_tame [OF cfg_atcab_release_safe])

lemma tame_cert_load_client: "keeping tame (eccx08_cert_load_client E L ppCert ppKey)"
  unfolding eccx08_cert_load_client_def client_cert_session_def
  by (cases ppCert; cases ppKey)
    (auto intro!: tame.keep tame_basic tame_read_cert_body keeping_tame [OF cfg_atcab_init_safe]
      keeping_tame [OF cfg_atcab_release_safe] simp: split_beta)

lemma tame_get_key: "keeping tame (get_key E B e keyid filename)"
  unfolding get_key_def write_key_file_def
  by (intro tame.keep tame_basic tame_load_pubkey)

lemma tame_cmd_ctrl: "keeping tame (eccx08_cmd_ctrl b E L B e cmd i p)"
  unfolding eccx08_cmd_ctrl_def run_cmd_def get_device_cert_def get_signer_cert_def load_device_cert_def
  by (intro tame.keep tame_get_key tame_get_cert tame_cert_load_client tame_setters)

lemma tame_platform_init: "keeping tame (eccx08_platform_init E hal)"
  by (cases hal) (auto simp: keeping_def tame_def tame_state_def passwords_wf_def config_wf_def
      eccx08_platform_init_def)

lemma tame_cert_init: "keeping tame (eccx08_cert_init L n k)"
  unfolding eccx08_cert_init_def eccx08_cert_copy_def eccx08_cert_new_def
  by (intro tame.keep tame_basic tame_cert_modify)

lemma tame_init_mutex: "keeping tame (init_mutex E)"
  unfolding init_mutex_def
  by (intro tame.keep tame_basic keeping_tame [OF cfg_set_lock_state] keeping_tame [OF cfg_set_lock_handle])

lemma tame_init: "keeping tame (eccx08_init b hal E L n k)"
  unfolding eccx08_init_def
  by (intro tame.keep tame_platform_init tame_cert_init tame_init_mutex keeping_tame [OF cfg_rand_init] keepingI [OF wp_eccx08_err_load_strings])
    (simp add: cfg_tame)

lemma tame_destroy: "keeping tame (eccx08_destroy E)"
  unfolding eccx08_destroy_def
  by (intro tame.keep tame_basic keeping_tame [OF cfg_set_lock_state] keeping_tame [OF cfg_set_lock_handle])

lemma tame_meth_modify:
  "keeping tame (modify (\<lambda>s. s\<lparr>eccx08_ec := p\<rparr>))"
  "keeping tame (modify (\<lambda>s. s\<lparr>eccx08_ec_default := f s\<rparr>))"
  "keeping tame (modify (\<lambda>s. s\<lparr>eccx08_pkey_meth := p\<rparr>))"
  "keeping tame (modify (\<lambda>s. s\<lparr>eccx08_pkey_def_f := g s\<rparr>))"
  "keeping tame (modify (\<lambda>s. s\<lparr>this_engine := p\<rparr>))"
  by (rule tame_modify; simp)+

lemma tame_ec_cleanup: "keeping tame (eccx08_ec_cleanup M)"
  unfolding eccx08_ec_cleanup_def by (intro tame.keep tame_basic tame_meth_modify)

lemma tame_finish: "keeping tame (eccx08_finish b L M)"
  unfolding eccx08_finish_def eccx08_cert_cleanup_def eccx08_cert_free_def free_cert_arrays_def
  by (intro tame.keep tame_basic tame_ec_cleanup)

lemma tame_all_steps: "(\<And>m. m \<in> set ms \<Longrightarrow> keeping tame m) \<Longrightarrow> keeping tame (all_steps ms)"
  by (induction ms) (auto intro!: tame.keep)

lemma tame_bind_helper: "keeping tame (bind_helper b M G e ident)"
proof -
  have "keeping tame m" if "m \<in> set (bind_steps b M G e)" for m
    using that
    by (auto simp: bind_steps_def bind_ec_def eccx08_ec_init_def eccx08_ecdsa_init_meth_def
        eccx08_pkey_meth_init_def save_defaults_def split: if_splits
        intro!: tame.keep tame_basic tame_meth_modify tame_ec_cleanup)
  then show ?thesis
    unfolding bind_helper_def by (intro tame.keep tame_all_steps tame_meth_modify)
qed

section \<open>The transition system\<close>

text \<open>The libraries the engine is linked with and the options it is built with.\<close>

record 'w sys =
  S_env :: "'w env"
  S_cert :: "'w cert_lib"
  S_bio :: "'w bio_lib"
  S_meth :: "'w meth_lib"
  S_engine :: "'w engine_lib"
  S_verify :: "'w verify_lib"
  S_ecdh :: "'w ecdh_lib"
  S_build :: build
  S_hal :: hal_macro
  S_sizeof_def :: nat
  S_sizeof_element :: nat

text \<open>
  Calls of OpenSSL into the engine. Left out are the entry points that change nothing
  (selectors, status and set-up functions) and those that may keep the device open between
  two calls by design: the digest callbacks, and the generator that only seeds OpenSSL's.
\<close>

datatype api =
    Api_bind ptr "string option" | Api_init | Api_finish | Api_destroy
  | Api_ctrl ptr int int ctrl_ptr
  | Api_load_pubkey ptr "string option" "string option option"
  | Api_load_privkey ptr "string option" "string option option"
  | Api_load_client_cert "ptr option" "ptr option"
  | Api_pkey_init ptr | Api_pkey_keygen_init ptr | Api_pkey_keygen ptr ptr
  | Api_pkey_sign_init ptr | Api_pkey_sign ptr ptr ptr ptr nat
  | Api_pkey_derive_init ptr | Api_pkey_derive ptr ptr ptr
  | Api_rand_bytes "bytes option" int
  | Api_sign "bytes option" int ptr | Api_sign_sig "bytes option" int ptr
  | Api_verify bytes ptr ptr
  | Api_ecdh bytes nat ptr ptr "kdf option"

definition exec :: "('w, 'a) prog \<Rightarrow> 'w eng \<Rightarrow> 'w eng" where
  "exec m s = snd (run_state m s)"

fun run_api :: "'w sys \<Rightarrow> api \<Rightarrow> 'w eng \<Rightarrow> 'w eng" where
  "run_api S (Api_bind e ident) = exec (bind_helper (S_build S) (S_meth S) (S_engine S) e ident)"
| "run_api S Api_init = exec (eccx08_init (S_build S) (S_hal S) (S_env S) (S_cert S) (S_sizeof_def S) (S_sizeof_element S))"
| "run_api S Api_finish = exec (eccx08_finish (S_build S) (S_cert S) (S_meth S))"
| "run_api S Api_destroy = exec (eccx08_destroy (S_env S))"
| "run_api S (Api_ctrl e cmd i p) = exec (eccx08_cmd_ctrl (S_build S) (S_env S) (S_cert S) (S_bio S) e cmd i p)"
| "run_api S (Api_load_pubkey e key_id cb) = exec (eccx08_load_pubkey (S_env S) e key_id cb)"
| "run_api S (Api_load_privkey e key_id cb) = exec (eccx08_load_privkey (S_env S) e key_id cb)"
| "run_api S (Api_load_client_cert c k) = exec (eccx08_cert_load_client (S_env S) (S_cert S) c k)"
| "run_api S (Api_pkey_init ctx) = exec (eccx08_pkey_ec_init (S_env S) ctx)"
| "run_api S (Api_pkey_keygen_init ctx) = exec (eccx08_pkey_ec_keygen_init (S_env S) ctx)"
| "run_api S (Api_pkey_sign_init ctx) = exec (eccx08_pkey_ec_sign_init (S_env S) ctx)"
| "run_api S (Api_pkey_sign ctx sig siglen tbs n) = exec (eccx08_pkey_ec_sign (S_env S) ctx sig siglen tbs n)"
| "run_api S (Api_pkey_derive_init ctx) = exec (eccx08_eckey_derive_init (S_env S) ctx)"
| "run_api S (Api_pkey_derive ctx key keylen) = exec (eccx08_eckey_derive (S_env S) ctx key keylen)"
| "run_api S (Api_pkey_keygen ctx pkey) = exec (eccx08_pkey_ec_keygen (S_env S) ctx pkey)"
| "run_api S (Api_rand_bytes buf num) = exec (RAND_eccx08_rand_bytes (S_env S) buf num)"
| "run_api S (Api_sign d len k) = exec (eccx08_ecdsa_sign (S_env S) d len k)"
| "run_api S (Api_sign_sig d len k) = exec (eccx08_ecdsa_sign_sig (S_env S) d len k)"
| "run_api S (Api_verify d sig k) = exec (eccx08_ecdsa_do_verify (S_env S) (S_cert S) (S_verify S) d sig k)"
| "run_api S (Api_ecdh out n pub k KDF) =
     exec (eccx08_ecdh_compute_key (S_env S) (S_cert S) (S_verify S) (S_ecdh S) out n pub k KDF)"

text \<open>The state of the process when the engine's code is loaded.\<close>

definition engine_start :: "'w \<Rightarrow> 'w eng" where
  "engine_start w = \<lparr>world = w, trace = [], ub = None,
     global_lock = \<lparr>lock_handle = NULL, lock_state = 0\<rparr>, global_lock_recovered = 0,
     ifacecfg = None, pCfg = None,
     eccx08_engine_config = \<lparr>device_key_slot = 0, ecdh_key_slot = 0, ecdh_key_count = 0\<rparr>,
     err_lib = 0, passwords = replicate 4 blank_password, current_id = 0, this_engine = NULL,
     eccx08_ec = NULL, eccx08_ec_default = NULL,
     eccx08_ecdsa = NULL, eccx08_ecdsa_default = NULL, eccx08_ecdh_default = NULL, eccx08_pkey_meth = NULL,
     eccx08_pkey_def_f = \<lparr>def_init = No_fn, def_paramgen_init = No_fn, def_paramgen = No_fn, def_keygen_init = No_fn, def_keygen = No_fn,
       def_sign_init = No_fn, def_sign = No_fn, def_derive_init = No_fn, def_derive = No_fn\<rparr>,
     transport_key = [0x44, 0x00, 0x44, 0x01, 0x44, 0x02, 0x44, 0x03, 0x44, 0x04, 0x44, 0x05, 0x44, 0x06,
       0x44, 0x07, 0x44, 0x08, 0x44, 0x09, 0x44, 0x0A, 0x44, 0x0B, 0x44, 0x0C, 0x44, 0x0D, 0x44, 0x0E,
       0x44, 0x0F],
     g_cert_def_1_signer_ptr = None, g_cert_def_2_device_ptr = None, g_cert_def_3_csr_ptr = None,
     g_signer_1_ca_public_key = signer_1_ca_public_key_init, eccx08_rand = eccx08_rand_method, total_num = 0\<rparr>"

inductive step :: "'w sys \<Rightarrow> 'w eng \<Rightarrow> 'w eng \<Rightarrow> bool" for S where
  Call: "step S s (run_api S a s)"
| World: "step S s (s\<lparr>world := w\<rparr>)"

inductive reachable :: "'w sys \<Rightarrow> 'w eng \<Rightarrow> bool" for S where
  Start: "reachable S (engine_start w)"
| Step: "reachable S s \<Longrightarrow> step S s t \<Longrightarrow> reachable S t"

inductive_cases step_elim: "step S s t"

definition invariant :: "'w eng \<Rightarrow> bool" where
  "invariant s \<longleftrightarrow> no_session s \<and> tame_state s"

lemma invariant_start: "invariant (engine_start w)"
  by (simp add: invariant_def engine_start_def sess_defs tame_state_def config_wf_def passwords_wf_def
      blank_password_def)

lemma exec_rules: "keeping R m \<Longrightarrow> R s (exec m s)"
  unfolding exec_def by (rule keeping_run)

lemma invariant_exec: "keeping safe m \<Longrightarrow> keeping tame m \<Longrightarrow> invariant s \<Longrightarrow> invariant (exec m s)"
  using exec_rules [of safe m s] exec_rules [of tame m s]
  by (auto simp: invariant_def safe_def tame_def)

lemmas safe_ops = safe_bind_helper safe_init safe_finish safe_destroy safe_cmd_ctrl safe_load_pubkey
  safe_load_privkey safe_cert_load_client safe_rand_bytes safe_pkey_ec_init safe_pkey_ec_keygen safe_sign safe_sign_sig
  safe_do_verify safe_ecdh_compute_key safe_pkey_delegates

lemmas tame_ops = tame_bind_helper tame_init tame_finish tame_destroy tame_cmd_ctrl tame_load_pubkey
  tame_cert_load_client keeping_tame [OF cfg_rand_bytes] keeping_tame [OF cfg_pkey_ec_init] keeping_tame [OF cfg_pkey_ec_keygen]
  keeping_tame [OF cfg_sign] keeping_tame [OF cfg_sign_sig] keeping_tame [OF cfg_do_verify]
  keeping_tame [OF cfg_ecdh_compute_key] cfg_pkey_delegates [THEN keeping_tame]

lemma invariant_run_api:
  assumes "mutex_ok (S_env S)" and "invariant s"
  shows "invariant (run_api S a s)"
  using assms by (cases a) (auto intro!: invariant_exec intro: safe_ops tame_ops)

lemma invariant_step: "mutex_ok (S_env S) \<Longrightarrow> step S s t \<Longrightarrow> invariant s \<Longrightarrow> invariant t"
  by (erule step_elim)
    (simp add: invariant_run_api, simp add: invariant_def tame_state_def passwords_wf_def sess_defs)

lemma reachable_inv: "reachable S s \<Longrightarrow> mutex_ok (S_env S) \<Longrightarrow> invariant s"
  by (induction rule: reachable.induct) (auto intro: invariant_start invariant_step)

end
