(* ===== verification/Balance.thy ===== *)
theory Balance
  imports Ecdsa
begin

text \<open>
  The reference discipline of the signing and key-loading paths, judged by the reference
  monitor: every object that is made is given away or released, nothing borrowed is
  released, and nothing is touched after its last reference went.
\<close>

section \<open>Balanced operations\<close>

text \<open>
  Numbers, groups and points may be made and die inside; keys and signatures are left
  alone.
\<close>

definition balanced :: "'w eng \<Rightarrow> 'w eng \<Rightarrow> bool" where
  "balanced s t \<longleftrightarrow> (\<forall>m. ref_mon (trace s) = Some m \<longrightarrow>
     (\<exists>m'. ref_mon (trace t) = Some m' \<and> own m' = own m
        \<and> (\<forall>c \<in> {Pkey, Eckey, Sig}. dead m' c = dead m c \<and> shared m' c = shared m c)))"

interpretation balanced: frame balanced
proof
  fix s t u :: "'w eng"
  show "balanced s s" by (auto simp: balanced_def)
  assume "balanced s t" "balanced t u"
  then show "balanced s u" unfolding balanced_def by (metis (no_types, lifting))
qed

lemma refs_same_balanced: "refs_same s t \<Longrightarrow> balanced s t"
  by (auto simp: refs_same_def balanced_def)

lemma keeping_balanced: "keeping (adds ref_silent) m \<Longrightarrow> keeping balanced m"
  by (erule keeping_mono) (blast intro: refs_same_balanced adds_refs_same)

lemma balanced_sess:
  "keeping balanced (atcab_release_safe E)" "keeping balanced (atcab_init_from_privkey_safe E ec)"
  "keeping balanced (eccx08_raise_session_error E op st)" "keeping balanced (eccx08_eckey_isx08key E ec)"
  "keeping balanced (authorize E pid)" "keeping balanced (atcab_init_safe E c)"
  by (auto intro!: keeping_balanced adds_isx08key
      keeping_adds_weaken [OF adds_release_safe] keeping_adds_weaken [OF adds_init_from_privkey]
      keeping_adds_weaken [OF adds_raise] keeping_adds_weaken [OF adds_init_safe] session_ev_ref_silent
      keeping_mono [OF refs_authorize] refs_same_balanced)

lemma balanced_call: "(\<And>a. list_all ref_silent (evs a)) \<Longrightarrow> keeping balanced (call f evs)"
  by (rule keeping_balanced [OF adds_call])

lemma upd_upd [simp]: "upd (upd f c p x) c p y = upd f c p y"
  and upd_same [simp]: "upd f c p (f c p) = f"
  by (simp_all add: upd_def)

lemma balanced_fill_sig: "keeping balanced (fill_sig E sig raw)"
proof (rule keepingI)
  fix s
  show "wp (fill_sig E sig raw) (\<lambda>_. balanced s) s"
    by (auto simp: fill_sig_def wp_call_eq balanced_def fun_eq_iff split: prod.splits option.splits)
qed

lemma balanced_sign_with_device: "keeping balanced (sign_with_device E sig eckey pid d)"
  unfolding sign_with_device_def fetch_signature_def sign_retry_def
  by (intro balanced.keep balanced_sess balanced_fill_sig balanced_call) (auto split: prod.splits)

section \<open>Results that own a reference\<close>

text \<open>\<open>gains c p s t\<close>: from \<open>s\<close> to \<open>t\<close> exactly one reference was gained, to \<open>p\<close>; none for \<^verbatim>\<open>NULL\<close>.\<close>

definition plus_ref :: "(obj_class \<Rightarrow> ptr \<Rightarrow> nat) \<Rightarrow> obj_class \<Rightarrow> ptr \<Rightarrow> obj_class \<Rightarrow> ptr \<Rightarrow> nat" where
  "plus_ref f c p = (if p = NULL then f else upd f c p (Suc (f c p)))"

definition gains :: "obj_class \<Rightarrow> ptr \<Rightarrow> 'w eng \<Rightarrow> 'w eng \<Rightarrow> bool" where
  "gains c p s t \<longleftrightarrow> (\<forall>m. ref_mon (trace s) = Some m \<longrightarrow>
     (\<exists>m'. ref_mon (trace t) = Some m' \<and> own m' = plus_ref (own m) c p
        \<and> (p \<noteq> NULL \<longrightarrow> \<not> dead m' c p)))"

lemma balanced_gains_NULL: "balanced s t \<Longrightarrow> gains c NULL s t"
  by (auto simp: balanced_def gains_def plus_ref_def)

lemma gains_new_NULL: "gains c NULL s (s\<lparr>world := w, trace := ev_new c' NULL @ trace s\<rparr>)"
  by (auto simp: gains_def plus_ref_def ev_new_def)

lemma wp_do_sign_sig_refs:
  "wp (eccx08_ecdsa_do_sign_sig E dgst len eckey) (\<lambda>sig t. gains Sig sig s t) s"
proof -
  let ?Q = "\<lambda>sig t. gains Sig sig s t"
  have stop: "wp (do { ECDSA_SIG_free E sig; ret NULL }) ?Q t"
    and go: "?Q sig t"
    if sig: "sig \<noteq> NULL" and t: "balanced (s\<lparr>world := w, trace := ev_new Sig sig @ trace s\<rparr>) t" for sig w t
  proof -
    show "?Q sig t"
      using sig t by (auto simp: gains_def balanced_def plus_ref_def ev_new_def)
    show "wp (do { ECDSA_SIG_free E sig; ret NULL }) ?Q t"
      using sig t
      by (auto simp: gains_def balanced_def plus_ref_def ev_new_def ev_free_def wp_call_eq
          split: prod.splits)
  qed
  have "wp (do {
      (r, pid) \<leftarrow> eccx08_eckey_isx08key E eckey;
      (if r \<noteq> ENGINE_OPENSSL_SUCCESS then do { ECDSA_SIG_free E sig; ret NULL }
       else do {
         status \<leftarrow> sign_with_device E sig eckey (case pid of Some i \<Rightarrow> i | None \<Rightarrow> NOPASSWD_ID) d;
         (if status \<noteq> ATCA_SUCCESS then do { ECDSA_SIG_free E sig; ret NULL } else ret sig)
       }) }) ?Q t"
    if "sig \<noteq> NULL" "t = s\<lparr>world := w, trace := ev_new Sig sig @ trace s\<rparr>" for sig d w t
  proof (rule wp_bindI, rule keeping_rule [OF balanced_sess(4)])
    fix a t1 assume t1: "balanced t t1"
    have "wp (sign_with_device E sig eckey pid d) (\<lambda>status. wp
         (if status \<noteq> ATCA_SUCCESS then do { ECDSA_SIG_free E sig; ret NULL } else ret sig) ?Q) t1" for pid
      by (rule keeping_rule [OF balanced_sign_with_device])
        (use that t1 balanced.frame_trans in \<open>auto simp del: wp_bind intro!: stop go\<close>)
    then show "wp (case a of (r, pid) \<Rightarrow> if r \<noteq> ENGINE_OPENSSL_SUCCESS then do { ECDSA_SIG_free E sig; ret NULL }
       else do {
         status \<leftarrow> sign_with_device E sig eckey (case pid of Some i \<Rightarrow> i | None \<Rightarrow> NOPASSWD_ID) d;
         (if status \<noteq> ATCA_SUCCESS then do { ECDSA_SIG_free E sig; ret NULL } else ret sig)
       }) ?Q t1"
      using that t1 by (auto simp: split_beta simp del: wp_bind intro: stop wp_bindI)
  qed
  then show ?thesis
    by (auto simp: eccx08_ecdsa_do_sign_sig_def wp_call_eq balanced_gains_NULL balanced.frame_refl gains_new_NULL
        simp del: wp_bind intro!: wp_bindI split: option.splits prod.splits)
qed

lemma wp_sign_refs:
  "wp (eccx08_ecdsa_sign E dgst len eckey) (\<lambda>_ t. gains Sig NULL s t) s"
  unfolding eccx08_ecdsa_sign_def
proof (rule wp_bindI, rule wp_mono [OF wp_do_sign_sig_refs])
  fix sig t assume t: "gains Sig sig s t"
  show "wp (if sig = NULL then ret (0, 0, []) else do {
      (len, der) \<leftarrow> i2d_ECDSA_SIG E sig;
      ECDSA_SIG_free E sig;
      ret (1, of_int len, der) }) (\<lambda>_. gains Sig NULL s) t"
    using t by (auto simp: wp_call_eq gains_def plus_ref_def ev_free_def fun_eq_iff split: prod.splits)
qed

section \<open>Loading a public key into a borrowed object\<close>

text \<open>
  \<open>group_ok E\<close>: putting a group into a key does not fail (it does when memory runs out, and
  then \<open>eccx08_eckey_convert\<close> loses the group it made).
\<close>

definition group_ok :: "'w env \<Rightarrow> bool" where
  "group_ok E \<longleftrightarrow> (\<forall>k g w. fst (ext_EC_KEY_set_group E k g w) \<noteq> 0)"

lemma balanced_ensure_group: "group_ok E \<Longrightarrow> keeping balanced (ensure_group E k)"
  by (rule keepingI)
    (auto simp: ensure_group_def wp_call_eq balanced_def fun_eq_iff ev_new_def ev_free_def group_ok_def
      split: prod.splits, (metis fst_conv)+)

lemma balanced_point:
  "keeping balanced (do {
     point \<leftarrow> EC_POINT_new E grp;
     r \<leftarrow> EC_POINT_oct2point E grp point raw;
     (if r \<noteq> 0 then do { _ \<leftarrow> EC_KEY_set_public_key E k point; skip } else skip);
     (if point \<noteq> NULL then EC_POINT_free E point else skip);
     ret (if r \<noteq> 0 then ENGINE_OPENSSL_SUCCESS else ENGINE_OPENSSL_FAILURE) })"
  by (rule keepingI)
    (auto simp: wp_call_eq balanced_def fun_eq_iff ev_new_def ev_free_def split: prod.splits)

lemma balanced_convert: "group_ok E \<Longrightarrow> keeping balanced (eccx08_eckey_convert E k raw n)"
  unfolding eccx08_eckey_convert_def
  by (intro balanced.keep(6-9) balanced.keep_return balanced_point
      balanced.keep_bind [OF balanced_ensure_group]) auto

lemma balanced_read_pubkey: "group_ok E \<Longrightarrow> keeping balanced (read_pubkey E eckey pid)"
  unfolding read_pubkey_def fetch_pubkey_def get_pubkey_retry_def
  by (intro balanced.keep balanced_sess balanced_convert balanced_call) (auto split: prod.splits)

text \<open>
  \<open>alive m pkey\<close>: the object passed in is alive, and so is every EC key OpenSSL may answer
  for it.
\<close>

definition alive :: "ref_state \<Rightarrow> ptr \<Rightarrow> bool" where
  "alive m pkey \<longleftrightarrow> \<not> dead m Pkey pkey \<and> (\<forall>k. \<not> dead m Eckey k)"

lemma wp_with_eckey:
  assumes "ref_mon (trace s) = Some m" and "alive m pkey"
    and body: "\<And>k. keeping balanced (body k)"
  shows "wp (do {
      eckey \<leftarrow> EVP_PKEY_get1_EC_KEY E pkey;
      r \<leftarrow> (if eckey = NULL then ret dflt else body eckey);
      (if eckey \<noteq> NULL then EC_KEY_free E eckey else skip);
      ret r }) (\<lambda>_ t. \<exists>m'. ref_mon (trace t) = Some m' \<and> own m' = own m \<and> dead m' Pkey = dead m Pkey) s"
proof (rule wp_bindI, rule wp_call, rule wp_bindI)
  fix k w
  let ?s = "s\<lparr>world := w, trace := (ev_ref Eckey k @ [Obj_use Pkey pkey]) @ trace s\<rparr>"
  have k0: "wp (if k = NULL then ret dflt else body k) (\<lambda>_ t. balanced ?s t) ?s"
    using keepingD [OF body] by (auto simp: balanced.frame_refl)
  show "wp (if k = NULL then ret dflt else body k) (\<lambda>r. wp (do {
      (if k \<noteq> NULL then EC_KEY_free E k else skip); ret r })
      (\<lambda>_ t. \<exists>m'. ref_mon (trace t) = Some m' \<and> own m' = own m \<and> dead m' Pkey = dead m Pkey)) ?s"
    by (rule wp_mono [OF k0])
      (use assms(1,2) in \<open>auto simp: wp_call_eq balanced_def alive_def ev_ref_def ev_free_def
        fun_eq_iff split: prod.splits\<close>)
qed

lemma wp_load_internal_borrowed:
  assumes "ref_mon (trace s) = Some m" and "alive m pkey" and "pkey \<noteq> NULL" and "group_ok E"
  shows "wp (eccx08_load_pubkey_internal E e pkey key_id pid) (\<lambda>p t. (p = NULL \<or> p = pkey)
    \<and> (\<exists>m'. ref_mon (trace t) = Some m' \<and> own m' = own m)) s"
proof -
  have "wp (do {
      status \<leftarrow> do {
        eckey \<leftarrow> EVP_PKEY_get1_EC_KEY E pkey;
        r \<leftarrow> (if eckey = NULL then ret ATCA_GEN_FAIL else read_pubkey E eckey pid);
        (if eckey \<noteq> NULL then EC_KEY_free E eckey else skip);
        ret r };
      (if status \<noteq> ATCA_SUCCESS then do { skip; ret NULL } else ret pkey) })
    (\<lambda>p t. (p = NULL \<or> p = pkey) \<and> (\<exists>m'. ref_mon (trace t) = Some m' \<and> own m' = own m)) s"
    by (rule wp_bindI, rule wp_mono [OF wp_with_eckey [OF assms(1,2)]])
      (use balanced_read_pubkey [OF assms(4)] in auto)
  then show ?thesis using assms(3) by (simp add: eccx08_load_pubkey_internal_def)
qed

section \<open>Loading a new key\<close>

text \<open>OpenSSL grants the objects asked for while a key is made (\<^verbatim>\<open>EVP_PKEY_new\<close> may still refuse).\<close>

definition ssl_willing :: "'w env \<Rightarrow> bool" where
  "ssl_willing E \<longleftrightarrow> group_ok E
     \<and> (\<forall>e w. fst (ext_EC_KEY_new_method E e w) \<noteq> NULL)
     \<and> (\<forall>w. fst (ext_EC_GROUP_new_by_curve_name E w) \<noteq> NULL)
     \<and> (\<forall>p k w. fst (ext_EVP_PKEY_assign_EC_KEY E p k w) \<noteq> 0)
     \<and> (\<forall>bs w. fst (ext_BN_bin2bn E bs w) \<noteq> None)
     \<and> (\<forall>k b w. fst (ext_EC_KEY_set_private_key E k b w) \<noteq> 0)
     \<and> (\<forall>k m w. fst (ext_EC_KEY_set_method E k m w) \<noteq> 0)"

lemma ssl_willingD:
  assumes "ssl_willing E"
  shows "group_ok E" and "ext_EC_KEY_new_method E e w = (p, w') \<Longrightarrow> p \<noteq> NULL"
    and "ext_EC_GROUP_new_by_curve_name E w = (p, w') \<Longrightarrow> p \<noteq> NULL"
    and "ext_EVP_PKEY_assign_EC_KEY E q k w = (r, w') \<Longrightarrow> r \<noteq> 0"
    and "ext_BN_bin2bn E bs w = (bo, w') \<Longrightarrow> bo \<noteq> None"
    and "ext_EC_KEY_set_private_key E k b w = (r, w') \<Longrightarrow> r \<noteq> 0"
    and "ext_EC_KEY_set_method E k q w = (r, w') \<Longrightarrow> r \<noteq> 0"
  using assms unfolding ssl_willing_def by (metis fst_conv)+

lemma wp_fill_new_key_refs:
  assumes "ssl_willing E" and "ref_mon (trace s) = Some m" and "alive m pkey"
  shows "wp (fill_new_key E e pkey ki) (\<lambda>r t. r = ENGINE_OPENSSL_SUCCESS
    \<and> (\<exists>m'. ref_mon (trace t) = Some m' \<and> own m' = own m \<and> alive m' pkey)) s"
  using assms(2,3)
  by (auto simp: fill_new_key_def wp_call_eq ev_new_def ev_free_def alive_def fun_eq_iff
      dest: ssl_willingD(2-7) [OF assms(1)] split: prod.splits option.splits)

definition parses :: "eccx08_engine_config_t \<Rightarrow> string option \<Rightarrow> byte \<Rightarrow> bool" where
  "parses config key_id pid \<longleftrightarrow> (\<forall>junk. fst (new_key_info config junk key_id pid) \<noteq> 0)"

lemma wp_new_key_refs:
  assumes "ssl_willing E" and "ref_mon (trace s) = Some m" and "\<And>k. \<not> dead m Eckey k"
    and "parses (eccx08_engine_config s) key_id pid"
  shows "wp (eccx08_eckey_new_key E e key_id pid) (\<lambda>p t. \<exists>m'. ref_mon (trace t) = Some m'
    \<and> own m' = plus_ref (own m) Pkey p \<and> (p \<noteq> NULL \<longrightarrow> alive m' p)) s"
  unfolding eccx08_eckey_new_key_def
proof (rule wp_bindI, rule wp_call)
  fix p w
  let ?s = "s\<lparr>world := w, trace := ev_new Pkey p @ trace s\<rparr>"
  let ?Q = "\<lambda>t. \<exists>m'. ref_mon (trace t) = Some m'
    \<and> own m' = plus_ref (own m) Pkey p \<and> (p \<noteq> NULL \<longrightarrow> alive m' p)"
  let ?m = "m\<lparr>own := upd (own m) Pkey p (Suc (own m Pkey p)),
    shared := upd (shared m) Pkey p False, dead := upd (dead m) Pkey p False\<rparr>"
  have fill: "wp (fill_new_key E e p ki) (\<lambda>r t. r = ENGINE_OPENSSL_SUCCESS \<and> ?Q t) ?s"
    if p: "p \<noteq> NULL" for ki
    by (rule wp_mono [OF wp_fill_new_key_refs [OF assms(1), of _ ?m]])
      (use assms(2,3) p in \<open>auto simp: ev_new_def alive_def plus_ref_def\<close>)
  show "wp (if p = NULL then ret NULL else do {
        config \<leftarrow> gets eccx08_engine_config;
        junk \<leftarrow> stack_bytes E 32;
        r \<leftarrow> (case new_key_info config junk key_id pid of (parsed, key_info) \<Rightarrow>
               if parsed = 0 then ret ENGINE_OPENSSL_FAILURE
               else fill_new_key E e p key_info);
        (if r = ENGINE_OPENSSL_FAILURE then EVP_PKEY_free E p else skip);
        ret p }) (\<lambda>p t. \<exists>m'. ref_mon (trace t) = Some m'
    \<and> own m' = plus_ref (own m) Pkey p \<and> (p \<noteq> NULL \<longrightarrow> alive m' p)) ?s"
  proof (cases "p = NULL")
    case True
    with assms(2) show ?thesis by (simp add: ev_new_def plus_ref_def)
  next
    case False
    with assms(4) show ?thesis
      by (simp add: parses_def split_beta) (rule wp_mono [OF fill], auto)
  qed
qed

text \<open>Loading releases the new key when the device part fails, and hands it out when it works.\<close>

lemma wp_load_internal_new:
  assumes "ssl_willing E" and "ref_mon (trace s) = Some m" and "\<And>k. \<not> dead m Eckey k"
    and "parses (eccx08_engine_config s) key_id pid"
  shows "wp (eccx08_load_pubkey_internal E e NULL key_id pid) (\<lambda>p t. \<exists>m'.
    ref_mon (trace t) = Some m' \<and> own m' = plus_ref (own m) Pkey p) s"
proof -
  let ?Q = "\<lambda>p t. \<exists>m'. ref_mon (trace t) = Some m' \<and> own m' = plus_ref (own m) Pkey p"
  have "wp (do {
      status \<leftarrow> do {
        eckey \<leftarrow> EVP_PKEY_get1_EC_KEY E pkey;
        r \<leftarrow> (if eckey = NULL then ret ATCA_GEN_FAIL else read_pubkey E eckey pid);
        (if eckey \<noteq> NULL then EC_KEY_free E eckey else skip);
        ret r };
      (if status \<noteq> ATCA_SUCCESS then do { EVP_PKEY_free E pkey; ret NULL } else ret pkey) }) ?Q t"
    if t: "ref_mon (trace t) = Some m1" "own m1 = plus_ref (own m) Pkey pkey" "pkey \<noteq> NULL" "alive m1 pkey"
    for pkey t m1
    by (rule wp_bindI, rule wp_mono [OF wp_with_eckey [OF t(1,4)]])
      (use balanced_read_pubkey [OF ssl_willingD(1) [OF assms(1)]] t in
        \<open>auto simp: wp_call_eq ev_free_def plus_ref_def split: prod.splits\<close>)
  note block = this
  show ?thesis
    unfolding eccx08_load_pubkey_internal_def
  proof (rule wp_bindI, simp only: refl if_True, rule wp_mono [OF wp_new_key_refs [OF assms]], elim exE conjE)
    fix p m1 and t :: "'a eng"
    assume "ref_mon (trace t) = Some m1" "own m1 = plus_ref (own m) Pkey p" "p \<noteq> NULL \<longrightarrow> alive m1 p"
    then show "wp (if p = NULL then ret NULL else do {
        eckey \<leftarrow> EVP_PKEY_get1_EC_KEY E p;
        status \<leftarrow> (if eckey = NULL then ret ATCA_GEN_FAIL else read_pubkey E eckey pid);
        (if eckey \<noteq> NULL then EC_KEY_free E eckey else skip);
        (if status \<noteq> ATCA_SUCCESS then do { EVP_PKEY_free E p; ret NULL } else ret p) }) ?Q t"
      using block [of t m1 p] by (cases "p = NULL") (simp_all split del: if_split)
  qed
qed

end
