(* ===== verification/Sim.thy ===== *)
theory Sim
  imports Run Balance
begin

text \<open>
  A concrete world: a small executable stand-in for the chip and for OpenSSL that keeps the
  documented contracts. The theorems of the development hold for every environment; this one
  shows that their hypotheses can be met together, by instances that are evaluated.
\<close>

section \<open>The world\<close>

text \<open>
  \<open>fresh\<close> numbers the objects, \<open>priv\<close> is the private number of an EC key, \<open>inner\<close> the EC key
  of an \<^verbatim>\<open>EVP_PKEY\<close>, \<open>grp\<close> the group of a key, \<open>refs\<close> its reference count, \<open>tables\<close> the entries
  of the method tables.
\<close>

record sim =
  fresh :: nat
  priv :: "ptr \<Rightarrow> bignum option"
  inner :: "ptr \<Rightarrow> ptr"
  grp :: "ptr \<Rightarrow> ptr"
  refs :: "ptr \<Rightarrow> nat"
  tables :: "ptr \<Rightarrow> pmeth_entry \<Rightarrow> fn_ptr"

definition sim0 :: sim where
  "sim0 = \<lparr>fresh = 100, priv = \<lambda>_. None, inner = \<lambda>_. NULL, grp = \<lambda>_. NULL, refs = \<lambda>_. 0,
     tables = \<lambda>p x. if p = 7 then Lib_fn 70 else No_fn\<rparr>"

definition sim_new :: "sim \<Rightarrow> ptr \<times> sim" where
  "sim_new w = (fresh w + 1, w\<lparr>fresh := fresh w + 1\<rparr>)"

definition sim_new_key :: "sim \<Rightarrow> ptr \<times> sim" where
  "sim_new_key w = (case sim_new w of (k, w') \<Rightarrow> (k, w'\<lparr>refs := (refs w')(k := 1)\<rparr>))"

definition sim_raw :: "byte \<Rightarrow> bytes \<Rightarrow> bytes" where
  "sim_raw slot d = take 64 (d @ slot # replicate 64 1)"

definition sim_i2c :: iface_cfg where
  "sim_i2c = \<lparr>iface_type = 0, i2c_bus = 1, i2c_slave_address = 0xC0, swi_bus = 0, cfg_rest = 0\<rparr>"

definition sim_env :: "sim env" where
  "sim_env = \<lparr>
     ext_mutex_name = ''/atecc'',
     cfg_ateccx08a_i2c_default = sim_i2c,
     cfg_ateccx08a_kitcdc_default = sim_i2c\<lparr>iface_type := 2\<rparr>,
     cfg_ateccx08a_kithid_default = sim_i2c\<lparr>iface_type := 4\<rparr>,
     cfg_atecc508a_kitcdc_default = sim_i2c\<lparr>iface_type := 2\<rparr>,
     cfg_atecc508a_kithid_default = sim_i2c\<lparr>iface_type := 4\<rparr>,
     ext_hal_os_create_mutex = \<lambda>h name w. ((ATCA_SUCCESS, 5), w),
     ext_hal_os_lock_mutex = \<lambda>h w. (ATCA_SUCCESS, w),
     ext_hal_os_unlock_mutex = \<lambda>h w. (ATCA_SUCCESS, w),
     ext_hal_os_destroy_mutex = \<lambda>h w. (ATCA_SUCCESS, w),
     ext_malloc_ok = \<lambda>w. (True, w),
     ext_atcab_init = \<lambda>cfg w. (ATCA_SUCCESS, w),
     ext_atcab_wakeup = \<lambda>w. (ATCA_SUCCESS, w),
     ext_atcab_sleep = \<lambda>w. (ATCA_SUCCESS, w),
     ext_atcab_release = \<lambda>w. (ATCA_SUCCESS, w),
     ext_atcab_sign = \<lambda>slot d w. ((ATCA_SUCCESS, sim_raw slot d), w),
     ext_atcab_get_pubkey = \<lambda>slot w. ((ATCA_SUCCESS, replicate 64 slot), w),
     ext_atcab_genkey = \<lambda>slot w. ((ATCA_SUCCESS, replicate 64 slot), w),
     ext_atcab_random = \<lambda>w. ((ATCA_SUCCESS, replicate 32 (of_nat (fresh w))), w\<lparr>fresh := fresh w + 1\<rparr>),
     ext_atcab_read_serial_number = \<lambda>w. ((ATCA_SUCCESS, replicate 9 1), w),
     ext_atcab_nonce_rand = \<lambda>n w. ((ATCA_SUCCESS, replicate 32 2), w),
     ext_atcah_nonce = \<lambda>n r w. ((ATCA_SUCCESS, r), w),
     ext_atcah_check_mac = \<lambda>slot sn key tmp other w. ((ATCA_SUCCESS, key), w),
     ext_atcab_checkmac = \<lambda>slot resp other w. (ATCA_SUCCESS, w),
     ext_atcac_sw_sha2_256 = \<lambda>msg w. ((0, replicate 32 (of_nat (length msg))), w),
     ext_ERR_get_next_error_library = \<lambda>w. (128, w),
     ext_ERR_load_strings = \<lambda>lib strs w. ((), w),
     ext_ERR_put_error = \<lambda>lib r txt w. ((), w),
     ext_EVP_PKEY_new = sim_new,
     ext_EVP_PKEY_free = \<lambda>p w. ((), w),
     ext_EVP_PKEY_assign_EC_KEY = \<lambda>p k w. (1, w\<lparr>inner := (inner w)(p := k)\<rparr>),
     ext_EVP_PKEY_get1_EC_KEY = \<lambda>p w.
       (inner w p, w\<lparr>refs := (refs w)(inner w p := Suc (refs w (inner w p)))\<rparr>),
     ext_EVP_PKEY_copy_parameters = \<lambda>p q w. (1, w),
     ext_EVP_PKEY_CTX_get0_pkey = \<lambda>ctx w. ctx,
     ext_EC_KEY_new_method = \<lambda>e. sim_new_key,
     ext_EC_KEY_new_by_curve_name = sim_new_key,
     ext_EC_KEY_free = \<lambda>k w. ((), w\<lparr>refs := (refs w)(k := refs w k - 1)\<rparr>),
     ext_EC_KEY_set_group = \<lambda>k g w. (1, w\<lparr>grp := (grp w)(k := g)\<rparr>),
     ext_EC_KEY_get0_group = \<lambda>k w. grp w k,
     ext_EC_KEY_set_private_key = \<lambda>k b w. (1, w\<lparr>priv := (priv w)(k := Some b)\<rparr>),
     ext_EC_KEY_get0_private_key = \<lambda>k w. priv w k,
     ext_EC_KEY_set_public_key = \<lambda>k p w. (1, w),
     ext_EC_KEY_set_method = \<lambda>k m w. (1, w),
     ext_EC_GROUP_new_by_curve_name = sim_new,
     ext_EC_GROUP_set_point_conversion_form = \<lambda>g f w. ((), w),
     ext_EC_GROUP_set_asn1_flag = \<lambda>g w. ((), w),
     ext_EC_GROUP_free = \<lambda>g w. ((), w),
     ext_EC_POINT_new = \<lambda>g. sim_new,
     ext_EC_POINT_oct2point = \<lambda>g pt raw w. (1, w),
     ext_EC_POINT_free = \<lambda>pt w. ((), w),
     ext_BN_bin2bn = \<lambda>bs w. (Some (fresh w, be_val bs), w\<lparr>fresh := fresh w + 1\<rparr>),
     ext_BN_free = \<lambda>b w. ((), w),
     ext_BN_num_bytes = \<lambda>b. be_len (snd b),
     ext_BN_bn2bin = \<lambda>b. (int (be_len (snd b)), be_pad (be_len (snd b)) (snd b)),
     ext_BN_bn2binpad = \<lambda>b n. (if snd b < 256 ^ n then (int n, be_pad n (snd b)) else (-1, [])),
     ext_ECDSA_SIG_new = sim_new,
     ext_ECDSA_SIG_free = \<lambda>p w. ((), w),
     ext_ECDSA_SIG_set0 = \<lambda>p r s w. (1, w),
     ext_i2d_ECDSA_SIG = \<lambda>p w. ((70, replicate 70 0), w),
     ext_stack_bytes = \<lambda>n w. replicate n 0x5A,
     ext_call_fn = \<lambda>f args w. (1, w),
     ext_RAND_SSLeay = \<lparr>rm_seed = Lib_fn 41, rm_bytes = Lib_fn 42, rm_cleanup = Lib_fn 43,
       rm_add = Lib_fn 44, rm_pseudorand = Lib_fn 42, rm_status = Lib_fn 45\<rparr>,
     ext_RAND_add = \<lambda>buf n entropy w. ((), w),
     ext_RAND_bytes = \<lambda>buf n w. ((1, map_option (map (\<lambda>_. 3)) buf), w),
     ext_load_u32 = \<lambda>bs. of_nat (be_val bs),
     ext_sha256_init = \<lambda>ctx w. ((ATCA_SUCCESS, Some []), w),
     ext_sha256_update = \<lambda>ctx bs w. ((ATCA_SUCCESS, map_option (\<lambda>c. c @ bs) ctx), w),
     ext_sha256_finish = \<lambda>ctx w. ((ATCA_SUCCESS, None, case ctx of None \<Rightarrow> [] | Some c \<Rightarrow> rev c), w),
     ext_call_sign = \<lambda>tab d n k w. (9, w)\<rparr>"

definition sim_cert :: "sim cert_lib" where
  "sim_cert = \<lparr>
     ext_OPENSSL_malloc = \<lambda>n. sim_new,
     ext_OPENSSL_free = \<lambda>p w. ((), w),
     ext_heap_bytes = \<lambda>n w. replicate n 0,
     ext_heap_elements = \<lambda>n w. replicate n (hd g_cert_elements_1_signer),
     ext_atcab_read_zone = \<lambda>z slot b w. ((ATCA_SUCCESS, replicate 32 1), w),
     ext_atcab_read_pubkey = \<lambda>slot w. ((ATCA_SUCCESS, replicate 64 1), w),
     ext_atcacert_public_key_remove_padding = take 64,
     ext_atcacert_read_cert = \<lambda>d ca n w. ((ATCA_SUCCESS, [0x30, 0x00]), w),
     ext_d2i_X509 = \<lambda>bs. sim_new,
     ext_X509_get_pubkey = \<lambda>p. sim_new,
     ext_X509_free = \<lambda>p w. ((), w),
     ext_fopen = \<lambda>name. sim_new,
     ext_fwrite = \<lambda>fd bs w. (length bs, w),
     ext_fclose = \<lambda>fd w. ((), w)\<rparr>"

definition sim_bio :: "sim bio_lib" where
  "sim_bio = \<lparr>ext_BIO_new_file = sim_new, ext_BIO_write_filename = \<lambda>b f w. (1, w),
     ext_PEM_write_bio_ECPrivateKey = \<lambda>b k w. (1, w), ext_BIO_free = \<lambda>b w. ((), w)\<rparr>"

definition sim_meth :: "sim meth_lib" where
  "sim_meth = \<lparr>
     ext_EC_KEY_get_default_method = \<lambda>w. 3,
     ext_EC_KEY_METHOD_new = \<lambda>m. sim_new,
     ext_EC_KEY_METHOD_free = \<lambda>m w. ((), w),
     ext_EC_KEY_METHOD_set_sign = \<lambda>m fs w. ((), w),
     ext_EVP_PKEY_meth_new = \<lambda>w. (8, w),
     ext_EVP_PKEY_meth_find = \<lambda>w. 7,
     ext_EVP_PKEY_meth_copy = \<lambda>p q w. ((), w\<lparr>tables := (tables w)(p := tables w q)\<rparr>),
     ext_EVP_PKEY_meth_get = \<lambda>p x w. tables w p x,
     ext_EVP_PKEY_meth_set = \<lambda>p fs w. ((), w\<lparr>tables := (tables w)(p := (\<lambda>x.
        case map_of fs x of Some f \<Rightarrow> f | None \<Rightarrow> tables w p x))\<rparr>),
     ext_EVP_PKEY_meth_free = \<lambda>p w. ((), w)\<rparr>"

definition sim_engine :: "sim engine_lib" where
  "sim_engine = \<lparr>ext_ENGINE_set = \<lambda>e a w. (1, w), ext_ENGINE_new = sim_new,
     ext_ENGINE_free = \<lambda>e w. ((), w), ext_ENGINE_add = \<lambda>e w. (1, w), ext_ERR_clear_error = \<lambda>w. ((), w)\<rparr>"

text \<open>A chip that says yes to the padded numbers, for a key with an uncompressed encoding.\<close>

definition sim_verify :: "nat \<Rightarrow> nat \<Rightarrow> sim verify_lib" where
  "sim_verify r u = \<lparr>
     ext_ECDSA_SIG_get0 = \<lambda>p w. ((21, r), (22, u)),
     ext_EC_KEY_get0_public_key = \<lambda>k w. 23,
     ext_EC_GROUP_get_point_conversion_form = \<lambda>g w. 4,
     ext_EC_POINT_point2oct = \<lambda>g p f w. 4 # replicate 64 9,
     ext_atcab_verify_extern = \<lambda>d g p w. ((ATCA_SUCCESS, g = be_pad 32 r @ be_pad 32 u), w)\<rparr>"

text \<open>Key agreement: the chip answers with the first half of what it got.\<close>

definition sim_ecdh :: "sim ecdh_lib" where
  "sim_ecdh = \<lparr>
     ext_BN_CTX_new = \<lambda>w. (24, w),
     ext_BN_CTX_free = \<lambda>p w. ((), w),
     ext_EC_GROUP_get_degree = \<lambda>g w. 256,
     ext_atcab_ecdh_enc = \<lambda>slot pub key wk w. ((ATCA_SUCCESS, take 32 (pub @ replicate 32 0)), w),
     ext_EC_KEY_METHOD_set_compute_key = \<lambda>m f w. ((), w),
     ext_default_compute_key = \<lambda>out n pub ec K w. ((0, out), w)\<rparr>"

definition sim_sys :: "sim sys" where
  "sim_sys = \<lparr>S_env = sim_env, S_cert = sim_cert, S_bio = sim_bio, S_meth = sim_meth, S_engine = sim_engine,
     S_verify = sim_verify 5 6, S_ecdh = sim_ecdh, S_build = default_build, S_hal = HAL_I2C, S_sizeof_def = 128, S_sizeof_element = 64\<rparr>"

section \<open>It keeps the contracts\<close>

lemma sim_mutex_ok [simp]: "mutex_ok sim_env"
  by (simp add: mutex_ok_def sim_env_def)

lemma sim_bn_ok [simp]: "bn_ok sim_env"
  by (simp add: bn_ok_def sim_env_def)

lemma sim_ssl_willing [simp]: "ssl_willing sim_env"
  by (simp add: ssl_willing_def group_ok_def sim_env_def sim_new_def sim_new_key_def)

lemma sim_group_ok [simp]: "group_ok sim_env"
  by (simp add: group_ok_def sim_env_def)

lemma sim_chip_signs [simp]: "chip_signs sim_env (\<lambda>slot d raw. raw = sim_raw slot d)"
  by (simp add: chip_signs_def sim_env_def)

lemma sim_pmeth_ok [simp]: "pmeth_ok sim_meth"
  by (auto simp: pmeth_ok_def sim_meth_def split: option.splits)

lemma sim_hash [simp]: "\<not> hash_fails sim_env p w"
  by (simp add: hash_fails_def sim_env_def)

lemma sim_sys_env [simp]: "S_env sim_sys = sim_env"
  by (simp add: sim_sys_def)

section \<open>Engine states\<close>

text \<open>\<open>idle\<close>: no session, mutex created; \<open>busy\<close>: inside a session, as opening it leaves it.\<close>

definition idle :: "sim eng" where
  "idle = engine_start sim0"

definition busy :: "sim eng" where
  "busy = exec (atcab_init_safe sim_env (Some sim_i2c)) idle"

text \<open>A key of the engine for slot 2, without and with a password.\<close>

definition sim_key :: "byte \<Rightarrow> eccx08_engine_key_t" where
  "sim_key pid = \<lparr>magic = atecc_magic, bus_type = 0, bus_num = 1, device_num = 0xC0, slot_num = 2,
     password_id = pid, reserved = replicate 19 0\<rparr>"

text \<open>EC key 11 (of \<^verbatim>\<open>EVP_PKEY\<close> 10) holds it.\<close>

definition with_key :: "eccx08_engine_key_t \<Rightarrow> sim eng \<Rightarrow> sim eng" where
  "with_key k s = s\<lparr>world := (world s)\<lparr>priv := (priv (world s))(11 := Some (12, key_num k)),
     inner := (inner (world s))(10 := 11), refs := (refs (world s))(11 := 1)\<rparr>\<rparr>"

text \<open>A password table with one entry, for slot 3.\<close>

definition with_password :: "sim eng \<Rightarrow> sim eng" where
  "with_password s = s\<lparr>current_id := 1, passwords := (passwords s)[0 := \<lparr>auth_slot = 3, password = ''secret''\<rparr>]\<rparr>"

lemma idle_no_session [simp]: "no_session idle"
  by (simp add: idle_def engine_start_def sess_defs)

lemma idle_passwords_wf [simp]: "passwords_wf idle"
  using invariant_start [of sim0] by (simp add: idle_def invariant_def tame_state_def engine_start_def)

lemma idle_ub [simp]: "ub idle = None"
  and idle_trace [simp]: "trace idle = []"
  by (simp_all add: idle_def engine_start_def)

lemma busy_in_session [simp]: "in_session busy"
  by (simp add: busy_def exec_def idle_def engine_start_def atcab_init_safe_def eccx08_global_lock_def
      lock_if_not_ours_def init_locked_def copy_ifacecfg_def resync_recovered_def sim_env_def sess_defs)

lemma with_key_no_session [simp]: "no_session (with_key k s) = no_session s"
  by (simp add: with_key_def sess_defs)

lemma with_password_no_session [simp]: "no_session (with_password s) = no_session s"
  by (simp add: with_password_def sess_defs)

lemma sim_key_wf [simp]: "key_wf (sim_key pid)"
  by (simp add: key_wf_def sim_key_def)

lemma with_key_holds [simp]: "holds_key sim_env (world (with_key (sim_key pid) s)) 11 (sim_key pid)"
  by (auto simp: holds_key_def with_key_def sim_env_def) (simp add: sim_key_def)

lemma with_password_wf [simp]: "passwords_wf s \<Longrightarrow> passwords_wf (with_password s)"
  by (auto simp: passwords_wf_def with_password_def dest!: set_update_subset_insert [THEN subsetD])

lemma with_key_passwords_wf [simp]: "passwords_wf (with_key k s) = passwords_wf s"
  by (simp add: with_key_def passwords_wf_def)

end
