(* ===== verification/Processes.thy ===== *)
theory Processes
  imports Sim
begin

text \<open>
  Several processes with the engine loaded share one chip through the system-wide mutex. Their
  calls to the outside interleave in a global log; each process is a run of the engine, and
  the kernel keeps the contract of a robust mutex. Together: the chip is never used by two
  processes at a time.
\<close>

section \<open>The kernel's mutex\<close>

text \<open>
  A global event is an event of a process or its death. The kernel's state is the owner of the
  mutex and the processes that have died.
\<close>

datatype gev = Ev nat ev | Dies nat

record kernel =
  owner :: "nat option"
  gone :: "nat set"

text \<open>
  Documented behaviour of a robust mutex: a lock is granted when the mutex is free; it is
  granted with the owner-died code when its owner died; an unlock works for the owner only.
  A dead process does nothing.
\<close>

fun kernel_step :: "kernel \<Rightarrow> gev \<Rightarrow> kernel option" where
  "kernel_step k (Dies i) = Some (k\<lparr>gone := insert i (gone k)\<rparr>)"
| "kernel_step k (Ev i e) =
     (if i \<in> gone k then None
      else (case e of
          Mutex_lock st \<Rightarrow>
            (if st = ATCA_SUCCESS then (if owner k = None then Some (k\<lparr>owner := Some i\<rparr>) else None)
             else if st = ATCA_FUNC_FAIL
             then (case owner k of None \<Rightarrow> None
                   | Some j \<Rightarrow> if j \<in> gone k then Some (k\<lparr>owner := Some i\<rparr>) else None)
             else Some k)
        | Mutex_unlock st \<Rightarrow>
            (if st = ATCA_SUCCESS then (if owner k = Some i then Some (k\<lparr>owner := None\<rparr>) else None)
             else Some k)
        | _ \<Rightarrow> Some k))"

text \<open>Logs are newest first, like traces.\<close>

fun kernel_mon :: "gev list \<Rightarrow> kernel option" where
  "kernel_mon [] = Some \<lparr>owner = None, gone = {}\<rparr>"
| "kernel_mon (g # gs) = (case kernel_mon gs of None \<Rightarrow> None | Some k \<Rightarrow> kernel_step k g)"

fun events_of :: "nat \<Rightarrow> gev list \<Rightarrow> ev list" where
  "events_of i [] = []"
| "events_of i (Ev j e # gs) = (if i = j then e # events_of i gs else events_of i gs)"
| "events_of i (Dies j # gs) = events_of i gs"

lemma events_of_append: "events_of i (xs @ ys) = events_of i xs @ events_of i ys"
  by (induction i xs rule: events_of.induct) auto

lemma kernel_mon_append: "kernel_mon (xs @ ys) \<noteq> None \<Longrightarrow> kernel_mon ys \<noteq> None"
  by (induction xs) (auto split: option.splits)

section \<open>Mutual exclusion\<close>

fun_cases chip_lockE: "chip_step m (Mutex_lock st) = Some m'"
  and chip_unlockE: "chip_step m (Mutex_unlock st) = Some m'"

lemma chip_step_open: "chip_step m e = Some m' \<Longrightarrow> (opened m \<longrightarrow> held m) \<Longrightarrow> opened m' \<longrightarrow> held m'"
  by (cases e) (auto split: if_splits)

lemma chip_open_held: "chip_mon tr = Some m \<Longrightarrow> opened m \<longrightarrow> held m"
proof (induction tr arbitrary: m)
  case (Cons e es)
  then show ?case by (auto split: option.splits dest: chip_step_open)
qed auto

text \<open>
  An event other than a lock does not make a process hold the mutex, and other processes'
  events do not take it from the owner.
\<close>

lemma chip_step_held:
  "chip_step m e = Some m' \<Longrightarrow> held m' \<Longrightarrow>
   held m \<or> (\<exists>st. e = Mutex_lock st \<and> (st = ATCA_SUCCESS \<or> st = ATCA_FUNC_FAIL))"
  by (cases e) (auto split: if_splits)

lemma chip_step_unlock: "chip_step m (Mutex_unlock ATCA_SUCCESS) = Some m' \<Longrightarrow> \<not> held m'"
  by (auto elim: chip_unlockE split: if_splits)

lemma kernel_step_ev:
  assumes "kernel_step k (Ev j e) = Some k'"
  shows "j \<notin> gone k" and "gone k' = gone k"
    and "owner k = Some i \<Longrightarrow> i \<notin> gone k \<Longrightarrow> j \<noteq> i \<or> e \<noteq> Mutex_unlock ATCA_SUCCESS \<Longrightarrow> owner k' = Some i"
    and "e = Mutex_lock st \<Longrightarrow> st = ATCA_SUCCESS \<or> st = ATCA_FUNC_FAIL \<Longrightarrow> owner k' = Some j"
  using assms by (cases e; auto split: if_splits option.splits)+

text \<open>The invariant: a live process that holds the mutex by its own account owns it.\<close>

lemma holder_is_owner:
  assumes "kernel_mon log = Some k" and "chip_mon (events_of i log) = Some m" and "held m" and "i \<notin> gone k"
  shows "owner k = Some i"
  using assms
proof (induction log arbitrary: k m)
  case Nil
  then show ?case by auto
next
  case (Cons g log)
  from Cons.prems(1) obtain k0 where k0: "kernel_mon log = Some k0" "kernel_step k0 g = Some k"
    by (auto split: option.splits)
  show ?case
  proof (cases g)
    case (Dies j)
    with Cons k0 show ?thesis by auto
  next
    case (Ev j e)
    note step = kernel_step_ev [OF k0(2) [unfolded Ev]]
    show ?thesis
    proof (cases "i = j")
      case True
      with Cons.prems(2) Ev obtain m0 where m0: "chip_mon (events_of i log) = Some m0" "chip_step m0 e = Some m"
        by (auto split: option.splits)
      from chip_step_held [OF m0(2) Cons.prems(3)] show ?thesis
      proof
        assume "held m0"
        then have own: "owner k0 = Some i" using Cons.IH [OF k0(1) m0(1)] Cons.prems(4) step(2) by simp
        have "e \<noteq> Mutex_unlock ATCA_SUCCESS" using m0(2) Cons.prems(3) chip_step_unlock by blast
        then show ?thesis using step(3) [OF own] Cons.prems(4) step(2) by simp
      qed (use step(4) True in blast)
    next
      case False
      with Cons.prems(2) Ev have "chip_mon (events_of i log) = Some m" by simp
      then have "owner k0 = Some i" using Cons.IH [OF k0(1)] Cons.prems(3,4) step(2) by simp
      from step(3) [OF this] show ?thesis using False Cons.prems(4) step(2) by simp
    qed
  qed
qed

text \<open>\<open>part_of_run es\<close>: the events of a process that is somewhere in a run of the engine.\<close>

definition part_of_run :: "ev list \<Rightarrow> bool" where
  "part_of_run es \<longleftrightarrow> (\<exists>later m. chip_mon (later @ es) = Some m)"

lemma part_of_runI:
  assumes "reachable S s" and "mutex_ok (S_env S)" and "trace s = later @ es"
  shows "part_of_run es"
  using reachable_inv [OF assms(1,2)] assms(3)
  by (auto simp: part_of_run_def invariant_def sess_defs)

lemma part_of_run_append: "part_of_run (es' @ es) \<Longrightarrow> part_of_run es"
  unfolding part_of_run_def by (metis append.assoc)

lemma part_of_run_accepted: "part_of_run es \<Longrightarrow> chip_mon es \<noteq> None"
  unfolding part_of_run_def using chip_mon_append by blast

lemma exclusive_use:
  assumes log: "kernel_mon (post @ Ev i (Dev_cmd c st) # pre) \<noteq> None"
    and run: "\<And>j. part_of_run (events_of j (post @ Ev i (Dev_cmd c st) # pre))"
    and other: "j \<noteq> i" "kernel_mon pre = Some k" "j \<notin> gone k"
  shows "\<exists>m. chip_mon (events_of j pre) = Some m \<and> \<not> held m \<and> \<not> opened m"
proof -
  have "kernel_mon (Ev i (Dev_cmd c st) # pre) \<noteq> None" using log by (rule kernel_mon_append)
  with other(2) have live: "i \<notin> gone k" by (auto split: if_splits)
  have part: "part_of_run (events_of l (Ev i (Dev_cmd c st) # pre))" for l
    using run [of l] unfolding events_of_append by (rule part_of_run_append)
  have "chip_mon (Dev_cmd c st # events_of i pre) \<noteq> None"
    using part_of_run_accepted [OF part [of i]] by simp
  then obtain m where m: "chip_mon (events_of i pre) = Some m" "held m" by (auto split: option.splits if_splits)
  have own: "owner k = Some i" by (rule holder_is_owner [OF other(2) m live])
  have "chip_mon (events_of j pre) \<noteq> None"
    using part_of_run_accepted [OF part [of j]] other(1) by simp
  then obtain n where n: "chip_mon (events_of j pre) = Some n" by auto
  have "\<not> held n" using holder_is_owner [OF other(2) n _ other(3)] own other(1) by auto
  then show ?thesis using n chip_open_held [OF n] by blast
qed

end
