(* ===== verification/Session_Spec.thy ===== *)
theory Session_Spec
  imports Sim
begin

text \<open>
  Properties of the device session (\<^verbatim>\<open>eccx08_engine.c\<close>, lines 76-239), of the error it
  raises and of the platform helpers.
\<close>

section \<open>Opening\<close>

text \<open>C11: Opening a session from outside one either succeeds, and then this process holds the
  system-wide mutex with the device initialised on exactly the interface that was asked for
  and no recovery pending, or fails, and then no session is open; either way the protocol of
  the shared chip was obeyed at every event on the way, no undefined behaviour occurred and
  configuration and passwords are untouched. A lost mutex, an exhausted heap and a dead chip
  are all covered.\<close>

theorem init_safe_contract:
  assumes "mutex_ok E" and "no_session s"
  shows "wp (atcab_init_safe E (Some c)) (\<lambda>st t. cfg_same s t \<and> ub t = ub s \<and>
    (if st = ATCA_SUCCESS
     then chip_mon (trace t) = Some \<lparr>held = True, opened = True\<rparr> \<and> ifacecfg t = Some c
       \<and> lock_state (global_lock t) = 1 \<and> global_lock_recovered t = 0
     else chip_mon (trace t) = Some \<lparr>held = (lock_state (global_lock t) = 1), opened = False\<rparr>
       \<and> ifacecfg t = None)) s"
  by (rule wp_atcab_init_safe [OF assms]) (auto simp: keeps_def in_session_def no_session_def synced_def chip_of_def)

theorem init_safe_contract_witness:
  "wp (atcab_init_safe sim_env (Some sim_i2c)) (\<lambda>st t. cfg_same idle t \<and> ub t = ub idle \<and>
    (if st = ATCA_SUCCESS
     then chip_mon (trace t) = Some \<lparr>held = True, opened = True\<rparr> \<and> ifacecfg t = Some sim_i2c
       \<and> lock_state (global_lock t) = 1 \<and> global_lock_recovered t = 0
     else chip_mon (trace t) = Some \<lparr>held = (lock_state (global_lock t) = 1), opened = False\<rparr>
       \<and> ifacecfg t = None)) idle"
  by (rule init_safe_contract) simp_all

section \<open>A previous owner died\<close>

text \<open>
  \<open>pending\<close>: the mutex was once taken over from a process that died, and the chip has not
  been resynchronised since. Raising an error in between does not lose it.
\<close>

definition pending_after :: "'w eng \<Rightarrow> ev list \<Rightarrow> bool" where
  "pending_after s es \<longleftrightarrow> global_lock_recovered s \<noteq> 0 \<or> Mutex_lock ATCA_FUNC_FAIL \<in> set es"

definition resynced :: "'w eng \<Rightarrow> status \<Rightarrow> 'w eng \<Rightarrow> bool" where
  "resynced s st t \<longleftrightarrow> (\<exists>es. trace t = es @ trace s \<and> (pending_after s es \<longrightarrow>
     (if st = ATCA_SUCCESS
      then global_lock_recovered t = 0 \<and> (\<exists>p w c. take 3 es = [Dev_sleep p, Dev_wakeup w, Dev_init c ATCA_SUCCESS])
      else global_lock_recovered t \<noteq> 0)))"

lemma wp_raise_trace:
  "(\<And>t l. sess_same s t \<Longrightarrow> trace t = Err_put l 100 (session_error_text op st) # trace s \<Longrightarrow> Q () t)
   \<Longrightarrow> wp (eccx08_raise_session_error E op st) Q s"
  by (rule wp_eccx08_raise_session_error)

lemma wp_unlock_trace:
  "(\<And>st t. trace t = Mutex_unlock st # trace s \<Longrightarrow> ifacecfg t = ifacecfg s \<Longrightarrow>
      global_lock_recovered t = global_lock_recovered s \<Longrightarrow> Q st t) \<Longrightarrow> wp (eccx08_global_unlock E) Q s"
  by (auto simp: eccx08_global_unlock_def wp_call_eq set_lock_state_def split: prod.splits)

lemma wp_lock_trace:
  "wp (eccx08_global_lock E) (\<lambda>st t. ifacecfg t = ifacecfg s \<and>
     (\<exists>es. trace t = es @ trace s \<and> (pending_after s es \<longrightarrow> global_lock_recovered t \<noteq> 0))) s"
  by (auto simp: eccx08_global_lock_def lock_if_not_ours_def wp_call_eq set_lock_state_def
      set_lock_handle_def pending_after_def split: prod.splits)

lemma pending_after_append: "pending_after s (es' @ es) \<longleftrightarrow> pending_after s es \<or> Mutex_lock ATCA_FUNC_FAIL \<in> set es'"
  by (auto simp: pending_after_def)

lemma wp_init_locked_resync:
  assumes "trace s = es @ trace s0" and "pending_after s0 es \<longrightarrow> global_lock_recovered s \<noteq> 0"
    and "ifacecfg s = None"
  shows "wp (init_locked E (Some c)) (resynced s0) s"
  using assms
  by (auto simp: init_locked_def copy_ifacecfg_def resync_recovered_def wp_call_eq free_ifacecfg_def
      resynced_def pending_after_def sess_same_def split: prod.splits intro!: wp_unlock_trace wp_raise_trace)

text \<open>C19: When the mutex turns out to have belonged to a process that died (\<^verbatim>\<open>EOWNERDEAD\<close>,
  \<open>ATCA_FUNC_FAIL\<close> of the lock call), now or at an earlier attempt that failed, the next
  session that opens has woken the chip and put it to sleep again, right after initialising
  the device and before any command of its own; and as long as opening fails the obligation
  is remembered.\<close>

theorem dead_owner_resynced:
  assumes "no_session s"
  shows "wp (atcab_init_safe E (Some c)) (resynced s) s"
  unfolding atcab_init_safe_def
proof (rule wp_bindI, rule wp_mono [OF wp_lock_trace], elim conjE exE)
  fix st es and t :: "'a eng"
  assume t: "ifacecfg t = ifacecfg s" "trace t = es @ trace s" "pending_after s es \<longrightarrow> global_lock_recovered t \<noteq> 0"
  show "wp (if st \<noteq> ATCA_SUCCESS then do { eccx08_raise_session_error E ''lock'' st; ret st }
            else init_locked E (Some c)) (resynced s) t"
    using t assms wp_init_locked_resync [OF t(2,3)]
    by (auto intro!: wp_raise_trace simp: resynced_def pending_after_def sess_same_def no_session_def)
qed

theorem dead_owner_resynced_witness:
  "wp (atcab_init_safe (sim_env\<lparr>ext_hal_os_lock_mutex := \<lambda>h w. (ATCA_FUNC_FAIL, w)\<rparr>) (Some sim_i2c))
     (resynced idle) idle
   \<and> fst (run_state (atcab_init_safe (sim_env\<lparr>ext_hal_os_lock_mutex := \<lambda>h w. (ATCA_FUNC_FAIL, w)\<rparr>)
       (Some sim_i2c)) idle) = ATCA_SUCCESS"
proof
  show "wp (atcab_init_safe (sim_env\<lparr>ext_hal_os_lock_mutex := \<lambda>h w. (ATCA_FUNC_FAIL, w)\<rparr>) (Some sim_i2c))
     (resynced idle) idle"
    by (rule dead_owner_resynced) simp
  show "fst (run_state (atcab_init_safe (sim_env\<lparr>ext_hal_os_lock_mutex := \<lambda>h w. (ATCA_FUNC_FAIL, w)\<rparr>)
       (Some sim_i2c)) idle) = ATCA_SUCCESS"
    by (simp add: atcab_init_safe_def eccx08_global_lock_def lock_if_not_ours_def init_locked_def
        copy_ifacecfg_def resync_recovered_def set_lock_state_def set_lock_handle_def idle_def
        engine_start_def sim_env_def)
qed

section \<open>Closing\<close>

text \<open>Releasing a session wakes the chip, puts it to sleep and releases the device, frees
  the interface copy and only then gives the mutex back: these five events, in this order and
  no others, whatever each step reports; the status returned is that of the device release.\<close>

theorem release_parks_chip:
  assumes "in_session s"
  shows "wp (atcab_release_safe E) (\<lambda>st t. \<exists>wake park u.
    trace t = [Mutex_unlock u, Cfg_free, Dev_release st, Dev_sleep park, Dev_wakeup wake] @ trace s
    \<and> ifacecfg t = None \<and> lock_state (global_lock t) = (if u = ATCA_SUCCESS then 0 else 1)
    \<and> cfg_same s t \<and> ub t = ub s) s"
  using assms
  by (auto simp: atcab_release_safe_def eccx08_global_lock_def lock_if_not_ours_def
      eccx08_global_unlock_def wp_call_eq sess_defs split: prod.splits)

theorem release_parks_chip_witness:
  "wp (atcab_release_safe sim_env) (\<lambda>st t. \<exists>wake park u.
    trace t = [Mutex_unlock u, Cfg_free, Dev_release st, Dev_sleep park, Dev_wakeup wake] @ trace busy
    \<and> ifacecfg t = None \<and> lock_state (global_lock t) = (if u = ATCA_SUCCESS then 0 else 1)
    \<and> cfg_same busy t \<and> ub t = ub busy) busy"
  by (rule release_parks_chip) simp

section \<open>Sessions do not nest\<close>

text \<open>C20: Opening a session while one is open (from another thread of the process, or from
  inside a callback) is refused without touching the device, but the refusal gives the mutex
  of the open session back: whatever the unlock reports, the chip protocol is broken at that
  event, and when it reports success the session goes on without the mutex, so another
  process may interleave its commands.\<close>

theorem nested_init_drops_lock:
  assumes "in_session s"
  shows "wp (atcab_init_safe E cfg) (\<lambda>st t. st = ATCA_FUNC_FAIL \<and> ifacecfg t = ifacecfg s
    \<and> (\<exists>u. trace t = Mutex_unlock u # trace s \<and> lock_state (global_lock t) = (if u = ATCA_SUCCESS then 0 else 1))
    \<and> chip_mon (trace t) = None) s"
  using assms
  by (auto simp: atcab_init_safe_def eccx08_global_lock_def lock_if_not_ours_def init_locked_def
      eccx08_global_unlock_def wp_call_eq sess_defs split: prod.splits)

theorem nested_init_drops_lock_witness:
  "wp (atcab_init_safe sim_env None) (\<lambda>st t. st = ATCA_FUNC_FAIL \<and> ifacecfg t = ifacecfg busy
    \<and> (\<exists>u. trace t = Mutex_unlock u # trace busy \<and> lock_state (global_lock t) = (if u = ATCA_SUCCESS then 0 else 1))
    \<and> chip_mon (trace t) = None) busy"
  by (rule nested_init_drops_lock) simp

section \<open>Errors\<close>

text \<open>The text of a session error is never cut off: for every operation name of at most 51
  characters (the engine's longest has 11) the 128-byte buffer holds the operation, the two
  hexadecimal digits of the chip status and its name, and the two digits scan back to the low
  byte of the status.\<close>

theorem session_error_text_complete:
  assumes "length op \<le> 51"
  shows "session_error_text op st = ''op='' @ op @ '', atca status 0x'' @ fmt_02x (unat (st AND 0xFF))
      @ '': '' @ eccx08_atca_status_name st
    \<and> sscanf [Hhx 2] (drop (length op + 19) (session_error_text op st)) = [Out_uchar (ucast st)]"
proof
  show full: "session_error_text op st = ''op='' @ op @ '', atca status 0x'' @ fmt_02x (unat (st AND 0xFF))
      @ '': '' @ eccx08_atca_status_name st"
    unfolding session_error_text_def
    by (rule snprintf_fits, rule le_less_trans [OF length_session_error]) (use assms in simp)
  have low: "word_of_nat (unat (st AND 0xFF)) = (ucast st :: byte)"
  proof -
    have "ucast (st AND mask 8) = (ucast st :: byte)"
      by (auto intro!: bit_word_eqI simp: bit_simps)
    moreover have "mask 8 = (0xFF :: status)" by (simp add: mask_eq_exp_minus_1)
    ultimately show ?thesis by simp
  qed
  have "drop (length (''op='' @ op @ '', atca status 0x'')) (session_error_text op st) =
      fmt_02x (unat (st AND 0xFF)) @ '': '' @ eccx08_atca_status_name st"
    unfolding full by simp
  moreover have "length (''op='' @ op @ '', atca status 0x'') = length op + 19" by simp
  ultimately have rest: "drop (length op + 19) (session_error_text op st) =
      fmt_02x (unat (st AND 0xFF)) @ '': '' @ eccx08_atca_status_name st"
    by metis
  show "sscanf [Hhx 2] (drop (length op + 19) (session_error_text op st)) = [Out_uchar (ucast st)]"
    unfolding rest sscanf_hhx_fmt [OF status_low_byte] low by simp
qed

theorem session_error_text_complete_witness:
  "session_error_text ''load pubkey'' 0xD9 = ''op='' @ ''load pubkey'' @ '', atca status 0x''
      @ fmt_02x (unat (0xD9 AND 0xFF :: status)) @ '': '' @ eccx08_atca_status_name 0xD9
    \<and> sscanf [Hhx 2] (drop (length ''load pubkey'' + 19) (session_error_text ''load pubkey'' 0xD9))
        = [Out_uchar (ucast (0xD9 :: status))]"
  by (rule session_error_text_complete) simp

section \<open>Helpers of the platform file\<close>

text \<open>The interface configuration made for a key takes bus and device number from the key
  when its bus type is I2C and leaves them alone for the two kit types; every other bus type
  fails and leaves the configuration as it was.\<close>

theorem iface_cfg_from_key:
  assumes "iface_type (cfg_ateccx08a_i2c_default E) = ATCA_I2C_IFACE"
    and "iface_type (cfg_ateccx08a_kitcdc_default E) = ATCA_UART_IFACE"
    and "iface_type (cfg_ateccx08a_kithid_default E) = ATCA_HID_IFACE"
  shows "eccx08_get_iface_cfg E (Some i) (Some k) =
    (if bus_type k = 0 then (1, Some ((cfg_ateccx08a_i2c_default E)
        \<lparr>i2c_bus := bus_num k, i2c_slave_address := device_num k\<rparr>))
     else if bus_type k = 2 then (1, Some (cfg_ateccx08a_kitcdc_default E))
     else if bus_type k = 4 then (1, Some (cfg_ateccx08a_kithid_default E))
     else (0, Some i))"
proof -
  have "unat (bus_type k) = n \<longleftrightarrow> bus_type k = of_nat n" if "n < 256" for n
    using that by (auto simp: word_unat_eq_iff unat_of_nat)
  from this [of 0] this [of 2] this [of 4] show ?thesis
    using assms by (simp add: eccx08_get_iface_cfg_def eccx08_get_iface_default_def)
qed

theorem iface_cfg_from_key_witness:
  "eccx08_get_iface_cfg sim_env (Some zero_cfg) (Some (sim_key 255)) =
    (1, Some (sim_i2c\<lparr>i2c_bus := 1, i2c_slave_address := 0xC0\<rparr>))"
  using iface_cfg_from_key [of sim_env zero_cfg "sim_key 255"]
  by (simp add: sim_env_def sim_i2c_def sim_key_def)

text \<open>The file name shown by the debug macro is the part of the path after its last slash;
  a path without a slash gives a null pointer, not the path (its caller passes the result to
  \<^verbatim>\<open>%s\<close>).\<close>

theorem strip_path_basename:
  assumes "CHR ''/'' \<notin> set base"
  shows "eccx08_strip_path (Some (dir @ ''/'' @ base)) = Some base \<and> eccx08_strip_path (Some base) = None"
  using assms strip_loop_dir [OF assms] by (simp add: eccx08_strip_path_def strip_loop_base)

theorem strip_path_basename_witness:
  "eccx08_strip_path (Some (''src/ateccssl'' @ ''/'' @ ''eccx08_err.c'')) = Some ''eccx08_err.c''
   \<and> eccx08_strip_path (Some ''eccx08_err.c'') = None"
  by (rule strip_path_basename) simp

end
