(* ===== verification/Keys_Spec.thy ===== *)
theory Keys_Spec
  imports Sim
begin

text \<open>
  Properties of key descriptors (names, structures, numbers) and of the password table and
  the authorisation exchange.
\<close>

section \<open>Names and numbers\<close>

text \<open>C10: A key name printed by the engine is parsed back into exactly the descriptor it was
  printed from, for all bus types, busses, devices and slots of one byte: the 32-byte buffer
  never cuts the name, the fields arrive in the right members, the password identifier is the
  caller's, and nothing else of the structure changes.\<close>

theorem key_name_roundtrip:
  assumes "bt < 256" and "bus < 256" and "dev < 256" and "slot < 256"
  shows "eccx08_eckey_string_to_struct config (Some k) (Some (key_id_string bt bus dev slot)) pid =
    (ENGINE_OPENSSL_SUCCESS, Some \<lparr>magic = atecc_magic, bus_type = of_nat bt, bus_num = of_nat bus,
       device_num = of_nat dev, slot_num = of_nat slot, password_id = pid, reserved = reserved k\<rparr>)"
  by (simp add: eccx08_eckey_string_to_struct_def sscanf_key_id_string [OF assms] eccx08_eckey_init_def)

theorem key_name_roundtrip_witness:
  "eccx08_eckey_string_to_struct \<lparr>device_key_slot = 0, ecdh_key_slot = 2, ecdh_key_count = 1\<rparr> (Some (sim_key 7)) (Some (key_id_string 0 1 0xC0 2)) 3 =
    (ENGINE_OPENSSL_SUCCESS, Some \<lparr>magic = atecc_magic, bus_type = 0, bus_num = 1,
       device_num = 0xC0, slot_num = 2, password_id = 3, reserved = replicate 19 0\<rparr>)"
  using key_name_roundtrip [of 0 1 "0xC0" 2 "\<lparr>device_key_slot = 0, ecdh_key_slot = 2, ecdh_key_count = 1\<rparr>"
      "sim_key 7" 3] by (simp add: sim_key_def)

text \<open>A string is accepted as a key name only if it starts with \<^verbatim>\<open>ATECCx08:\<close> and four
  numbers were read; every other string fails. The result then carries the magic, the
  caller's password identifier and the caller's reserved bytes.\<close>

theorem key_name_accepted:
  assumes "eccx08_eckey_string_to_struct config (Some k) (Some cs) pid = (ENGINE_OPENSSL_SUCCESS, Some k')"
  shows "take 9 cs = ''ATECCx08:'' \<and> magic k' = atecc_magic \<and> password_id k' = pid \<and> reserved k' = reserved k
    \<and> sscanf key_format cs = map Out_uchar [bus_type k', bus_num k', device_num k', slot_num k']"
proof -
  let ?got = "sscanf key_format cs"
  have got: "length ?got = 4" and k': "k' = store_fields ?got (the (snd (eccx08_eckey_init config (Some k))))\<lparr>password_id := pid\<rparr>"
    using assms by (auto simp: eccx08_eckey_string_to_struct_def Let_def split: if_splits)
  have "?got \<noteq> []" using got by auto
  then have "take (length ''ATECCx08:'') cs = ''ATECCx08:''"
    unfolding key_format_def by (blast dest: sscanf_lits)
  moreover have "length ''ATECCx08:'' = 9" by simp
  ultimately have pre: "take 9 cs = ''ATECCx08:''" by metis
  have uchar: "\<forall>x \<in> set (sscanf ds c). (\<exists>b. x = Out_uchar b)"
    if "\<forall>d \<in> set ds. (\<exists>ch. d = Lit ch) \<or> (\<exists>w. d = Hhx w)" for ds c
    using that
  proof (induction ds arbitrary: c)
    case (Cons d ds)
    then consider ch where "d = Lit ch" | w where "d = Hhx w" by auto
    then show ?case
    proof cases
      case (1 ch)
      with Cons show ?thesis by (cases c) auto
    next
      case (2 w)
      with Cons show ?thesis by (cases "scan_int 16 w c") auto
    qed
  qed simp
  have "\<forall>x \<in> set ?got. (\<exists>b. x = Out_uchar b)"
    by (rule uchar) (auto simp: key_format_def)
  with got obtain a b c d where g: "?got = [Out_uchar a, Out_uchar b, Out_uchar c, Out_uchar d]"
    by (auto simp: numeral_eq_Suc length_Suc_conv)
  show ?thesis using pre k' by (simp add: g eccx08_eckey_init_def)
qed

theorem key_name_accepted_witness:
  "take 9 (key_id_string 0 1 0xC0 2) = ''ATECCx08:'' \<and> magic (sim_key 3) = atecc_magic
   \<and> password_id (sim_key 3) = 3 \<and> reserved (sim_key 3) = reserved (sim_key 7)
   \<and> sscanf key_format (key_id_string 0 1 0xC0 2)
       = map Out_uchar [bus_type (sim_key 3), bus_num (sim_key 3), device_num (sim_key 3), slot_num (sim_key 3)]"
proof -
  have "eccx08_eckey_string_to_struct \<lparr>device_key_slot = 0, ecdh_key_slot = 2, ecdh_key_count = 1\<rparr>
      (Some (sim_key 7)) (Some (key_id_string 0 1 0xC0 2)) 3 = (ENGINE_OPENSSL_SUCCESS, Some (sim_key 3))"
    by (simp add: eccx08_eckey_string_to_struct_def sscanf_key_id_string eccx08_eckey_init_def sim_key_def)
  from key_name_accepted [OF this] show ?thesis .
qed

text \<open>The number OpenSSL keeps as the private key determines the descriptor: it fits 32
  bytes, occupies all of them (so converting it back loses no leading bytes), and different
  descriptors have different numbers.\<close>

lemma key_number_roundtrip:
  assumes "key_wf k" and "magic k = atecc_magic"
  shows "key_num k < 256 ^ 32 \<and> be_len (key_num k) = 32 \<and> key_of_bytes (be_pad 32 (key_num k)) = k
    \<and> {k'. key_wf k' \<and> key_num k' = key_num k} = {k}"
proof (intro conjI)
  show "key_num k < 256 ^ 32" by (rule key_num_less [OF assms(1)])
  show "be_len (key_num k) = 32" by (rule be_len_key_num [OF assms])
  show "key_of_bytes (be_pad 32 (key_num k)) = k"
    unfolding be_pad_key_num [OF assms(1)] by (rule key_of_bytes_key_bytes [OF assms(1)])
  show "{k'. key_wf k' \<and> key_num k' = key_num k} = {k}"
    using key_number.both.enc_inject [of _ k] assms(1) unfolding key_num_def by blast
qed

text \<open>C32: The test whether an EC key belongs to the engine is exact for every private key of at
  most 256 bits: it succeeds if and only if the key holds a descriptor, then stores the
  descriptor's password identifier, changes nothing and reads nothing uninitialised.\<close>

theorem isx08key_exact:
  assumes "bn_ok E" and "key_fits E (world s) ec"
  shows "wp (eccx08_eckey_isx08key E ec) (\<lambda>(r, pid) t. t = s
    \<and> (r = ENGINE_OPENSSL_SUCCESS \<longleftrightarrow> (\<exists>k. holds_key E (world s) ec k))
    \<and> (\<forall>k. holds_key E (world s) ec k \<longrightarrow> pid = Some (password_id k))
    \<and> (r \<noteq> ENGINE_OPENSSL_SUCCESS \<longrightarrow> r = ENGINE_OPENSSL_FAILURE \<and> pid = None)) s"
proof (cases "\<exists>k. holds_key E (world s) ec k")
  case True
  then obtain k where k: "holds_key E (world s) ec k" by blast
  have same: "password_id k' = password_id k" if "holds_key E (world s) ec k'" for k'
    using isx08key_holds [OF assms(1) k] isx08key_holds [OF assms(1) that] by simp
  show ?thesis
    unfolding wp_def isx08key_holds [OF assms(1) k] prod.case using True same by metis
next
  case False
  show ?thesis
    by (rule wp_isx08key) (use assms False in auto)
qed

theorem isx08key_exact_witness:
  "wp (eccx08_eckey_isx08key sim_env 11) (\<lambda>(r, pid) t. t = with_key (sim_key 3) idle
    \<and> (r = ENGINE_OPENSSL_SUCCESS \<longleftrightarrow> (\<exists>k. holds_key sim_env (world (with_key (sim_key 3) idle)) 11 k))
    \<and> (\<forall>k. holds_key sim_env (world (with_key (sim_key 3) idle)) 11 k \<longrightarrow> pid = Some (password_id k))
    \<and> (r \<noteq> ENGINE_OPENSSL_SUCCESS \<longrightarrow> r = ENGINE_OPENSSL_FAILURE \<and> pid = None)) (with_key (sim_key 3) idle)"
  by (rule isx08key_exact) (simp_all add: holds_key_fits [OF with_key_holds])

text \<open>For a private key of more than 256 bits the test compares uninitialised stack memory
  with the magic: \<^verbatim>\<open>BN_bn2binpad\<close> answers \<open>-1\<close>, which counts as success, and writes nothing.\<close>

theorem oversized_key_reads_uninitialised:
  assumes "bn_ok E" and "ext_EC_KEY_get0_private_key E ec (world s) = Some (p, v)" and "256 ^ 32 \<le> v"
    and "ub s = None"
  shows "wp (eccx08_eckey_isx08key E ec) (\<lambda>(r, pid) t. ub t = Some Uninit_read
    \<and> (r = ENGINE_OPENSSL_SUCCESS \<longleftrightarrow> take 8 (stack_content E 32 (world s)) = atecc_magic)) s"
  using assms by (simp add: eccx08_eckey_isx08key_def bn_ok_def)

theorem oversized_key_reads_uninitialised_witness:
  "wp (eccx08_eckey_isx08key (sim_env\<lparr>ext_EC_KEY_get0_private_key := \<lambda>k w. Some (12, 256 ^ 32)\<rparr>) 11)
    (\<lambda>(r, pid) t. ub t = Some Uninit_read \<and> (r = ENGINE_OPENSSL_SUCCESS \<longleftrightarrow>
      take 8 (stack_content (sim_env\<lparr>ext_EC_KEY_get0_private_key := \<lambda>k w. Some (12, 256 ^ 32)\<rparr>) 32 (world idle))
        = atecc_magic)) idle"
  by (rule oversized_key_reads_uninitialised) (simp_all add: bn_ok_def, simp_all add: sim_env_def)

section \<open>The device of a key\<close>

text \<open>
  The device that a descriptor names, by its bus type: an I2C device by bus and address, or the
  one of a USB kit, which has neither. Other bus types name none.
\<close>

definition device_of :: "'w env \<Rightarrow> eccx08_engine_key_t \<Rightarrow> iface_cfg option" where
  "device_of E k = map_of
     [(0, (cfg_ateccx08a_i2c_default E)\<lparr>i2c_bus := bus_num k, i2c_slave_address := device_num k\<rparr>),
      (2, cfg_ateccx08a_kitcdc_default E), (4, cfg_ateccx08a_kithid_default E)] (bus_type k)"

text \<open>The default configurations of cryptoauthlib have the types of their names.\<close>

definition defaults_ok :: "'w env \<Rightarrow> bool" where
  "defaults_ok E \<longleftrightarrow> iface_type (cfg_ateccx08a_i2c_default E) = ATCA_I2C_IFACE
     \<and> iface_type (cfg_ateccx08a_kitcdc_default E) = ATCA_UART_IFACE
     \<and> iface_type (cfg_ateccx08a_kithid_default E) = ATCA_HID_IFACE"

lemma sim_defaults_ok [simp]: "defaults_ok sim_env"
  by (simp add: defaults_ok_def sim_env_def sim_i2c_def)

lemma iface_cfg_of_key:
  assumes "defaults_ok E"
  shows "eccx08_get_iface_cfg E (Some i) (Some k) = (case device_of E k of
      Some c \<Rightarrow> (ENGINE_OPENSSL_SUCCESS, Some c) | None \<Rightarrow> (ENGINE_OPENSSL_FAILURE, Some i))"
proof -
  have "unat (bus_type k) = n \<longleftrightarrow> bus_type k = of_nat n" if "n < 256" for n
    using that by (auto simp: word_unat_eq_iff unat_of_nat)
  from this [of 0] this [of 2] this [of 4] show ?thesis
    using assms
    by (simp add: defaults_ok_def device_of_def eccx08_get_iface_cfg_def eccx08_get_iface_default_def)
qed

text \<open>No device but the given one, if there is one, is initialised.\<close>

fun inits_only :: "iface_cfg option \<Rightarrow> ev \<Rightarrow> bool" where
  "inits_only d (Dev_init c st) = (d = Some c)"
| "inits_only d e = True"

lemma inits_raise: "keeping (adds (inits_only d)) (eccx08_raise_session_error E op st)"
  by (rule keepingI, rule wp_eccx08_raise_session_error) (auto simp: adds_def)

lemma inits_lock: "keeping (adds (inits_only d)) (eccx08_global_lock E)"
  unfolding eccx08_global_lock_def lock_if_not_ours_def
  by (intro adds.keep adds_basic adds_session_modify) auto

lemma inits_unlock: "keeping (adds (inits_only d)) (eccx08_global_unlock E)"
  unfolding eccx08_global_unlock_def by (intro adds.keep adds_basic adds_session_modify) auto

lemma inits_init_safe: "keeping (adds (inits_only (Some c))) (atcab_init_safe E (Some c))"
proof -
  have copied: "State_Monad.bind (copy_ifacecfg (Some c)) f
      = State_Monad.bind (modify (\<lambda>s. s\<lparr>ifacecfg := Some c\<rparr>)) (\<lambda>_. f c)"
    for f :: "iface_cfg \<Rightarrow> ('a, 'b) prog"
    by (simp add: copy_ifacecfg_def)
  show ?thesis
    unfolding atcab_init_safe_def init_locked_def copied resync_recovered_def free_ifacecfg_def
    by (intro adds.keep adds_basic adds_session_modify inits_raise inits_lock inits_unlock) auto
qed

lemma inits_need_bytes: "keeping (adds P) (need_bytes buf n)"
  unfolding need_bytes_def by (intro adds.keep adds_basic)

lemma inits_from_keyinfo:
  assumes "defaults_ok E" and "key_of_bytes buf = k"
  shows "keeping (adds (inits_only (device_of E k))) (init_from_keyinfo E buf)"
proof (cases "device_of E k")
  case None
  then show ?thesis
    unfolding init_from_keyinfo_def assms(2) iface_cfg_of_key [OF assms(1)] None option.case Let_def prod.case
    by (intro adds.keep inits_need_bytes) simp
next
  case (Some c)
  then show ?thesis
    unfolding init_from_keyinfo_def assms(2) iface_cfg_of_key [OF assms(1)] Some option.case Let_def prod.case
    by (intro adds.keep inits_need_bytes inits_init_safe)
qed

lemma wp_inits_from_privkey:
  assumes "defaults_ok E" and "bn_ok E" and "holds_key E (world s) ec k"
  shows "wp (atcab_init_from_privkey_safe E ec) (\<lambda>_. adds (inits_only (device_of E k)) s) s"
proof -
  obtain p where p: "ext_EC_KEY_get0_private_key E ec (world s) = Some (p, key_num k)"
    and k: "key_wf k" "magic k = atecc_magic"
    using assms(3) by (auto simp: holds_key_def)
  have "ext_BN_bn2bin E (p, key_num k) = (32, key_bytes k)"
    using assms(2) be_len_key_num [OF k] by (simp add: bn_ok_def be_pad_key_num [OF k(1)])
  moreover have "wp (init_from_keyinfo E (key_bytes k)) (\<lambda>_. adds (inits_only (device_of E k)) s) (s\<lparr>world := w\<rparr>)" for w
    by (rule wp_mono [OF keepingD [OF inits_from_keyinfo [OF assms(1) key_of_bytes_key_bytes [OF k(1)]]]])
      (simp add: adds_def)
  moreover have "adds (inits_only d) s (s\<lparr>world := w\<rparr>)" for d w
    by (simp add: adds_def)
  ultimately show ?thesis
    by (simp add: atcab_init_from_privkey_safe_def p wp_call_eq split: prod.split)
qed

lemma wp_privkey_device:
  assumes "mutex_ok E" and "bn_ok E" and "defaults_ok E" and "no_session s" and "holds_key E (world s) ec k"
  shows "wp (atcab_init_from_privkey_safe E ec) (\<lambda>(st, slot) t. ub t = ub s \<and> cfg_same s t \<and>
    adds (inits_only (device_of E k)) s t \<and>
    (if st = ATCA_SUCCESS
     then in_session t \<and> slot = Some (slot_num k) \<and> ifacecfg t = device_of E k
     else no_session t \<and> slot = None)) s"
proof -
  have "wp (atcab_init_from_privkey_safe E ec) (\<lambda>(st, slot) t. ub t = ub s \<and> cfg_same s t \<and>
    (if st = ATCA_SUCCESS
     then in_session t \<and> slot = Some (slot_num k) \<and> ifacecfg t = device_of E k
     else no_session t \<and> slot = None)) s"
  proof (rule wp_init_from_privkey [OF assms(1,4)], goal_cases ok err)
    case (ok t slot)
    from ok(3) [OF assms(2,5)] ok(1,2) show ?case
      by (simp add: iface_cfg_of_key [OF assms(3)] split: option.splits)
  qed (use assms(2,5) in auto)
  with wp_inits_from_privkey [OF assms(3,2,5)] show ?thesis
    by (simp add: wp_conj split_beta')
qed

text \<open>C28: Opening the device of an EC key that holds a descriptor, of whatever bus type, from
  outside a session, either fails: then there is no session and no slot; or succeeds: then the
  session runs on the device the descriptor names, and the slot is the descriptor's. That is the
  I2C device with the descriptor's bus and address (type 0), or the one of the USB kit, with
  cryptoauthlib's default settings (types 2 and 4), where the bus and device numbers of the
  descriptor do not matter. No other device is ever initialised on the way; a descriptor of any
  other bus type initialises none and always fails. The overlaid structure is never read past
  its end, and the configuration and the passwords stay as they are.\<close>

theorem privkey_opens_its_device:
  assumes "mutex_ok E" and "bn_ok E" and "defaults_ok E" and "no_session s" and "holds_key E (world s) ec k"
  shows "wp (atcab_init_from_privkey_safe E ec) (\<lambda>(st, slot) t. ub t = ub s \<and> cfg_same s t \<and>
    adds (inits_only (device_of E k)) s t \<and>
    (if st = ATCA_SUCCESS
     then in_session t \<and> slot = Some (slot_num k) \<and> ifacecfg t = device_of E k
     else no_session t \<and> slot = None)) s"
  by (rule wp_privkey_device [OF assms])

text \<open>A descriptor for I2C, and one of a bus type that names no device.\<close>

theorem privkey_opens_its_device_witness:
  "wp (atcab_init_from_privkey_safe sim_env 11) (\<lambda>(st, slot) t. ub t = ub (with_key (sim_key 3) idle)
    \<and> cfg_same (with_key (sim_key 3) idle) t
    \<and> adds (inits_only (device_of sim_env (sim_key 3))) (with_key (sim_key 3) idle) t
    \<and> (if st = ATCA_SUCCESS
       then in_session t \<and> slot = Some (slot_num (sim_key 3)) \<and> ifacecfg t = device_of sim_env (sim_key 3)
       else no_session t \<and> slot = None)) (with_key (sim_key 3) idle)
   \<and> device_of sim_env (sim_key 3) = Some (sim_i2c\<lparr>i2c_bus := 1, i2c_slave_address := 0xC0\<rparr>)
   \<and> device_of sim_env ((sim_key 3)\<lparr>bus_type := 1\<rparr>) = None"
proof (intro conjI)
  show "wp (atcab_init_from_privkey_safe sim_env 11) (\<lambda>(st, slot) t. ub t = ub (with_key (sim_key 3) idle)
    \<and> cfg_same (with_key (sim_key 3) idle) t
    \<and> adds (inits_only (device_of sim_env (sim_key 3))) (with_key (sim_key 3) idle) t
    \<and> (if st = ATCA_SUCCESS
       then in_session t \<and> slot = Some (slot_num (sim_key 3)) \<and> ifacecfg t = device_of sim_env (sim_key 3)
       else no_session t \<and> slot = None)) (with_key (sim_key 3) idle)"
    by (rule privkey_opens_its_device) simp_all
qed (simp_all add: device_of_def sim_key_def sim_env_def)

end
