(* ===== verification/Auth_Spec.thy ===== *)
theory Auth_Spec
  imports Sim
begin

text \<open>Properties of the passwords of keys and of the authorisation exchange (\<^verbatim>\<open>eccx08_auth.c\<close>).\<close>

section \<open>Reading a password\<close>

text \<open>C37: A password string \<^verbatim>\<open><two digits>:<password>\<close> without white space is read as that slot
  and that password; nothing else changes. The member it is written to has room for 257
  characters and the format has no width: from 258 characters on the write overflows it.\<close>

theorem password_string_read:
  assumes "n < 100" and "cs \<noteq> ''''" and "\<forall>c \<in> set cs. \<not> isspace c"
  shows "run_state (eccx08_cbdata_to_password (Some (Some (dec2 n @ '':'' @ cs))) p) s =
    ((1, \<lparr>auth_slot = of_nat n, password = cs\<rparr>),
     if 257 < length cs \<and> ub s = None then s\<lparr>ub := Some Buffer_overflow\<rparr> else s)"
  by (cases p) (auto simp: eccx08_cbdata_to_password_def sscanf_passwd [OF assms])

theorem password_string_read_witness:
  "run_state (eccx08_cbdata_to_password (Some (Some (dec2 3 @ '':'' @ ''secret''))) blank_password) idle =
    ((1, \<lparr>auth_slot = 3, password = ''secret''\<rparr>), idle)
   \<and> dec2 3 @ '':'' @ ''secret'' = ''03:secret''"
  using password_string_read [of 3 "''secret''" blank_password idle]
  by (simp add: isspace_def dec2_def hexchar_def)

section \<open>The table\<close>

text \<open>C38: The first four passwords are stored, each in an entry of its own and under its index,
  and the others are kept; the table stays well-formed. The fifth gets identifier 4, which
  names no entry, and is copied through a null pointer.\<close>

theorem password_table_slots:
  assumes "passwords_wf s" and "length (password p) < 258" and "ub s = None"
  shows "wp (save_password p) (\<lambda>i t. i = current_id s \<and>
    (if unat (current_id s) < 4
     then passwords_wf t \<and> ub t = None \<and> unat (current_id t) = unat (current_id s) + 1
       \<and> map_option ((!) (passwords t)) (eccx08_get_password i) = Some p
       \<and> (\<forall>j < 4. j \<noteq> unat i \<longrightarrow> passwords t ! j = passwords s ! j)
     else i = 4 \<and> ub t = Some Null_deref \<and> eccx08_get_password i = None)) s"
proof (rule wp_save_password [OF assms(1)], goal_cases short room full)
  case short
  then show ?case using assms(2) by simp
next
  case (room t)
  then show ?case
    using assms by (auto simp: eccx08_get_password_def passwords_wf_def unat_add_one_less)
next
  case (full t)
  then show ?case using assms(3) by (simp add: eccx08_get_password_def)
qed

theorem password_table_slots_witness:
  "wp (save_password \<lparr>auth_slot = 3, password = ''a''\<rparr>) (\<lambda>i t. i = current_id idle \<and>
    (if unat (current_id idle) < 4
     then passwords_wf t \<and> ub t = None \<and> unat (current_id t) = unat (current_id idle) + 1
       \<and> map_option ((!) (passwords t)) (eccx08_get_password i) = Some \<lparr>auth_slot = 3, password = ''a''\<rparr>
       \<and> (\<forall>j < 4. j \<noteq> unat i \<longrightarrow> passwords t ! j = passwords idle ! j)
     else i = 4 \<and> ub t = Some Null_deref \<and> eccx08_get_password i = None)) idle"
  by (rule password_table_slots) simp_all

section \<open>The exchange\<close>

text \<open>C22: Authorisation for a stored password fails open when hashing it fails: the exchange
  reports success and the session stays open although no command was sent to the chip.\<close>

theorem failed_hash_authorizes:
  assumes "eccx08_get_password pid = Some i" and "hash_fails E (password (passwords s ! i)) (world s)"
  shows "wp (authorize E pid) (\<lambda>st t. st = ATCA_SUCCESS \<and> trace t = trace s \<and> sess_same s t) s"
proof -
  have "pid \<noteq> NOPASSWD_ID" using assms(1) by (auto simp: eccx08_get_password_def)
  with assms show ?thesis
    by (auto simp: authorize_def eccx08_auth_password_def do_atecc_auth_def make_key_from_password_def
        hash_fails_def wp_call_eq sess_same_def split: prod.splits)
qed

theorem failed_hash_authorizes_witness:
  "wp (authorize (sim_env\<lparr>ext_atcac_sw_sha2_256 := \<lambda>msg w. ((1, []), w)\<rparr>) 0)
     (\<lambda>st t. st = ATCA_SUCCESS \<and> trace t = trace (with_password busy) \<and> sess_same (with_password busy) t)
     (with_password busy)"
  by (rule failed_hash_authorizes [where i = 0]) (simp_all add: eccx08_get_password_def hash_fails_def)

text \<open>C21: When the hash works, authorisation for a stored password succeeds only by the full
  exchange, in order and each command good: serial number, nonce, and the MAC check in the
  slot of that password; the session stays open. When it fails, the session has been closed.
  The table, the configuration and the absence of undefined behaviour are kept.\<close>

theorem authorization_exchange:
  assumes "in_session s" and "passwords_wf s" and "eccx08_get_password pid = Some i"
    and "\<not> hash_fails E (password (passwords s ! i)) (world s)"
  shows "wp (authorize E pid) (\<lambda>st t. cfg_same s t \<and> ub t = ub s \<and>
    (if st = ATCA_SUCCESS
     then in_session t \<and> trace t = [Dev_cmd (Checkmac (ucast (auth_slot (passwords s ! i)))) ATCA_SUCCESS,
       Dev_cmd Nonce_rand ATCA_SUCCESS, Dev_cmd Read_serial ATCA_SUCCESS] @ trace s
     else no_session t)) s"
proof (rule wp_authorize [OF assms(1)], goal_cases ok err)
  case (ok t)
  have "pid_ok pid" using assms(3) by (auto simp: pid_ok_def eccx08_get_password_def split: if_splits)
  with ok assms show ?case by (simp add: authorized_def auth_events_def)
next
  case (err st t)
  have "pid_ok pid" using assms(3) by (auto simp: pid_ok_def eccx08_get_password_def split: if_splits)
  with err assms show ?case by simp
qed

theorem authorization_exchange_witness:
  "wp (authorize sim_env 0) (\<lambda>st t. cfg_same (with_password busy) t \<and> ub t = ub (with_password busy) \<and>
    (if st = ATCA_SUCCESS
     then in_session t \<and> trace t =
       [Dev_cmd (Checkmac (ucast (auth_slot (passwords (with_password busy) ! 0)))) ATCA_SUCCESS,
        Dev_cmd Nonce_rand ATCA_SUCCESS, Dev_cmd Read_serial ATCA_SUCCESS] @ trace (with_password busy)
     else no_session t)) (with_password busy)"
proof (rule authorization_exchange)
  show "in_session (with_password busy)"
    using busy_in_session by (auto simp: with_password_def sess_defs)
  show "passwords_wf (with_password busy)"
  proof (rule with_password_wf)
    have "cfg_same idle busy"
      using keeping_run [OF cfg_atcab_init_safe, of idle sim_env "Some sim_i2c"] by (simp add: busy_def exec_def)
    then show "passwords_wf busy" by (rule passwords_wf_same) simp
  qed
qed (simp_all add: eccx08_get_password_def)

end
