(* ===== verification/Signing_Spec.thy ===== *)
theory Signing_Spec
  imports Sim
begin

text \<open>
  Properties of signing (\<^verbatim>\<open>eccx08_ecdsa_sign.c\<close>) and of loading and generating keys
  (\<^verbatim>\<open>eccx08_eckey_meth.c\<close>).
\<close>

section \<open>Signing with a key of the engine\<close>

text \<open>Documented behaviour of OpenSSL: making a signature object changes no key.\<close>

definition sig_new_ok :: "'w env \<Rightarrow> bool" where
  "sig_new_ok E \<longleftrightarrow> (\<forall>w ec. ext_EC_KEY_get0_private_key E ec (snd (ext_ECDSA_SIG_new E w))
     = ext_EC_KEY_get0_private_key E ec w)"

lemma sim_sig_new_ok [simp]: "sig_new_ok sim_env"
  by (simp add: sig_new_ok_def sim_env_def sim_new_def)

text \<open>
  Signing after the object is made and the key recognised: the state in which the device part
  starts, and what follows it.
\<close>

lemma wp_do_sign_sig_key:
  assumes "bn_ok E" and "sig_new_ok E" and "holds_key E (world s) ec k"
    and none: "\<And>t. adds chip_silent s t \<Longrightarrow> Q NULL t"
    and dev: "\<And>sig w t. sig \<noteq> NULL \<Longrightarrow> t = s\<lparr>world := w, trace := Obj_new Sig sig # trace s\<rparr> \<Longrightarrow>
      holds_key E (world t) ec k \<Longrightarrow>
      wp (sign_with_device E sig ec (password_id k) d) (\<lambda>st u. if st = ATCA_SUCCESS then Q sig u
         else wp (ECDSA_SIG_free E sig) (\<lambda>_. Q NULL) u) t"
  shows "wp (eccx08_ecdsa_do_sign_sig E (Some d) len ec) Q s"
proof -
  have "holds_key E w ec k" if "ext_ECDSA_SIG_new E (world s) = (sig, w)" for sig w
    using assms(2,3) that unfolding sig_new_ok_def holds_key_def by (metis snd_conv)
  note held = this
  show ?thesis
  proof (cases "len < 32")
    case True
    then show ?thesis by (simp add: eccx08_ecdsa_do_sign_sig_def none)
  next
    case False
    obtain sig w where new: "ext_ECDSA_SIG_new E (world s) = (sig, w)" by fastforce
    let ?t = "s\<lparr>world := w, trace := ev_new Sig sig @ trace s\<rparr>"
    show ?thesis
    proof (cases "sig = NULL")
      case True
      then show ?thesis using False new none [of ?t]
        by (simp add: eccx08_ecdsa_do_sign_sig_def wp_call_eq ev_new_def adds_def)
    next
      case sig: False
      have "holds_key E (world ?t) ec k" using held [OF new] by simp
      note known = isx08key_holds [OF assms(1) this] and signed = dev [OF sig _ this]
      from False new sig show ?thesis
        by (simp add: eccx08_ecdsa_do_sign_sig_def wp_call_eq wp_def [of "eccx08_eckey_isx08key E ec"] known)
          (rule wp_mono [OF signed], auto simp: ev_new_def wp_call_eq split: if_splits prod.splits)
    qed
  qed
qed

text \<open>C3: A signature handed to OpenSSL is one the chip made for this digest with this key: for
  every relation that the chip's answers to signing commands satisfy (in particular being a
  valid ECDSA signature under the public key of the slot), the two numbers put into the
  signature object are the halves of a raw signature that satisfies it for the slot of the
  key's descriptor and the first 32 bytes of the digest; the last thing done to the object
  was storing them.\<close>

theorem signature_is_the_chips:
  assumes "mutex_ok E" and "bn_ok E" and "sig_new_ok E" and "chip_signs E V"
    and "no_session s" and "holds_key E (world s) ec k"
  shows "wp (eccx08_ecdsa_do_sign_sig E (Some d) len ec) (\<lambda>sig t. sig \<noteq> NULL \<longrightarrow>
    (\<exists>raw. V (slot_num k) (take 32 d) raw \<and> hd (trace t) = Set_sig sig (raw_r raw) (raw_s raw))) s"
proof (rule wp_do_sign_sig_key [OF assms(2,3,6)], goal_cases none dev)
  case (dev sig w t)
  have "no_session t" using assms(5) dev(2) by (simp add: sess_defs)
  from wp_sign_with_device_valid [OF assms(1,2,4) this dev(3), of sig "password_id k" d]
  show ?case
    by (rule wp_mono) (auto simp: signed_by_def wp_call_eq split: prod.splits)
qed simp

theorem signature_is_the_chips_witness:
  "wp (eccx08_ecdsa_do_sign_sig sim_env (Some (replicate 32 7)) 32 11) (\<lambda>sig t. sig \<noteq> NULL \<longrightarrow>
    (\<exists>raw. raw = sim_raw (slot_num (sim_key 255)) (take 32 (replicate 32 7))
      \<and> hd (trace t) = Set_sig sig (raw_r raw) (raw_s raw))) (with_key (sim_key 255) idle)"
  by (rule signature_is_the_chips [where V = "\<lambda>slot d raw. raw = sim_raw slot d"]) simp_all

text \<open>Mutex, heap, chip and OpenSSL all willing.\<close>

definition chip_willing :: "'w env \<Rightarrow> bool" where
  "chip_willing E \<longleftrightarrow>
     (\<forall>h name w. fst (fst (ext_hal_os_create_mutex E h name w)) = ATCA_SUCCESS)
   \<and> (\<forall>h w. fst (ext_hal_os_lock_mutex E h w) \<in> {ATCA_SUCCESS, ATCA_FUNC_FAIL})
   \<and> (\<forall>w. fst (ext_malloc_ok E w)) \<and> (\<forall>c w. fst (ext_atcab_init E c w) = ATCA_SUCCESS)
   \<and> (\<forall>slot d w. fst (fst (ext_atcab_sign E slot d w)) = ATCA_SUCCESS)
   \<and> (\<forall>w. fst (ext_ECDSA_SIG_new E w) \<noteq> NULL) \<and> (\<forall>bs w. fst (ext_BN_bin2bn E bs w) \<noteq> None)
   \<and> (\<forall>p r s w. fst (ext_ECDSA_SIG_set0 E p r s w) \<noteq> 0)"

lemma chip_willingD:
  assumes "chip_willing E"
  shows "ext_hal_os_create_mutex E h name w = ((st, h'), w') \<Longrightarrow> st = ATCA_SUCCESS"
    and "ext_hal_os_lock_mutex E h w = (st, w') \<Longrightarrow> st = ATCA_SUCCESS \<or> st = ATCA_FUNC_FAIL"
    and "ext_malloc_ok E w = (b, w') \<Longrightarrow> b" and "ext_atcab_init E c w = (st, w') \<Longrightarrow> st = ATCA_SUCCESS"
    and "ext_atcab_sign E slot d w = ((st, raw), w') \<Longrightarrow> st = ATCA_SUCCESS"
    and "ext_ECDSA_SIG_new E w = (p, w') \<Longrightarrow> p \<noteq> NULL"
    and "ext_BN_bin2bn E bs w = (bo, w') \<Longrightarrow> bo \<noteq> None"
    and "ext_ECDSA_SIG_set0 E p r s w = (i, w') \<Longrightarrow> i \<noteq> 0"
  using assms unfolding chip_willing_def by (metis fst_conv insertE singletonD)+

lemma sim_chip_willing [simp]: "chip_willing sim_env"
  by (simp add: chip_willing_def sim_env_def sim_new_def)

lemma wp_willing_lock:
  "chip_willing E \<Longrightarrow> wp (eccx08_global_lock E) (\<lambda>st t. st = ATCA_SUCCESS \<and> ifacecfg t = ifacecfg s) s"
  by (auto simp: eccx08_global_lock_def lock_if_not_ours_def wp_call_eq set_lock_state_def
      set_lock_handle_def dest: chip_willingD(1,2) split: prod.splits)

lemma wp_willing_init:
  assumes "chip_willing E" and "ifacecfg s = None"
  shows "wp (atcab_init_safe E (Some c)) (\<lambda>st _. st = ATCA_SUCCESS) s"
  unfolding atcab_init_safe_def
  by (rule wp_bindI, rule wp_mono [OF wp_willing_lock [OF assms(1)]])
    (auto simp: init_locked_def copy_ifacecfg_def resync_recovered_def wp_call_eq assms(2)
      dest: chip_willingD(3,4) [OF assms(1)] split: prod.splits)

lemma wp_willing_fetch:
  assumes "chip_willing E"
  shows "wp (fetch_signature E sig slot d) (\<lambda>st _. st = ATCA_SUCCESS) s"
proof -
  have "wp (fill_sig E sig raw) (\<lambda>st _. st = ATCA_SUCCESS) t" for raw t
    by (auto simp: fill_sig_def wp_call_eq dest: chip_willingD(7,8) [OF assms] split: prod.splits option.splits)
  then show ?thesis
    by (auto simp: fetch_signature_def sign_retry_def wp_call_eq dest: chip_willingD(5) [OF assms]
        split: prod.splits intro!: wpI [of "atcab_release_safe E"])
qed

lemma wp_willing_privkey:
  assumes "chip_willing E" and "bn_ok E" and "ifacecfg s = None" and held: "holds_key E (world s) ec k"
    and "bus_type k = 0"
  shows "wp (atcab_init_from_privkey_safe E ec) (\<lambda>r _. fst r = ATCA_SUCCESS) s"
proof -
  obtain p where priv: "ext_EC_KEY_get0_private_key E ec (world s) = Some (p, key_num k)"
    using held by (auto simp: holds_key_def)
  have k: "key_wf k" "magic k = atecc_magic" using held by (auto simp: holds_key_def)
  have bin: "ext_BN_bn2bin E (p, key_num k) = (32, key_bytes k)"
    using assms(2) k by (simp add: bn_ok_def be_len_key_num be_pad_key_num)
  obtain c where cfg: "eccx08_get_iface_cfg E (Some zero_cfg) (Some k) = (1, Some c)"
    using assms(5) by (simp add: eccx08_get_iface_cfg_def eccx08_get_iface_default_def Let_def)
  show ?thesis
    unfolding atcab_init_from_privkey_safe_def init_from_keyinfo_def need_bytes_def
    using assms(1,3) k bin priv cfg
    by (auto simp: wp_call_eq key_of_bytes_key_bytes dest: chip_willingD(3)
        split: prod.splits intro!: wp_mono [OF wp_willing_init])
qed

text \<open>
  Signing succeeds when nothing stands in its way: an I2C device, no password, a digest of at
  least 32 bytes, and everybody willing.
\<close>

lemma wp_willing_do_sign_sig:
  assumes "chip_willing E" and "mutex_ok E" and "bn_ok E" and "sig_new_ok E"
    and "no_session s" and "holds_key E (world s) ec k" and "bus_type k = 0" and "password_id k = 255"
    and "32 \<le> len"
  shows "wp (eccx08_ecdsa_do_sign_sig E (Some d) len ec) (\<lambda>sig _. sig \<noteq> NULL) s"
proof -
  obtain sig w where new: "ext_ECDSA_SIG_new E (world s) = (sig, w)" by fastforce
  have sig: "sig \<noteq> NULL" using chip_willingD(6) [OF assms(1) new] .
  let ?t = "s\<lparr>world := w, trace := ev_new Sig sig @ trace s\<rparr>"
  have "holds_key E w ec k"
    using assms(4,6) new unfolding sig_new_ok_def holds_key_def by (metis snd_conv)
  then have held: "holds_key E (world ?t) ec k" by simp
  have "wp (sign_with_device E sig ec 255 d) (\<lambda>st _. st = ATCA_SUCCESS) ?t"
    unfolding sign_with_device_def
    by (rule wp_bindI, rule wp_mono [OF wp_willing_privkey [OF assms(1,3) _ held assms(7)]])
      (use assms(5) in \<open>auto simp: no_session_def split_beta authorize_def intro: wp_willing_fetch [OF assms(1)]\<close>)
  note signed = wp_mono [OF this]
  show ?thesis
    using new sig assms(8,9) isx08key_holds [OF assms(3) held]
    by (simp add: eccx08_ecdsa_do_sign_sig_def wp_call_eq wp_def [of "eccx08_eckey_isx08key E ec"])
      (rule signed, auto)
qed

section \<open>Authorisation comes first\<close>

lemma auth_first_before:
  assumes "auth_first a es" and "list_all (Not \<circ> sign_ev) es0"
  shows "auth_first a (es @ es0)"
  using assms(1) unfolding auth_first_def
proof (elim disjE exE conjE)
  fix es1 es2 assume "es = es2 @ auth_events a @ es1" "list_all (Not \<circ> sign_ev) es1"
  then have "es @ es0 = es2 @ auth_events a @ (es1 @ es0)" "list_all (Not \<circ> sign_ev) (es1 @ es0)"
    using assms(2) by simp_all
  then show "list_all (Not \<circ> sign_ev) (es @ es0) \<or>
      (\<exists>es1 es2. es @ es0 = es2 @ auth_events a @ es1 \<and> list_all (Not \<circ> sign_ev) es1)" by blast
qed (simp add: assms(2))

lemma auth_first_after: "auth_first a es \<Longrightarrow> \<not> sign_ev e \<Longrightarrow> auth_first a (e # es)"
  unfolding auth_first_def by (metis (no_types, lifting) append_Cons comp_apply list.pred_inject(2))

text \<open>C8: With a key that has a password no signing command reaches the chip before the full
  authorisation exchange for that password succeeded: either the call issues no signing
  command at all, or the exchange (serial number, nonce, MAC check in the slot of the password)
  went before the first one. This needs the hash not to fail.\<close>

theorem no_signature_before_authorization:
  assumes "mutex_ok E" and "bn_ok E" and "sig_new_ok E" and "no_session s" and "passwords_wf s"
    and "holds_key E (world s) ec k" and "eccx08_get_password (password_id k) = Some i"
    and "\<And>w. \<not> hash_fails E (password (passwords s ! i)) w"
  shows "wp (eccx08_ecdsa_do_sign_sig E (Some d) len ec) (\<lambda>_ t. \<exists>es. trace t = es @ trace s
    \<and> auth_first (ucast (auth_slot (passwords s ! i))) es) s"
proof (rule wp_do_sign_sig_key [OF assms(2,3,6)], goal_cases none dev)
  case (none t)
  have "chip_silent e \<Longrightarrow> \<not> sign_ev e" for e by (cases e) auto
  with none show ?case by (auto simp: adds_def auth_first_def list_all_iff)
next
  case (dev sig w t)
  let ?a = "ucast (auth_slot (passwords s ! i)) :: byte"
  have t: "no_session t" "passwords_wf t" "passwords t = passwords s"
    using assms(4,5) dev(2) by (simp_all add: sess_defs passwords_wf_def)
  have "wp (sign_with_device E sig ec (password_id k) d)
      (\<lambda>_ u. \<exists>es. trace u = es @ trace t \<and> auth_first ?a es) t"
    using wp_sign_with_device_auth [OF assms(1) t(1,2) assms(7), of sig ec d] assms(8) t(3) by simp
  then show ?case
  proof (rule wp_mono, elim exE conjE)
    fix st es and u :: "'a eng"
    assume u: "trace u = es @ trace t" "auth_first ?a es"
    have "auth_first ?a (es @ [Obj_new Sig sig])" by (rule auth_first_before [OF u(2)]) simp
    moreover have "auth_first ?a (Obj_free Sig sig # es @ [Obj_new Sig sig])"
      by (rule auth_first_after [OF calculation]) simp
    ultimately show "if st = ATCA_SUCCESS then \<exists>es. trace u = es @ trace s \<and> auth_first ?a es
        else wp (ECDSA_SIG_free E sig) (\<lambda>_ t. \<exists>es. trace t = es @ trace s \<and> auth_first ?a es) u"
      using u(1) dev(1,2) by (auto simp: wp_call_eq ev_free_def split: prod.splits)
  qed
qed

theorem no_signature_before_authorization_witness:
  "wp (eccx08_ecdsa_do_sign_sig sim_env (Some (replicate 32 7)) 32 11)
     (\<lambda>_ t. \<exists>es. trace t = es @ trace (with_key (sim_key 0) (with_password idle))
       \<and> auth_first (ucast (auth_slot (passwords (with_key (sim_key 0) (with_password idle)) ! 0))) es)
     (with_key (sim_key 0) (with_password idle))"
  by (rule no_signature_before_authorization [where k = "sim_key 0"])
    (simp_all, simp add: sim_key_def eccx08_get_password_def)

section \<open>Retries\<close>

text \<open>A signing or public-key command is repeated at most once, only when its first answer
  was the latched health-test error, and only after the chip was woken and put to sleep; the
  answer returned is that of the last attempt.\<close>

theorem retry_at_most_once:
  "wp (sign_retry E slot d) (\<lambda>r t. \<exists>es. trace t = es @ trace s \<and>
     retry_events (Sign slot (take 32 d)) (fst r) es) s
   \<and> wp (get_pubkey_retry E slot) (\<lambda>r t. \<exists>es. trace t = es @ trace s \<and>
     retry_events (Get_pubkey slot) (fst r) es) s"
  by (simp add: wp_sign_retry_events wp_get_pubkey_retry_events)

section \<open>Keys and digests that are not for the chip\<close>

text \<open>A key that holds no descriptor is signed with by the software method the engine found
  at its initialisation, with the arguments as given and nothing else done; a null digest or
  one of fewer than 32 bytes is refused without any effect.\<close>

theorem foreign_key_signed_by_software:
  assumes "bn_ok E" and "key_fits E (world s) ec" and "\<nexists>k. holds_key E (world s) ec k"
    and "eccx08_ec_default s \<noteq> NULL"
  shows "run_state (eccx08_ecdsa_sign_sig E dgst len ec) s =
      run_state (call_sign E (eccx08_ec_default s) dgst len ec) s
    \<and> (dgst = None \<or> len < 32 \<longrightarrow> run_state (eccx08_ecdsa_do_sign_sig E dgst len ec) s = (NULL, s))"
proof
  have "wp (eccx08_eckey_isx08key E ec) (\<lambda>r t. r = (ENGINE_OPENSSL_FAILURE, None) \<and> t = s) s"
    by (rule wp_isx08key) (use assms in auto)
  then have "run_state (eccx08_eckey_isx08key E ec) s = ((ENGINE_OPENSSL_FAILURE, None), s)"
    by (auto simp: wp_def split: prod.splits)
  with assms(4) show "run_state (eccx08_ecdsa_sign_sig E dgst len ec) s =
      run_state (call_sign E (eccx08_ec_default s) dgst len ec) s"
    by (simp add: eccx08_ecdsa_sign_sig_def)
  show "dgst = None \<or> len < 32 \<longrightarrow> run_state (eccx08_ecdsa_do_sign_sig E dgst len ec) s = (NULL, s)"
    by (auto simp: eccx08_ecdsa_do_sign_sig_def split: option.splits)
qed

theorem foreign_key_signed_by_software_witness:
  "run_state (eccx08_ecdsa_sign_sig sim_env (Some [1]) 1 11) (idle\<lparr>eccx08_ec_default := 3\<rparr>) =
      run_state (call_sign sim_env (eccx08_ec_default (idle\<lparr>eccx08_ec_default := 3\<rparr>)) (Some [1]) 1 11)
        (idle\<lparr>eccx08_ec_default := 3\<rparr>)
    \<and> run_state (eccx08_ecdsa_do_sign_sig sim_env (Some [1]) 1 11) (idle\<lparr>eccx08_ec_default := 3\<rparr>)
      = (NULL, idle\<lparr>eccx08_ec_default := 3\<rparr>)"
proof -
  let ?s = "idle\<lparr>eccx08_ec_default := 3\<rparr>"
  have "bn_ok sim_env" "key_fits sim_env (world ?s) 11" "\<nexists>k. holds_key sim_env (world ?s) 11 k"
    "eccx08_ec_default ?s \<noteq> NULL"
    by (simp, simp_all add: key_fits_def holds_key_def, simp_all add: sim_env_def idle_def engine_start_def sim0_def)
  note foreign = foreign_key_signed_by_software [OF this, where dgst = "Some [1]" and len = 1]
  show ?thesis by (intro conjI conjunct1 [OF foreign] mp [OF conjunct2 [OF foreign]]) simp
qed

end
