(* ===== verification/Loading_Spec.thy ===== *)
theory Loading_Spec
  imports Signing_Spec
begin

text \<open>Properties of loading the public key of a chip key and of generating keys (\<^verbatim>\<open>eccx08_eckey_meth.c\<close>).\<close>

section \<open>Loading\<close>

text \<open>C13: Loading the public key of a key of the engine runs no other command on the chip than
  reading the public key of the slot its descriptor names, and the authorisation commands of
  its own entry in the password table (none without a password).\<close>

theorem loading_runs_only_its_commands:
  assumes "mutex_ok E" and "bn_ok E" and "no_session s" and "holds_key E (world s) ec k"
  shows "wp (read_pubkey E ec pid) (\<lambda>_ t. \<exists>es. trace t = es @ trace s \<and>
    list_all (cmd_in (insert (Get_pubkey (slot_num k)) (auth_cmds s pid))) es) s"
proof -
  have "load_cmds E s ec pid \<subseteq> insert (Get_pubkey (slot_num k)) (auth_cmds s pid)"
    using assms(4) by (auto simp: load_cmds_def)
  then have "adds (cmd_in (insert (Get_pubkey (slot_num k)) (auth_cmds s pid))) s t"
    if "adds (cmd_in (load_cmds E s ec pid)) s t" for t
    using that by (blast intro: adds_weaken cmd_in_mono)
  then show ?thesis
    by (intro wp_mono [OF wp_read_pubkey_cmds [OF assms(1-3)]]) (auto simp: adds_def)
qed

theorem loading_runs_only_its_commands_witness:
  "wp (read_pubkey sim_env 11 255) (\<lambda>_ t. \<exists>es. trace t = es @ trace (with_key (sim_key 255) idle) \<and>
    list_all (cmd_in (insert (Get_pubkey (slot_num (sim_key 255))) (auth_cmds (with_key (sim_key 255) idle) 255))) es)
    (with_key (sim_key 255) idle)"
  by (rule loading_runs_only_its_commands) simp_all

section \<open>Generating\<close>

text \<open>The slot used is that of the configuration, which nothing on the way changes.\<close>

definition config_slot :: "'w eng \<Rightarrow> byte" where
  "config_slot s = device_key_slot (eccx08_engine_config s)"

definition genkey_only :: "'w eng \<Rightarrow> 'w eng \<Rightarrow> bool" where
  "genkey_only s t \<longleftrightarrow> cfg_same s t \<and> adds (cmd_in {Genkey (config_slot s), Get_pubkey (config_slot s)}) s t"

interpretation genkey: frame genkey_only
proof
  fix s t u :: "'w eng"
  show "genkey_only s s" by (simp add: genkey_only_def)
  assume "genkey_only s t" "genkey_only t u"
  then show "genkey_only s u"
    by (auto simp: genkey_only_def config_slot_def cfg_same_def intro: adds_trans)
qed

lemma genkey_only_quiet:
  assumes "keeping cfg_same m" and "\<And>C. keeping (adds (cmd_in C)) m"
  shows "keeping genkey_only m"
proof (rule keepingI, rule wp_also [OF keepingD [OF assms(1)]])
  fix s
  show "wp m (\<lambda>a t. cfg_same s t \<longrightarrow> genkey_only s t) s"
    by (rule keeping_rule [OF assms(2) [of "{Genkey (config_slot s), Get_pubkey (config_slot s)}"]])
      (simp add: genkey_only_def)
qed

lemma genkey_only_call: "(\<And>C a. list_all (cmd_in C) (evs a)) \<Longrightarrow> keeping genkey_only (call f evs)"
  by (rule genkey_only_quiet [OF cfg_call]) (rule adds_call)

lemma genkey_only_device: "keeping genkey_only (genkey_or_pubkey E)"
  by (rule keepingI)
    (auto simp: genkey_or_pubkey_def wp_call_eq genkey_only_def config_slot_def cfg_same_def adds_def
      split: prod.splits)

lemma genkey_only_sess:
  "keeping genkey_only (atcab_init_safe E c)" "keeping genkey_only (atcab_release_safe E)"
  by (rule genkey_only_quiet [OF cfg_atcab_init_safe], rule keeping_adds_weaken [OF adds_init_safe session_ev_cmd_in],
      assumption)
    (rule genkey_only_quiet [OF cfg_atcab_release_safe], rule keeping_adds_weaken [OF adds_release_safe session_ev_cmd_in],
      assumption)

text \<open>C35: Key generation runs no command on the chip but generating a key pair in the
  configured slot and, as its fallback, reading that slot's public key: no other slot is
  touched, whatever key object OpenSSL passes.\<close>

theorem keygen_touches_only_its_slot:
  "wp (eccx08_pkey_ec_keygen E ctx pkey) (\<lambda>_ t. cfg_same s t \<and> (\<exists>es. trace t = es @ trace s \<and>
     list_all (cmd_in {Genkey (device_key_slot (eccx08_engine_config s)),
       Get_pubkey (device_key_slot (eccx08_engine_config s))}) es)) s"
proof -
  have "keeping genkey_only (eccx08_pkey_ec_keygen E ctx pkey)"
    unfolding eccx08_pkey_ec_keygen_def keygen_device_def
    by (intro genkey.keep genkey_only_call genkey_only_device genkey_only_sess
        genkey_only_quiet [OF cfg_convert adds_convert]) auto
  then show ?thesis
    by (rule keeping_rule) (simp add: genkey_only_def config_slot_def adds_def)
qed

definition sets_no_key :: "ev \<Rightarrow> bool" where
  "sets_no_key e \<longleftrightarrow> (\<forall>k. e \<noteq> Set_public_key k)"

lemma sets_no_key_sess: "session_ev e \<Longrightarrow> sets_no_key e"
  by (cases e) (auto simp: sets_no_key_def)

lemma adds_rejected_point:
  assumes "\<And>g pt raw w. fst (ext_EC_POINT_oct2point E g pt raw w) = 0"
  shows "keeping (adds sets_no_key) (eccx08_eckey_convert E ec raw n)"
proof -
  have group: "keeping (adds sets_no_key) (ensure_group E ec)"
    unfolding ensure_group_def
    by (intro adds.keep adds_call) (simp_all add: ev_new_def ev_free_def sets_no_key_def)
  have "ext_EC_POINT_oct2point E g pt raw w = (r, w') \<Longrightarrow> r = 0" for g pt raw w r w'
    using assms by (metis fst_conv)
  then have "wp (do {
       point \<leftarrow> EC_POINT_new E g;
       r \<leftarrow> EC_POINT_oct2point E g point raw;
       (if r \<noteq> 0 then do { _ \<leftarrow> EC_KEY_set_public_key E ec point; skip } else skip);
       (if point \<noteq> NULL then EC_POINT_free E point else skip);
       ret (if r \<noteq> 0 then ENGINE_OPENSSL_SUCCESS else ENGINE_OPENSSL_FAILURE) })
     (\<lambda>_ t. adds sets_no_key s t) s" for g raw and s :: "'a eng"
    by (fastforce simp: wp_call_eq adds_def ev_new_def ev_free_def sets_no_key_def split: prod.splits)
  then have point: "keeping (adds sets_no_key) (do {
       point \<leftarrow> EC_POINT_new E g;
       r \<leftarrow> EC_POINT_oct2point E g point raw;
       (if r \<noteq> 0 then do { _ \<leftarrow> EC_KEY_set_public_key E ec point; skip } else skip);
       (if point \<noteq> NULL then EC_POINT_free E point else skip);
       ret (if r \<noteq> 0 then ENGINE_OPENSSL_SUCCESS else ENGINE_OPENSSL_FAILURE) })" for g raw
    by (rule keepingI)
  show ?thesis
    unfolding eccx08_eckey_convert_def
    by (intro adds.keep(6-9) adds.keep_return point adds.keep_bind [OF group])
qed

lemma wp_release_willing:
  assumes "in_session s" and "\<And>w. fst (ext_atcab_release E w) = ATCA_SUCCESS"
  shows "wp (atcab_release_safe E) (\<lambda>st t. st = ATCA_SUCCESS) s"
proof -
  have "ext_atcab_release E w = (st, w') \<Longrightarrow> st = ATCA_SUCCESS" for w st w'
    using assms(2) by (metis fst_conv)
  with assms(1) show ?thesis
    by (auto simp: atcab_release_safe_def eccx08_global_lock_def lock_if_not_ours_def
        wp_call_eq sess_defs split: prod.splits intro!: wpI [of "eccx08_global_unlock E"])
qed

text \<open>Key generation reports success although the public key could not be put into the EC
  key: with a willing chip and a point that OpenSSL rejects, the result is success and no
  public key was set.\<close>

theorem keygen_ignores_rejected_point:
  assumes "chip_willing E" and "mutex_ok E" and "no_session s" and "pCfg s = Some c"
    and "\<And>slot w. fst (fst (ext_atcab_genkey E slot w)) = ATCA_SUCCESS"
    and "\<And>w. fst (ext_atcab_release E w) = ATCA_SUCCESS"
    and "\<And>g pt raw w. fst (ext_EC_POINT_oct2point E g pt raw w) = 0"
  shows "wp (keygen_device E ec) (\<lambda>r t. r = ENGINE_OPENSSL_SUCCESS
    \<and> (\<exists>es. trace t = es @ trace s \<and> (\<forall>k. Set_public_key k \<notin> set es))) s"
proof -
  have none: "keeping (adds sets_no_key) (keygen_device E ec)"
    unfolding keygen_device_def genkey_or_pubkey_def
    by (intro adds.keep adds_call adds_rejected_point [OF assms(7)]
        keeping_adds_weaken [OF adds_init_safe sets_no_key_sess]
        keeping_adds_weaken [OF adds_release_safe sets_no_key_sess])
      (auto simp: sets_no_key_def split: prod.splits)
  have genkey: "ext_atcab_genkey E slot w = ((st, raw), w') \<Longrightarrow> st = ATCA_SUCCESS" for slot w st raw w'
    using assms(5) by (metis fst_conv)
  have device: "wp (genkey_or_pubkey E) (\<lambda>r t. fst r = ATCA_SUCCESS \<and> in_session t) t"
    if "in_session t" for t
    using wp_genkey_or_pubkey [OF that, of "\<lambda>r t. in_session t"]
    by (auto simp: wp_conj) (auto simp: genkey_or_pubkey_def wp_call_eq dest: genkey split: prod.splits)
  have body: "wp (do {
        (status, raw_pubkey) \<leftarrow> genkey_or_pubkey E;
        rel_status \<leftarrow> atcab_release_safe E;
        (if rel_status \<noteq> ATCA_SUCCESS then ret ENGINE_OPENSSL_FAILURE
         else if status \<noteq> ATCA_SUCCESS then ret ENGINE_OPENSSL_FAILURE
         else do {
           _ \<leftarrow> eccx08_eckey_convert E ec (Some (POINT_CONVERSION_UNCOMPRESSED # raw_pubkey))
                  (ATCA_BLOCK_SIZE * 2 + 1);
           ret ENGINE_OPENSSL_SUCCESS
         }) }) (\<lambda>r _. r = ENGINE_OPENSSL_SUCCESS) t" if "in_session t" for t
    by (rule wp_bindI, rule wp_mono [OF device [OF that]])
      (auto simp: split_beta intro!: wp_mono [OF wp_release_willing [OF _ assms(6)]]
        wpI [of "eccx08_eckey_convert E ec raw n" for raw n])
  have "wp (keygen_device E ec) (\<lambda>r t. r = ENGINE_OPENSSL_SUCCESS) s"
    unfolding keygen_device_def
    apply (rule wp_bindI, simp only: wp_gets assms(4), rule wp_bindI)
    apply (rule wp_also [OF wp_willing_init [OF assms(1)]])
     apply (use assms(3) in \<open>simp add: no_session_def\<close>)
    apply (rule wp_atcab_init_safe [OF assms(2,3)])
     apply (use body in simp_all)
    done
  with keepingD [OF none, of s] show ?thesis
    by (simp add: wp_def adds_def sets_no_key_def list_all_iff split_beta) blast
qed

theorem keygen_ignores_rejected_point_witness:
  "wp (keygen_device (sim_env\<lparr>ext_EC_POINT_oct2point := \<lambda>g pt raw w. (0, w)\<rparr>) 11) (\<lambda>r t. r = ENGINE_OPENSSL_SUCCESS
    \<and> (\<exists>es. trace t = es @ trace (idle\<lparr>pCfg := Some sim_i2c\<rparr>) \<and> (\<forall>k. Set_public_key k \<notin> set es)))
    (idle\<lparr>pCfg := Some sim_i2c\<rparr>)"
proof (rule keygen_ignores_rejected_point)
  show "no_session (idle\<lparr>pCfg := Some sim_i2c\<rparr>)"
    using idle_no_session by (auto simp: sess_defs)
qed (simp_all add: chip_willing_def mutex_ok_def, simp_all add: sim_env_def sim_new_def)

end
