(* ===== verification/Named_Key_Spec.thy ===== *)
theory Named_Key_Spec
  imports Signing_Spec Keys_Spec
begin

text \<open>
  From the name of a key to a signature: an application loads a private key by its name and
  signs with it. The descriptor travels from the name into the number of an EC key of
  OpenSSL, through the reference counts of the objects there, and out again when the digest
  is to be signed.
\<close>

section \<open>OpenSSL keeps the keys\<close>

text \<open>
  What OpenSSL tells of \<open>ec\<close>, the EC key of the object \<open>p\<close>: whether it is that of \<open>p\<close>, its
  private number and (\<open>R\<close>) how many references there are to it.
\<close>

definition key_view :: "'w env \<Rightarrow> (ptr \<Rightarrow> 'w \<Rightarrow> nat) \<Rightarrow> ptr \<Rightarrow> ptr \<Rightarrow> 'w \<Rightarrow> ptr \<times> nat option \<times> nat" where
  "key_view E R p ec w = (fst (ext_EVP_PKEY_get1_EC_KEY E p w),
     map_option snd (ext_EC_KEY_get0_private_key E ec w), R ec w)"

text \<open>A function that has nothing to do with keys changes none that is referred to.\<close>

definition leaves_keys :: "'w env \<Rightarrow> (ptr \<Rightarrow> 'w \<Rightarrow> nat) \<Rightarrow> ('w \<Rightarrow> 'a \<times> 'w) \<Rightarrow> bool" where
  "leaves_keys E R f \<longleftrightarrow> (\<forall>p ec w. 0 < R ec w \<longrightarrow> key_view E R p ec (snd (f w)) = key_view E R p ec w)"

text \<open>
  Documented behaviour of OpenSSL's reference-counted keys: a new key has one reference, the
  object it is assigned to takes that reference over and answers for it from then on,
  \<^verbatim>\<open>EVP_PKEY_get1_EC_KEY\<close> adds a reference, \<^verbatim>\<open>EC_KEY_free\<close> takes one away and destroys the key
  only with the last, and a private number that was set is the one that is got.
\<close>

definition counts_refs :: "'w env \<Rightarrow> (ptr \<Rightarrow> 'w \<Rightarrow> nat) \<Rightarrow> bool" where
  "counts_refs E R \<longleftrightarrow>
     (\<forall>e w. fst (ext_EC_KEY_new_method E e w) \<noteq> NULL \<longrightarrow>
        R (fst (ext_EC_KEY_new_method E e w)) (snd (ext_EC_KEY_new_method E e w)) = 1)
   \<and> (\<forall>p ec w. 0 < R ec w \<and> fst (ext_EVP_PKEY_assign_EC_KEY E p ec w) \<noteq> 0 \<longrightarrow>
        fst (key_view E R p ec (snd (ext_EVP_PKEY_assign_EC_KEY E p ec w))) = ec
      \<and> R ec (snd (ext_EVP_PKEY_assign_EC_KEY E p ec w)) = R ec w)
   \<and> (\<forall>p ec b w. 0 < R ec w \<and> fst (ext_EC_KEY_set_private_key E ec b w) \<noteq> 0 \<longrightarrow>
        key_view E R p ec (snd (ext_EC_KEY_set_private_key E ec b w))
          = (fst (key_view E R p ec w), Some (snd b), R ec w))
   \<and> (\<forall>p ec n c w. key_view E R p ec w = (ec, n, Suc c) \<longrightarrow>
        key_view E R p ec (snd (ext_EVP_PKEY_get1_EC_KEY E p w)) = (ec, n, Suc (Suc c)))
   \<and> (\<forall>p ec n c w. key_view E R p ec w = (ec, n, Suc (Suc c)) \<longrightarrow>
        key_view E R p ec (snd (ext_EC_KEY_free E ec w)) = (ec, n, Suc c))"

text \<open>The functions on the way that have nothing to do with the keys: mutex, heap, chip, hash,
  error queue, and what OpenSSL has for groups, points and numbers.\<close>

definition others_leave_keys :: "'w env \<Rightarrow> (ptr \<Rightarrow> 'w \<Rightarrow> nat) \<Rightarrow> bool" where
  "others_leave_keys E R \<longleftrightarrow>
     (\<forall>h name. leaves_keys E R (ext_hal_os_create_mutex E h name))
   \<and> (\<forall>h. leaves_keys E R (ext_hal_os_lock_mutex E h))
   \<and> (\<forall>h. leaves_keys E R (ext_hal_os_unlock_mutex E h))
   \<and> leaves_keys E R (ext_malloc_ok E)
   \<and> (\<forall>c. leaves_keys E R (ext_atcab_init E c))
   \<and> leaves_keys E R (ext_atcab_wakeup E)
   \<and> leaves_keys E R (ext_atcab_sleep E)
   \<and> leaves_keys E R (ext_atcab_release E)
   \<and> (\<forall>slot. leaves_keys E R (ext_atcab_get_pubkey E slot))
   \<and> leaves_keys E R (ext_atcab_read_serial_number E)
   \<and> (\<forall>n. leaves_keys E R (ext_atcab_nonce_rand E n))
   \<and> (\<forall>n r. leaves_keys E R (ext_atcah_nonce E n r))
   \<and> (\<forall>slot sn key tmp x. leaves_keys E R (ext_atcah_check_mac E slot sn key tmp x))
   \<and> (\<forall>slot r x. leaves_keys E R (ext_atcab_checkmac E slot r x))
   \<and> (\<forall>m. leaves_keys E R (ext_atcac_sw_sha2_256 E m))
   \<and> leaves_keys E R (ext_ERR_get_next_error_library E)
   \<and> (\<forall>l ss. leaves_keys E R (ext_ERR_load_strings E l ss))
   \<and> (\<forall>l r x. leaves_keys E R (ext_ERR_put_error E l r x))
   \<and> leaves_keys E R (ext_EC_GROUP_new_by_curve_name E)
   \<and> (\<forall>g f. leaves_keys E R (ext_EC_GROUP_set_point_conversion_form E g f))
   \<and> (\<forall>g. leaves_keys E R (ext_EC_GROUP_set_asn1_flag E g))
   \<and> (\<forall>k g. leaves_keys E R (ext_EC_KEY_set_group E k g))
   \<and> (\<forall>g. leaves_keys E R (ext_EC_GROUP_free E g))
   \<and> (\<forall>g. leaves_keys E R (ext_EC_POINT_new E g))
   \<and> (\<forall>g pt raw. leaves_keys E R (ext_EC_POINT_oct2point E g pt raw))
   \<and> (\<forall>pt. leaves_keys E R (ext_EC_POINT_free E pt))
   \<and> (\<forall>k pt. leaves_keys E R (ext_EC_KEY_set_public_key E k pt))
   \<and> (\<forall>bs. leaves_keys E R (ext_BN_bin2bn E bs))
   \<and> (\<forall>b. leaves_keys E R (ext_BN_free E b))
   \<and> (\<forall>k m. leaves_keys E R (ext_EC_KEY_set_method E k m))"

section \<open>The frame of a key\<close>

definition key_kept :: "'w env \<Rightarrow> (ptr \<Rightarrow> 'w \<Rightarrow> nat) \<Rightarrow> ptr \<Rightarrow> ptr \<Rightarrow> 'w eng \<Rightarrow> 'w eng \<Rightarrow> bool" where
  "key_kept E R p ec s t \<longleftrightarrow>
     (0 < R ec (world s) \<longrightarrow> key_view E R p ec (world t) = key_view E R p ec (world s))"

interpretation key_kept: frame "key_kept E R p ec" for E :: "'w env" and R p ec
proof
  fix s t u :: "'w eng"
  show "key_kept E R p ec s s" by (simp add: key_kept_def)
  assume "key_kept E R p ec s t" "key_kept E R p ec t u"
  moreover from this(1) have "R ec (world t) = R ec (world s)" if "0 < R ec (world s)"
    using that by (simp add: key_kept_def key_view_def)
  ultimately show "key_kept E R p ec s u" by (simp add: key_kept_def)
qed

lemma key_kept_call: "leaves_keys E R f \<Longrightarrow> keeping (key_kept E R p ec) (call f evs)"
  by (auto simp: keeping_def wp_call_eq key_kept_def leaves_keys_def split: prod.splits) (metis snd_conv)

lemma key_kept_inside:
  "keeping (key_kept E R p ec) (log_ev e)" "keeping (key_kept E R p ec) (flag_ub u)"
  "keeping (key_kept E R p ec) (set_lock_state n)" "keeping (key_kept E R p ec) (set_lock_handle h)"
  "keeping (key_kept E R p ec) (modify (\<lambda>s. s\<lparr>global_lock_recovered := r\<rparr>))"
  "keeping (key_kept E R p ec) (modify (\<lambda>s. s\<lparr>ifacecfg := c\<rparr>))"
  "keeping (key_kept E R p ec) (modify (\<lambda>s. s\<lparr>err_lib := l\<rparr>))"
  by (auto simp: keeping_def key_kept_def set_lock_state_def set_lock_handle_def)

lemmas key_kept_calls = key_kept_inside key_kept_call

lemma key_kept_session:
  assumes "others_leave_keys E R"
  shows "keeping (key_kept E R p ec) (atcab_init_safe E c)"
    and "keeping (key_kept E R p ec) (atcab_release_safe E)"
    and "keeping (key_kept E R p ec) (eccx08_raise_session_error E op st)"
  unfolding atcab_init_safe_def init_locked_def resync_recovered_def atcab_release_safe_def copy_ifacecfg_def
    free_ifacecfg_def eccx08_global_lock_def eccx08_global_unlock_def lock_if_not_ours_def
    eccx08_raise_session_error_def eccx08_err_load_strings_def
  by (intro key_kept.keep key_kept_calls; insert assms, simp add: others_leave_keys_def)+

lemma key_kept_init_from_privkey:
  assumes "others_leave_keys E R"
  shows "keeping (key_kept E R p ec) (atcab_init_from_privkey_safe E k)"
  unfolding atcab_init_from_privkey_safe_def init_from_keyinfo_def need_bytes_def
  by (intro key_kept.keep key_kept_calls key_kept_session [OF assms])
    (insert assms, simp add: others_leave_keys_def)

lemma key_kept_authorize:
  assumes "others_leave_keys E R"
  shows "keeping (key_kept E R p ec) (authorize E pid)"
  unfolding authorize_def eccx08_auth_password_def do_atecc_auth_def make_key_from_password_def
  by (intro key_kept.keep key_kept_calls key_kept_session [OF assms];
      insert assms, simp add: others_leave_keys_def)

lemma key_kept_convert:
  assumes "others_leave_keys E R"
  shows "keeping (key_kept E R p ec) (eccx08_eckey_convert E k raw n)"
  unfolding eccx08_eckey_convert_def ensure_group_def
  by (intro key_kept.keep key_kept_calls; insert assms, simp add: others_leave_keys_def)

lemma key_kept_read_pubkey:
  assumes "others_leave_keys E R"
  shows "keeping (key_kept E R p ec) (read_pubkey E k pid)"
  unfolding read_pubkey_def fetch_pubkey_def get_pubkey_retry_def
  by (intro key_kept.keep key_kept_calls key_kept_session [OF assms] key_kept_init_from_privkey [OF assms]
      key_kept_authorize [OF assms] key_kept_convert [OF assms];
      insert assms, simp add: others_leave_keys_def)

section \<open>The descriptor in the number of the key\<close>

text \<open>\<open>carries E R p n c w\<close>: the object \<open>p\<close> answers for an EC key with number \<open>n\<close> and \<open>c\<close> references.\<close>

definition carries :: "'w env \<Rightarrow> (ptr \<Rightarrow> 'w \<Rightarrow> nat) \<Rightarrow> ptr \<Rightarrow> nat \<Rightarrow> nat \<Rightarrow> 'w \<Rightarrow> bool" where
  "carries E R p n c w \<longleftrightarrow> (\<exists>ec. ec \<noteq> NULL \<and> key_view E R p ec w = (ec, Some n, c))"

lemma counts_refsD:
  assumes "counts_refs E R"
  shows "ext_EC_KEY_new_method E e w = (k, w') \<Longrightarrow> k \<noteq> NULL \<Longrightarrow> R k w' = 1"
    and "ext_EVP_PKEY_assign_EC_KEY E p ec w = (r, w') \<Longrightarrow> 0 < R ec w \<Longrightarrow> r \<noteq> 0 \<Longrightarrow>
      fst (key_view E R p ec w') = ec \<and> R ec w' = R ec w"
    and "ext_EC_KEY_set_private_key E ec b w = (r, w') \<Longrightarrow> 0 < R ec w \<Longrightarrow> r \<noteq> 0 \<Longrightarrow>
      key_view E R p ec w' = (fst (key_view E R p ec w), Some (snd b), R ec w)"
    and "ext_EVP_PKEY_get1_EC_KEY E p w = (k, w') \<Longrightarrow> key_view E R p ec w = (ec, n, Suc c) \<Longrightarrow>
      key_view E R p ec w' = (ec, n, Suc (Suc c)) \<and> k = ec"
    and "ext_EC_KEY_free E ec w = (u, w') \<Longrightarrow> key_view E R p ec w = (ec, n, Suc (Suc c)) \<Longrightarrow>
      key_view E R p ec w' = (ec, n, Suc c)"
proof -
  note law = assms [unfolded counts_refs_def]
  show "ext_EC_KEY_new_method E e w = (k, w') \<Longrightarrow> k \<noteq> NULL \<Longrightarrow> R k w' = 1"
    using law [THEN conjunct1, rule_format, of e w] by simp
  show "ext_EVP_PKEY_assign_EC_KEY E p ec w = (r, w') \<Longrightarrow> 0 < R ec w \<Longrightarrow> r \<noteq> 0 \<Longrightarrow>
      fst (key_view E R p ec w') = ec \<and> R ec w' = R ec w"
    using law [THEN conjunct2, THEN conjunct1, rule_format, of ec w p] by simp
  show "ext_EC_KEY_set_private_key E ec b w = (r, w') \<Longrightarrow> 0 < R ec w \<Longrightarrow> r \<noteq> 0 \<Longrightarrow>
      key_view E R p ec w' = (fst (key_view E R p ec w), Some (snd b), R ec w)"
    using law [THEN conjunct2, THEN conjunct2, THEN conjunct1, rule_format, of ec w b p] by simp
  show "ext_EVP_PKEY_get1_EC_KEY E p w = (k, w') \<Longrightarrow> key_view E R p ec w = (ec, n, Suc c) \<Longrightarrow>
      key_view E R p ec w' = (ec, n, Suc (Suc c)) \<and> k = ec"
    using law [THEN conjunct2, THEN conjunct2, THEN conjunct2, THEN conjunct1, rule_format, of p ec w n c]
    by (simp add: key_view_def)
  show "ext_EC_KEY_free E ec w = (u, w') \<Longrightarrow> key_view E R p ec w = (ec, n, Suc (Suc c)) \<Longrightarrow>
      key_view E R p ec w' = (ec, n, Suc c)"
    using law [THEN conjunct2, THEN conjunct2, THEN conjunct2, THEN conjunct2, rule_format, of p ec w n c] by simp
qed

lemma leavesD:
  "leaves_keys E R f \<Longrightarrow> f w = (a, w') \<Longrightarrow> 0 < R ec w \<Longrightarrow> key_view E R p ec w' = key_view E R p ec w"
  unfolding leaves_keys_def by (metis snd_conv)

lemma others_leaveD:
  assumes "others_leave_keys E R"
  shows "leaves_keys E R (ext_EC_GROUP_new_by_curve_name E)"
    and "leaves_keys E R (ext_EC_GROUP_set_point_conversion_form E g f)"
    and "leaves_keys E R (ext_EC_GROUP_set_asn1_flag E g)"
    and "leaves_keys E R (ext_EC_KEY_set_group E k g)"
    and "leaves_keys E R (ext_EC_GROUP_free E g)"
    and "leaves_keys E R (ext_BN_bin2bn E bs)"
    and "leaves_keys E R (ext_BN_free E b)"
    and "leaves_keys E R (ext_EC_KEY_set_method E k m)"
  using assms unfolding others_leave_keys_def by blast+

text \<open>One call that leaves the key, with what is known of it kept along.\<close>

lemma wp_leaves:
  assumes "leaves_keys E R f" and "key_view E R p ec (world s) = (q, n, Suc c)"
    and "\<And>a w. f (world s) = (a, w) \<Longrightarrow> key_view E R p ec w = (q, n, Suc c)
      \<Longrightarrow> Q a (s\<lparr>world := w, trace := evs a @ trace s\<rparr>)"
  shows "wp (call f evs) Q s"
proof -
  obtain a w where f: "f (world s) = (a, w)" by fastforce
  have "R ec (world s) = Suc c" using assms(2) by (simp add: key_view_def)
  then have "key_view E R p ec w = (q, n, Suc c)" using leavesD [OF assms(1) f] assms(2) by simp
  then show ?thesis using assms(3) [OF f] f by (simp add: wp_call_eq)
qed

lemma wp_store_number_carries:
  assumes "ssl_willing E" and "counts_refs E R" and "others_leave_keys E R"
    and "key_view E R pkey k (world t) = (k, n, Suc 0)" and "k \<noteq> NULL"
  shows "wp (do {
      stored \<leftarrow> EC_KEY_set_private_key E k b;
      BN_free E b;
      (if stored = 0 then ret ENGINE_OPENSSL_FAILURE
       else do {
         m \<leftarrow> gets eccx08_ec;
         done_set \<leftarrow> EC_KEY_set_method E k m;
         (if done_set = 0 then ret ENGINE_OPENSSL_FAILURE else ret ENGINE_OPENSSL_SUCCESS)
       }) }) (\<lambda>r t. r = ENGINE_OPENSSL_SUCCESS \<and> carries E R pkey (snd b) 1 (world t)) t"
proof -
  note will = ssl_willingD [OF assms(1)] and leave = others_leaveD [OF assms(3)]
  obtain r w where set: "ext_EC_KEY_set_private_key E k b (world t) = (r, w)" by fastforce
  have "r \<noteq> 0" using will(6) [OF set] .
  with counts_refsD(3) [OF assms(2) set, of pkey] assms(4)
  have "key_view E R pkey k w = (k, Some (snd b), Suc 0)" by (simp add: key_view_def)
  then have "wp (BN_free E b) (\<lambda>_. wp (do {
         m \<leftarrow> gets eccx08_ec;
         done_set \<leftarrow> EC_KEY_set_method E k m;
         (if done_set = 0 then ret ENGINE_OPENSSL_FAILURE else ret ENGINE_OPENSSL_SUCCESS)
       }) (\<lambda>r t. r = ENGINE_OPENSSL_SUCCESS \<and> carries E R pkey (snd b) 1 (world t)))
       (t\<lparr>world := w, trace := Set_private_key k (snd b) # trace t\<rparr>)"
    by (intro wp_leaves [OF leave(7)])
      (use assms(5) in \<open>auto simp: carries_def will(7) intro!: wp_leaves [OF leave(8)] dest: will(7)\<close>)
  then show ?thesis using set \<open>r \<noteq> 0\<close> by (simp add: wp_call_eq)
qed

lemma wp_call_at: "f (world s) = (a, w) \<Longrightarrow> Q a (s\<lparr>world := w, trace := evs a @ trace s\<rparr>) \<Longrightarrow> wp (call f evs) Q s"
  by (simp add: wp_call_eq)

lemma wp_bind_leaves:
  assumes "leaves_keys E R f" and "key_view E R p ec (world s) = (q, n, Suc c)"
    and "\<And>a w. f (world s) = (a, w) \<Longrightarrow> key_view E R p ec w = (q, n, Suc c)
      \<Longrightarrow> wp (g a) Q (s\<lparr>world := w, trace := evs a @ trace s\<rparr>)"
  shows "wp (do { a \<leftarrow> call f evs; g a }) Q s"
  by (rule wp_bindI, rule wp_leaves [OF assms(1,2)]) (rule assms(3))

lemma wp_fill_new_key_carries:
  assumes "ssl_willing E" and "bn_ok E" and "counts_refs E R" and "others_leave_keys E R"
  shows "wp (fill_new_key E e pkey ki)
    (\<lambda>r t. r = ENGINE_OPENSSL_SUCCESS \<and> carries E R pkey (key_num ki) 1 (world t)) s" (is "wp _ ?Q s")
proof -
  note law = counts_refsD [OF assms(3)] and will = ssl_willingD [OF assms(1)]
    and leave = others_leaveD [OF assms(4)] and store = wp_store_number_carries [OF assms(1,3,4)]
  have bn: "ext_BN_bin2bn E bs w = (Some b, w') \<Longrightarrow> snd b = be_val bs" for bs w b w'
    using assms(2) unfolding bn_ok_def by (metis fst_conv prod.collapse)
  obtain k w where k: "ext_EC_KEY_new_method E e (world s) = (k, w)" by fastforce
  have "k \<noteq> NULL" using will(2) [OF k] .
  obtain q n where view: "key_view E R pkey k w = (q, n, Suc 0)"
    using law(1) [OF k \<open>k \<noteq> NULL\<close>] by (simp add: key_view_def)
  let ?number = "do {
      bn \<leftarrow> BN_bin2bn E (key_bytes ki);
      (case bn of
         None \<Rightarrow> ret ENGINE_OPENSSL_FAILURE
       | Some b \<Rightarrow> do {
           stored \<leftarrow> EC_KEY_set_private_key E k b;
           BN_free E b;
           (if stored = 0 then ret ENGINE_OPENSSL_FAILURE
            else do {
              m \<leftarrow> gets eccx08_ec;
              done_set \<leftarrow> EC_KEY_set_method E k m;
              (if done_set = 0 then ret ENGINE_OPENSSL_FAILURE else ret ENGINE_OPENSSL_SUCCESS)
            })
         }) }"
  have number: "wp ?number ?Q t" if "key_view E R pkey k (world t) = (k, n, Suc 0)" for n t
  proof (rule wp_bind_leaves [OF leave(6) that])
    fix bo w assume bo: "ext_BN_bin2bn E (key_bytes ki) (world t) = (bo, w)"
      and kept: "key_view E R pkey k w = (k, n, Suc 0)"
    then obtain b where b: "bo = Some b" using will(5) by blast
    with bn bo have "snd b = key_num ki" by (simp add: key_num_def)
    with b kept show "wp (case bo of None \<Rightarrow> ret ENGINE_OPENSSL_FAILURE
       | Some b \<Rightarrow> do {
           stored \<leftarrow> EC_KEY_set_private_key E k b;
           BN_free E b;
           (if stored = 0 then ret ENGINE_OPENSSL_FAILURE
            else do {
              m \<leftarrow> gets eccx08_ec;
              done_set \<leftarrow> EC_KEY_set_method E k m;
              (if done_set = 0 then ret ENGINE_OPENSSL_FAILURE else ret ENGINE_OPENSSL_SUCCESS)
            })
         }) ?Q (t\<lparr>world := w, trace := (case bo of None \<Rightarrow> [] | Some b \<Rightarrow> [Obj_new Bn (fst b)]) @ trace t\<rparr>)"
      using store [of pkey k _ n b] \<open>k \<noteq> NULL\<close> by (simp del: wp_bind)
  qed
  have assign: "wp (do {
       assigned \<leftarrow> EVP_PKEY_assign_EC_KEY E pkey k;
       (if assigned = 0 then do { EC_KEY_free E k; ret ENGINE_OPENSSL_FAILURE } else ?number) }) ?Q t"
    if at: "key_view E R pkey k (world t) = (q, n, Suc 0)" for q n t
  proof -
    obtain r w where r: "ext_EVP_PKEY_assign_EC_KEY E pkey k (world t) = (r, w)" by fastforce
    have "R k (world t) = Suc 0" using at by (simp add: key_view_def)
    with will(4) [OF r] law(2) [OF r] have "r \<noteq> 0"
      "key_view E R pkey k w = (k, map_option snd (ext_EC_KEY_get0_private_key E k w), Suc 0)"
      by (simp_all add: key_view_def)
    with number show ?thesis by (intro wp_bindI wp_call_at [where f = "ext_EVP_PKEY_assign_EC_KEY E pkey k", OF r]) (simp del: wp_bind)
  qed
  show ?thesis
    unfolding fill_new_key_def
    apply (rule wp_bindI, rule wp_call_at [where f = "ext_EC_KEY_new_method E e", OF k])
    apply (simp only: \<open>k \<noteq> NULL\<close> if_False)
    apply (rule wp_bind_leaves [OF leave(1), of pkey k _ q n 0], simp add: view)
    apply (simp only: will(3) if_False)
    apply (rule wp_bind_leaves [OF leave(2), of pkey k _ q n 0], simp)
    apply (rule wp_bind_leaves [OF leave(3), of pkey k _ q n 0], simp)
    apply (rule wp_bind_leaves [OF leave(4), of pkey k _ q n 0], simp)
    apply (rule wp_bind_leaves [OF leave(5), of pkey k _ q n 0], simp)
    apply (rule assign [of _ q n], simp)
    done
qed

section \<open>Loading by name\<close>

text \<open>The descriptors a name stands for: any content of the reserved bytes.\<close>

definition named_key :: "nat \<Rightarrow> nat \<Rightarrow> nat \<Rightarrow> nat \<Rightarrow> byte \<Rightarrow> eccx08_engine_key_t \<Rightarrow> bool" where
  "named_key bt bus dev slot pid k \<longleftrightarrow> key_wf k \<and> magic k = atecc_magic \<and> bus_type k = of_nat bt
     \<and> bus_num k = of_nat bus \<and> device_num k = of_nat dev \<and> slot_num k = of_nat slot
     \<and> password_id k = pid"

text \<open>
  The descriptor that a new key gets: filled in by \<open>new_key_info\<close>, over what the stack has where
  the structure lies after \<^verbatim>\<open>EVP_PKEY_new\<close>.
\<close>

definition stack_at_new :: "'w env \<Rightarrow> 'w eng \<Rightarrow> bytes" where
  "stack_at_new E s = stack_content E 32 (snd (ext_EVP_PKEY_new E (world s)))"

lemma length_stack_at_new [simp]: "length (stack_at_new E s) = 32"
  by (simp add: stack_at_new_def)

lemma wp_new_key_stores:
  assumes "ssl_willing E" and "bn_ok E" and "counts_refs E R" and "others_leave_keys E R"
    and info: "new_key_info (eccx08_engine_config s) (stack_at_new E s) key_id pid = (1, k)"
  shows "wp (eccx08_eckey_new_key E e key_id pid) (\<lambda>p t. p \<noteq> NULL \<longrightarrow>
    carries E R p (key_num k) 1 (world t)) s"
proof -
  obtain p w where new: "ext_EVP_PKEY_new E (world s) = (p, w)" by fastforce
  let ?t = "s\<lparr>world := w, trace := ev_new Pkey p @ trace s\<rparr>"
  have fill: "wp (fill_new_key E e p k) (\<lambda>r t. wp (if r = ENGINE_OPENSSL_FAILURE then EVP_PKEY_free E p else skip)
      (\<lambda>_ t. carries E R p (key_num k) 1 (world t)) t) ?t"
    by (rule wp_mono [OF wp_fill_new_key_carries [OF assms(1-4)]]) auto
  have "new_key_info (eccx08_engine_config s) (stack_content E 32 w) key_id pid = (1, k)"
    using info new by (simp add: stack_at_new_def)
  then show ?thesis
    unfolding eccx08_eckey_new_key_def using new by (auto simp: wp_call_eq intro: wp_mono [OF fill])
qed

lemma named_info:
  assumes "bt < 256" and "bus < 256" and "dev < 256" and "slot < 256" and "length junk = 32"
  obtains k where "new_key_info config junk (Some (key_id_string bt bus dev slot)) pid = (1, k)"
    and "named_key bt bus dev slot pid k"
  using that assms(5) by (simp add: new_key_info_named [OF assms(1-4)] named_key_def key_wf_def)

lemma wp_new_key_carries:
  assumes "ssl_willing E" and "bn_ok E" and "counts_refs E R" and "others_leave_keys E R"
    and "bt < 256" and "bus < 256" and "dev < 256" and "slot < 256"
  shows "wp (eccx08_eckey_new_key E e (Some (key_id_string bt bus dev slot)) pid) (\<lambda>p t. p \<noteq> NULL \<longrightarrow>
    (\<exists>k. named_key bt bus dev slot pid k \<and> carries E R p (key_num k) 1 (world t))) s"
proof (rule named_info [OF assms(5-8) length_stack_at_new])
  fix k assume "new_key_info (eccx08_engine_config s) (stack_at_new E s) (Some (key_id_string bt bus dev slot)) pid = (1, k)"
    and "named_key bt bus dev slot pid k"
  then show ?thesis by (intro wp_mono [OF wp_new_key_stores [OF assms(1-4)]]) auto
qed

lemma wp_load_internal_carries:
  assumes "ssl_willing E" and "bn_ok E" and "counts_refs E R" and "others_leave_keys E R"
    and "bt < 256" and "bus < 256" and "dev < 256" and "slot < 256"
  shows "wp (eccx08_load_pubkey_internal E e NULL (Some (key_id_string bt bus dev slot)) pid) (\<lambda>p t. p \<noteq> NULL \<longrightarrow>
    (\<exists>k. named_key bt bus dev slot pid k \<and> carries E R p (key_num k) 1 (world t))) s"
  unfolding eccx08_load_pubkey_internal_def
proof (rule wp_bindI, simp only: refl if_True, rule wp_mono [OF wp_new_key_carries [OF assms]])
  fix p and t :: "'a eng"
  let ?Q = "\<lambda>p t. p \<noteq> NULL \<longrightarrow> (\<exists>k. named_key bt bus dev slot pid k \<and> carries E R p (key_num k) 1 (world t))"
  assume new: "?Q p t"
  show "wp (if p = NULL then ret NULL else do {
        eckey \<leftarrow> EVP_PKEY_get1_EC_KEY E p;
        status \<leftarrow> (if eckey = NULL then ret ATCA_GEN_FAIL else read_pubkey E eckey pid);
        (if eckey \<noteq> NULL then EC_KEY_free E eckey else skip);
        (if status \<noteq> ATCA_SUCCESS then do { EVP_PKEY_free E p; ret NULL } else ret p) }) ?Q t"
  proof (cases "p = NULL")
    case False
    with new obtain k ec0 where k: "named_key bt bus dev slot pid k" and "ec0 \<noteq> NULL"
      and view: "key_view E R p ec0 (world t) = (ec0, Some (key_num k), Suc 0)"
      by (auto simp: carries_def key_view_def)
    obtain ec w where got: "ext_EVP_PKEY_get1_EC_KEY E p (world t) = (ec, w)" by fastforce
    from counts_refsD(4) [OF assms(3) got view]
    have two: "key_view E R p ec w = (ec, Some (key_num k), Suc (Suc 0))" and "ec \<noteq> NULL"
      using \<open>ec0 \<noteq> NULL\<close> by simp_all
    let ?kept = "\<lambda>_ t. \<exists>k. named_key bt bus dev slot pid k \<and> carries E R p (key_num k) 1 (world t)"
    have read: "wp (read_pubkey E ec pid) (\<lambda>_. wp (EC_KEY_free E ec) ?kept) u" if "world u = w" for u
    proof (rule keeping_rule [OF key_kept_read_pubkey [OF assms(4), of p ec]])
      fix v assume "key_kept E R p ec u v"
      with that two have "key_view E R p ec (world v) = (ec, Some (key_num k), Suc (Suc 0))"
        by (simp add: key_kept_def key_view_def)
      from counts_refsD(5) [OF assms(3) _ this] k \<open>ec \<noteq> NULL\<close> show "wp (EC_KEY_free E ec) ?kept v"
        by (auto simp: wp_call_eq carries_def split: prod.splits)
    qed
    show ?thesis
      using False got
      by (simp add: wp_call_eq [of "ext_EVP_PKEY_get1_EC_KEY E p"] wp_any)
        (intro impI, rule wp_mono [OF read], auto simp: wp_any elim: wp_mono)
  qed simp
qed

lemma wp_load_privkey_carries:
  assumes "ssl_willing E" and "bn_ok E" and "counts_refs E R" and "others_leave_keys E R"
    and "bt < 256" and "bus < 256" and "dev < 256" and "slot < 256"
  shows "wp (eccx08_load_privkey E e (Some (key_id_string bt bus dev slot)) cb) (\<lambda>p t. p \<noteq> NULL \<longrightarrow>
    (\<exists>pid k. named_key bt bus dev slot pid k \<and> carries E R p (key_num k) 1 (world t))) s"
  unfolding wp_load_pubkey_eq
  by (rule wp_bindI, rule wp_mono [OF wp_any]) (rule wp_mono [OF wp_load_internal_carries [OF assms]], blast)

section \<open>Signing commands\<close>

text \<open>Of the signing commands only those for one slot and one digest.\<close>

definition signs_only :: "byte \<Rightarrow> bytes \<Rightarrow> ev \<Rightarrow> bool" where
  "signs_only slot d e \<longleftrightarrow> sign_ev e \<longrightarrow> (\<exists>st. e = Dev_cmd (Sign slot d) st)"

lemma signs_only_no_sign: "\<not> sign_ev e \<Longrightarrow> signs_only slot d e"
  by (simp add: signs_only_def)

lemma signs_only_session: "session_ev e \<Longrightarrow> signs_only slot d e"
  by (rule signs_only_no_sign, rule session_ev_no_sign)

lemma cmd_in_none: "cmd_in {} e \<Longrightarrow> signs_only slot d e"
  by (cases e) (simp_all add: signs_only_def)

lemma auth_ev_no_sign: "auth_ev aslot e \<Longrightarrow> signs_only slot d e"
  by (auto simp: auth_ev_def signs_only_def dest: session_ev_no_sign)

lemma signs_only_sess:
  "keeping (adds (signs_only slot d)) (atcab_release_safe E)"
  "keeping (adds (signs_only slot d)) (atcab_init_from_privkey_safe E k)"
  "keeping (adds (signs_only slot d)) (eccx08_raise_session_error E op st)"
  "keeping (adds (signs_only slot d)) (eccx08_eckey_convert E k raw n)"
  "keeping (adds (signs_only slot d)) (do_atecc_auth E pw aslot)"
  by (rule keeping_adds_weaken,
      rule adds_release_safe adds_init_from_privkey adds_raise adds_convert [of "{}"] adds_do_atecc_auth,
      erule signs_only_session cmd_in_none auth_ev_no_sign)+

lemma signs_only_ev_obj [simp]:
  "list_all (signs_only slot d) (ev_new c p)" "list_all (signs_only slot d) (ev_ref c p)"
  "list_all (signs_only slot d) (ev_free c p)"
  by (simp_all add: ev_new_def ev_ref_def ev_free_def signs_only_def)

lemma signs_only_authorize: "keeping (adds (signs_only slot d)) (authorize E pid)"
  unfolding authorize_def eccx08_auth_password_def
  by (intro adds.keep adds_basic signs_only_sess)

lemma signs_only_fetch: "keeping (adds (signs_only slot (take 32 d))) (fetch_signature E sig slot d)"
  unfolding fetch_signature_def sign_retry_def fill_sig_def
  by (intro adds.keep adds_basic signs_only_sess) (auto simp: signs_only_def split: prod.splits option.splits)

lemma signs_only_new_password: "keeping (adds P) (new_password cb)"
  unfolding new_password_def eccx08_cbdata_to_password_def save_password_def eccx08_make_password_def copy_password_def
  by (intro adds.keep adds_basic) (simp_all add: keeping_def adds_def)

lemma signs_only_load_privkey: "keeping (adds (signs_only slot d)) (eccx08_load_privkey E e key_id cb)"
proof -
  have "keeping (adds (signs_only slot d)) (eccx08_load_pubkey_internal E e NULL key_id pid)" for pid
    unfolding eccx08_load_pubkey_internal_def eccx08_eckey_new_key_def fill_new_key_def read_pubkey_def
      fetch_pubkey_def get_pubkey_retry_def
    by (intro adds.keep adds_basic signs_only_sess signs_only_authorize)
      (auto simp: signs_only_def split: prod.splits option.splits)
  then show ?thesis
    by (intro keepingI) (unfold wp_load_pubkey_eq, rule keepingD, intro adds.keep signs_only_new_password)
qed

lemma wp_sign_with_device_only:
  assumes "mutex_ok E" and "bn_ok E" and "no_session s" and "holds_key E (world s) ec k"
  shows "wp (sign_with_device E sig ec pid d) (\<lambda>_ t. adds (signs_only (slot_num k) (take 32 d)) s t) s"
  unfolding sign_with_device_def
proof (rule wp_bindI, 
    rule wp_also [OF keepingD [OF signs_only_sess(2) [of "slot_num k" "take 32 d"]]],
    rule wp_init_from_privkey [OF assms(1,3)], goal_cases ok err)
  case (ok t slot)
  then have "slot = slot_num k" using assms(2,4) by blast
  then have "keeping (adds (signs_only (slot_num k) (take 32 d))) (do {
      status \<leftarrow> authorize E pid;
      (if status \<noteq> ATCA_SUCCESS then ret status
       else fetch_signature E sig (case Some slot of Some n \<Rightarrow> n | None \<Rightarrow> 255) d) })"
    by (simp only: option.case) (intro adds.keep signs_only_authorize signs_only_fetch)
  note rest = this
  show ?case
    by (simp del: wp_bind, intro impI, rule keeping_rule [OF rest], erule adds_trans)
qed simp

section \<open>Loading and signing\<close>

text \<open>An application: load a private key by its name, take its EC key and sign with it.\<close>

definition load_and_sign ::
  "'w env \<Rightarrow> ptr \<Rightarrow> string \<Rightarrow> string option option \<Rightarrow> bytes \<Rightarrow> int \<Rightarrow> ('w, ptr) prog" where
  "load_and_sign E e name cb d len = do {
     pkey \<leftarrow> eccx08_load_privkey E e (Some name) cb;
     (if pkey = NULL then ret NULL
      else do {
        ec \<leftarrow> EVP_PKEY_get1_EC_KEY E pkey;
        eccx08_ecdsa_sign_sig E (Some d) len ec
      })
   }"

lemma wp_sign_sig_holding:
  assumes "mutex_ok E" and "bn_ok E" and "sig_new_ok E" and "chip_signs E V"
    and "no_session s" and "holds_key E (world s) ec k"
  shows "wp (eccx08_ecdsa_sign_sig E (Some d) len ec) (\<lambda>sig t.
    (sig \<noteq> NULL \<longrightarrow> signed_by V (slot_num k) (take 32 d) sig t)
    \<and> adds (signs_only (slot_num k) (take 32 d)) s t) s"
proof -
  let ?only = "adds (signs_only (slot_num k) (take 32 d))"
  have silent: "signs_only (slot_num k) (take 32 d) e" if "chip_silent e" for e
    using that by (intro signs_only_no_sign) (cases e; simp)
  have made: "wp (eccx08_ecdsa_do_sign_sig E (Some d) len ec) (\<lambda>sig t.
      (sig \<noteq> NULL \<longrightarrow> signed_by V (slot_num k) (take 32 d) sig t) \<and> ?only s t) s"
  proof (rule wp_do_sign_sig_key [OF assms(2,3,6)], goal_cases none dev)
    case (none t)
    then show ?case by (auto elim: adds_weaken intro: silent)
  next
    case (dev sig w t)
    have "no_session t" using assms(5) dev(2) by (simp add: sess_defs)
    with dev(3) have both: "wp (sign_with_device E sig ec (password_id k) d) (\<lambda>st u.
        (st = ATCA_SUCCESS \<longrightarrow> signed_by V (slot_num k) (take 32 d) sig u) \<and> ?only t u) t"
      by (simp add: wp_conj wp_sign_with_device_valid [OF assms(1,2,4)] wp_sign_with_device_only [OF assms(1,2)])
    have start: "?only s t" using dev(2) by (simp add: adds_def signs_only_def)
    show ?case
    proof (rule wp_mono [OF both], elim conjE)
      fix st u assume u: "?only t u" "st = ATCA_SUCCESS \<longrightarrow> signed_by V (slot_num k) (take 32 d) sig u"
      have all: "?only s u" by (rule adds_trans [OF start u(1)])
      have "?only s (u\<lparr>world := w, trace := ev_free Sig sig @ trace u\<rparr>)" for w
        by (rule adds_trans [OF all]) (simp add: adds_def)
      then show "if st = ATCA_SUCCESS then (sig \<noteq> NULL \<longrightarrow> signed_by V (slot_num k) (take 32 d) sig u) \<and> ?only s u
        else wp (ECDSA_SIG_free E sig)
          (\<lambda>_ v. (NULL \<noteq> NULL \<longrightarrow> signed_by V (slot_num k) (take 32 d) NULL v) \<and> ?only s v) u"
        using u all by (simp add: wp_call_eq split: prod.splits)
    qed
  qed
  show ?thesis
    unfolding eccx08_ecdsa_sign_sig_def
    by (rule wp_bindI) (use made in \<open>simp add: wp_def [of "eccx08_eckey_isx08key E ec"] isx08key_holds [OF assms(2,6)]\<close>)
qed

text \<open>The second half, from a state in which the object carries the descriptor of the name.\<close>

lemma get_loaded:
  assumes "counts_refs E R" and "no_session t" and "named_key bt bus dev slot pid k" and "carries E R p (key_num k) 1 (world t)"
  obtains ec w where "ext_EVP_PKEY_get1_EC_KEY E p (world t) = (ec, w)" and "ec \<noteq> NULL"
    and "key_view E R p ec w = (ec, Some (key_num k), Suc (Suc 0))" and "holds_key E w ec k"
    and "no_session (t\<lparr>world := w, trace := ev_ref Eckey ec @ Obj_use Pkey p # trace t\<rparr>)"
proof -
  obtain ec0 where view: "key_view E R p ec0 (world t) = (ec0, Some (key_num k), Suc 0)" and "ec0 \<noteq> NULL"
    using assms(4) by (auto simp: carries_def key_view_def)
  obtain ec w where got: "ext_EVP_PKEY_get1_EC_KEY E p (world t) = (ec, w)" by fastforce
  from counts_refsD(4) [OF assms(1) got view] \<open>ec0 \<noteq> NULL\<close>
  have two: "key_view E R p ec w = (ec, Some (key_num k), Suc (Suc 0))" and "ec \<noteq> NULL" by simp_all
  moreover from two have "holds_key E w ec k"
    using assms(3) by (auto simp: holds_key_def key_view_def named_key_def)
  moreover have "no_session (t\<lparr>world := w, trace := ev_ref Eckey ec @ Obj_use Pkey p # trace t\<rparr>)"
    using assms(2) got
      keepingD [OF quiet_safe [OF quiet_call], of "\<lambda>_. ev_ref Eckey ec @ [Obj_use Pkey p]" "ext_EVP_PKEY_get1_EC_KEY E p" t]
    by (simp add: safe_def wp_call_eq)
  ultimately show thesis using that got by blast
qed

lemma wp_sign_loaded:
  assumes "mutex_ok E" and "bn_ok E" and "sig_new_ok E" and "chip_signs E V" and "counts_refs E R"
    and "no_session t" and k: "named_key bt bus dev slot pid k" and "carries E R p (key_num k) 1 (world t)"
  shows "wp (do { ec \<leftarrow> EVP_PKEY_get1_EC_KEY E p; eccx08_ecdsa_sign_sig E (Some d) len ec }) (\<lambda>sig u. no_session u
    \<and> (sig \<noteq> NULL \<longrightarrow> signed_by V (of_nat slot) (take 32 d) sig u)
    \<and> adds (signs_only (of_nat slot) (take 32 d)) t u) t" (is "wp _ ?Q t")
proof -
  obtain ec w where got: "ext_EVP_PKEY_get1_EC_KEY E p (world t) = (ec, w)" and held: "holds_key E w ec k"
    and out: "no_session (t\<lparr>world := w, trace := ev_ref Eckey ec @ Obj_use Pkey p # trace t\<rparr>)" (is "no_session ?u")
    using get_loaded [OF assms(5-8)] by blast
  have slot: "slot_num k = of_nat slot" using k by (simp add: named_key_def)
  have at: "holds_key E (world ?u) ec k" using held by simp
  have before: "adds (signs_only (of_nat slot) (take 32 d)) t ?u"
    by (simp add: adds_def signs_only_def)
  have "wp (eccx08_ecdsa_sign_sig E (Some d) len ec) ?Q ?u"
    by (rule wp_also [OF wp_sign_sig_holding [OF assms(1-4) out at, unfolded slot]],
        rule keeping_rule [OF safe_sign_sig [OF assms(1)]])
      (use out before adds_trans in \<open>auto simp: safe_def\<close>)
  then show ?thesis using got by (simp add: wp_call_eq)
qed

text \<open>C4: From the name of a key to a signature: an application that loads a private key by a name
  printed by the engine, with or without a password, and signs a digest with it gets null or a
  signature that the chip made for this digest with the slot in the name: for every relation that
  the chip's answers to signing commands satisfy, the two numbers stored last into the signature
  object are the halves of a raw signature that satisfies it. The only signing commands on the
  way are for that slot and digest, and no session stays open. OpenSSL is assumed to grant the
  objects asked for, to count their references and to keep the number of a key that is
  referred to.\<close>

theorem named_key_signs:
  assumes "mutex_ok E" and "bn_ok E" and "sig_new_ok E" and "chip_signs E V"
    and "ssl_willing E" and "counts_refs E R" and "others_leave_keys E R"
    and "no_session s" and "bt < 256" and "bus < 256" and "dev < 256" and "slot < 256"
  shows "wp (load_and_sign E e (key_id_string bt bus dev slot) cb d len) (\<lambda>sig t. no_session t
    \<and> (sig \<noteq> NULL \<longrightarrow> (\<exists>raw. V (of_nat slot) (take 32 d) raw \<and> hd (trace t) = Set_sig sig (raw_r raw) (raw_s raw)))
    \<and> (\<exists>es. trace t = es @ trace s \<and> list_all (signs_only (of_nat slot) (take 32 d)) es)) s"
  unfolding load_and_sign_def
proof (rule wp_bindI, rule wp_also [OF wp_load_privkey_carries [OF assms(5,2,6,7,9-12)]],
    rule wp_also [OF keepingD [OF signs_only_load_privkey]], rule keeping_rule [OF safe_load_privkey [OF assms(1)]],
    intro impI)
  fix p t
  assume t: "safe s t" "adds (signs_only (of_nat slot) (take 32 d)) s t"
    and p: "p \<noteq> NULL \<longrightarrow> (\<exists>pid k. named_key bt bus dev slot pid k \<and> carries E R p (key_num k) 1 (world t))"
  from t(1) assms(8) have out: "no_session t" by (simp add: safe_def)
  show "wp (if p = NULL then ret NULL else do { ec \<leftarrow> EVP_PKEY_get1_EC_KEY E p; eccx08_ecdsa_sign_sig E (Some d) len ec })
    (\<lambda>sig t. no_session t
    \<and> (sig \<noteq> NULL \<longrightarrow> (\<exists>raw. V (of_nat slot) (take 32 d) raw \<and> hd (trace t) = Set_sig sig (raw_r raw) (raw_s raw)))
    \<and> (\<exists>es. trace t = es @ trace s \<and> list_all (signs_only (of_nat slot) (take 32 d)) es)) t"
  proof (cases "p = NULL")
    case True
    with t(2) out show ?thesis by (simp add: adds_def)
  next
    case False
    with p obtain pid k where "named_key bt bus dev slot pid k" "carries E R p (key_num k) 1 (world t)" by blast
    from wp_sign_loaded [OF assms(1-4,6) out this, of d len] False show ?thesis
      by (simp del: wp_bind) (erule wp_mono, use t(2) adds_trans in \<open>auto simp: signed_by_def adds_def\<close>)
  qed
qed

section \<open>In the concrete world\<close>

abbreviation (input) "sim_refs \<equiv> (\<lambda>ec w. refs w ec)"

lemma sim_counts_refs [simp]: "counts_refs sim_env sim_refs"
  by (simp add: counts_refs_def key_view_def) (simp add: sim_env_def sim_new_def sim_new_key_def)

lemma sim_others_leave_keys [simp]: "others_leave_keys sim_env sim_refs"
  unfolding others_leave_keys_def leaves_keys_def key_view_def
  by (intro conjI allI; simp add: sim_env_def sim_new_def)

theorem named_key_signs_witness:
  "wp (load_and_sign sim_env 1 (key_id_string 0 1 0xC0 2) None (replicate 32 7) 32) (\<lambda>sig t. no_session t
    \<and> (sig \<noteq> NULL \<longrightarrow> (\<exists>raw. raw = sim_raw (of_nat 2) (take 32 (replicate 32 7))
        \<and> hd (trace t) = Set_sig sig (raw_r raw) (raw_s raw)))
    \<and> (\<exists>es. trace t = es @ trace idle \<and> list_all (signs_only (of_nat 2) (take 32 (replicate 32 7))) es)) idle"
  by (rule named_key_signs [where V = "\<lambda>slot d raw. raw = sim_raw slot d" and R = sim_refs]) simp_all

section \<open>What a new key stores\<close>

text \<open>C30: A new key answers for an EC key whose private number is the descriptor, and that has one
  reference. For a name printed by the engine these are the fields of the name with the password
  identifier of the caller; without a name bus type and bus 0, device 0xC0 and the configured
  slot. What the code does not set is uninitialised stack memory and becomes part of the number:
  the 19 reserved bytes, and without a name also the password identifier, whatever the caller
  passed. OpenSSL is assumed to grant the objects asked for, to count their references and to
  keep the number of a key that is referred to.\<close>

theorem new_key_stores_descriptor:
  assumes "ssl_willing E" and "bn_ok E" and "counts_refs E R" and "others_leave_keys E R"
    and "bt < 256" and "bus < 256" and "dev < 256" and "slot < 256"
  shows "wp (eccx08_eckey_new_key E e (Some (key_id_string bt bus dev slot)) pid) (\<lambda>p t. p \<noteq> NULL \<longrightarrow>
      carries E R p (key_num \<lparr>magic = atecc_magic, bus_type = of_nat bt, bus_num = of_nat bus,
        device_num = of_nat dev, slot_num = of_nat slot, password_id = pid,
        reserved = drop 13 (stack_at_new E s)\<rparr>) 1 (world t)) s
    \<and> wp (eccx08_eckey_new_key E e None pid) (\<lambda>p t. p \<noteq> NULL \<longrightarrow>
      carries E R p (key_num \<lparr>magic = atecc_magic, bus_type = 0, bus_num = 0, device_num = 0xC0,
        slot_num = device_key_slot (eccx08_engine_config s), password_id = stack_at_new E s ! 12,
        reserved = drop 13 (stack_at_new E s)\<rparr>) 1 (world t)) s"
proof
  have "new_key_info (eccx08_engine_config s) (stack_at_new E s) None pid =
    (1, \<lparr>magic = atecc_magic, bus_type = 0, bus_num = 0, device_num = 0xC0,
        slot_num = device_key_slot (eccx08_engine_config s), password_id = stack_at_new E s ! 12,
        reserved = drop 13 (stack_at_new E s)\<rparr>)"
    by (simp add: new_key_info_def eccx08_eckey_init_def key_of_bytes_def byte_at_def)
  from wp_new_key_stores [OF assms(1-4) this]
  show "wp (eccx08_eckey_new_key E e None pid) (\<lambda>p t. p \<noteq> NULL \<longrightarrow>
      carries E R p (key_num \<lparr>magic = atecc_magic, bus_type = 0, bus_num = 0, device_num = 0xC0,
        slot_num = device_key_slot (eccx08_engine_config s), password_id = stack_at_new E s ! 12,
        reserved = drop 13 (stack_at_new E s)\<rparr>) 1 (world t)) s" .
qed (rule wp_new_key_stores [OF assms(1-4) new_key_info_named [OF assms(5-8)]])

text \<open>On a stack filled with 0x5A.\<close>

theorem new_key_stores_descriptor_witness:
  "wp (eccx08_eckey_new_key sim_env 1 (Some (key_id_string 0 1 0xC0 2)) 255) (\<lambda>p t. p \<noteq> NULL \<longrightarrow>
      carries sim_env sim_refs p (key_num \<lparr>magic = atecc_magic, bus_type = of_nat 0, bus_num = of_nat 1,
        device_num = of_nat 0xC0, slot_num = of_nat 2, password_id = 255,
        reserved = drop 13 (stack_at_new sim_env idle)\<rparr>) 1 (world t)) idle
    \<and> wp (eccx08_eckey_new_key sim_env 1 None 255) (\<lambda>p t. p \<noteq> NULL \<longrightarrow>
      carries sim_env sim_refs p (key_num \<lparr>magic = atecc_magic, bus_type = 0, bus_num = 0, device_num = 0xC0,
        slot_num = device_key_slot (eccx08_engine_config idle), password_id = stack_at_new sim_env idle ! 12,
        reserved = drop 13 (stack_at_new sim_env idle)\<rparr>) 1 (world t)) idle"
  by (rule new_key_stores_descriptor) simp_all

text \<open>
  And back: what the engine reads from a key it made. The program asks whether the key is one of
  the engine, and then opens the device for it.
\<close>

definition open_again :: "'w env \<Rightarrow> ptr \<Rightarrow> ('w, status \<times> byte option) prog" where
  "open_again E p = do {
     ec \<leftarrow> EVP_PKEY_get1_EC_KEY E p;
     atcab_init_from_privkey_safe E ec
   }"

lemma wp_recognises:
  assumes "bn_ok E" and "counts_refs E R" and "no_session t" and "p \<noteq> NULL"
    and k: "named_key bt bus dev slot pid k" and "carries E R p (key_num k) 1 (world t)"
  shows "wp (eccx08_pkey_isx08key E p) (\<lambda>(r, id) u. r = ENGINE_OPENSSL_SUCCESS \<and> id = Some pid
    \<and> no_session u \<and> carries E R p (key_num k) 1 (world u)) t"
proof -
  obtain ec w where got: "ext_EVP_PKEY_get1_EC_KEY E p (world t) = (ec, w)" and "ec \<noteq> NULL"
    and two: "key_view E R p ec w = (ec, Some (key_num k), Suc (Suc 0))" and held: "holds_key E w ec k"
    and out: "no_session (t\<lparr>world := w, trace := ev_ref Eckey ec @ Obj_use Pkey p # trace t\<rparr>)" (is "no_session ?u")
    using get_loaded [OF assms(2,3) k assms(6)] by blast
  have at: "holds_key E (world ?u) ec k" using held by simp
  have "wp (EC_KEY_free E ec) (\<lambda>_ v. no_session v) ?u"
    by (rule wp_call_no_session [OF out]) simp_all
  moreover have "wp (EC_KEY_free E ec) (\<lambda>_ v. carries E R p (key_num k) 1 (world v)) ?u"
    using counts_refsD(5) [OF assms(2) _ two] \<open>ec \<noteq> NULL\<close>
    by (auto simp: wp_call_eq carries_def split: prod.splits)
  moreover have "password_id k = pid" using k by (simp add: named_key_def)
  ultimately show ?thesis
    using got \<open>ec \<noteq> NULL\<close> assms(4)
    by (simp add: eccx08_pkey_isx08key_def wp_call_eq [of "ext_EVP_PKEY_get1_EC_KEY E p"]
        wp_def [of "eccx08_eckey_isx08key E ec"] isx08key_holds [OF assms(1) at] wp_conj)
qed

text \<open>C31: The way into the number of an EC key and back is lossless in the code: a key that the
  engine makes for a name is recognised by the engine as its own, with the password identifier of
  the caller, and after that it still opens, when it opens a session at all, the device the name
  stands for and gives the slot in the name; its number and its one reference are unchanged by
  the test.\<close>

theorem new_key_recognised:
  assumes "mutex_ok E" and "defaults_ok E" and "no_session s"
    and "ssl_willing E" and "bn_ok E" and "counts_refs E R" and "others_leave_keys E R"
    and "bt < 256" and "bus < 256" and "dev < 256" and "slot < 256"
  shows "wp (eccx08_eckey_new_key E e (Some (key_id_string bt bus dev slot)) pid) (\<lambda>p t. p \<noteq> NULL \<longrightarrow>
    (\<exists>k. named_key bt bus dev slot pid k \<and> wp (eccx08_pkey_isx08key E p) (\<lambda>(r, id) u.
      r = ENGINE_OPENSSL_SUCCESS \<and> id = Some pid \<and> carries E R p (key_num k) 1 (world u)
      \<and> wp (open_again E p) (\<lambda>(st, sl) v. if st = ATCA_SUCCESS
          then in_session v \<and> sl = Some (of_nat slot) \<and> ifacecfg v = device_of E k
          else no_session v \<and> sl = None) u) t)) s"
proof (rule wp_also [OF wp_new_key_carries [OF assms(4-11)]], rule keeping_rule [OF quiet_new_key], intro impI)
  fix p t
  assume "quiet s t" and "p \<noteq> NULL"
    and "p \<noteq> NULL \<longrightarrow> (\<exists>k. named_key bt bus dev slot pid k \<and> carries E R p (key_num k) 1 (world t))"
  then obtain k where k: "named_key bt bus dev slot pid k" "carries E R p (key_num k) 1 (world t)" by blast
  have "no_session t" using \<open>quiet s t\<close> assms(3) by (simp add: quiet_session(1))
  note known = wp_recognises [OF assms(5,6) this \<open>p \<noteq> NULL\<close> k]
  have again: "wp (open_again E p) (\<lambda>(st, sl) v. if st = ATCA_SUCCESS
      then in_session v \<and> sl = Some (of_nat slot) \<and> ifacecfg v = device_of E k
      else no_session v \<and> sl = None) u"
    if out0: "no_session u" and now: "carries E R p (key_num k) 1 (world u)" for u
  proof -
    obtain ec w where got: "ext_EVP_PKEY_get1_EC_KEY E p (world u) = (ec, w)" and held: "holds_key E w ec k"
      and out: "no_session (u\<lparr>world := w, trace := ev_ref Eckey ec @ Obj_use Pkey p # trace u\<rparr>)" (is "no_session ?v")
      using get_loaded [OF assms(6) out0 k(1) now] by blast
    have "wp (atcab_init_from_privkey_safe E ec) (\<lambda>(st, sl) v. if st = ATCA_SUCCESS
      then in_session v \<and> sl = Some (of_nat slot) \<and> ifacecfg v = device_of E k
      else no_session v \<and> sl = None) ?v"
      by (rule wp_mono [OF wp_privkey_device [OF assms(1,5,2) out, of ec k]])
        (use held k(1) in \<open>auto simp: named_key_def split: if_splits\<close>)
    then show ?thesis using got by (simp add: open_again_def wp_call_eq)
  qed
  show "\<exists>k. named_key bt bus dev slot pid k \<and> wp (eccx08_pkey_isx08key E p) (\<lambda>(r, id) u.
      r = ENGINE_OPENSSL_SUCCESS \<and> id = Some pid \<and> carries E R p (key_num k) 1 (world u)
      \<and> wp (open_again E p) (\<lambda>(st, sl) v. if st = ATCA_SUCCESS
          then in_session v \<and> sl = Some (of_nat slot) \<and> ifacecfg v = device_of E k
          else no_session v \<and> sl = None) u) t"
    by (intro exI [of _ k] conjI k(1) wp_mono [OF known]) (use again in \<open>auto split del: if_split\<close>)
qed

theorem new_key_recognised_witness:
  "wp (eccx08_eckey_new_key sim_env 1 (Some (key_id_string 0 1 0xC0 2)) 3) (\<lambda>p t. p \<noteq> NULL \<longrightarrow>
    (\<exists>k. named_key 0 1 0xC0 2 3 k \<and> wp (eccx08_pkey_isx08key sim_env p) (\<lambda>(r, id) u.
      r = ENGINE_OPENSSL_SUCCESS \<and> id = Some 3 \<and> carries sim_env sim_refs p (key_num k) 1 (world u)
      \<and> wp (open_again sim_env p) (\<lambda>(st, sl) v. if st = ATCA_SUCCESS
          then in_session v \<and> sl = Some (of_nat 2) \<and> ifacecfg v = device_of sim_env k
          else no_session v \<and> sl = None) u) t)) idle"
  by (rule new_key_recognised) simp_all

section \<open>Nothing in the way\<close>

text \<open>
  What loading needs beyond \<open>chip_willing\<close> and \<open>ssl_willing\<close>: an object for the key, the public
  key from the chip, a point that OpenSSL accepts, and that a key keeps the group put into it.
\<close>

definition load_willing :: "'w env \<Rightarrow> bool" where
  "load_willing E \<longleftrightarrow>
     (\<forall>w. fst (ext_EVP_PKEY_new E w) \<noteq> NULL)
   \<and> (\<forall>slot w. fst (fst (ext_atcab_get_pubkey E slot w)) = ATCA_SUCCESS)
   \<and> (\<forall>g pt raw w. fst (ext_EC_POINT_oct2point E g pt raw w) \<noteq> 0)
   \<and> (\<forall>k g w. g \<noteq> NULL \<longrightarrow>
        ext_EC_KEY_get0_group E k (snd (ext_EC_GROUP_free E g (snd (ext_EC_KEY_set_group E k g w)))) \<noteq> NULL)"

lemma load_willingD:
  assumes "load_willing E"
  shows "ext_EVP_PKEY_new E w = (p, w') \<Longrightarrow> p \<noteq> NULL"
    and "ext_atcab_get_pubkey E slot w = ((st, raw), w') \<Longrightarrow> st = ATCA_SUCCESS"
    and "ext_EC_POINT_oct2point E g pt bs w = (r, w') \<Longrightarrow> r \<noteq> 0"
    and "g \<noteq> NULL \<Longrightarrow> ext_EC_KEY_set_group E k g w = (i, w1) \<Longrightarrow> ext_EC_GROUP_free E g w1 = (u, w2)
      \<Longrightarrow> ext_EC_KEY_get0_group E k w2 \<noteq> NULL"
  using assms unfolding load_willing_def by (metis fst_conv snd_conv)+

lemma wp_willing_convert:
  assumes "load_willing E" and "ssl_willing E" and "k \<noteq> NULL"
  shows "wp (eccx08_eckey_convert E k (Some (4 # raw)) 65) (\<lambda>r _. r \<noteq> 0) s"
proof -
  have set: "ext_EC_KEY_set_group E k g w = (i, w') \<Longrightarrow> i \<noteq> 0" for g w i w'
    using ssl_willingD(1) [OF assms(2)] unfolding group_ok_def by (metis fst_conv)
  have kept: "0 < g \<Longrightarrow> ext_EC_KEY_set_group E k g w = (i, w1) \<Longrightarrow> ext_EC_GROUP_free E g w1 = ((), w2)
      \<Longrightarrow> 0 < ext_EC_KEY_get0_group E k w2" for g w i w1 w2
    using load_willingD(4) [OF assms(1), of g k w i w1 "()" w2] by simp
  have group: "wp (ensure_group E k) (\<lambda>g _. g \<noteq> NULL) s"
    by (auto simp: ensure_group_def wp_call_eq dest: ssl_willingD(3) [OF assms(2)] set kept split: prod.splits)
  have point: "wp (do {
      point \<leftarrow> EC_POINT_new E g;
      r \<leftarrow> EC_POINT_oct2point E g point raw;
      (if r \<noteq> 0 then do { _ \<leftarrow> EC_KEY_set_public_key E k point; skip } else skip);
      (if point \<noteq> NULL then EC_POINT_free E point else skip);
      ret (if r \<noteq> 0 then ENGINE_OPENSSL_SUCCESS else ENGINE_OPENSSL_FAILURE) }) (\<lambda>r _. r \<noteq> 0) t" for g raw t
    by (auto simp: wp_call_eq dest: load_willingD(3) [OF assms(1)] split: prod.splits)
  show ?thesis
    unfolding eccx08_eckey_convert_def
    using assms(3) by (simp add: byte_at_def del: wp_bind) (rule wp_bindI, rule wp_mono [OF group], simp only: if_False point)
qed

lemma wp_willing_read_pubkey:
  assumes "chip_willing E" and "load_willing E" and "ssl_willing E" and "bn_ok E"
    and "ifacecfg s = None" and "holds_key E (world s) ec k" and "bus_type k = 0" and "ec \<noteq> NULL"
  shows "wp (read_pubkey E ec 255) (\<lambda>st _. st = ATCA_SUCCESS) s"
proof -
  have "wp (fetch_pubkey E ec slot) (\<lambda>st _. st = ATCA_SUCCESS) t" for slot t
    by (auto simp: fetch_pubkey_def get_pubkey_retry_def wp_call_eq dest: load_willingD(2) [OF assms(2)]
        split: prod.splits intro!: wpI [of "atcab_release_safe E"] wp_mono [OF wp_willing_convert [OF assms(2,3,8)]])
  then show ?thesis
    unfolding read_pubkey_def
    by (intro wp_bindI wp_mono [OF wp_willing_privkey [OF assms(1,4-7)]])
      (auto simp: split_beta authorize_def)
qed

lemma wp_new_key_willing: "load_willing E \<Longrightarrow> wp (eccx08_eckey_new_key E e key_id pid) (\<lambda>p _. p \<noteq> NULL) s"
  by (auto simp: eccx08_eckey_new_key_def wp_call_eq wp_any dest: load_willingD(1) split: prod.splits)

lemma wp_load_internal_willing:
  assumes "chip_willing E" and "load_willing E" and "ssl_willing E" and "bn_ok E" and "counts_refs E R"
    and "others_leave_keys E R" and "bus < 256" and "dev < 256" and "slot < 256" and "no_session s"
  shows "wp (eccx08_load_pubkey_internal E e NULL (Some (key_id_string 0 bus dev slot)) 255) (\<lambda>p _. p \<noteq> NULL) s"
  unfolding eccx08_load_pubkey_internal_def
proof (rule wp_bindI, simp only: refl if_True,
    rule wp_also [OF wp_new_key_carries [OF assms(3-6) _ assms(7-9)]], simp,
    rule wp_also [OF wp_new_key_willing [OF assms(2)]], rule keeping_rule [OF quiet_new_key], intro impI)
  fix p t
  assume "quiet s t" and p: "p \<noteq> NULL" and "p \<noteq> NULL \<longrightarrow>
    (\<exists>k. named_key 0 bus dev slot 255 k \<and> carries E R p (key_num k) 1 (world t))"
  then obtain k where k: "named_key 0 bus dev slot 255 k" "carries E R p (key_num k) 1 (world t)" by blast
  have "no_session t" using \<open>quiet s t\<close> assms(10) by (simp add: quiet_session(1))
  from get_loaded [OF assms(5) this k] obtain ec w where got: "ext_EVP_PKEY_get1_EC_KEY E p (world t) = (ec, w)"
    and "ec \<noteq> NULL" and held: "holds_key E w ec k"
    and out: "no_session (t\<lparr>world := w, trace := ev_ref Eckey ec @ Obj_use Pkey p # trace t\<rparr>)" by blast
  have "wp (read_pubkey E ec 255) (\<lambda>st _. st = ATCA_SUCCESS)
      (t\<lparr>world := w, trace := ev_ref Eckey ec @ Obj_use Pkey p # trace t\<rparr>)"
    by (rule wp_willing_read_pubkey [OF assms(1-4), where k = k])
      (use k(1) held out \<open>ec \<noteq> NULL\<close> in \<open>simp_all add: no_session_def named_key_def\<close>)
  then show "wp (if p = NULL then ret NULL else do {
        eckey \<leftarrow> EVP_PKEY_get1_EC_KEY E p;
        status \<leftarrow> (if eckey = NULL then ret ATCA_GEN_FAIL else read_pubkey E eckey 255);
        (if eckey \<noteq> NULL then EC_KEY_free E eckey else skip);
        (if status \<noteq> ATCA_SUCCESS then do { EVP_PKEY_free E p; ret NULL } else ret p) }) (\<lambda>p _. p \<noteq> NULL) t"
    using p got \<open>ec \<noteq> NULL\<close>
    by (simp add: wp_call_eq [of "ext_EVP_PKEY_get1_EC_KEY E p"]) (erule wp_mono, auto simp: wp_any)
qed

lemma wp_sign_loaded_willing:
  assumes "chip_willing E" and "mutex_ok E" and "bn_ok E" and "sig_new_ok E" and "counts_refs E R"
    and t: "no_session t" and k: "named_key 0 bus dev slot 255 k" and p: "carries E R p (key_num k) 1 (world t)"
    and "32 \<le> len"
  shows "wp (do { ec \<leftarrow> EVP_PKEY_get1_EC_KEY E p; eccx08_ecdsa_sign_sig E (Some d) len ec })
    (\<lambda>sig _. sig \<noteq> NULL) t"
proof -
  obtain ec w where got: "ext_EVP_PKEY_get1_EC_KEY E p (world t) = (ec, w)" and held: "holds_key E w ec k"
    and out: "no_session (t\<lparr>world := w, trace := ev_ref Eckey ec @ Obj_use Pkey p # trace t\<rparr>)" (is "no_session ?u")
    using get_loaded [OF assms(5) t k p] by blast
  have at: "holds_key E (world ?u) ec k" using held by simp
  have "wp (eccx08_ecdsa_do_sign_sig E (Some d) len ec) (\<lambda>sig _. sig \<noteq> NULL) ?u"
    by (rule wp_willing_do_sign_sig [OF assms(1-4) out at])
      (use k assms(9) in \<open>simp_all add: named_key_def\<close>)
  then show ?thesis
    using got isx08key_holds [OF assms(3) at]
    by (simp add: wp_call_eq eccx08_ecdsa_sign_sig_def wp_def [of "eccx08_eckey_isx08key E ec"])
qed

text \<open>C6: A key loaded by its name is ready to sign: on an I2C bus, without a password and with a
  digest of at least 32 bytes, an application that loads a private key by a name printed by
  the engine and signs with it gets a signature, provided that mutex (also one taken over from
  a dead owner), heap, chip and OpenSSL grant what they are asked for.\<close>

theorem named_key_served:
  assumes "chip_willing E" and "load_willing E" and "ssl_willing E" and "mutex_ok E" and "bn_ok E"
    and "sig_new_ok E" and "counts_refs E R" and "others_leave_keys E R"
    and "no_session s" and "bus < 256" and "dev < 256" and "slot < 256" and "32 \<le> len"
  shows "wp (load_and_sign E e (key_id_string 0 bus dev slot) None d len) (\<lambda>sig _. sig \<noteq> NULL) s"
proof -
  have load: "eccx08_load_privkey E e key_id None = eccx08_load_pubkey_internal E e NULL key_id 255" for key_id
    by (simp add: eccx08_load_privkey_def eccx08_cbdata_to_password_def)
  show ?thesis
    unfolding load_and_sign_def load
  proof (rule wp_bindI, rule wp_also [OF wp_load_internal_carries [OF assms(3,5,7,8) _ assms(10-12)]], simp,
      rule wp_also [OF wp_load_internal_willing [OF assms(1-3,5,7,8,10-12,9)]],
      rule keeping_rule [OF safe_load_pubkey_internal [OF assms(4)]], intro impI)
    fix p t
    assume "safe s t" and p: "p \<noteq> NULL" and "p \<noteq> NULL \<longrightarrow>
      (\<exists>k. named_key 0 bus dev slot 255 k \<and> carries E R p (key_num k) 1 (world t))"
    then obtain k where k: "named_key 0 bus dev slot 255 k" "carries E R p (key_num k) 1 (world t)" by blast
    have out: "no_session t" using \<open>safe s t\<close> assms(9) by (simp add: safe_def)
    show "wp (if p = NULL then ret NULL
       else do { ec \<leftarrow> EVP_PKEY_get1_EC_KEY E p; eccx08_ecdsa_sign_sig E (Some d) len ec }) (\<lambda>sig _. sig \<noteq> NULL) t"
      using p wp_sign_loaded_willing [OF assms(1,4-7) out k assms(13)] by (simp del: wp_bind)
  qed
qed

lemma sim_load_willing [simp]: "load_willing sim_env"
  by (simp add: load_willing_def sim_env_def sim_new_def)

theorem named_key_served_witness:
  "wp (load_and_sign sim_env 1 (key_id_string 0 1 0xC0 2) None (replicate 32 7) 32) (\<lambda>sig _. sig \<noteq> NULL) idle"
  by (rule named_key_served [where R = sim_refs]) simp_all

end
