(* ===== verification/Ownership_Spec.thy ===== *)
theory Ownership_Spec
  imports Sim
begin

text \<open>
  Properties about the objects of OpenSSL that the signing and loading paths make, borrow and
  release, judged by the reference monitor.
\<close>

section \<open>Signing\<close>

text \<open>C14: On every path through signing, also when the heap, the chip or OpenSSL fail half-way,
  the numbers, points and groups made on the way are released or handed over exactly once:
  the raw form returns either null and no reference, or exactly one reference to a live
  signature object; the DER form keeps none. Nothing is released twice or used after its last
  reference is gone.\<close>

theorem signing_keeps_the_balance:
  "wp (eccx08_ecdsa_do_sign_sig E dgst len ec) (\<lambda>sig t. gains Sig sig s t) s
   \<and> wp (eccx08_ecdsa_sign E dgst len ec) (\<lambda>_ t. gains Sig NULL s t) s"
  by (simp add: wp_do_sign_sig_refs wp_sign_refs)

section \<open>Loading\<close>

text \<open>Loading the public key into an object lent by OpenSSL returns that object or null and
  leaves every reference count as it was, whatever the chip does, provided a new group can be
  put into a key.\<close>

theorem borrowed_key_not_released:
  assumes "group_ok E" and "ref_mon (trace s) = Some m" and "alive m pkey" and "pkey \<noteq> NULL"
  shows "wp (eccx08_load_pubkey_internal E e pkey key_id pid) (\<lambda>p t. (p = NULL \<or> p = pkey)
    \<and> (\<exists>m'. ref_mon (trace t) = Some m' \<and> own m' = own m)) s"
  by (rule wp_load_internal_borrowed [OF assms(2-4,1)])

theorem borrowed_key_not_released_witness:
  "wp (eccx08_load_pubkey_internal sim_env 1 10 None 255) (\<lambda>p t. (p = NULL \<or> p = 10)
    \<and> (\<exists>m'. ref_mon (trace t) = Some m' \<and> own m' = own ref_init)) (with_key (sim_key 255) idle)"
  by (rule borrowed_key_not_released) (simp_all add: with_key_def alive_def ref_init_def)




lemma adds_any: "keeping (adds P) m \<Longrightarrow> keeping (adds (\<lambda>_. True)) m"
  by (erule keeping_adds_weaken) simp

lemma adds_any_authorize: "keeping (adds (\<lambda>_. True)) (authorize E pid)"
  unfolding authorize_def eccx08_auth_password_def
  by (intro adds.keep adds_any [OF adds_do_atecc_auth] adds_any [OF adds_release_safe] adds_flag_ub)











section \<open>A malformed name\<close>

text \<open>C15: Loading a key by a malformed name uses an object after freeing it:
  \<open>eccx08_eckey_new_key\<close> releases the new object when the name does not parse but returns the
  dangling pointer, and its caller asks it for its EC key (and, when that fails, frees it
  again).\<close>

theorem malformed_name_uses_freed_key:
  assumes "length (sscanf key_format cs) \<noteq> 4" and "ref_mon (trace s) = Some m"
    and "ext_EVP_PKEY_new E (world s) = (p, w)" and "p \<noteq> NULL" and "own m Pkey p = 0"
  shows "wp (eccx08_load_pubkey_internal E e NULL (Some cs) pid) (\<lambda>_ t. ref_mon (trace t) = None) s"
proof -
  let ?t = "s\<lparr>world := snd (ext_EVP_PKEY_free E p w), trace := Obj_free Pkey p # Obj_new Pkey p # trace s\<rparr>"
  have new: "run_state (eccx08_eckey_new_key E e (Some cs) pid) s = (p, ?t)"
    using assms(1,3,4)
    by (auto simp: eccx08_eckey_new_key_def new_key_info_def eccx08_eckey_string_to_struct_def
        eccx08_eckey_init_def Let_def ev_new_def ev_free_def split: prod.splits)
  have used: "wp (do {
     eckey \<leftarrow> EVP_PKEY_get1_EC_KEY E p;
     status \<leftarrow> (if eckey = NULL then ret ATCA_GEN_FAIL else read_pubkey E eckey pid);
     (if eckey \<noteq> NULL then EC_KEY_free E eckey else skip);
     (if status \<noteq> ATCA_SUCCESS then do { EVP_PKEY_free E p; ret NULL } else ret p) })
     (\<lambda>_ t. ref_mon (trace t) = None) ?t"
  proof (rule wp_bindI, rule wp_call)
    fix k w'
    let ?u = "?t\<lparr>world := w', trace := (ev_ref Eckey k @ [Obj_use Pkey p]) @ trace ?t\<rparr>"
    have gone: "ref_mon (trace ?u) = None" using assms(2,5) by (simp add: ev_ref_def)
    have "keeping (adds (\<lambda>_. True)) (do {
     status \<leftarrow> (if k = NULL then ret ATCA_GEN_FAIL else read_pubkey E k pid);
     (if k \<noteq> NULL then EC_KEY_free E k else skip);
     (if status \<noteq> ATCA_SUCCESS then do { EVP_PKEY_free E p; ret NULL } else ret p) })"
      unfolding read_pubkey_def
      by (intro adds.keep adds_any_authorize adds_any [OF adds_init_from_privkey] adds_any [OF adds_fetch_pubkey]
          adds_call) (simp_all add: list_all_iff)
    then show "wp (do {
     status \<leftarrow> (if k = NULL then ret ATCA_GEN_FAIL else read_pubkey E k pid);
     (if k \<noteq> NULL then EC_KEY_free E k else skip);
     (if status \<noteq> ATCA_SUCCESS then do { EVP_PKEY_free E p; ret NULL } else ret p) })
     (\<lambda>_ t. ref_mon (trace t) = None) ?u"
      by (rule keeping_rule) (rule adds_rejected [OF _ gone])
  qed
  have "wp (eccx08_eckey_new_key E e (Some cs) pid) (\<lambda>a t. a = p \<and> t = ?t) s"
    by (simp add: wp_def new)
  note made = wp_mono [OF this]
  show ?thesis
    unfolding eccx08_load_pubkey_internal_def
    by (rule wp_bindI, simp only: refl if_True, rule made) (use used assms(4) in simp)
qed

theorem malformed_name_uses_freed_key_witness:
  "wp (eccx08_load_pubkey_internal sim_env 1 NULL (Some ''ATECCx08'') 255) (\<lambda>_ t. ref_mon (trace t) = None) idle"
proof (rule malformed_name_uses_freed_key [where m = ref_init])
  show "ext_EVP_PKEY_new sim_env (world idle) = (101, sim0\<lparr>fresh := 101\<rparr>)"
    by (simp add: sim_env_def sim_new_def idle_def engine_start_def sim0_def)
qed (simp_all add: key_format_def ref_init_def)

end
