(* ===== verification/Certs_Spec.thy ===== *)
theory Certs_Spec
  imports Signing_Spec
begin

text \<open>
  Properties of the static certificate descriptions (\<^verbatim>\<open>cert_def_*.c\<close>), their copies
  (\<^verbatim>\<open>eccx08_cert.c\<close>) and the certificate commands (\<^verbatim>\<open>eccx08_cmd_defns.c\<close>).
\<close>

section \<open>The static descriptions\<close>

text \<open>C39: The places in the static descriptions are exactly those the standards give for their
  templates. A template is one DER sequence that fills it, the signed part its first element.
  In a certificate (RFC 5280) the key is the 64 bytes after the unused-bits and the point-form
  byte of its bit string, the signature the third element, the issue date the first time of the
  validity, the expiry date the second (unused in a certificate that does not expire), the serial
  number the second element of the signed part, and the key identifiers are the contents of
  their extensions. The signer identifier is the end of a common name: of the subject in the
  signer's certificate, of the issuer in the device's. A request (RFC 2986) has key and signature
  only. What is read from the chip fits: a stored key has 72 bytes, with padding, a computed one
  64, a stored serial number the size of its place, a compressed certificate 72; the further
  elements are the two dates, without overlap in their slot.\<close>

theorem certificate_places:
  "places_ok (\<lambda>t es. x509_places t es Subject 10) g_cert_def_1_signer
   \<and> places_ok (\<lambda>t es. x509_places t es Issuer 0) g_cert_def_2_device
   \<and> places_ok csr_places g_csr_def_3_device
   \<and> expire_years (meta g_cert_def_1_signer) = 10 \<and> expire_years (meta g_cert_def_2_device) = 0
   \<and> list_all (\<lambda>d. chip_sizes_ok d \<and> elements_ok d)
       [g_cert_def_1_signer, g_cert_def_2_device, g_csr_def_3_device]"
  using signer_places device_places request_places chip_sizes chip_elements
  by (simp add: g_cert_def_1_signer_def g_cert_def_2_device_def)

section \<open>Copies\<close>

text \<open>C40: Copying a description gives null, or a structure with the same content: the same
  template bytes, the same elements, the same sizes, in memory of its own. When memory runs
  out half-way everything allocated is freed again; otherwise exactly the blocks of the copy
  are held.\<close>

theorem cert_copy_faithful:
  assumes "cert_wf d" and "ref_mon (trace s) = Some m"
  shows "wp (eccx08_cert_copy L n k (Some d)) (\<lambda>r t.
    (case r of None \<Rightarrow> True | Some (p, c) \<Rightarrow> p \<noteq> NULL \<and> same_content c d \<and> cert_wf c)
    \<and> (\<exists>m'. ref_mon (trace t) = Some m' \<and> own m' = count_refs (own m) (cert_refs r))) s"
proof -
  have "wp (eccx08_cert_copy L n k (Some d)) (\<lambda>r t.
      case r of None \<Rightarrow> True | Some (p, c) \<Rightarrow> p \<noteq> NULL \<and> same_content c d \<and> cert_wf c) s"
    by (rule wp_mono [OF wp_cert_copy [OF assms(1)]])
      (use assms(1) in \<open>auto intro: same_content_wf split: option.splits\<close>)
  with wp_cert_copy_refs [OF assms] show ?thesis by (simp add: wp_conj)
qed

theorem cert_copy_faithful_witness:
  "wp (eccx08_cert_copy sim_cert 128 64 (Some g_cert_def_2_device)) (\<lambda>r t.
    (case r of None \<Rightarrow> True | Some (p, c) \<Rightarrow> p \<noteq> NULL \<and> same_content c g_cert_def_2_device \<and> cert_wf c)
    \<and> (\<exists>m'. ref_mon (trace t) = Some m' \<and> own m' = count_refs (own ref_init) (cert_refs r))) idle"
  by (rule cert_copy_faithful) (simp_all add: static_certs_wf)

text \<open>Finishing the engine twice frees the certificate copies twice: the clean-up frees them
  but leaves the pointers set, so the second one touches memory that is gone, whenever the
  engine held at most one reference to the first copy.\<close>

theorem second_cleanup_double_free:
  assumes "g_cert_def_1_signer_ptr s = Some (p, d)" and "p \<noteq> NULL"
    and "ref_mon (trace s) = Some m" and "own m Mem p \<le> 1"
  shows "wp (do { _ \<leftarrow> eccx08_cert_cleanup L; eccx08_cert_cleanup L })
    (\<lambda>_ t. ref_mon (trace t) = None) s"
proof (rule wp_bindI, rule wp_also [OF keepingD [OF ptrs_cleanup]])
  have few: "fewer p (Suc 0) s" using assms(3,4) by (simp add: fewer_def)
  show "wp (eccx08_cert_cleanup L) (\<lambda>_ t. cert_ptrs_same s t \<longrightarrow>
      wp (eccx08_cert_cleanup L) (\<lambda>_ t. ref_mon (trace t) = None) t) s"
    by (rule wp_mono [OF wp_cleanup_fewer [OF assms(1,2) few]])
      (use assms(1,2) in \<open>auto simp: cert_ptrs_same_def intro: wp_cleanup_gone\<close>)
qed

theorem second_cleanup_double_free_witness:
  "wp (do { _ \<leftarrow> eccx08_cert_cleanup sim_cert; eccx08_cert_cleanup sim_cert })
    (\<lambda>_ t. ref_mon (trace t) = None)
    (idle\<lparr>g_cert_def_1_signer_ptr := Some (101, g_cert_def_1_signer), trace := [Obj_new Mem 101]\<rparr>)"
  by (rule second_cleanup_double_free [where p = 101 and d = g_cert_def_1_signer and m = "ref_init\<lparr>own := upd no_refs Mem 101 1,
      shared := upd (\<lambda>_ _. True) Mem 101 False, dead := upd (\<lambda>_ _. False) Mem 101 False\<rparr>"])
    (simp_all add: ref_init_def)

section \<open>The commands\<close>

text \<open>The command that loads the device certificate into an OpenSSL object never succeeds:
  it passes no place for the key, which the function it calls insists on.\<close>

theorem load_device_cert_never_succeeds:
  "fst (run_state (load_device_cert E L p) s) \<noteq> ATCA_SUCCESS"
  using run_load_device_cert [of E L _ s] by (cases p) (auto simp: load_device_cert_def)

text \<open>When the device cannot be released cleanly, the command that stores the signer
  certificate in a file reports success although it has not written the file: with a willing
  chip whose reads all succeed, the status is good and no write took place.\<close>

theorem unreleased_cert_reported_but_not_written:
  assumes "chip_willing E" and "mutex_ok E" and "no_session s" and "pCfg s = Some c"
    and "name \<noteq> ''''"
    and release: "\<And>w. fst (ext_atcab_release E w) \<noteq> ATCA_SUCCESS"
    and malloc: "\<And>n w. fst (ext_OPENSSL_malloc L n w) \<noteq> NULL"
    and reads: "\<And>slot w. fst (fst (ext_atcab_read_pubkey L slot w)) = ATCA_SUCCESS"
      "\<And>d ca n w. fst (fst (ext_atcacert_read_cert L d ca n w)) = ATCA_SUCCESS"
  shows "wp (get_cert E L (Some name) (Some (p, d)) None) (\<lambda>st t. st = ATCA_SUCCESS
    \<and> (\<exists>es. trace t = es @ trace s \<and> (\<forall>f bs. File_write f bs \<notin> set es))) s"
proof -
  have m: "ext_OPENSSL_malloc L n w = (q, w') \<Longrightarrow> q \<noteq> NULL" for n w q w'
    using malloc by (metis fst_conv)
  have r1: "ext_atcab_read_pubkey L slot w = ((st, bs), w') \<Longrightarrow> st = ATCA_SUCCESS" for slot w st bs w'
    using reads(1) by (metis fst_conv)
  have r2: "ext_atcacert_read_cert L d ca n w = ((st, bs), w') \<Longrightarrow> st = ATCA_SUCCESS" for ca n w st bs w'
    using reads(2) by (metis fst_conv)
  have body: "wp (read_cert_body L d False n) (\<lambda>r _. fst r = ATCA_SUCCESS) t" for n t
    by (auto simp: read_cert_body_def wp_call_eq dest: r1 r2 split: prod.splits)
  have session: "wp (cert_session E L name d False) (\<lambda>r _. fst r = ATCA_SUCCESS \<and> snd r = NULL) t"
    if "ifacecfg t = None" "pCfg t = Some c" for t
    unfolding cert_session_def
    by (rule wp_bindI, simp only: wp_gets that(2), rule wp_bindI, rule wp_mono [OF wp_willing_init [OF assms(1) that(1)]],
        simp only: simp_thms if_False, rule wp_bindI, rule wp_mono [OF body])
      (auto simp: split_beta intro!: wp_release_fails [OF release])
  have "wp (get_cert E L (Some name) (Some (p, d)) None) (\<lambda>st t. st = ATCA_SUCCESS) s"
    using assms(3-5)
    by (auto simp: get_cert_def wp_call_eq no_session_def dest: m split: prod.splits
        intro!: wp_mono [OF session])
  moreover have "wp (get_cert E L (Some name) (Some (p, d)) None) (\<lambda>_ t. adds no_file s t) s"
    by (rule keepingD [OF no_file_get_cert [OF release]])
  ultimately show ?thesis
    by (auto simp: wp_def adds_def list_all_iff split_beta) (metis file_ev.simps(1))
qed

theorem unreleased_cert_reported_but_not_written_witness:
  "wp (get_cert (sim_env\<lparr>ext_atcab_release := \<lambda>w. (0xF0, w)\<rparr>) sim_cert (Some ''s.der'')
      (Some (101, g_cert_def_1_signer)) None) (\<lambda>st t. st = ATCA_SUCCESS
    \<and> (\<exists>es. trace t = es @ trace (idle\<lparr>pCfg := Some sim_i2c\<rparr>) \<and> (\<forall>f bs. File_write f bs \<notin> set es)))
    (idle\<lparr>pCfg := Some sim_i2c\<rparr>)"
proof (rule unreleased_cert_reported_but_not_written)
  show "no_session (idle\<lparr>pCfg := Some sim_i2c\<rparr>)"
    using idle_no_session by (auto simp: sess_defs)
qed (simp_all add: chip_willing_def mutex_ok_def, simp_all add: sim_env_def sim_new_def sim_cert_def)

end
