(* ===== verification/Cmds_Spec.thy ===== *)
theory Cmds_Spec
  imports Sim
begin

text \<open>
  Properties of the control commands (\<^verbatim>\<open>eccx08_cmd_defns.c\<close>), of the method tables
  (\<^verbatim>\<open>eccx08_eckey_meth.c\<close>) and of binding and finishing the engine (\<^verbatim>\<open>eccx08_engine.c\<close>).
\<close>

section \<open>Builds\<close>

text \<open>Builds are ordered by what they switch on, so that what only grows with options is \<^const>\<open>mono\<close>.\<close>

instantiation build_ext :: (order) order
begin

definition less_eq_build_ext :: "'a build_scheme \<Rightarrow> 'a build_scheme \<Rightarrow> bool" where
  "less_eq_build_ext a b \<longleftrightarrow> ENABLE_RAND a \<le> ENABLE_RAND b \<and> ENABLE_SHA256 a \<le> ENABLE_SHA256 b
     \<and> ENABLE_CERTS a \<le> ENABLE_CERTS b \<and> REGISTER_ECDH a \<le> REGISTER_ECDH b
     \<and> REGISTER_PKEY a \<le> REGISTER_PKEY b \<and> build.more a \<le> build.more b"

definition less_build_ext :: "'a build_scheme \<Rightarrow> 'a build_scheme \<Rightarrow> bool" where
  "less_build_ext a b \<longleftrightarrow> a \<le> b \<and> \<not> b \<le> a"

instance
  by standard (auto simp: less_eq_build_ext_def less_build_ext_def)

end

section \<open>The table of commands\<close>

definition table_names :: "bool \<Rightarrow> string list" where
  "table_names certs = [''VERSION'', ''GET_DEVICE_KEY'']
     @ (if certs then [''GET_DEVICE_CERT'', ''GET_SIGNER_CERT'', ''LOAD_CERT_CTRL''] else [])
     @ [''SET_KEY_SLOT'', ''set_transport_key'', ''set_ecdh_slot'', ''set_ecdh_count'']
     @ (if certs then [''set_device_cert_def'', ''set_signer_cert_def''] else [])"

lemma distinct_table_names: "distinct (table_names True)" "distinct (table_names False)"
  by code_simp+

lemma table_columns:
  "map cmd_name (butlast (eccx08_cmd_defns b)) = map Some (table_names (ENABLE_CERTS b))"
  "map cmd_num (butlast (eccx08_cmd_defns b)) =
     (if ENABLE_CERTS b then [200, 201, 202, 203, 204, 205, 206, 207, 208, 209, 210]
      else [200, 201, 205, 206, 207, 208])"
  "list_all (\<lambda>d. cmd_desc d \<noteq> None) (butlast (eccx08_cmd_defns b))"
  "last (eccx08_cmd_defns b) = \<lparr>cmd_num = 0, cmd_name = None, cmd_desc = None, cmd_flags = 0\<rparr>"
  by (simp_all add: eccx08_cmd_defns_def table_names_def defn_def butlast_append)

lemma optional_parts:
  "c \<le> c' \<Longrightarrow> set (as @ (if c then bs else []) @ cs @ (if c then ds else []) @ es)
     \<subseteq> set (as @ (if c' then bs else []) @ cs @ (if c' then ds else []) @ es)"
  by auto

text \<open>In every build the table is one OpenSSL can search: command numbers strictly
  increasing from \<open>ENGINE_CMD_BASE\<close> and below \<open>ECCX08_CMD_MAX\<close>, no name twice, every entry
  named, and a nameless terminator at the end and only there. Switching an option on only
  adds commands.\<close>

theorem command_table_wf:
  "sorted_wrt (<) (map cmd_num (butlast (eccx08_cmd_defns b)))
   \<and> set (map cmd_num (butlast (eccx08_cmd_defns b))) \<subseteq> {200..<211}
   \<and> distinct (map cmd_name (butlast (eccx08_cmd_defns b)))
   \<and> None \<notin> set (map cmd_name (butlast (eccx08_cmd_defns b)))
   \<and> cmd_num (last (eccx08_cmd_defns b)) = 0 \<and> cmd_name (last (eccx08_cmd_defns b)) = None
   \<and> mono (\<lambda>b :: build. set (eccx08_cmd_defns b))"
proof (intro conjI)
  show "mono (\<lambda>b :: build. set (eccx08_cmd_defns b))"
    unfolding eccx08_cmd_defns_def
    by (rule monoI, rule optional_parts) (simp add: less_eq_build_ext_def)
  show "distinct (map cmd_name (butlast (eccx08_cmd_defns b)))"
    unfolding table_columns distinct_map using distinct_table_names
    by (cases "ENABLE_CERTS b") simp_all
  show "None \<notin> set (map cmd_name (butlast (eccx08_cmd_defns b)))"
    unfolding table_columns set_map by blast
  show "sorted_wrt (<) (map cmd_num (butlast (eccx08_cmd_defns b)))"
    and "set (map cmd_num (butlast (eccx08_cmd_defns b))) \<subseteq> {200..<211}"
    unfolding table_columns by simp_all
  show "cmd_num (last (eccx08_cmd_defns b)) = 0" and "cmd_name (last (eccx08_cmd_defns b)) = None"
    unfolding table_columns by simp_all
qed

text \<open>The three commands that configure ECDH are in the table of every build, so OpenSSL
  accepts them by name, but in a build without ECDH (the default) each of them fails and
  changes nothing, whatever its argument.\<close>

theorem ecdh_commands_advertised_but_fail:
  assumes "n \<in> {206, 207, 208}" and "\<not> REGISTER_ECDH b"
  shows "n \<in> cmd_num ` set (eccx08_cmd_defns b)
    \<and> run_state (eccx08_cmd_ctrl b E L B e n i p) s = (ENGINE_OPENSSL_FAILURE, s)"
proof
  have "n \<in> set (map cmd_num (butlast (eccx08_cmd_defns b)))"
    unfolding table_columns using assms(1) by auto
  then show "n \<in> cmd_num ` set (eccx08_cmd_defns b)" by (auto dest: in_set_butlastD)
  have "run_cmd b E L B e n i p = ret ATCA_GEN_FAIL"
    using assms unfolding run_cmd_def by (elim insertE emptyE) simp_all
  moreover have "\<not> (n < 200 \<or> 211 \<le> n)" using assms(1) by auto
  ultimately show "run_state (eccx08_cmd_ctrl b E L B e n i p) s = (ENGINE_OPENSSL_FAILURE, s)"
    by (simp add: eccx08_cmd_ctrl_def)
qed

theorem ecdh_commands_advertised_but_fail_witness:
  "207 \<in> cmd_num ` set (eccx08_cmd_defns default_build)
    \<and> run_state (eccx08_cmd_ctrl default_build sim_env sim_cert sim_bio 1 207 3
        \<lparr>as_string = None, as_cert_params = None, as_bytes = None\<rparr>) idle = (ENGINE_OPENSSL_FAILURE, idle)"
  by (rule ecdh_commands_advertised_but_fail) (simp_all add: default_build_def)

text \<open>The command that chooses the key slot takes it from the low 32 bits of its argument:
  it succeeds exactly when these are below 16, then sets the slot to them and nothing else;
  otherwise nothing changes. So a negative argument or one beyond 32 bits may select a slot.\<close>

theorem key_slot_command:
  "run_state (eccx08_cmd_ctrl b E L B e 205 i p) s =
    (if i mod 2 ^ 32 < 16
     then (ENGINE_OPENSSL_SUCCESS, s\<lparr>eccx08_engine_config :=
       (eccx08_engine_config s)\<lparr>device_key_slot := word_of_int (i mod 2 ^ 32)\<rparr>\<rparr>)
     else (ENGINE_OPENSSL_FAILURE, s))"
proof -
  let ?w = "word_of_int i :: 32 word"
  have u: "uint ?w = i mod 2 ^ 32" by (simp add: uint_word_of_int)
  then have "?w < 16 \<longleftrightarrow> i mod 2 ^ 32 < 16" by (simp add: word_less_def)
  moreover have "ucast ?w = (word_of_int (i mod 2 ^ 32) :: byte)"
    unfolding u [symmetric] by simp
  ultimately show ?thesis
    by (simp add: eccx08_cmd_ctrl_def run_cmd_def set_device_key_slot_def)
qed

text \<open>A command number outside the engine's range is reported as a success and does
  nothing.\<close>

theorem unknown_command_succeeds:
  assumes "n < 200 \<or> 211 \<le> n"
  shows "run_state (eccx08_cmd_ctrl b E L B e n i p) s = (ENGINE_OPENSSL_SUCCESS, s)"
  using assms by (auto simp: eccx08_cmd_ctrl_def)

theorem unknown_command_succeeds_witness:
  "run_state (eccx08_cmd_ctrl default_build sim_env sim_cert sim_bio 1 211 0
      \<lparr>as_string = None, as_cert_params = None, as_bytes = None\<rparr>) idle = (ENGINE_OPENSSL_SUCCESS, idle)"
  by (rule unknown_command_succeeds) simp

section \<open>Method tables\<close>

text \<open>Setting up the public-key methods keeps the functions of OpenSSL's own table as the
  defaults to fall back on and puts the engine's seven functions in their place, in the
  engine's table only as far as that is what the accessors do; also when the engine is bound
  a second time and its table already holds the engine's functions, so no callback ever
  becomes its own default.\<close>

theorem pkey_methods_installed:
  assumes "pmeth_ok M" and "eccx08_pkey_meth s \<noteq> NULL"
    and "\<forall>x. \<exists>p. ext_EVP_PKEY_meth_get M (ext_EVP_PKEY_meth_find M (world s)) x (world s) \<in> {No_fn, Lib_fn p}"
  shows "wp (eccx08_pkey_meth_init M) (\<lambda>r t. r = ENGINE_OPENSSL_SUCCESS
    \<and> eccx08_pkey_def_f t = defaults_of M (ext_EVP_PKEY_meth_find M (world s)) (world s) (eccx08_pkey_def_f s)
    \<and> (\<forall>x. ext_EVP_PKEY_meth_get M (eccx08_pkey_meth t) x (world t) = the (map_of own_pmeth x))
    \<and> (\<forall>f. {def_init (eccx08_pkey_def_f t), def_keygen_init (eccx08_pkey_def_f t),
        def_keygen (eccx08_pkey_def_f t), def_sign_init (eccx08_pkey_def_f t), def_sign (eccx08_pkey_def_f t),
        def_derive_init (eccx08_pkey_def_f t), def_derive (eccx08_pkey_def_f t)} \<inter> {Own_fn f} = {})) s"
proof (rule wp_mono [OF wp_pkey_meth_init [OF assms(1,2)]], intro conjI)
  have "ext_EVP_PKEY_meth_get M (ext_EVP_PKEY_meth_find M (world s)) x (world s) \<noteq> Own_fn f" for x f
    using assms(3) by (metis empty_iff fn_ptr.distinct(3,5) insert_iff)
  then show "\<forall>f. {def_init (eccx08_pkey_def_f t), def_keygen_init (eccx08_pkey_def_f t),
        def_keygen (eccx08_pkey_def_f t), def_sign_init (eccx08_pkey_def_f t), def_sign (eccx08_pkey_def_f t),
        def_derive_init (eccx08_pkey_def_f t), def_derive (eccx08_pkey_def_f t)} \<inter> {Own_fn f} = {}"
    if "r = ENGINE_OPENSSL_SUCCESS \<and> eccx08_pkey_meth t = eccx08_pkey_meth s
      \<and> eccx08_pkey_def_f t = defaults_of M (ext_EVP_PKEY_meth_find M (world s)) (world s) (eccx08_pkey_def_f s)
      \<and> (\<forall>x. ext_EVP_PKEY_meth_get M (eccx08_pkey_meth t) x (world t) = the (map_of own_pmeth x))" for r t
    using that by (auto simp: defaults_of_def)
qed auto

theorem pkey_methods_installed_witness:
  "wp (eccx08_pkey_meth_init sim_meth) (\<lambda>r t. r = ENGINE_OPENSSL_SUCCESS
    \<and> eccx08_pkey_def_f t = defaults_of sim_meth (ext_EVP_PKEY_meth_find sim_meth (world (idle\<lparr>eccx08_pkey_meth := 8\<rparr>)))
        (world (idle\<lparr>eccx08_pkey_meth := 8\<rparr>)) (eccx08_pkey_def_f (idle\<lparr>eccx08_pkey_meth := 8\<rparr>))
    \<and> (\<forall>x. ext_EVP_PKEY_meth_get sim_meth (eccx08_pkey_meth t) x (world t) = the (map_of own_pmeth x))
    \<and> (\<forall>f. {def_init (eccx08_pkey_def_f t), def_keygen_init (eccx08_pkey_def_f t),
        def_keygen (eccx08_pkey_def_f t), def_sign_init (eccx08_pkey_def_f t), def_sign (eccx08_pkey_def_f t),
        def_derive_init (eccx08_pkey_def_f t), def_derive (eccx08_pkey_def_f t)} \<inter> {Own_fn f} = {}))
    (idle\<lparr>eccx08_pkey_meth := 8\<rparr>)"
  by (rule pkey_methods_installed) (simp, simp, simp add: sim_meth_def idle_def engine_start_def sim0_def)

section \<open>Binding and finishing\<close>

text \<open>The registrations of a bind, in order, for the method table at \<open>p\<close>.\<close>

definition registrations :: "build \<Rightarrow> ptr \<Rightarrow> engine_attr list" where
  "registrations b p = [Set_id ''ateccx08'', Set_name ''Microchip ATECCx08 Engine'', Set_fn Eccx08_init,
     Set_fn Eccx08_destroy, Set_fn Eccx08_finish, Set_fn Eccx08_cmd_ctrl, Set_cmd_defns]
   @ (if ENABLE_RAND b then [Set_RAND] else [])
   @ (if ENABLE_SHA256 b then [Set_fn Eccx08_sha256_selector] else [])
   @ (if ENABLE_CERTS b then [Set_load_ssl_client_cert] else [])
   @ [Set_EC p, Set_fn Eccx08_load_pubkey, Set_fn Eccx08_load_privkey]
   @ (if REGISTER_PKEY b then [Set_fn Eccx08_pmeth_selector] else [])"

fun engine_sets :: "ptr \<Rightarrow> ev list \<Rightarrow> engine_attr list" where
  "engine_sets e [] = []"
| "engine_sets e (Engine_set p a # es) = (if p = e then engine_sets e es @ [a] else engine_sets e es)"
| "engine_sets e (x # es) = engine_sets e es"

lemma wp_engine_set:
  "wp (ENGINE_set G e a) Q s = (case ext_ENGINE_set G e a (world s) of
     (r, w) \<Rightarrow> Q r (s\<lparr>world := w, trace := (if r \<noteq> 0 then [Engine_set e a] else []) @ trace s\<rparr>))"
  by (simp add: wp_call_eq)

definition sets :: "ptr \<Rightarrow> engine_attr list \<Rightarrow> 'w eng \<Rightarrow> 'w eng \<Rightarrow> bool" where
  "sets e as s t \<longleftrightarrow> engine_sets e (trace t) = engine_sets e (trace s) @ as \<and> this_engine t = this_engine s"

lemma sets_trans: "sets e as s t \<Longrightarrow> sets e bs t u \<Longrightarrow> sets e (as @ bs) s u"
  by (simp add: sets_def)

definition step_sets :: "ptr \<Rightarrow> (engine_attr list \<Rightarrow> bool) \<Rightarrow> ('w, int) prog \<Rightarrow> bool" where
  "step_sets e P m \<longleftrightarrow> (\<forall>s. wp m (\<lambda>r t. this_engine t = this_engine s \<and> (r \<noteq> 0 \<longrightarrow> (\<exists>as. P as \<and> sets e as s t))) s)"

lemma wp_all_steps_sets:
  assumes "list_all2 (step_sets e) Ps ms"
  shows "wp (all_steps ms) (\<lambda>r t. (r = 0 \<or> r = 1) \<and> this_engine t = this_engine s
    \<and> (r \<noteq> 0 \<longrightarrow> (\<exists>ass. list_all2 (\<lambda>P as. P as) Ps ass \<and> sets e (concat ass) s t))) s"
  using assms
proof (induction Ps ms arbitrary: s rule: list_all2_induct)
  case Nil
  then show ?case by (simp add: sets_def)
next
  case (Cons P Ps m ms)
  let ?Q = "\<lambda>r t. (r = 0 \<or> r = 1) \<and> this_engine t = this_engine s
    \<and> (r \<noteq> 0 \<longrightarrow> (\<exists>ass. list_all2 (\<lambda>P as. P as) (P # Ps) ass \<and> sets e (concat ass) s t))"
  from Cons(1) have first: "wp m (\<lambda>r t. this_engine t = this_engine s \<and> (r \<noteq> 0 \<longrightarrow> (\<exists>as. P as \<and> sets e as s t))) s"
    by (simp add: step_sets_def)
  show ?case
    unfolding all_steps.simps
  proof (rule wp_bindI, rule wp_mono [OF first], elim conjE)
    fix r and t :: "'a eng"
    assume t: "this_engine t = this_engine s" "r \<noteq> 0 \<longrightarrow> (\<exists>as. P as \<and> sets e as s t)"
    have "wp (all_steps ms) ?Q t" if "P as" "sets e as s t" for as
    proof (rule wp_mono [OF Cons(3)], elim conjE, intro conjI impI)
      fix r' u assume u: "this_engine u = this_engine t"
        "r' \<noteq> 0 \<longrightarrow> (\<exists>ass. list_all2 (\<lambda>P as. P as) Ps ass \<and> sets e (concat ass) t u)"
      show "this_engine u = this_engine s" using t(1) u(1) by simp
      assume "r' \<noteq> 0"
      with u(2) obtain ass where "list_all2 (\<lambda>P as. P as) Ps ass" "sets e (concat ass) t u" by blast
      with that have "list_all2 (\<lambda>P as. P as) (P # Ps) (as # ass)" "sets e (concat (as # ass)) s u"
        by (auto intro: sets_trans)
      then show "\<exists>ass. list_all2 (\<lambda>P as. P as) (P # Ps) ass \<and> sets e (concat ass) s u" by blast
    qed
    then show "wp (if r = 0 then ret ENGINE_OPENSSL_FAILURE else all_steps ms) ?Q t"
      using t by auto
  qed
qed

lemma step_sets_engine_set: "step_sets e ((=) [a]) (ENGINE_set G e a)"
  by (auto simp: step_sets_def wp_call_eq sets_def split: prod.splits)

lemma step_sets_bind_ec: "step_sets e (\<lambda>as. \<exists>p > 0. as = [Set_EC p]) (bind_ec M G e)"
  by (auto simp: step_sets_def bind_ec_def eccx08_ec_init_def eccx08_ecdsa_init_meth_def wp_call_eq
      sets_def ev_new_def split: prod.splits)

lemma step_sets_pkey: "step_sets e ((=) []) (eccx08_pkey_meth_init M)"
  by (auto simp: step_sets_def eccx08_pkey_meth_init_def save_defaults_def wp_call_eq sets_def split: prod.splits)

definition step_specs :: "build \<Rightarrow> (engine_attr list \<Rightarrow> bool) list" where
  "step_specs b = map (\<lambda>a. (=) [a]) [Set_id engine_eccx08_id, Set_name engine_eccx08_name, Set_fn Eccx08_init,
     Set_fn Eccx08_destroy, Set_fn Eccx08_finish, Set_fn Eccx08_cmd_ctrl, Set_cmd_defns]
   @ (if ENABLE_RAND b then [(=) [Set_RAND]] else [])
   @ (if ENABLE_SHA256 b then [(=) [Set_fn Eccx08_sha256_selector]] else [])
   @ (if ENABLE_CERTS b then [(=) [Set_load_ssl_client_cert]] else [])
   @ [\<lambda>as. \<exists>p > 0. as = [Set_EC p], (=) [Set_fn Eccx08_load_pubkey], (=) [Set_fn Eccx08_load_privkey]]
   @ (if REGISTER_PKEY b then [(=) [], (=) [Set_fn Eccx08_pmeth_selector]] else [])"

lemma bind_steps_specs: "list_all2 (step_sets e) (step_specs b) (bind_steps b M G e)"
  by (simp add: step_specs_def bind_steps_def step_sets_engine_set step_sets_bind_ec step_sets_pkey)

lemma specs_registrations:
  "list_all2 (\<lambda>P as. P as) (step_specs b) ass \<Longrightarrow> \<exists>p > 0. concat ass = registrations b p"
  by (cases "ENABLE_CERTS b"; cases "REGISTER_PKEY b")
    (auto simp: step_specs_def registrations_def engine_eccx08_id_def engine_eccx08_name_def list_all2_Cons1)

text \<open>Binding the engine is all or nothing for what the engine remembers: it succeeds only
  if every one of its registrations was accepted by OpenSSL, in order and for the options of
  the build, with a method table that is not null, and only then does \<open>this_engine\<close> point to
  the engine; when any step fails the result is failure and \<open>this_engine\<close> is as it was. An
  engine of another name is not touched at all.\<close>

theorem bind_registers_everything:
  "wp (bind_helper b M G e ident) (\<lambda>r t. (r = ENGINE_OPENSSL_SUCCESS \<or> r = ENGINE_OPENSSL_FAILURE)
    \<and> (if r = ENGINE_OPENSSL_SUCCESS
       then this_engine t = e
         \<and> (\<exists>p. p \<noteq> NULL \<and> engine_sets e (trace t) = engine_sets e (trace s) @ registrations b p)
       else this_engine t = this_engine s)
    \<and> (if ident \<in> {None, Some ''ateccx08''} then True else r = ENGINE_OPENSSL_FAILURE \<and> t = s)) s"
proof (cases "ident \<noteq> None \<and> ident \<noteq> Some ''ateccx08''")
  case True
  then show ?thesis by (simp add: bind_helper_def engine_eccx08_id_def)
next
  case False
  then have "ident = None \<or> ident = Some engine_eccx08_id" by (auto simp: engine_eccx08_id_def)
  moreover note False
  ultimately show ?thesis
    unfolding bind_helper_def
    by (simp add: engine_eccx08_id_def del: all_steps.simps)
      (rule wp_mono [OF wp_all_steps_sets [OF bind_steps_specs]],
        auto simp: sets_def intro: specs_registrations)
qed

definition keeps_ec :: "'w eng \<Rightarrow> 'w eng \<Rightarrow> bool" where
  "keeps_ec s t \<longleftrightarrow> eccx08_ec t = eccx08_ec s \<and> set (trace s) \<subseteq> set (trace t)"

interpretation ec: frame keeps_ec
  by unfold_locales (auto simp: keeps_ec_def)

lemma ec_call: "keeping keeps_ec (call f evs)"
  by (rule keepingI, rule wp_call) (auto simp: keeps_ec_def)

lemma ec_modify: "(\<And>s. eccx08_ec (f s) = eccx08_ec s) \<Longrightarrow> (\<And>s. trace (f s) = trace s) \<Longrightarrow> keeping keeps_ec (modify f)"
  by (simp add: keeping_def keeps_ec_def)

lemma ec_init: "keeping keeps_ec (eccx08_init b hal E L n k)"
proof -
  have "keeping keeps_ec (eccx08_platform_init E hal)"
    by (cases hal) (auto simp: keeping_def keeps_ec_def eccx08_platform_init_def)
  moreover have "keeping keeps_ec (eccx08_cert_init L n k)"
    unfolding eccx08_cert_init_def eccx08_cert_copy_def eccx08_cert_new_def
    by (intro ec.keep ec_call ec_modify) simp_all
  moreover have "keeping keeps_ec (eccx08_rand_init E)"
    by (simp add: keeping_def keeps_ec_def eccx08_rand_init_def)
  ultimately show ?thesis
    unfolding eccx08_init_def init_mutex_def eccx08_err_load_strings_def set_lock_handle_def set_lock_state_def
    by (intro ec.keep ec_call ec_modify) simp_all
qed

text \<open>Finishing the engine and initialising it again leaves it without its EC method table:
  \<open>eccx08_finish\<close> frees the table and forgets it, and \<open>eccx08_init\<close>, on every path, does not
  make it again, so that keys made from then on are given a null method.\<close>

theorem reinitialised_engine_has_no_method:
  assumes "eccx08_ec s = p" and "p \<noteq> NULL"
  shows "wp (do { _ \<leftarrow> eccx08_finish b L M; eccx08_init b hal E L n k })
    (\<lambda>_ t. eccx08_ec t = NULL \<and> Obj_free Method p \<in> set (trace t)) s"
proof (rule wp_bindI)
  have "keeping keeps_ec (if ENABLE_CERTS b then do { _ \<leftarrow> eccx08_cert_cleanup L; skip } else skip)"
    unfolding eccx08_cert_cleanup_def eccx08_cert_free_def free_cert_arrays_def log_ev_def
    by (intro ec.keep ec_call) (auto simp: keeping_def keeps_ec_def)
  then have "wp (eccx08_finish b L M) (\<lambda>_ t. eccx08_ec t = NULL \<and> Obj_free Method p \<in> set (trace t)) s"
    unfolding eccx08_finish_def
    by (intro wp_bindI, elim keeping_rule)
      (use assms in \<open>auto simp: eccx08_ec_cleanup_def wp_call_eq keeps_ec_def ev_free_def split: prod.splits\<close>)
  then show "wp (eccx08_finish b L M) (\<lambda>_. wp (eccx08_init b hal E L n k)
      (\<lambda>_ t. eccx08_ec t = NULL \<and> Obj_free Method p \<in> set (trace t))) s"
    by (rule wp_mono) (rule keeping_rule [OF ec_init], auto simp: keeps_ec_def)
qed

theorem reinitialised_engine_has_no_method_witness:
  "wp (do { _ \<leftarrow> eccx08_finish default_build sim_cert sim_meth; eccx08_init default_build HAL_I2C sim_env sim_cert 128 64 })
    (\<lambda>_ t. eccx08_ec t = NULL \<and> Obj_free Method 6 \<in> set (trace t)) (idle\<lparr>eccx08_ec := 6\<rparr>)"
  by (rule reinitialised_engine_has_no_method) simp_all

end
