(* ===== verification/Rand_Spec.thy ===== *)
theory Rand_Spec
  imports Signing_Spec Rand
begin

text \<open>
  What the random bytes of the engine are: the loop over the caller's buffer against a
  reference function that draws blocks from the chip one after the other, the number of
  commands it takes, and what the variant that seeds OpenSSL's generator does instead.
\<close>

section \<open>The reference\<close>

text \<open>Documented: a successful random command gives 32 bytes.\<close>

definition random_ok :: "'w env \<Rightarrow> bool" where
  "random_ok E \<longleftrightarrow> (\<forall>w. length (snd (fst (ext_atcab_random E w))) = 32)"

lemma random_okD: "random_ok E \<Longrightarrow> ext_atcab_random E w = ((st, block), w') \<Longrightarrow> length block = 32"
  unfolding random_ok_def by (metis fst_conv snd_conv)

text \<open>The next \<open>n\<close> blocks of the chip, if it gives them all.\<close>

fun chip_stream :: "'w env \<Rightarrow> nat \<Rightarrow> 'w \<Rightarrow> bytes option \<times> 'w" where
  "chip_stream E 0 w = (Some [], w)"
| "chip_stream E (Suc n) w =
     (case ext_atcab_random E w of ((st, block), w') \<Rightarrow>
        if st \<noteq> ATCA_SUCCESS then (None, w')
        else case chip_stream E n w' of (r, w'') \<Rightarrow> (map_option ((@) block) r, w''))"

definition blocks :: "int \<Rightarrow> nat" where
  "blocks num = (nat num + 31) div 32"

lemma blocks_Suc: "32 < num \<Longrightarrow> blocks num = Suc (blocks (num - 32))"
proof -
  assume "32 < num"
  then have "nat num + 31 = nat (num - 32) + 31 + 32" by simp
  then show ?thesis unfolding blocks_def by (metis One_nat_def add.right_neutral add_Suc_right div_add_self2 zero_neq_numeral)
qed

lemma blocks_one: "0 < num \<Longrightarrow> num \<le> 32 \<Longrightarrow> blocks num = 1"
  unfolding blocks_def by (rule div_nat_eqI) auto

lemma blocks_pos: "0 < num \<Longrightarrow> 0 < blocks num"
  by (cases "32 < num") (simp_all add: blocks_Suc blocks_one)

lemma length_chip_stream:
  "random_ok E \<Longrightarrow> chip_stream E n w = (Some bs, w') \<Longrightarrow> length bs = 32 * n"
  by (induction n arbitrary: w bs) (auto split: prod.splits if_splits dest: random_okD)

text \<open>The trace of a run of \<open>n\<close> good commands, and of one that failed after fewer than \<open>n\<close>.\<close>

definition drew :: "nat \<Rightarrow> 'w eng \<Rightarrow> 'w eng \<Rightarrow> bool" where
  "drew n s t \<longleftrightarrow> ub t = ub s \<and> trace t = replicate n (Dev_cmd Random ATCA_SUCCESS) @ trace s"

definition failed_within :: "nat \<Rightarrow> 'w eng \<Rightarrow> 'w eng \<Rightarrow> bool" where
  "failed_within n s t \<longleftrightarrow> ub t = ub s \<and> (\<exists>m < n. \<exists>st. st \<noteq> ATCA_SUCCESS \<and>
     trace t = Dev_cmd Random st # replicate m (Dev_cmd Random ATCA_SUCCESS) @ trace s)"

lemma drew_Suc:
  assumes "drew n (s\<lparr>world := w, trace := Dev_cmd Random ATCA_SUCCESS # trace s\<rparr>) t"
  shows "drew (Suc n) s t"
  using assms by (simp add: drew_def replicate_app_Cons_same)

lemma failed_Suc:
  assumes "failed_within n (s\<lparr>world := w, trace := Dev_cmd Random ATCA_SUCCESS # trace s\<rparr>) t"
  shows "failed_within (Suc n) s t"
proof -
  obtain m st where "m < n" "st \<noteq> ATCA_SUCCESS" "ub t = ub s"
    "trace t = Dev_cmd Random st # replicate m (Dev_cmd Random ATCA_SUCCESS) @ Dev_cmd Random ATCA_SUCCESS # trace s"
    using assms by (auto simp: failed_within_def)
  then show ?thesis
    unfolding failed_within_def by (intro conjI exI [of _ "Suc m"] exI [of _ st]) (simp_all add: replicate_app_Cons_same)
qed

text \<open>The loop is the reference: same world, same bytes, same commands, on success and failure.\<close>

lemma rand_loop_stream:
  assumes "random_ok E" and "0 < num" and "off + nat num \<le> length mem"
  shows "wp (rand_loop E mem off num) (\<lambda>(k, out) t.
    (case chip_stream E (blocks num) (world s) of (r, w) \<Rightarrow> world t = w \<and>
      (case r of Some bs \<Rightarrow> k = 0 \<and> out = write_at off (take (nat num) bs) mem \<and> drew (blocks num) s t
       | None \<Rightarrow> k \<noteq> 0 \<and> failed_within (blocks num) s t))) s"
  using assms
proof (induction E mem off num arbitrary: s rule: rand_loop.induct)
  case (1 E mem off num)
  obtain st block w where c: "ext_atcab_random E (world s) = ((st, block), w)"
    by (metis prod.exhaust)
  have len: "length block = 32" using "1.prems"(1) c by (rule random_okD)
  let ?s = "s\<lparr>world := w, trace := Dev_cmd Random st # trace s\<rparr>"
  show ?case
  proof (cases "st = ATCA_SUCCESS")
    case False
    obtain n where n: "blocks num = Suc n" using blocks_pos [OF "1.prems"(2)] by (cases "blocks num") auto
    with c False "1.prems" show ?thesis
      by (subst rand_loop.simps) (auto simp: wp_call_eq failed_within_def)
  next
    case True
    show ?thesis
    proof (cases "32 < num")
      case more: True
      have room: "off + 32 \<le> length mem" using "1.prems"(3) more by simp
      let ?mem = "write_at off block mem"
      have IH: "wp (rand_loop E ?mem (off + ATCA_BLOCK_SIZE) (num - int ATCA_BLOCK_SIZE)) (\<lambda>(k, out) t.
        (case chip_stream E (blocks (num - int ATCA_BLOCK_SIZE)) (world ?s) of (r, w) \<Rightarrow> world t = w \<and>
          (case r of Some bs \<Rightarrow> k = 0 \<and> out = write_at (off + ATCA_BLOCK_SIZE) (take (nat (num - int ATCA_BLOCK_SIZE)) bs) ?mem
              \<and> drew (blocks (num - int ATCA_BLOCK_SIZE)) ?s t
           | None \<Rightarrow> k \<noteq> 0 \<and> failed_within (blocks (num - int ATCA_BLOCK_SIZE)) ?s t))) ?s"
        by (rule "1.IH") (use more "1.prems" room len True in auto)
      have joined: "write_at (off + 32) (take (nat (num - 32)) bs) ?mem = write_at off (take (nat num) (block @ bs)) mem"
        if "chip_stream E (blocks (num - 32)) w = (Some bs, w')" for bs w'
        using write_at_twice [of off block "take (nat (num - 32)) bs" mem] len more "1.prems"(3)
        by (simp add: nat_diff_distrib)
      have "wp (rand_loop E ?mem (off + 32) (num - 32)) (\<lambda>(k, out) t.
        (case chip_stream E (blocks num) (world s) of (r, w) \<Rightarrow> world t = w \<and>
          (case r of Some bs \<Rightarrow> k = 0 \<and> out = write_at off (take (nat num) bs) mem \<and> drew (blocks num) s t
           | None \<Rightarrow> k \<noteq> 0 \<and> failed_within (blocks num) s t))) ?s"
        by (rule wp_mono [OF IH [unfolded of_nat_numeral]])
          (use True in \<open>auto simp: blocks_Suc [OF more] c joined split: option.splits prod.splits
             intro: drew_Suc failed_Suc\<close>)
      with more c True room len show ?thesis
        by (subst rand_loop.simps) (simp add: wp_call_eq store_at_def)
    next
      case False
      with "1.prems" c True len show ?thesis
        by (subst rand_loop.simps)
          (auto simp: wp_call_eq store_at_def blocks_one drew_def)
    qed
  qed
qed

text \<open>The concrete world, with the device configuration of an initialised engine.\<close>

definition ready :: "sim eng" where
  "ready = idle\<lparr>pCfg := Some sim_i2c\<rparr>"

lemma ready_facts [simp]: "no_session ready" "pCfg ready = Some sim_i2c" "ub ready = None" "total_num ready = 0"
  using idle_no_session unfolding no_session_def
  by (simp_all add: ready_def sess_defs) (simp_all add: idle_def engine_start_def)

lemma sim_random_ok [simp]: "random_ok sim_env"
  by (simp add: random_ok_def sim_env_def)

lemma sim_random [simp]: "fst (fst (ext_atcab_random sim_env w)) = ATCA_SUCCESS"
  by (simp add: sim_env_def)

section \<open>Requests\<close>

text \<open>C5: Random bytes are the chip's: a request for at least one byte that the buffer has room
  for refines the reference, which draws blocks from the chip one after the other. It succeeds
  only with as many blocks in a row as the request needs, all of them good, and then the first
  \<open>num\<close> bytes of the buffer are the first \<open>num\<close> bytes of these blocks, in order, each byte of
  the chip used once, and the rest of the buffer is untouched; on every outcome the session is
  closed again and nothing undefined happened.\<close>

theorem random_bytes_are_the_chips:
  assumes "mutex_ok E" and "random_ok E" and "no_session s" and "pCfg s = Some c"
    and "0 < num" and "nat num \<le> length mem"
  shows "wp (RAND_eccx08_rand_bytes E (Some mem) num) (\<lambda>(r, out) t. no_session t \<and> ub t = ub s \<and>
    (if r = ENGINE_OPENSSL_SUCCESS
     then \<exists>w bs w'. chip_stream E (blocks num) w = (Some bs, w') \<and> length bs = 32 * blocks num
       \<and> nat num \<le> length bs \<and> out = Some (take (nat num) bs @ drop (nat num) mem)
     else r = ENGINE_OPENSSL_FAILURE)) s"
proof -
  have enough: "nat num \<le> 32 * blocks num" unfolding blocks_def by simp
  have body: "wp (do {
      (num', mem') \<leftarrow> rand_loop E mem 0 num;
      _ \<leftarrow> atcab_release_safe E;
      ret (if num' \<noteq> 0 then ENGINE_OPENSSL_FAILURE else ENGINE_OPENSSL_SUCCESS, Some mem')
    }) (\<lambda>(r, out) t. no_session t \<and> ub t = ub s \<and>
      (if r = ENGINE_OPENSSL_SUCCESS
       then \<exists>w bs w'. chip_stream E (blocks num) w = (Some bs, w') \<and> length bs = 32 * blocks num
         \<and> nat num \<le> length bs \<and> out = Some (take (nat num) bs @ drop (nat num) mem)
       else r = ENGINE_OPENSSL_FAILURE)) u"
    if u: "in_session u" "ub u = ub s" for u :: "'a eng"
  proof -
    have "wp (rand_loop E mem 0 num) (\<lambda>r t. in_session t \<and> (case r of (k, out) \<Rightarrow> \<lambda>t.
      (case chip_stream E (blocks num) (world u) of (r, w) \<Rightarrow> world t = w \<and>
        (case r of Some bs \<Rightarrow> k = 0 \<and> out = write_at 0 (take (nat num) bs) mem \<and> drew (blocks num) u t
         | None \<Rightarrow> k \<noteq> 0 \<and> failed_within (blocks num) u t))) t) u"
      unfolding wp_conj
      by (rule conjI, rule wp_rand_loop_session [OF u(1)], assumption, rule rand_loop_stream [OF assms(2,5)])
        (simp add: assms(6))
    then show ?thesis
    proof (rule wp_bindI [OF wp_mono], elim conjE, goal_cases)
      case (1 r t)
      then obtain k out where r: "r = (k, out)" and t: "in_session t"
        and got: "case chip_stream E (blocks num) (world u) of (r, w) \<Rightarrow> world t = w \<and>
          (case r of Some bs \<Rightarrow> k = 0 \<and> out = write_at 0 (take (nat num) bs) mem \<and> drew (blocks num) u t
           | None \<Rightarrow> k \<noteq> 0 \<and> failed_within (blocks num) u t)"
        by (cases r) auto
      show ?case
        unfolding r prod.case
        by (rule wp_bindI, rule wp_atcab_release_safe [OF t])
          (use got u(2) enough length_chip_stream [OF assms(2), of "blocks num" "world u"] assms(6) in
            \<open>auto simp: drew_def failed_within_def keeps_def write_at_def split: option.splits prod.splits
               if_splits intro!: exI [of _ "world u"]\<close>)
    qed
  qed
  show ?thesis
    unfolding RAND_eccx08_rand_bytes_def using assms(4,5)
    by (simp del: wp_bind, intro wp_bindI wp_gets [THEN iffD2], simp del: wp_bind add: assms(4))
      (rule wp_atcab_init_safe [OF assms(1,3)], auto simp: keeps_def simp del: wp_bind intro!: body)
qed

theorem random_bytes_are_the_chips_witness:
  "wp (RAND_eccx08_rand_bytes sim_env (Some (replicate 50 0)) 40) (\<lambda>(r, out) t. no_session t \<and> ub t = ub ready \<and>
    (if r = ENGINE_OPENSSL_SUCCESS
     then \<exists>w bs w'. chip_stream sim_env (blocks 40) w = (Some bs, w') \<and> length bs = 32 * blocks 40
       \<and> nat 40 \<le> length bs \<and> out = Some (take (nat 40) bs @ drop (nat 40) (replicate 50 0))
     else r = ENGINE_OPENSSL_FAILURE)) ready"
  by (rule random_bytes_are_the_chips) simp_all

text \<open>The loop ends after at most \<open>blocks num\<close> commands (one at least); only the last may fail.\<close>

lemma rand_loop_bounded:
  "wp (rand_loop E mem off num) (\<lambda>_ t. \<exists>sts. length sts \<le> max 1 (blocks num) \<and>
     trace t = map (Dev_cmd Random) sts @ trace s \<and> (\<forall>st \<in> set (tl sts). st = ATCA_SUCCESS)) s"
proof (induction E mem off num arbitrary: s rule: rand_loop.induct)
  case (1 E mem off num)
  let ?Q = "\<lambda>s t. \<exists>sts. length sts \<le> max 1 (blocks num) \<and>
     trace t = map (Dev_cmd Random) sts @ trace s \<and> (\<forall>st \<in> set (tl sts). st = ATCA_SUCCESS)"
  have once: "\<exists>sts. length sts \<le> max (Suc 0) n \<and> [Dev_cmd Random st] = map (Dev_cmd Random) sts
    \<and> (\<forall>st \<in> set (tl sts). st = ATCA_SUCCESS)" for n st
    by (intro exI [of _ "[st]"]) simp
  have more: "wp (rand_loop E m (off + ATCA_BLOCK_SIZE) (num - int ATCA_BLOCK_SIZE)) (\<lambda>_. ?Q s) u"
    if "0 < num - int ATCA_BLOCK_SIZE" "trace u = Dev_cmd Random ATCA_SUCCESS # trace s" for m and u :: "'a eng"
  proof -
    have "wp (rand_loop E m (off + ATCA_BLOCK_SIZE) (num - int ATCA_BLOCK_SIZE)) (\<lambda>_ t. \<exists>sts.
       length sts \<le> max 1 (blocks (num - int ATCA_BLOCK_SIZE)) \<and>
       trace t = map (Dev_cmd Random) sts @ trace u \<and> (\<forall>st \<in> set (tl sts). st = ATCA_SUCCESS)) u"
      by (rule "1.IH") (use that in auto)
    then show ?thesis
    proof (rule wp_mono, elim exE conjE, goal_cases)
      case (1 a t sts)
      then show ?case
        by (intro exI [of _ "sts @ [ATCA_SUCCESS]"])
          (use that blocks_pos [of "num - 32"] in \<open>cases sts; auto simp: blocks_Suc max_def split: if_splits\<close>)
    qed
  qed
  show ?case
    by (subst rand_loop.simps)
      (auto simp: wp_call_eq store_at_def split: prod.splits intro!: once more [simplified])
qed


fun is_command :: "ev \<Rightarrow> bool" where
  "is_command (Dev_cmd c st) = True"
| "is_command e = False"

lemma session_no_commands: "list_all session_ev es \<Longrightarrow> filter is_command es = [] \<and> list_all (cmd_in C) es"
proof (induction es)
  case (Cons e es)
  then show ?case by (cases e) auto
qed simp

text \<open>The newest event comes first; so of the commands only the head may be one that failed.\<close>

definition draws :: "nat \<Rightarrow> 'w eng \<Rightarrow> 'w eng \<Rightarrow> bool" where
  "draws n s t \<longleftrightarrow> (\<exists>es. trace t = es @ trace s \<and> list_all (cmd_in {Random}) es
     \<and> length (filter is_command es) \<le> n
     \<and> list_all (\<lambda>e. e = Dev_cmd Random ATCA_SUCCESS) (tl (filter is_command es)))"

lemma draws_none: "draws n s s"
  by (simp add: draws_def)

lemma draws_session:
  "adds session_ev s t \<Longrightarrow> draws n t u \<Longrightarrow> draws n s u"
  "draws n s t \<Longrightarrow> adds session_ev t u \<Longrightarrow> draws n s u"
proof -
  assume "adds session_ev s t" and "draws n t u"
  then obtain es es' where "trace t = es @ trace s" "list_all session_ev es" "trace u = es' @ trace t"
    "list_all (cmd_in {Random}) es'" "length (filter is_command es') \<le> n"
    "list_all (\<lambda>e. e = Dev_cmd Random ATCA_SUCCESS) (tl (filter is_command es'))"
    unfolding adds_def draws_def by auto
  then show "draws n s u"
    using session_no_commands [of es "{Random}"] unfolding draws_def by (intro exI [of _ "es' @ es"]) simp
next
  assume "draws n s t" and "adds session_ev t u"
  then obtain es es' where "trace u = es @ trace t" "list_all session_ev es" "trace t = es' @ trace s"
    "list_all (cmd_in {Random}) es'" "length (filter is_command es') \<le> n"
    "list_all (\<lambda>e. e = Dev_cmd Random ATCA_SUCCESS) (tl (filter is_command es'))"
    unfolding adds_def draws_def by auto
  then show "draws n s u"
    using session_no_commands [of es "{Random}"] unfolding draws_def by (intro exI [of _ "es @ es'"]) simp
qed

lemma draws_bracket:
  "adds session_ev s t \<Longrightarrow> draws n t u \<Longrightarrow> adds session_ev u v \<Longrightarrow> draws n s v"
  by (rule draws_session(2) [OF draws_session(1)])

lemma rand_loop_draws: "wp (rand_loop E mem off num) (\<lambda>_ t. draws (max 1 (blocks num)) s t) s"
proof (rule wp_mono [OF rand_loop_bounded], elim exE conjE, goal_cases)
  case (1 r t sts)
  have "list_all (cmd_in {Random}) (map (Dev_cmd Random) sts)"
    "filter is_command (map (Dev_cmd Random) sts) = map (Dev_cmd Random) sts" by (induction sts) simp_all
  with 1 show ?case unfolding draws_def
    by (intro exI [of _ "map (Dev_cmd Random) sts"]) (simp add: list_all_iff flip: map_tl)
qed

text \<open>C27: A request ends after at most one command for every 32 bytes begun (one for a request
  that is not positive), whatever the chip answers, and runs no other command. A command that
  fails is the last one: of the request's commands, the newest first, all but the head have
  succeeded.\<close>

theorem random_request_bounded:
  "wp (RAND_eccx08_rand_bytes E buf num) (\<lambda>_ t. \<exists>es. trace t = es @ trace s
     \<and> list_all (cmd_in {Random}) es \<and> length (filter is_command es) \<le> max 1 (blocks num)
     \<and> list_all (\<lambda>e. e = Dev_cmd Random ATCA_SUCCESS) (tl (filter is_command es))) s"
proof -
  have "wp (RAND_eccx08_rand_bytes E buf num) (\<lambda>_ t. draws (max 1 (blocks num)) s t) s"
    unfolding RAND_eccx08_rand_bytes_def
    by (cases buf) (auto simp: draws_none split_beta intro: draws_session draws_bracket
      intro!: keeping_rule [OF adds_init_safe] wp_mono [OF rand_loop_draws] keeping_rule [OF adds_release_safe])
  then show ?thesis unfolding draws_def .
qed

lemma wp_willing_open:
  assumes "chip_willing E" and "mutex_ok E" and "no_session s"
    and "\<And>t. in_session t \<Longrightarrow> keeps s t \<Longrightarrow> Q ATCA_SUCCESS t"
  shows "wp (atcab_init_safe E (Some c)) Q s"
proof (rule wp_also [OF wp_willing_init [OF assms(1)]])
  show "ifacecfg s = None" using assms(3) by (simp add: no_session_def)
  show "wp (atcab_init_safe E (Some c)) (\<lambda>st t. st = ATCA_SUCCESS \<longrightarrow> Q st t) s"
    by (rule wp_atcab_init_safe [OF assms(2,3)]) (auto intro: assms(4))
qed

lemma chip_stream_good:
  "(\<And>w. fst (fst (ext_atcab_random E w)) = ATCA_SUCCESS) \<Longrightarrow> fst (chip_stream E n w) \<noteq> None"
proof (induction n arbitrary: w)
  case (Suc n)
  from Suc(2) [of w] Suc(1) [OF Suc(2)] show ?case
    by (auto simp: split_beta)
qed simp

text \<open>C33: A request that the buffer has room for succeeds when mutex, heap and chip are willing.\<close>

theorem random_request_served:
  assumes "chip_willing E" and "mutex_ok E" and "random_ok E" and "no_session s" and "pCfg s = Some c"
    and "\<And>w. fst (fst (ext_atcab_random E w)) = ATCA_SUCCESS" and "0 < num" and "nat num \<le> length mem"
  shows "wp (RAND_eccx08_rand_bytes E (Some mem) num) (\<lambda>(r, _) _. r = ENGINE_OPENSSL_SUCCESS) s"
proof -
  have "wp (rand_loop E mem 0 num) (\<lambda>(k, _) _. k = 0) t" for t
    by (rule wp_mono [OF rand_loop_stream [OF assms(3,7)]])
      (use assms(8) chip_stream_good [OF assms(6)] in \<open>auto split: option.splits prod.splits, metis fst_conv\<close>)
  then show ?thesis
    unfolding RAND_eccx08_rand_bytes_def using assms(5,7)
    by (auto simp: split_beta intro!: wp_willing_open [OF assms(1,2,4)] elim!: wp_mono)
      (auto simp: wp_def split_beta)
qed

theorem random_request_served_witness:
  "wp (RAND_eccx08_rand_bytes sim_env (Some (replicate 50 0)) 40) (\<lambda>(r, _) _. r = ENGINE_OPENSSL_SUCCESS) ready"
  by (rule random_request_served) simp_all

text \<open>A request for a negative number of bytes is not refused: it opens the device, draws a
  block and copies an enormous number of bytes (the size argument of \<^verbatim>\<open>memcpy\<close> is unsigned)
  over the end of the caller's buffer.\<close>

theorem negative_request_overflows:
  assumes "chip_willing E" and "mutex_ok E" and "no_session s" and "pCfg s = Some c" and "ub s = None"
    and "\<And>w. fst (fst (ext_atcab_random E w)) = ATCA_SUCCESS" and "num < 0"
  shows "wp (RAND_eccx08_rand_bytes E (Some mem) num) (\<lambda>_ t. ub t = Some Buffer_overflow) s"
proof -
  have loop: "wp (rand_loop E mem 0 num) (\<lambda>_ t. in_session t \<and> ub t = Some Buffer_overflow) t"
    if "in_session t" "ub t = None" for t
    unfolding wp_conj
  proof
    show "wp (rand_loop E mem 0 num) (\<lambda>_. in_session) t" by (rule wp_rand_loop_session [OF that(1)])
    show "wp (rand_loop E mem 0 num) (\<lambda>_ t. ub t = Some Buffer_overflow) t"
      by (subst rand_loop.simps) (use assms(6) [of "world t"] assms(7) that in \<open>auto simp: wp_call_eq split_beta\<close>)
  qed
  have close: "wp (atcab_release_safe E) (\<lambda>_ t. ub t = Some Buffer_overflow) t"
    if "in_session t" "ub t = Some Buffer_overflow" for t
    by (rule wp_atcab_release_safe [OF that(1)]) (use that in \<open>simp add: keeps_def\<close>)
  show ?thesis
    unfolding RAND_eccx08_rand_bytes_def using assms(4,5,7)
    by (auto simp: split_beta keeps_def intro!: wp_willing_open [OF assms(1-3)] wp_mono [OF loop] close)
qed

theorem negative_request_overflows_witness:
  "wp (RAND_eccx08_rand_bytes sim_env (Some (replicate 50 0)) (- 1)) (\<lambda>_ t. ub t = Some Buffer_overflow) ready"
  by (rule negative_request_overflows) simp_all

section \<open>The variant that seeds OpenSSL\<close>

text \<open>In the variant that is to seed OpenSSL's generator the chip's randomness never reaches
  the generator: what is added to it is the content of the caller's buffer, and of the chip's
  32 bytes only the first four are read, as the number of the entropy estimate. So two chips
  that agree on the status and these four bytes give the same result and the same state,
  however the other 28 bytes differ.\<close>

theorem seed_only_ignores_the_chip:
  assumes "\<And>w. ext_atcab_random E' w = map_prod (map_prod id g) id (ext_atcab_random E w)"
    and "\<And>block. take 4 (g block) = take 4 block" and "E' = E\<lparr>ext_atcab_random := ext_atcab_random E'\<rparr>"
  shows "run_state (RAND_eccx08_rand_bytes_seed_only E' buf num) s =
         run_state (RAND_eccx08_rand_bytes_seed_only E buf num) s"
proof -
  obtain r where r: "E' = E\<lparr>ext_atcab_random := r\<rparr>" using assms(3) by blast
  have lock: "lock_if_not_ours E' = lock_if_not_ours E" by (simp add: lock_if_not_ours_def r cong: if_cong)
  have global: "eccx08_global_lock E' = eccx08_global_lock E" "eccx08_global_unlock E' = eccx08_global_unlock E"
    using lock by (simp_all add: eccx08_global_lock_def eccx08_global_unlock_def r cong: if_cong)
  have raise: "eccx08_raise_session_error E' = eccx08_raise_session_error E"
    by (intro ext) (simp add: eccx08_raise_session_error_def eccx08_err_load_strings_def r cong: if_cong)
  have locked: "init_locked E' = init_locked E"
    using global raise by (intro ext) (simp add: init_locked_def resync_recovered_def r cong: if_cong)
  have session: "atcab_init_safe E' cfg = atcab_init_safe E cfg" "atcab_release_safe E' = atcab_release_safe E" for cfg
    using global raise locked by (simp_all add: atcab_init_safe_def atcab_release_safe_def r cong: if_cong)
  have rest: "ext_RAND_add E' = ext_RAND_add E" "ext_RAND_bytes E' = ext_RAND_bytes E"
    "ext_load_u32 E' = ext_load_u32 E" by (simp_all add: r)
  have "run_state (reseed E' buf num) t = run_state (reseed E buf num) t" for t
    unfolding reseed_def session rest
    by (simp add: assms(1,2) split_beta cong: if_cong)
  then show ?thesis
    unfolding RAND_eccx08_rand_bytes_seed_only_def rest by (simp add: split_beta)
qed

theorem seed_only_ignores_the_chip_witness:
  "run_state (RAND_eccx08_rand_bytes_seed_only
     (sim_env\<lparr>ext_atcab_random := \<lambda>w. map_prod (map_prod id (\<lambda>b. take 4 b @ map (\<lambda>_. 0) (drop 4 b))) id (ext_atcab_random sim_env w)\<rparr>)
     (Some [1, 2, 3]) 3) ready =
   run_state (RAND_eccx08_rand_bytes_seed_only sim_env (Some [1, 2, 3]) 3) ready"
  by (rule seed_only_ignores_the_chip [where g = "\<lambda>b. take 4 b @ map (\<lambda>_. 0) (drop 4 b)"]) (auto simp: not_le)

text \<open>In that variant a random command that fails leaves the session open, and with it the
  generator is gone for good: the counter stays at zero, so the next request opens the device
  again, which is refused and gives the mutex of the open session away, and fails.\<close>

theorem seed_only_failure_is_permanent:
  assumes "chip_willing E" and "mutex_ok E" and "no_session s" and "pCfg s = Some c" and "total_num s = 0"
    and "\<And>w. fst (fst (ext_atcab_random E w)) \<noteq> ATCA_SUCCESS"
  shows "wp (do {
      (first, _) \<leftarrow> RAND_eccx08_rand_bytes_seed_only E buf num;
      (second, _) \<leftarrow> RAND_eccx08_rand_bytes_seed_only E buf' num';
      ret (first, second)
    }) (\<lambda>rs t. rs = (0, 0) \<and> ifacecfg t \<noteq> None \<and> chip_mon (trace t) = None) s"
proof -
  have second: "wp (RAND_eccx08_rand_bytes_seed_only E buf' num') (\<lambda>(r, _) t. r = 0 \<and> ifacecfg t \<noteq> None
      \<and> chip_mon (trace t) = None) t"
    if t: "in_session t" "total_num t = 0" for t
    unfolding RAND_eccx08_rand_bytes_seed_only_def reseed_def
    using t by (auto simp: nested_unlock [simplified] in_session_def intro!: wp_nested_init [OF t(1)])
  have fails: "wp (atcab_random E) Q t"
    if "\<And>r w. fst r \<noteq> ATCA_SUCCESS \<Longrightarrow> Q r (t\<lparr>world := w, trace := Dev_cmd Random (fst r) # trace t\<rparr>)" for Q t
    using that [of "fst (ext_atcab_random E (world t))"] assms(6) [of "world t"]
    by (simp add: wp_call_eq split_beta)
  have first: "wp (RAND_eccx08_rand_bytes_seed_only E buf num) (\<lambda>(r, _) t. r = 0 \<and> in_session t \<and> total_num t = 0) s"
    unfolding RAND_eccx08_rand_bytes_seed_only_def reseed_def using assms(4,5)
    by (auto simp: keeps_def cfg_same_def intro!: in_session_cmd wp_willing_open [OF assms(1-3)] fails)
  show ?thesis
    by (rule wp_bindI, rule wp_mono [OF first]) (auto intro!: wp_mono [OF second])
qed

theorem seed_only_failure_is_permanent_witness:
  "wp (do {
      (first, _) \<leftarrow> RAND_eccx08_rand_bytes_seed_only (sim_env\<lparr>ext_atcab_random := \<lambda>w. ((ATCA_GEN_FAIL, []), w)\<rparr>) (Some [0]) 1;
      (second, _) \<leftarrow> RAND_eccx08_rand_bytes_seed_only (sim_env\<lparr>ext_atcab_random := \<lambda>w. ((ATCA_GEN_FAIL, []), w)\<rparr>) (Some [0]) 1;
      ret (first, second)
    }) (\<lambda>rs t. rs = (0, 0) \<and> ifacecfg t \<noteq> None \<and> chip_mon (trace t) = None) ready"
  by (rule seed_only_failure_is_permanent)
    (simp_all add: chip_willing_def mutex_ok_def sim_env_def sim_new_def)

end
