(* ===== verification/Digest_Spec.thy ===== *)
theory Digest_Spec
  imports Rand_Spec Sha256
begin

text \<open>
  Digests made by the chip: what a sequence of calls of OpenSSL computes, and what goes wrong
  because a digest is one device session that spans calls.
\<close>

section \<open>A digest as OpenSSL makes it\<close>

text \<open>
  Documented behaviour of the chip library: some relation \<open>rep\<close> between the chip, the context
  and the bytes hashed so far is set up, extended and read off by the three commands.
\<close>

definition sha_ok :: "'w env \<Rightarrow> ('w \<Rightarrow> bytes option \<Rightarrow> bytes \<Rightarrow> bool) \<Rightarrow> (bytes \<Rightarrow> bytes) \<Rightarrow> bool" where
  "sha_ok E rep H \<longleftrightarrow>
     (\<forall>c w d w'. ext_sha256_init E c w = ((ATCA_SUCCESS, d), w') \<longrightarrow> rep w' d [])
   \<and> (\<forall>c w d w' m bs. rep w c m \<and> ext_sha256_update E c bs w = ((ATCA_SUCCESS, d), w') \<longrightarrow> rep w' d (m @ bs))
   \<and> (\<forall>c w d w' m md. rep w c m \<and> ext_sha256_finish E c w = ((ATCA_SUCCESS, d, md), w') \<longrightarrow> md = H m)"

text \<open>The calls of a client: initialise, add the chunks, finish; give up at the first failure.\<close>

fun feed :: "'w env \<Rightarrow> md_ctx \<Rightarrow> bytes list \<Rightarrow> ('w, int \<times> md_ctx) prog" where
  "feed E ctx [] = ret (1, ctx)"
| "feed E ctx (c # cs) = do {
     (r, ctx) \<leftarrow> eccx08_sha256_update E ctx c;
     (if r = 0 then ret (0, ctx) else feed E ctx cs)
   }"

definition digest_run :: "'w env \<Rightarrow> md_ctx \<Rightarrow> bytes list \<Rightarrow> ('w, bytes option) prog" where
  "digest_run E ctx chunks = do {
     (r, ctx) \<leftarrow> eccx08_sha256_init E ctx;
     (if r = 0 then ret None
      else do {
        (r, ctx) \<leftarrow> feed E ctx chunks;
        (if r = 0 then do { _ \<leftarrow> eccx08_sha256_cleanup ctx; ret None }
         else do {
           (r, ctx, md) \<leftarrow> eccx08_sha256_final E ctx;
           ret (if r = 0 then None else Some md)
         })
      })
   }"

lemma wp_feed:
  assumes "sha_ok E rep H" and "in_session s" and "rep (world s) (md_data ctx) m"
  shows "wp (feed E ctx chunks) (\<lambda>(r, ctx') t. in_session t
    \<and> (r \<noteq> 0 \<longrightarrow> rep (world t) (md_data ctx') (m @ concat chunks))) s"
  using assms(2,3)
proof (induction chunks arbitrary: s ctx m)
  case (Cons c cs)
  obtain st d w where u: "ext_sha256_update E (md_data ctx) c (world s) = ((st, d), w)"
    by (metis prod.exhaust)
  let ?t = "s\<lparr>world := w, trace := Dev_cmd (Sha_update c) st # trace s\<rparr>"
  have t: "in_session ?t" by (rule in_session_cmd [OF Cons.prems(1)])
  show ?case
  proof (cases "st = ATCA_SUCCESS")
    case True
    then have "rep (world ?t) (md_data (ctx\<lparr>md_data := d\<rparr>)) (m @ c)"
      using assms(1) u Cons.prems(2) by (auto simp: sha_ok_def)
    from Cons.IH [OF t this] u True show ?thesis
      by (simp add: eccx08_sha256_update_def wp_call_eq)
  qed (use u t in \<open>simp add: eccx08_sha256_update_def wp_call_eq\<close>)
qed simp

lemma wp_sha256_final_hash:
  assumes "sha_ok E rep H" and "in_session s" and "rep (world s) (md_data ctx) m"
  shows "wp (eccx08_sha256_final E ctx) (\<lambda>(r, _, md) t. no_session t \<and> (r \<noteq> 0 \<longrightarrow> md = H m)) s"
proof -
  obtain st d md w where u: "ext_sha256_finish E (md_data ctx) (world s) = ((st, d, md), w)"
    by (metis prod.exhaust)
  have "md = H m" if "st = ATCA_SUCCESS" using assms(1,3) u that by (auto simp: sha_ok_def)
  with u show ?thesis
    by (auto simp: eccx08_sha256_final_def wp_call_eq intro!: wp_atcab_release_safe in_session_cmd [OF assms(2)])
qed

lemma wp_sha256_init_rep:
  assumes "sha_ok E rep H" and "mutex_ok E" and "no_session s"
  shows "wp (eccx08_sha256_init E ctx) (\<lambda>(r, ctx') t. if r \<noteq> 0
    then in_session t \<and> rep (world t) (md_data ctx') [] else no_session t) s"
  unfolding eccx08_sha256_init_def
proof (rule wp_bindI, simp del: wp_bind, rule wp_bindI, rule wp_init_any [OF assms(2,3)], goal_cases ok err)
  case (ok t)
  obtain st d w where u: "ext_sha256_init E (md_data ctx) (world t) = ((st, d), w)"
    by (metis prod.exhaust)
  with assms(1) have "st = ATCA_SUCCESS \<Longrightarrow> rep w d []" by (auto simp: sha_ok_def)
  with u show ?case
    by (auto simp: wp_call_eq intro!: in_session_cmd [OF ok(1)] wp_atcab_release_safe)
next
  case (err st t)
  then show ?case
    by (simp, intro wp_mono [OF wp_release_outside [OF assms(2) err(2)]]) simp
qed

lemma sim_sha_ok [simp]: "sha_ok sim_env (\<lambda>w c m. c = Some m) rev"
  by (simp add: sha_ok_def sim_env_def)

text \<open>C12: A digest made by the chip is the hash of all its chunks, in order: from outside a
  session, initialising, adding any number of chunks and finishing gives a digest only when
  every command succeeded, the digest is then that of the concatenation, and the session the
  digest took is closed. A client that gives up may be left inside the session.\<close>

theorem digest_is_the_hash:
  assumes "mutex_ok E" and "sha_ok E rep H" and "no_session s"
  shows "wp (digest_run E ctx chunks) (\<lambda>r t. case r of
      Some md \<Rightarrow> md = H (concat chunks) \<and> no_session t
    | None \<Rightarrow> no_session t \<or> in_session t) s"
proof -
  have fed: "wp (do {
      (r, ctx) \<leftarrow> feed E c chunks;
      (if r = 0 then do { _ \<leftarrow> eccx08_sha256_cleanup ctx; ret None }
       else do {
         (r, ctx, md) \<leftarrow> eccx08_sha256_final E ctx;
         ret (if r = 0 then None else Some md)
       })
    }) (\<lambda>r t. case r of Some md \<Rightarrow> md = H (concat chunks) \<and> no_session t
      | None \<Rightarrow> no_session t \<or> in_session t) t"
    if "in_session t" "rep (world t) (md_data c) []" for t and c
    by (rule wp_bindI, rule wp_mono [OF wp_feed [OF assms(2) that]])
      (auto simp: split_beta eccx08_sha256_cleanup_def
        intro!: wp_mono [OF wp_sha256_final_hash [OF assms(2)]])
  show ?thesis
    unfolding digest_run_def
    by (rule wp_bindI, rule wp_mono [OF wp_sha256_init_rep [OF assms(2,1,3)]])
      (auto simp: split_beta simp del: wp_bind intro!: fed split: if_splits)
qed

theorem digest_is_the_hash_witness:
  "wp (digest_run sim_env \<lparr>md_data = Some [], ctx_size = 4\<rparr> [[1], [], [2, 3]]) (\<lambda>r t. case r of
      Some md \<Rightarrow> md = rev (concat [[1], [], [2, 3]]) \<and> no_session t
    | None \<Rightarrow> no_session t \<or> in_session t) idle"
  by (rule digest_is_the_hash [where rep = "\<lambda>w c m. c = Some m"]) simp_all

section \<open>Digests that meet\<close>

text \<open>Starting a second digest, from another thread or inside another digest, ends the first
  one: opening the device is refused (which gives the mutex away), and the error path then
  releases the device session of the first digest, so its next command runs outside a session.\<close>

theorem second_digest_ends_the_first:
  assumes "chip_willing E" and "in_session s"
  shows "wp (eccx08_sha256_init E ctx) (\<lambda>(r, _) t. r = 0 \<and> ifacecfg t = None \<and> chip_mon (trace t) = None) s"
proof -
  have broken: "chip_mon (e # tr) = None" if "chip_mon tr = None" for e tr using that by simp
  have "wp (atcab_release_safe E) (\<lambda>_ t. ifacecfg t = None \<and> chip_mon (trace t) = None) t"
    if "lock_handle (global_lock t) \<noteq> NULL" "ifacecfg t \<noteq> None" "chip_mon (trace t) = None" for t
    using that
    by (auto simp: atcab_release_safe_def eccx08_global_lock_def lock_if_not_ours_def eccx08_global_unlock_def
        free_ifacecfg_def set_lock_state_def wp_call_eq dest: chip_willingD(2) [OF assms(1)] split: prod.splits)
  moreover have "lock_handle (global_lock s) \<noteq> NULL" "ifacecfg s \<noteq> None"
    using assms(2) by (auto simp: sess_defs)
  ultimately show ?thesis
    unfolding eccx08_sha256_init_def using nested_unlock [OF assms(2)]
    by (auto simp del: chip_mon.simps intro!: wp_nested_init [OF assms(2)] elim!: wp_mono)
qed

theorem second_digest_ends_the_first_witness:
  "wp (eccx08_sha256_init sim_env \<lparr>md_data = Some [], ctx_size = 4\<rparr>)
    (\<lambda>(r, _) t. r = 0 \<and> ifacecfg t = None \<and> chip_mon (trace t) = None) busy"
  by (rule second_digest_ends_the_first) simp_all

lemma broken_stays: "adds P s t \<Longrightarrow> chip_mon (trace s) = None \<Longrightarrow> chip_mon (trace t) = None"
  unfolding adds_def using chip_mon_append by metis

text \<open>A copied digest breaks the protocol of the chip: finishing one of the two contexts ends
  the session they share, so finishing the other sends its command to the chip outside a
  session.\<close>

theorem copied_digest_outside_session:
  assumes "in_session s"
  shows "wp (do { (r, ctx2) \<leftarrow> eccx08_sha256_copy ctx2 ctx1;
                  (r1, _, md1) \<leftarrow> eccx08_sha256_final E ctx1;
                  (r2, _, md2) \<leftarrow> eccx08_sha256_final E ctx2;
                  ret (md1, md2) }) (\<lambda>_ t. chip_mon (trace t) = None) s"
proof -
  have second: "wp (eccx08_sha256_final E c) (\<lambda>_ t. chip_mon (trace t) = None) t" if t: "no_session t" for c t
  proof -
    have "chip_mon (Dev_cmd Sha_finish st # trace t) = None" for st
      using t by (auto simp: sess_defs)
    then show ?thesis
      by (auto simp: eccx08_sha256_final_def wp_call_eq simp del: chip_mon.simps split: prod.splits
          intro!: keeping_rule [OF adds_release_safe] elim!: broken_stays)
  qed
  have copied: "wp (eccx08_sha256_copy a b) (\<lambda>_ t. in_session t) s" for a b
    using assms by (auto simp: eccx08_sha256_copy_def split: option.splits)
  have both: "wp (do { (r1, _, md1) \<leftarrow> eccx08_sha256_final E c1;
                  (r2, _, md2) \<leftarrow> eccx08_sha256_final E c2;
                  ret (md1, md2) }) (\<lambda>_ t. chip_mon (trace t) = None) t" if "in_session t" for c1 c2 t
    by (rule wp_bindI, rule wp_mono [OF wp_sha256_final [OF that]])
      (auto simp: split_beta intro!: wp_mono [OF second])
  show ?thesis
    by (rule wp_bindI, rule wp_mono [OF copied]) (auto simp: split_beta simp del: wp_bind intro!: both)
qed

theorem copied_digest_outside_session_witness:
  "wp (do { (r, ctx2) \<leftarrow> eccx08_sha256_copy \<lparr>md_data = Some [0], ctx_size = 1\<rparr> \<lparr>md_data = Some [7], ctx_size = 1\<rparr>;
            (r1, _, md1) \<leftarrow> eccx08_sha256_final sim_env \<lparr>md_data = Some [7], ctx_size = 1\<rparr>;
            (r2, _, md2) \<leftarrow> eccx08_sha256_final sim_env ctx2;
            ret (md1, md2) }) (\<lambda>_ t. chip_mon (trace t) = None) busy"
  by (rule copied_digest_outside_session) simp

text \<open>C36: A digest that is abandoned keeps the chip: when adding a chunk fails the client gives up
  and cleans up, but the clean-up does nothing, so the process stays inside the session and
  holds the system-wide mutex.\<close>

theorem abandoned_digest_keeps_the_chip:
  assumes "chip_willing E" and "mutex_ok E" and "no_session s" and "pCfg s = Some c"
    and "\<And>d w. fst (fst (ext_sha256_init E d w)) = ATCA_SUCCESS"
    and "\<And>d bs w. fst (fst (ext_sha256_update E d bs w)) \<noteq> ATCA_SUCCESS"
  shows "wp (digest_run E ctx (chunk # chunks)) (\<lambda>r t. r = None \<and> in_session t
    \<and> chip_mon (trace t) = Some \<lparr>held = True, opened = True\<rparr>) s"
proof -
  have init: "wp (eccx08_sha256_init E ctx) (\<lambda>(r, _) t. r \<noteq> 0 \<and> in_session t) s"
    unfolding eccx08_sha256_init_def using assms(4) assms(5)
    by (auto simp: wp_call_eq split_beta intro!: wp_willing_open [OF assms(1-3)] in_session_cmd)
  have update: "wp (eccx08_sha256_update E k bs) (\<lambda>(r, _) t. r = 0 \<and> in_session t) t" if "in_session t" for k bs t
    unfolding eccx08_sha256_update_def using assms(6) that
    by (auto simp: wp_call_eq split_beta intro!: in_session_cmd)
  show ?thesis
    unfolding digest_run_def
    by (rule wp_bindI, rule wp_mono [OF init])
      (auto simp: split_beta eccx08_sha256_cleanup_def sess_defs intro!: wp_mono [OF update])
qed

theorem abandoned_digest_keeps_the_chip_witness:
  "wp (digest_run (sim_env\<lparr>ext_sha256_update := \<lambda>d bs w. ((ATCA_GEN_FAIL, d), w)\<rparr>)
      \<lparr>md_data = Some [], ctx_size = 4\<rparr> [[1]]) (\<lambda>r t. r = None \<and> in_session t
    \<and> chip_mon (trace t) = Some \<lparr>held = True, opened = True\<rparr>) ready"
  by (rule abandoned_digest_keeps_the_chip)
    (simp_all add: chip_willing_def mutex_ok_def, simp_all add: sim_env_def sim_new_def)

text \<open>The engine tells OpenSSL that it has two digests, in a list of one.\<close>

theorem digest_list_too_short:
  "case eccx08_sha256_selector False nid of (n, _, nids) \<Rightarrow> n = 2 \<and> map_option length nids = Some 1"
  by (simp add: eccx08_sha256_selector_def eccx08_digest_ids_def)

end
