(* ===== verification/Verify_Spec.thy ===== *)
theory Verify_Spec
  imports Digest_Spec Verify
begin

text \<open>
  Verification by the chip: what it is asked, and what its answer means for the result.
\<close>

section \<open>What the chip is asked\<close>

text \<open>
  The signature object holds the numbers \<open>r\<close> and \<open>u\<close>, the encoding of the public key is \<open>oct\<close>,
  fresh memory holds \<open>junk\<close>; nobody else changes them meanwhile.
\<close>

definition presents ::
  "'w env \<Rightarrow> 'w cert_lib \<Rightarrow> 'w verify_lib \<Rightarrow> ptr \<Rightarrow> ptr \<Rightarrow> nat \<Rightarrow> nat \<Rightarrow> bytes \<Rightarrow> bytes \<Rightarrow> bool" where
  "presents E L V sig eckey r u oct junk \<longleftrightarrow>
     (\<forall>w. snd (fst (ext_ECDSA_SIG_get0 V sig w)) = r \<and> snd (snd (ext_ECDSA_SIG_get0 V sig w)) = u
        \<and> ext_EC_KEY_get0_public_key V eckey w \<noteq> NULL
        \<and> ext_EC_POINT_point2oct V (ext_EC_KEY_get0_group E eckey w) (ext_EC_KEY_get0_public_key V eckey w)
            (ext_EC_GROUP_get_point_conversion_form V (ext_EC_KEY_get0_group E eckey w) w) w = oct
        \<and> ext_heap_bytes L (2 * ATCA_BLOCK_SIZE) w = junk)"

text \<open>The 64 bytes of the signature as the code lays them out: numbers are not padded.\<close>

definition laid_out :: "nat \<Rightarrow> nat \<Rightarrow> bytes \<Rightarrow> bytes" where
  "laid_out r u junk =
     take 32 (be_pad (be_len r) r @ drop (be_len r) junk) @ be_pad (be_len u) u @ drop (32 + be_len u) junk"

lemma laid_out_full:
  assumes "256 ^ 31 \<le> r" and "r < 256 ^ 32" and "256 ^ 31 \<le> u" and "u < 256 ^ 32" and "length junk = 64"
  shows "laid_out r u junk = be_pad 32 r @ be_pad 32 u"
proof -
  have "be_len r = 32" "be_len u = 32"
    using be_len_bounds [of 31 r] be_len_bounds [of 31 u] assms by simp_all
  then show ?thesis using assms(5) by (simp add: laid_out_def)
qed

lemma raw_signature_laid_out:
  assumes "bn_ok E" and "be_len r \<le> 32" and "be_len u \<le> 32" and "length junk = 64"
  shows "raw_signature E (p, r) (q, u) junk = Some (laid_out r u junk)"
  using assms by (auto simp: raw_signature_def bn_ok_def laid_out_def Let_def)


text \<open>With the reads of the world replaced by what they give, the verification is this program.\<close>

definition verify_plain ::
  "'w env \<Rightarrow> 'w cert_lib \<Rightarrow> 'w verify_lib \<Rightarrow> bytes \<Rightarrow> bytes \<Rightarrow> bytes \<Rightarrow> ('w, int) prog" where
  "verify_plain E L V d raw oct = do {
     raw_sig \<leftarrow> OPENSSL_malloc L (2 * ATCA_BLOCK_SIZE);
     (status, verified, raw_pubkey) \<leftarrow>
       (if raw_sig = NULL then ret (ATCA_GEN_FAIL, False, NULL)
        else do {
          raw_pubkey \<leftarrow> OPENSSL_malloc L (length oct);
          (if raw_pubkey = NULL then ret (ATCA_GEN_FAIL, False, NULL)
           else do {
             (status, verified) \<leftarrow> verify_in_session E V d raw oct;
             ret (status, verified, raw_pubkey)
           })
        });
     (if raw_sig \<noteq> NULL then OPENSSL_free L raw_sig else skip);
     (if raw_pubkey \<noteq> NULL then OPENSSL_free L raw_pubkey else skip);
     ret (if status \<noteq> ATCA_SUCCESS then ENGINE_OPENSSL_ERROR
          else if verified then ENGINE_OPENSSL_SUCCESS
          else ENGINE_OPENSSL_FAILURE)
   }"

lemma do_verify_plain:
  assumes "bn_ok E" and "presents E L V sig eckey r u oct junk" and "length junk = 64"
    and "be_len r \<le> 32" and "be_len u \<le> 32"
  shows "wp (eccx08_ecdsa_do_verify E L V d sig eckey) Q s = wp (verify_plain E L V d (laid_out r u junk) oct) Q s"
proof -
  have raw: "raw_signature E (fst (ext_ECDSA_SIG_get0 V sig w)) (snd (ext_ECDSA_SIG_get0 V sig w))
      (ext_heap_bytes L 64 w) = Some (laid_out r u junk)" for w
    using raw_signature_laid_out [OF assms(1,4,5,3)] spec [OF assms(2) [unfolded presents_def], of w]
    by (metis prod.collapse mult_2 numeral_Bit0)
  show ?thesis
    using assms(2) raw
    by (simp add: eccx08_ecdsa_do_verify_def verify_with_pubkey_def verify_plain_def presents_def split_beta
        wp_call_eq cong: if_cong)
qed


text \<open>The chip is asked about nothing but the signature, the digest and the key at hand: the
  only command is one to verify the first 32 bytes of the digest against the two numbers of
  the signature and the public key of the key, without its first byte. The numbers are laid
  out unpadded: one of fewer than 32 bytes starts at the beginning of its half and is followed
  by what the fresh memory held, so a valid signature with such a number is not asked about.\<close>

theorem verify_asks:
  assumes "bn_ok E" and "presents E L V sig eckey r u oct junk" and "length junk = 64"
    and "be_len r \<le> 32" and "be_len u \<le> 32"
  shows "wp (eccx08_ecdsa_do_verify E L V d sig eckey) (\<lambda>_ t. \<exists>es. trace t = es @ trace s \<and>
    list_all (cmd_in {Verify_extern (take 32 d) (laid_out r u junk) (take 64 (drop 1 oct))}) es) s"
proof -
  have two: "2 * 32 = (64 :: nat)" by simp
  have body: "keeping (adds (cmd_in {Verify_extern (take 32 d) g (take (2 * 32) (drop 1 oct))})) (verify_in_session E V d g oct)" for g
    unfolding verify_in_session_def
    by (intro adds.keep adds_basic keeping_adds_weaken [OF adds_init_safe] keeping_adds_weaken [OF adds_release_safe])
      (auto intro: session_ev_cmd_in split: prod.splits)
  have "keeping (adds (cmd_in {Verify_extern (take 32 d) g (take 64 (drop 1 oct))})) (verify_plain E L V d g oct)" for g
    unfolding verify_plain_def by (intro adds.keep adds_basic body [unfolded two]) auto
  then show ?thesis
    unfolding do_verify_plain [OF assms] by (simp add: keeping_def adds_def)
qed

lemma sim_presents [simp]:
  "presents sim_env sim_cert (sim_verify r u) sig k r u (4 # replicate 64 9) (replicate 64 0)"
  by (simp add: presents_def sim_verify_def) (simp add: sim_cert_def)

theorem verify_asks_witness:
  "wp (eccx08_ecdsa_do_verify sim_env sim_cert (sim_verify 5 6) (replicate 32 7) 20 11) (\<lambda>_ t. \<exists>es. trace t = es @ trace ready \<and>
    list_all (cmd_in {Verify_extern (take 32 (replicate 32 7)) (laid_out 5 6 (replicate 64 0))
      (take 64 (drop 1 (4 # replicate 64 9)))}) es) ready
   \<and> laid_out 5 6 (replicate 64 0) = 5 # replicate 31 0 @ 6 # replicate 31 0"
proof
  have len: "be_len 5 = 1" "be_len 6 = 1" by code_simp+
  show "wp (eccx08_ecdsa_do_verify sim_env sim_cert (sim_verify 5 6) (replicate 32 7) 20 11) (\<lambda>_ t. \<exists>es. trace t = es @ trace ready \<and>
    list_all (cmd_in {Verify_extern (take 32 (replicate 32 7)) (laid_out 5 6 (replicate 64 0))
      (take 64 (drop 1 (4 # replicate 64 9)))}) es) ready"
    by (rule verify_asks [OF sim_bn_ok sim_presents]) (simp_all add: len)
  show "laid_out 5 6 (replicate 64 0) = 5 # replicate 31 0 @ 6 # replicate 31 0"
    by code_simp
qed

lemma wp_verify_in_session_valid:
  assumes "mutex_ok E" and "no_session s"
    and "\<And>dg g p w w'. ext_atcab_verify_extern V dg g p w = ((ATCA_SUCCESS, True), w') \<Longrightarrow> valid dg g p"
  shows "wp (verify_in_session E V d g oct) (\<lambda>(st, v) t. no_session t
    \<and> (st = ATCA_SUCCESS \<and> v \<longrightarrow> valid (take 32 d) g (take (2 * 32) (drop 1 oct)))) s"
proof -
  have ask: "wp (do { r \<leftarrow> atcab_verify_extern V dg g p; _ \<leftarrow> atcab_release_safe E; ret r })
      (\<lambda>(st, v) t. no_session t \<and> (st = ATCA_SUCCESS \<and> v \<longrightarrow> valid dg g p)) t"
    if "in_session t" for t :: "'a eng" and dg p
  proof -
    obtain st v w where a: "ext_atcab_verify_extern V dg g p (world t) = ((st, v), w)"
      by (metis prod.exhaust)
    with assms(3) have "st = ATCA_SUCCESS \<Longrightarrow> v \<Longrightarrow> valid dg g p" by metis
    with a that show ?thesis
      by (auto simp: wp_call_eq intro!: wp_atcab_release_safe in_session_cmd)
  qed
  show ?thesis
    unfolding verify_in_session_def
    by (rule wp_open_device [OF assms(1,2)]) (rule wp_bindI, auto simp del: wp_bind intro!: ask)
qed

text \<open>C7: A signature is reported valid only when the chip says so of exactly this signature: for
  every relation that the chip's positive answers satisfy, the result 1 for numbers that fill
  their 32 bytes means that it holds for the digest, the two numbers side by side and the
  public key; every other outcome is 0 or -1, and the session is closed.\<close>

theorem verified_only_by_the_chip:
  assumes "mutex_ok E" and "bn_ok E" and "presents E L V sig eckey r u oct junk" and "no_session s"
    and "256 ^ 31 \<le> r" and "r < 256 ^ 32" and "256 ^ 31 \<le> u" and "u < 256 ^ 32" and "length junk = 64"
    and "\<And>dg g p w w'. ext_atcab_verify_extern V dg g p w = ((ATCA_SUCCESS, True), w') \<Longrightarrow> valid dg g p"
  shows "wp (eccx08_ecdsa_do_verify E L V d sig eckey) (\<lambda>v t. no_session t
    \<and> (if v = ENGINE_OPENSSL_SUCCESS
       then valid (take 32 d) (be_pad 32 r @ be_pad 32 u) (take 64 (drop 1 oct))
       else v \<in> {ENGINE_OPENSSL_FAILURE, ENGINE_OPENSSL_ERROR})) s"
proof -
  have len: "be_len r \<le> 32" "be_len u \<le> 32"
    using be_len_bounds [of 31 r] be_len_bounds [of 31 u] assms(5-8) by simp_all
  have freed: "no_session (t\<lparr>world := w, trace := Obj_free k p # tr\<rparr>) = no_session (t\<lparr>world := w, trace := tr\<rparr>)"
    "no_session (t\<lparr>world := w, trace := trace t\<rparr>) = no_session t"
    "no_session (t\<lparr>world := w, trace := Obj_new k p # tr\<rparr>) = no_session (t\<lparr>world := w, trace := tr\<rparr>)"
    "no_session (t\<lparr>world := w\<rparr>) = no_session t" for t :: "'a eng" and w k p tr
    by (auto simp: sess_defs split: option.splits)
  have device: "wp (verify_in_session E V d g oct) (\<lambda>(st, v) t. no_session t
      \<and> (st = ATCA_SUCCESS \<and> v \<longrightarrow> valid (take 32 d) g (take 64 (drop 1 oct)))) t" if "no_session t" for g t
    using wp_verify_in_session_valid [OF assms(1) that assms(10)] by simp

  show ?thesis
    unfolding do_verify_plain [OF assms(2,3,9) len] laid_out_full [OF assms(5-9)] verify_plain_def
    using assms(4)
    by (auto simp: wp_call_eq split_beta ev_free_def ev_new_def freed intro!: wp_mono [OF device])
qed


theorem verified_only_by_the_chip_witness:
  "wp (eccx08_ecdsa_do_verify sim_env sim_cert (sim_verify (256 ^ 31) (256 ^ 31 + 1)) (replicate 32 7) 20 11) (\<lambda>v t. no_session t
    \<and> (if v = ENGINE_OPENSSL_SUCCESS
       then (\<lambda>d g p. g = be_pad 32 (256 ^ 31) @ be_pad 32 (256 ^ 31 + 1))
         (take 32 (replicate 32 7)) (be_pad 32 (256 ^ 31) @ be_pad 32 (256 ^ 31 + 1)) (take 64 (drop 1 (4 # replicate 64 9)))
       else v \<in> {ENGINE_OPENSSL_FAILURE, ENGINE_OPENSSL_ERROR})) ready"
  by (rule verified_only_by_the_chip [OF sim_mutex_ok sim_bn_ok sim_presents,
      where valid = "\<lambda>d g p. g = be_pad 32 (256 ^ 31) @ be_pad 32 (256 ^ 31 + 1)"])
    (simp_all, simp_all add: sim_verify_def)

end
