(* ===== verification/Ecdh_Spec.thy ===== *)
theory Ecdh_Spec
  imports Verify_Spec Ecdh
begin

text \<open>What the shared secret of the engine depends on, and where it goes.\<close>

text \<open>Encodings of points have the same length, whatever the point.\<close>

definition same_length :: "'w env \<Rightarrow> 'w verify_lib \<Rightarrow> ptr \<Rightarrow> ptr \<Rightarrow> bool" where
  "same_length E V ecdh pub \<longleftrightarrow>
     (\<forall>g f w w'. length (ext_EC_POINT_point2oct V g pub f w) =
        length (ext_EC_POINT_point2oct V g (ext_EC_KEY_get0_public_key V ecdh w') f w'))"

lemma raw_key_ignores_peer:
  assumes "same_length E V ecdh pub" and "same_length E V ecdh pub'"
  shows "run_state (ecdh_raw_key E L V pub ecdh) s = run_state (ecdh_raw_key E L V pub' ecdh) s"
proof -
  have peer: "length (ext_EC_POINT_point2oct V g q f w) =
      length (ext_EC_POINT_point2oct V g (ext_EC_KEY_get0_public_key V ecdh w') f w')"
    if "same_length E V ecdh q" for q g f w w'
    using that unfolding same_length_def by blast
  have len: "length (ext_EC_POINT_point2oct V g pub f w) = length (ext_EC_POINT_point2oct V g pub' f w)" for g f w
    using peer [OF assms(1)] peer [OF assms(2)] by metis
  then have nil: "(ext_EC_POINT_point2oct V g pub f w = []) = (ext_EC_POINT_point2oct V g pub' f w = [])" for g f w
    by (metis length_0_conv)
  have over: "drop (length (ext_EC_POINT_point2oct V g (ext_EC_KEY_get0_public_key V ecdh w') f w'))
      (ext_EC_POINT_point2oct V g q f w) = []" if "same_length E V ecdh q" for q g f w w'
    using peer [OF that, of g f w w'] by simp
  show ?thesis
    unfolding ecdh_raw_key_def
    by (simp add: len nil split_beta over [OF assms(1)] over [OF assms(2)] cong: if_cong)
qed


section \<open>The peer does not matter\<close>

text \<open>C18: The shared secret does not depend on the peer: as the buffer with the peer's public key
  is overwritten with the key pair's own public key before it is sent, two requests that
  differ only in the peer's key, of encodings of the usual equal length, have the same
  commands, the same result, the same output and the same state.\<close>

theorem shared_secret_ignores_the_peer:
  assumes "bn_ok E" and "holds_key E (world s) ecdh k"
    and "same_length E V ecdh pub" and "same_length E V ecdh pub'"
  shows "run_state (eccx08_ecdh_compute_key E L V D out outlen pub ecdh KDF) s =
         run_state (eccx08_ecdh_compute_key E L V D out outlen pub' ecdh KDF) s"
proof -
  have "run_state (ecdh_with_device E L V D out outlen pub ecdh KDF) s =
      run_state (ecdh_with_device E L V D out outlen pub' ecdh KDF) s"
    unfolding ecdh_with_device_def by (simp add: raw_key_ignores_peer [OF assms(3,4)] split_beta cong: if_cong)
  then show ?thesis
    unfolding eccx08_ecdh_compute_key_def by (simp add: isx08key_holds [OF assms(1,2)])
qed

text \<open>Two peers, 31 and 32, with different points.\<close>

definition sim_points :: "sim verify_lib" where
  "sim_points = (sim_verify 5 6)\<lparr>
     ext_EC_POINT_point2oct := \<lambda>g p f w. 4 # replicate 64 (of_nat p)\<rparr>"

lemma sim_same_length [simp]: "same_length sim_env sim_points k pub"
  by (simp add: same_length_def sim_points_def sim_verify_def)

theorem shared_secret_ignores_the_peer_witness:
  "run_state (eccx08_ecdh_compute_key sim_env sim_cert sim_points sim_ecdh [] 32 31 11 None) (with_key (sim_key 3) idle) =
   run_state (eccx08_ecdh_compute_key sim_env sim_cert sim_points sim_ecdh [] 32 32 11 None) (with_key (sim_key 3) idle)
   \<and> ext_EC_POINT_point2oct sim_points 1 31 4 (world idle) \<noteq> ext_EC_POINT_point2oct sim_points 1 32 4 (world idle)"
proof
  show "run_state (eccx08_ecdh_compute_key sim_env sim_cert sim_points sim_ecdh [] 32 31 11 None) (with_key (sim_key 3) idle) =
      run_state (eccx08_ecdh_compute_key sim_env sim_cert sim_points sim_ecdh [] 32 32 11 None) (with_key (sim_key 3) idle)"
    by (rule shared_secret_ignores_the_peer [OF sim_bn_ok with_key_holds]) simp_all
qed (simp add: sim_points_def)

section \<open>Where the secret goes\<close>

lemma wp_ecdh_secret_printed:
  assumes "\<And>slot p key wk w. length (snd (fst (ext_atcab_ecdh_enc D slot p key wk w))) = 32"
  shows "wp (ecdh_secret E L D n raw_key) (\<lambda>(st, secret) t. st = ATCA_SUCCESS \<longrightarrow>
    length secret = 32 \<and> File_write ''stdout'' secret \<in> set (trace t)) s"
  unfolding ecdh_secret_def
  by (auto simp: wp_call_eq split_beta assms intro!: wp_mono [OF wp_any])

text \<open>C34: The secret is disclosed: whenever the key agreement on a 256-bit curve succeeds without a
  key derivation function, the bytes given to the caller are the first bytes of a secret of 32
  bytes that has been written to the standard output in full; otherwise the result is -1 and
  the caller's buffer is untouched.\<close>

theorem shared_secret_printed:
  assumes "bn_ok E" and "holds_key E (world s) ecdh k"
    and "\<And>g w. ext_EC_GROUP_get_degree D g w = 256"
    and "\<And>slot p key wk w. length (snd (fst (ext_atcab_ecdh_enc D slot p key wk w))) = 32"
  shows "wp (eccx08_ecdh_compute_key E L V D out outlen pub ecdh None) (\<lambda>(r, out') t.
    if r = -1 then out' = out
    else \<exists>secret. length secret = 32 \<and> r = int (min outlen 32)
      \<and> out' = take (min outlen 32) secret @ drop (min outlen 32) out
      \<and> File_write ''stdout'' secret \<in> set (trace t)) s"
proof -
  have "wp (ecdh_with_device E L V D out outlen pub ecdh None) (\<lambda>(r, out') t.
    if r = -1 then out' = out
    else \<exists>secret. length secret = 32 \<and> r = int (min outlen 32)
      \<and> out' = take (min outlen 32) secret @ drop (min outlen 32) out
      \<and> File_write ''stdout'' secret \<in> set (trace t)) s"
    unfolding ecdh_with_device_def ecdh_output_def
    by (auto simp: wp_call_eq split_beta Let_def assms(3) ev_free_def ev_new_def split: option.splits
        intro!: wp_mono [OF wp_any [of "ecdh_raw_key E L V pub ecdh"]] wp_mono [OF wp_ecdh_secret_printed [OF assms(4)]])
  then show ?thesis
    unfolding eccx08_ecdh_compute_key_def by (simp add: wp_def isx08key_holds [OF assms(1,2)])
qed

theorem shared_secret_printed_witness:
  "wp (eccx08_ecdh_compute_key sim_env sim_cert sim_points sim_ecdh [] 20 31 11 None) (\<lambda>(r, out') t.
    if r = -1 then out' = []
    else \<exists>secret. length secret = 32 \<and> r = int (min 20 32)
      \<and> out' = take (min 20 32) secret @ drop (min 20 32) []
      \<and> File_write ''stdout'' secret \<in> set (trace t)) (with_key (sim_key 3) idle)"
  by (rule shared_secret_printed [OF sim_bn_ok with_key_holds]) (simp_all add: sim_ecdh_def)

end
