(* ===== verification/Legacy.thy ===== *)
theory Legacy
  imports Ecdh Engine
begin

text \<open>
  The branches for OpenSSL 1.0.2 (\<^verbatim>\<open>ATCA_OPENSSL_OLD_API\<close>): what differs from the OpenSSL 1.1
  interface in \<^verbatim>\<open>eccx08_ecdsa_sign.c\<close>, \<^verbatim>\<open>eccx08_ecdh.c\<close>, \<^verbatim>\<open>eccx08_eckey_meth.c\<close> and
  \<^verbatim>\<open>eccx08_engine.c\<close>. A name that both interfaces have gets the suffix \<open>_old\<close>. Where the code
  writes a member of one of OpenSSL's structures directly, the store is a function of the
  world.
\<close>

section \<open>The functions used\<close>

text \<open>
  \<open>ext_BN_room\<close> is \<^verbatim>\<open>dmax * sizeof(BN_ULONG)\<close>, the bytes a number has room for;
  \<^verbatim>\<open>EVP_PKEY_asn1_find\<close> gives the method and the engine it stores through its argument.
  \<open>ext_sig_numbers\<close> are the numbers that the members \<^verbatim>\<open>r\<close> and \<^verbatim>\<open>s\<close> of a signature point to;
  \<^verbatim>\<open>ECDSA_SIG_new\<close> of 1.0.2 allocates both.
\<close>

record 'w old_lib =
  ext_store_sig :: "ptr \<Rightarrow> bignum \<Rightarrow> bignum \<Rightarrow> 'w \<Rightarrow> 'w"
  ext_sig_numbers :: "ptr \<Rightarrow> 'w \<Rightarrow> ptr list"
  ext_BN_room :: "bignum \<Rightarrow> nat"
  ext_ECDSA_get_default_method :: "'w \<Rightarrow> ptr"
  ext_ECDSA_METHOD_new :: "ptr \<Rightarrow> 'w \<Rightarrow> ptr \<times> 'w"
  ext_ECDSA_METHOD_free :: "ptr \<Rightarrow> 'w \<Rightarrow> unit \<times> 'w"
  ext_ECDSA_METHOD_set_name :: "ptr \<Rightarrow> string \<Rightarrow> 'w \<Rightarrow> unit \<times> 'w"
  ext_ECDSA_METHOD_set_sign :: "ptr \<Rightarrow> fn_ptr \<Rightarrow> 'w \<Rightarrow> unit \<times> 'w"
  ext_ECDH_get_default_method :: "'w \<Rightarrow> ptr"
  ext_EC_KEY_new :: "'w \<Rightarrow> ptr \<times> 'w"
  ext_ENGINE_init :: "ptr \<Rightarrow> 'w \<Rightarrow> int \<times> 'w"
  ext_EVP_PKEY_asn1_find :: "ptr \<Rightarrow> 'w \<Rightarrow> (ptr \<times> ptr) \<times> 'w"
  ext_store_pkey_type :: "ptr \<Rightarrow> int \<Rightarrow> 'w \<Rightarrow> 'w"
  ext_store_pkey_engine :: "ptr \<Rightarrow> ptr \<Rightarrow> 'w \<Rightarrow> 'w"
  ext_store_pkey_ameth :: "ptr \<Rightarrow> ptr \<Rightarrow> 'w \<Rightarrow> 'w"
  ext_ECDSA_size :: "ptr \<Rightarrow> 'w \<Rightarrow> int"
  ext_ECDSA_set_method :: "ptr \<Rightarrow> ptr \<Rightarrow> 'w \<Rightarrow> int \<times> 'w"

section \<open>Keys\<close>

text \<open>
  The test for keys of the engine: \<^verbatim>\<open>BN_bn2bin\<close> writes as many bytes as the number has, at the
  beginning of the buffer; the rest of it stays uninitialised.
\<close>

definition eccx08_eckey_isx08key_old :: "'w env \<Rightarrow> 'w old_lib \<Rightarrow> ptr \<Rightarrow> ('w, int \<times> byte option) prog" where
  "eccx08_eckey_isx08key_old E T ec = do {
     bn \<leftarrow> EC_KEY_get0_private_key E ec;
     (case bn of
        None \<Rightarrow> ret (ENGINE_OPENSSL_FAILURE, None)
      | Some b \<Rightarrow> do {
          junk \<leftarrow> stack_bytes E 32;
          (case ext_BN_bn2bin E b of (r, out) \<Rightarrow>
             if 32 < ext_BN_room T b \<or> r = 0 then ret (ENGINE_OPENSSL_FAILURE, None)
             else do {
               (if r < 8 then flag_ub Uninit_read else skip);
               (let buf = out @ drop (length out) junk in
                if take 8 buf = string_bytes ''ATECCx08''
                then ret (ENGINE_OPENSSL_SUCCESS, Some (password_id (key_of_bytes buf)))
                else ret (ENGINE_OPENSSL_FAILURE, None))
             })
        })
   }"

text \<open>A new key; the differences are the three members set by hand and the method.\<close>

definition fill_new_key_old ::
  "'w env \<Rightarrow> 'w old_lib \<Rightarrow> ptr \<Rightarrow> ptr \<Rightarrow> eccx08_engine_key_t \<Rightarrow> ('w, int) prog" where
  "fill_new_key_old E T e pkey key_info = do {
     eckey \<leftarrow> call (ext_EC_KEY_new T) (ev_new Eckey);
     (if eckey = NULL then ret ENGINE_OPENSSL_FAILURE
      else do {
        group \<leftarrow> EC_GROUP_new_by_curve_name E;
        (if group = NULL then ret ENGINE_OPENSSL_FAILURE
         else do {
           EC_GROUP_set_point_conversion_form E group POINT_CONVERSION_UNCOMPRESSED;
           EC_GROUP_set_asn1_flag E group;
           _ \<leftarrow> EC_KEY_set_group E eckey group;
           EC_GROUP_free E group;
           assigned \<leftarrow> EVP_PKEY_assign_EC_KEY E pkey eckey;
           (if assigned = 0 then do {
              EC_KEY_free E eckey;
              ret ENGINE_OPENSSL_FAILURE
            } else do {
              modify (\<lambda>s. s\<lparr>world := ext_store_pkey_type T pkey EVP_PKEY_EC (world s)\<rparr>);
              started \<leftarrow> call (ext_ENGINE_init T e) (\<lambda>r. if r \<noteq> 0 then ev_ref Engine e else []);
              (if started = 0 then ret ENGINE_OPENSSL_FAILURE
               else do {
                 modify (\<lambda>s. s\<lparr>world := ext_store_pkey_engine T pkey e (world s)\<rparr>);
                 (ameth, _) \<leftarrow> call (ext_EVP_PKEY_asn1_find T e) (\<lambda>_. []);
                 modify (\<lambda>s. s\<lparr>world := ext_store_pkey_ameth T pkey ameth (world s)\<rparr>);
                 bn \<leftarrow> BN_bin2bn E (key_bytes key_info);
                 (case bn of
                    None \<Rightarrow> ret ENGINE_OPENSSL_FAILURE
                  | Some b \<Rightarrow> do {
                      stored \<leftarrow> EC_KEY_set_private_key E eckey b;
                      BN_free E b;
                      (if stored = 0 then ret ENGINE_OPENSSL_FAILURE
                       else do {
                         m \<leftarrow> gets eccx08_ecdsa;
                         done_set \<leftarrow> call (ext_ECDSA_set_method T eckey m) (\<lambda>_. []);
                         (if done_set = 0 then ret ENGINE_OPENSSL_FAILURE
                          else ret ENGINE_OPENSSL_SUCCESS)
                       })
                    })
               })
            })
         })
      })
   }"

definition eccx08_eckey_new_key_old ::
  "'w env \<Rightarrow> 'w old_lib \<Rightarrow> ptr \<Rightarrow> string option \<Rightarrow> byte \<Rightarrow> ('w, ptr) prog" where
  "eccx08_eckey_new_key_old E T e key_id passwd_id = do {
     pkey \<leftarrow> EVP_PKEY_new E;
     (if pkey = NULL then ret NULL
      else do {
        config \<leftarrow> gets eccx08_engine_config;
        junk \<leftarrow> stack_bytes E 32;
        r \<leftarrow> (case new_key_info config junk key_id passwd_id of (parsed, key_info) \<Rightarrow>
               if parsed = 0 then ret ENGINE_OPENSSL_FAILURE
               else fill_new_key_old E T e pkey key_info);
        (if r = ENGINE_OPENSSL_FAILURE then EVP_PKEY_free E pkey else skip);
        ret pkey
      })
   }"

section \<open>ECDSA\<close>

text \<open>
  Lines 176-188: the two numbers stored into \<^verbatim>\<open>sig\<close>, which owns them from then on. The numbers
  that \<^verbatim>\<open>sig\<close> owned before are not freed: a reference to each of them is left over, which
  nothing gives back (\<open>Obj_ref\<close>).
\<close>

definition fill_sig_old :: "'w env \<Rightarrow> 'w old_lib \<Rightarrow> ptr \<Rightarrow> bytes \<Rightarrow> ('w, status) prog" where
  "fill_sig_old E T sig raw_sig = do {
     r \<leftarrow> BN_bin2bn E (take ATCA_BLOCK_SIZE raw_sig);
     s \<leftarrow> BN_bin2bn E (take ATCA_BLOCK_SIZE (drop ATCA_BLOCK_SIZE raw_sig));
     (case r of
        None \<Rightarrow> do {
          (case s of None \<Rightarrow> skip | Some b \<Rightarrow> BN_free E b);
          ret ATCA_FUNC_FAIL
        }
      | Some rb \<Rightarrow>
          (case s of
             None \<Rightarrow> do { BN_free E rb; ret ATCA_FUNC_FAIL }
           | Some sb \<Rightarrow> do {
               nums \<leftarrow> gets (\<lambda>st. ext_sig_numbers T sig (world st));
               call (\<lambda>w. ((), ext_store_sig T sig rb sb w))
                 (\<lambda>_. map (Obj_ref Bn) nums @ [Set_sig sig (snd rb) (snd sb), Obj_give Bn (fst rb), Obj_give Bn (fst sb)]);
               ret ATCA_SUCCESS
             }))
   }"

definition fetch_signature_old :: "'w env \<Rightarrow> 'w old_lib \<Rightarrow> ptr \<Rightarrow> byte \<Rightarrow> bytes \<Rightarrow> ('w, status) prog" where
  "fetch_signature_old E T sig slot dgst = do {
     (status, raw_sig) \<leftarrow> sign_retry E slot dgst;
     rel_status \<leftarrow> atcab_release_safe E;
     (if status \<noteq> ATCA_SUCCESS then do {
        eccx08_raise_session_error E ''sign'' status;
        ret status
      } else fill_sig_old E T sig raw_sig)
   }"

definition sign_with_device_old ::
  "'w env \<Rightarrow> 'w old_lib \<Rightarrow> ptr \<Rightarrow> ptr \<Rightarrow> byte \<Rightarrow> bytes \<Rightarrow> ('w, status) prog" where
  "sign_with_device_old E T sig eckey passwd_id dgst = do {
     (status, slot) \<leftarrow> atcab_init_from_privkey_safe E eckey;
     (if status \<noteq> ATCA_SUCCESS then ret status
      else do {
        status \<leftarrow> authorize E passwd_id;
        (if status \<noteq> ATCA_SUCCESS then ret status
         else fetch_signature_old E T sig (case slot of Some n \<Rightarrow> n | None \<Rightarrow> 255) dgst)
      })
   }"

definition eccx08_ecdsa_do_sign :: "'w env \<Rightarrow> 'w old_lib \<Rightarrow> bytes option \<Rightarrow> int \<Rightarrow> ptr \<Rightarrow> ('w, ptr) prog" where
  "eccx08_ecdsa_do_sign E T dgst dgst_len eckey =
     (case dgst of
        None \<Rightarrow> ret NULL
      | Some d \<Rightarrow>
          if dgst_len < int ATCA_BLOCK_SIZE then ret NULL
          else do {
            sig \<leftarrow> ECDSA_SIG_new E;
            (if sig = NULL then ret NULL
             else do {
               (r, passwd_id) \<leftarrow> eccx08_eckey_isx08key_old E T eckey;
               (if r \<noteq> ENGINE_OPENSSL_SUCCESS then do {
                  ECDSA_SIG_free E sig;
                  ret NULL
                } else do {
                  status \<leftarrow> sign_with_device_old E T sig eckey
                    (case passwd_id of Some i \<Rightarrow> i | None \<Rightarrow> NOPASSWD_ID) d;
                  (if status \<noteq> ATCA_SUCCESS then do {
                     ECDSA_SIG_free E sig;
                     ret NULL
                   } else ret sig)
                })
             })
          })"

definition eccx08_ecdsa_sign_old :: "'w env \<Rightarrow> 'w old_lib \<Rightarrow> bytes option \<Rightarrow> int \<Rightarrow> ptr \<Rightarrow> ('w, ptr) prog" where
  "eccx08_ecdsa_sign_old E T dgst dgst_len eckey = do {
     (r, passwd_id) \<leftarrow> eccx08_eckey_isx08key_old E T eckey;
     (if r \<noteq> 0 then eccx08_ecdsa_do_sign E T dgst dgst_len eckey
      else do {
        dflt \<leftarrow> gets eccx08_ecdsa_default;
        (if dflt = NULL then flag_ub Null_deref else skip);
        call_sign E dflt dgst dgst_len eckey
      })
   }"

text \<open>The second result is \<^verbatim>\<open>*ppMethod\<close>; \<^verbatim>\<open>ATCA_OPENSSL_ENGINE_ENABLE_HW_VERIFY\<close> is off.\<close>

definition eccx08_ecdsa_init :: "'w old_lib \<Rightarrow> ('w, int \<times> ptr) prog" where
  "eccx08_ecdsa_init T = do {
     d \<leftarrow> gets eccx08_ecdsa_default;
     (if d = NULL then modify (\<lambda>s. s\<lparr>eccx08_ecdsa_default := ext_ECDSA_get_default_method T (world s)\<rparr>)
      else skip);
     p \<leftarrow> gets eccx08_ecdsa;
     dflt \<leftarrow> gets eccx08_ecdsa_default;
     (if p = NULL then do {
        q \<leftarrow> call (ext_ECDSA_METHOD_new T dflt) (ev_new Method);
        modify (\<lambda>s. s\<lparr>eccx08_ecdsa := q\<rparr>)
      } else skip);
     p \<leftarrow> gets eccx08_ecdsa;
     (if p = NULL then ret (ENGINE_OPENSSL_FAILURE, NULL)
      else do {
        call (ext_ECDSA_METHOD_set_name T p ''ATECCX08 ECDSA METHOD'') (\<lambda>_. [Obj_use Method p]);
        call (ext_ECDSA_METHOD_set_sign T p (Own_fn Eccx08_ecdsa_sign))
          (\<lambda>_. [Obj_use Method p, Set_meth_sign p [Own_fn Eccx08_ecdsa_sign]]);
        ret (ENGINE_OPENSSL_SUCCESS, p)
      })
   }"

text \<open>The table is freed, its address kept.\<close>

definition eccx08_ecdsa_cleanup :: "'w old_lib \<Rightarrow> ('w, int) prog" where
  "eccx08_ecdsa_cleanup T = do {
     p \<leftarrow> gets eccx08_ecdsa;
     (if p \<noteq> NULL then call (ext_ECDSA_METHOD_free T p) (\<lambda>_. ev_free Method p) else skip);
     ret ENGINE_OPENSSL_SUCCESS
   }"

section \<open>ECDH\<close>

record ecdh_method =
  em_name :: string
  em_compute_key :: fn_ptr
  em_flags :: int
  em_app_data :: ptr

definition eccx08_ecdh :: ecdh_method where
  "eccx08_ecdh = \<lparr>em_name = ''ATECCX08 ECDH METHOD'', em_compute_key = Own_fn Eccx08_ecdh_compute_key,
     em_flags = 0, em_app_data = NULL\<rparr>"

definition eccx08_ecdh_init :: "'w old_lib \<Rightarrow> ('w, int \<times> ecdh_method) prog" where
  "eccx08_ecdh_init T = do {
     modify (\<lambda>s. s\<lparr>eccx08_ecdh_default := ext_ECDH_get_default_method T (world s)\<rparr>);
     ret (ENGINE_OPENSSL_SUCCESS, eccx08_ecdh)
   }"

definition eccx08_ecdh_cleanup :: "('w, int) prog" where
  "eccx08_ecdh_cleanup = ret ENGINE_OPENSSL_SUCCESS"

section \<open>Public-key methods\<close>

definition eccx08_eckey_paramgen_init :: "'w env \<Rightarrow> ptr \<Rightarrow> ('w, int) prog" where
  "eccx08_eckey_paramgen_init E ctx = do {
     f \<leftarrow> gets (def_paramgen_init \<circ> eccx08_pkey_def_f);
     call_default E f [ctx]
   }"

definition eccx08_eckey_paramgen :: "'w env \<Rightarrow> ptr \<Rightarrow> ptr \<Rightarrow> ('w, int) prog" where
  "eccx08_eckey_paramgen E ctx pkey = do {
     f \<leftarrow> gets (def_paramgen \<circ> eccx08_pkey_def_f);
     call_default E f [ctx, pkey]
   }"

definition eccx08_pkey_isx08key_old :: "'w env \<Rightarrow> 'w old_lib \<Rightarrow> ptr \<Rightarrow> ('w, int \<times> byte option) prog" where
  "eccx08_pkey_isx08key_old E T pkey =
     (if pkey = NULL then ret (ENGINE_OPENSSL_FAILURE, None)
      else do {
        ec_key \<leftarrow> EVP_PKEY_get1_EC_KEY E pkey;
        (if ec_key = NULL then ret (ENGINE_OPENSSL_FAILURE, None)
         else do {
           r \<leftarrow> eccx08_eckey_isx08key_old E T ec_key;
           EC_KEY_free E ec_key;
           ret r
         })
      })"

text \<open>
  Signing through the public-key method, which is compiled when
  \<^verbatim>\<open>ATCA_OPENSSL_ENGINE_REGISTER_ECDSA\<close> is off (and then lacks an argument in its call of
  \<open>eccx08_pkey_isx08key\<close>). \<open>room\<close> is \<^verbatim>\<open>*siglen\<close> before the call; the results are the return
  value, \<^verbatim>\<open>*siglen\<close> after it and the bytes written to \<^verbatim>\<open>sig\<close>.
\<close>

abbreviation (input) ERR_LIB_EC :: int where "ERR_LIB_EC \<equiv> 16"
abbreviation (input) EC_R_BUFFER_TOO_SMALL :: int where "EC_R_BUFFER_TOO_SMALL \<equiv> 100"

definition sign_into_buffer :: "'w env \<Rightarrow> 'w old_lib \<Rightarrow> ptr \<Rightarrow> ptr \<Rightarrow> ptr \<Rightarrow> 64 word \<Rightarrow>
    bytes option \<Rightarrow> int \<Rightarrow> ('w, int \<times> 64 word \<times> bytes \<times> ptr) prog" where
  "sign_into_buffer E T ec sig siglen room tbs tbslen =
     (if siglen = NULL then ret (ENGINE_OPENSSL_FAILURE, room, [], NULL)
      else do {
        size \<leftarrow> gets (\<lambda>s. ext_ECDSA_size T ec (world s));
        (if sig = NULL then ret (ENGINE_OPENSSL_SUCCESS, of_int size, [], NULL)
         else if room < of_int size then do {
           ERR_put_error E ERR_LIB_EC EC_R_BUFFER_TOO_SMALL '''';
           ret (ENGINE_OPENSSL_FAILURE, room, [], NULL)
         } else do {
           ecs \<leftarrow> eccx08_ecdsa_do_sign E T tbs tbslen ec;
           (if ecs = NULL then ret (ENGINE_OPENSSL_SUCCESS, 0, [], NULL)
            else do {
              (len, der) \<leftarrow> i2d_ECDSA_SIG E ecs;
              ret (ENGINE_OPENSSL_SUCCESS, of_int len, der, ecs)
            })
         })
      })"

definition pkey_sign_with_key :: "'w env \<Rightarrow> 'w old_lib \<Rightarrow> ptr \<Rightarrow> ptr \<Rightarrow> ptr \<Rightarrow> 64 word \<Rightarrow>
    bytes option \<Rightarrow> int \<Rightarrow> ('w, int \<times> 64 word \<times> bytes) prog" where
  "pkey_sign_with_key E T ctx sig siglen room tbs tbslen = do {
     pkey \<leftarrow> EVP_PKEY_CTX_get0_pkey E ctx;
     ec \<leftarrow> EVP_PKEY_get1_EC_KEY E pkey;
     (r, len, der, ecs) \<leftarrow> sign_into_buffer E T ec sig siglen room tbs tbslen;
     (if ecs \<noteq> NULL then ECDSA_SIG_free E ecs else skip);
     (if ec \<noteq> NULL then EC_KEY_free E ec else skip);
     ret (r, len, der)
   }"

text \<open>What the default method writes is not seen: the length and the bytes are then \<open>None\<close>.\<close>

definition eccx08_pkey_ec_sign_old :: "'w env \<Rightarrow> 'w old_lib \<Rightarrow> ptr \<Rightarrow> ptr \<Rightarrow> ptr \<Rightarrow> 64 word \<Rightarrow>
    ptr \<Rightarrow> bytes option \<Rightarrow> nat \<Rightarrow> ('w, int \<times> (64 word \<times> bytes) option) prog" where
  "eccx08_pkey_ec_sign_old E T ctx sig siglen room tbs tbs_bytes tbslen = do {
     pkey \<leftarrow> EVP_PKEY_CTX_get0_pkey E ctx;
     (known, _) \<leftarrow> eccx08_pkey_isx08key_old E T pkey;
     (if known \<noteq> 0 then do {
        (r, len, der) \<leftarrow> pkey_sign_with_key E T ctx sig siglen room tbs_bytes
          (sint (of_nat tbslen :: 32 word));
        ret (r, Some (len, der))
      } else do {
        r \<leftarrow> eccx08_pkey_ec_sign E ctx sig siglen tbs tbslen;
        ret (r, None)
      })
   }"

text \<open>
  The accessors that OpenSSL 1.0.2 lacks: \<open>None\<close> is a null pointer, for the table as for a
  place to store; a place that is given is overwritten.
\<close>

record evp_pkey_method =
  pm_pkey_id :: int
  pm_flags :: int
  pm_init :: fn_ptr
  pm_copy :: fn_ptr
  pm_cleanup :: fn_ptr
  pm_paramgen_init :: fn_ptr
  pm_paramgen :: fn_ptr
  pm_keygen_init :: fn_ptr
  pm_keygen :: fn_ptr
  pm_sign_init :: fn_ptr
  pm_sign :: fn_ptr
  pm_verify_init :: fn_ptr
  pm_verify :: fn_ptr
  pm_verify_recover_init :: fn_ptr
  pm_verify_recover :: fn_ptr
  pm_signctx_init :: fn_ptr
  pm_signctx :: fn_ptr
  pm_verifyctx_init :: fn_ptr
  pm_verifyctx :: fn_ptr
  pm_encrypt_init :: fn_ptr
  pm_encrypt :: fn_ptr
  pm_decrypt_init :: fn_ptr
  pm_decrypt :: fn_ptr
  pm_derive_init :: fn_ptr
  pm_derive :: fn_ptr
  pm_ctrl :: fn_ptr
  pm_ctrl_str :: fn_ptr

definition store_through :: "'a \<Rightarrow> 'a option \<Rightarrow> 'a option" where
  "store_through x place = map_option (\<lambda>_. x) place"

definition EVP_PKEY_meth_get_init :: "evp_pkey_method option \<Rightarrow> fn_ptr option \<Rightarrow> fn_ptr option" where
  "EVP_PKEY_meth_get_init pmeth pinit =
     (case pmeth of None \<Rightarrow> pinit | Some m \<Rightarrow> store_through (pm_init m) pinit)"

definition EVP_PKEY_meth_get_keygen ::
  "evp_pkey_method option \<Rightarrow> fn_ptr option \<Rightarrow> fn_ptr option \<Rightarrow> fn_ptr option \<times> fn_ptr option" where
  "EVP_PKEY_meth_get_keygen pmeth pinit pfn =
     (case pmeth of None \<Rightarrow> (pinit, pfn)
      | Some m \<Rightarrow> (store_through (pm_keygen_init m) pinit, store_through (pm_keygen m) pfn))"

definition EVP_PKEY_meth_get_sign ::
  "evp_pkey_method option \<Rightarrow> fn_ptr option \<Rightarrow> fn_ptr option \<Rightarrow> fn_ptr option \<times> fn_ptr option" where
  "EVP_PKEY_meth_get_sign pmeth pinit pfn =
     (case pmeth of None \<Rightarrow> (pinit, pfn)
      | Some m \<Rightarrow> (store_through (pm_sign_init m) pinit, store_through (pm_sign m) pfn))"

definition EVP_PKEY_meth_get_derive ::
  "evp_pkey_method option \<Rightarrow> fn_ptr option \<Rightarrow> fn_ptr option \<Rightarrow> fn_ptr option \<times> fn_ptr option" where
  "EVP_PKEY_meth_get_derive pmeth pinit pfn =
     (case pmeth of None \<Rightarrow> (pinit, pfn)
      | Some m \<Rightarrow> (store_through (pm_derive_init m) pinit, store_through (pm_derive m) pfn))"

section \<open>Binding and finishing\<close>

definition bind_ecdh_old :: "'w old_lib \<Rightarrow> 'w engine_lib \<Rightarrow> ptr \<Rightarrow> ('w, int) prog" where
  "bind_ecdh_old T G e = do {
     (r, _) \<leftarrow> eccx08_ecdh_init T;
     (if r = 0 then ret 0 else ENGINE_set G e Set_ECDH)
   }"

definition bind_ecdsa_old :: "'w old_lib \<Rightarrow> 'w engine_lib \<Rightarrow> ptr \<Rightarrow> ('w, int) prog" where
  "bind_ecdsa_old T G e = do {
     (r, meth) \<leftarrow> eccx08_ecdsa_init T;
     (if r = 0 then ret 0 else ENGINE_set G e (Set_ECDSA meth))
   }"

text \<open>\<open>ecdh\<close> and \<open>ecdsa\<close> are the two switches of the build.\<close>

definition bind_steps_old ::
  "build \<Rightarrow> bool \<Rightarrow> bool \<Rightarrow> 'w old_lib \<Rightarrow> 'w meth_lib \<Rightarrow> 'w engine_lib \<Rightarrow> ptr \<Rightarrow> ('w, int) prog list" where
  "bind_steps_old b ecdh ecdsa T M G e =
     [ENGINE_set G e (Set_id engine_eccx08_id),
      ENGINE_set G e (Set_name engine_eccx08_name),
      ENGINE_set G e (Set_fn Eccx08_init),
      ENGINE_set G e (Set_fn Eccx08_destroy),
      ENGINE_set G e (Set_fn Eccx08_finish),
      ENGINE_set G e (Set_fn Eccx08_cmd_ctrl),
      ENGINE_set G e Set_cmd_defns] @
     (if ENABLE_RAND b then [ENGINE_set G e Set_RAND] else []) @
     (if ENABLE_SHA256 b then [ENGINE_set G e (Set_fn Eccx08_sha256_selector)] else []) @
     (if ENABLE_CERTS b then [ENGINE_set G e Set_load_ssl_client_cert] else []) @
     (if ecdh then [bind_ecdh_old T G e] else []) @
     (if ecdsa then [bind_ecdsa_old T G e] else []) @
     [ENGINE_set G e (Set_fn Eccx08_load_pubkey),
      ENGINE_set G e (Set_fn Eccx08_load_privkey)] @
     (if REGISTER_PKEY b then [eccx08_pkey_meth_init M, ENGINE_set G e (Set_fn Eccx08_pmeth_selector)] else [])"

definition bind_helper_old ::
  "build \<Rightarrow> bool \<Rightarrow> bool \<Rightarrow> 'w old_lib \<Rightarrow> 'w meth_lib \<Rightarrow> 'w engine_lib \<Rightarrow> ptr \<Rightarrow> string option \<Rightarrow> ('w, int) prog" where
  "bind_helper_old b ecdh ecdsa T M G e ident =
     (if ident \<noteq> None \<and> ident \<noteq> Some engine_eccx08_id then ret ENGINE_OPENSSL_FAILURE
      else do {
        rv \<leftarrow> all_steps (bind_steps_old b ecdh ecdsa T M G e);
        (if rv \<noteq> 0 then modify (\<lambda>s. s\<lparr>this_engine := e\<rparr>) else skip);
        ret rv
      })"

definition eccx08_finish_old :: "build \<Rightarrow> 'w cert_lib \<Rightarrow> 'w old_lib \<Rightarrow> 'w meth_lib \<Rightarrow> ('w, int) prog" where
  "eccx08_finish_old b L T M = do {
     (if ENABLE_CERTS b then do { _ \<leftarrow> eccx08_cert_cleanup L; skip } else skip);
     _ \<leftarrow> eccx08_ecdsa_cleanup T;
     _ \<leftarrow> eccx08_pkey_meth_cleanup M;
     ret ENGINE_OPENSSL_SUCCESS
   }"

end
