(* ===== verification/Legacy_Spec.thy ===== *)
theory Legacy_Spec
  imports Legacy Signing_Spec
begin

text \<open>
  Properties of the branches for OpenSSL 1.0.2: how they differ from the code for 1.1, and
  where they do not.
\<close>

section \<open>A library for OpenSSL 1.0.2\<close>

text \<open>
  \<^verbatim>\<open>ECDSA_SIG_set0\<close> fails on null pointers only (\<^verbatim>\<open>ECDSA_SIG_new(3)\<close>); two numbers that exist it
  takes.
\<close>

definition set0_ok :: "'w env \<Rightarrow> bool" where
  "set0_ok E \<longleftrightarrow> (\<forall>p r u w. fst (ext_ECDSA_SIG_set0 E p r u w) \<noteq> 0)"

text \<open>
  How the state after storing by hand differs from the one after \<^verbatim>\<open>ECDSA_SIG_set0\<close>: the same two
  numbers went into the same signature, by the store instead of the call, and the numbers
  that were in it are left over.
\<close>

definition stored_by_hand :: "'w env \<Rightarrow> 'w old_lib \<Rightarrow> ptr \<Rightarrow> 'w eng \<Rightarrow> 'w eng \<Rightarrow> bool" where
  "stored_by_hand E T sig t t' \<longleftrightarrow> (\<exists>r u w rest.
     trace t = Set_sig sig (snd r) (snd u) # Obj_give Bn (fst r) # Obj_give Bn (fst u) # rest
     \<and> world t = snd (ext_ECDSA_SIG_set0 E sig r u w)
     \<and> t' = t\<lparr>world := ext_store_sig T sig r u w,
               trace := map (Obj_ref Bn) (ext_sig_numbers T sig w) @ trace t\<rparr>)"

text \<open>A number made of 32 bytes has room for 32 bytes.\<close>

definition room_ok :: "'w old_lib \<Rightarrow> bool" where
  "room_ok T \<longleftrightarrow> (\<forall>p v. v < 256 ^ 32 \<longrightarrow> ext_BN_room T (p, v) \<le> 32)"

definition sim_old :: "sim old_lib" where
  "sim_old = \<lparr>
     ext_store_sig = \<lambda>p r u w. w,
     ext_sig_numbers = \<lambda>p w. [2 * p + 100, 2 * p + 101],
     ext_BN_room = \<lambda>b. (be_len (snd b) + 7) div 8 * 8,
     ext_ECDSA_get_default_method = \<lambda>w. 4,
     ext_ECDSA_METHOD_new = \<lambda>m. sim_new,
     ext_ECDSA_METHOD_free = \<lambda>m w. ((), w),
     ext_ECDSA_METHOD_set_name = \<lambda>m n w. ((), w),
     ext_ECDSA_METHOD_set_sign = \<lambda>m f w. ((), w),
     ext_ECDH_get_default_method = \<lambda>w. 6,
     ext_EC_KEY_new = sim_new,
     ext_ENGINE_init = \<lambda>e w. (1, w),
     ext_EVP_PKEY_asn1_find = \<lambda>e w. ((9, e), w),
     ext_store_pkey_type = \<lambda>p t w. w,
     ext_store_pkey_engine = \<lambda>p e w. w,
     ext_store_pkey_ameth = \<lambda>p m w. w,
     ext_ECDSA_size = \<lambda>k w. 72,
     ext_ECDSA_set_method = \<lambda>k m w. (1, w)\<rparr>"

lemma be_len_le: "v < 256 ^ n \<Longrightarrow> be_len v \<le> n"
proof (induction n arbitrary: v)
  case (Suc n)
  then have "be_len (v div 256) \<le> n" by (simp add: less_mult_imp_div_less mult.commute)
  then show ?case by (simp add: be_len.simps [of v])
qed (simp add: be_len.simps)

lemma sim_set0_ok [simp]: "set0_ok sim_env"
  by (simp add: set0_ok_def sim_env_def)

lemma sim_room_ok [simp]: "room_ok sim_old"
  using be_len_le [of _ 32] by (fastforce simp: room_ok_def sim_old_def)

section \<open>Signing\<close>

text \<open>
  \<open>alike ok E T sig x y\<close>: of two results with their states the values agree; where the value
  is one that \<open>ok\<close> accepts, the states differ by the store alone, and otherwise not at all.
\<close>

fun alike :: "('a \<Rightarrow> bool) \<Rightarrow> 'w env \<Rightarrow> 'w old_lib \<Rightarrow> ptr \<Rightarrow> 'a \<times> 'w eng \<Rightarrow> 'a \<times> 'w eng \<Rightarrow> bool" where
  "alike ok E T sig (x, t) (y, t') \<longleftrightarrow> y = x \<and> (if ok x then stored_by_hand E T sig t t' else t' = t)"

abbreviation (input) went_well :: "status \<Rightarrow> bool" where "went_well st \<equiv> st = ATCA_SUCCESS"

lemma alike_refl: "\<not> ok x \<Longrightarrow> alike ok E T sig (x, t) (x, t)"
  by simp

lemma fill_sig_alike:
  assumes "set0_ok E"
  shows "alike went_well E T sig (run_state (fill_sig E sig raw) s) (run_state (fill_sig_old E T sig raw) s)"
proof -
  have takes: "ext_ECDSA_SIG_set0 E p r u w \<noteq> (0, v)" for p r u w v
    using assms by (metis set0_ok_def fst_conv)
  have kept: "snd (ext_ECDSA_SIG_set0 E p r u w) = v" if "ext_ECDSA_SIG_set0 E p r u w = (i, v)" for p r u w v i
    using that by simp
  show ?thesis
    unfolding fill_sig_old_def fill_sig_def
    by (auto simp: takes stored_by_hand_def call_def split: option.split prod.split) (force dest: kept)+
qed

lemma fetch_signature_alike:
  assumes "set0_ok E"
  shows "alike went_well E T sig (run_state (fetch_signature E sig slot d) s)
    (run_state (fetch_signature_old E T sig slot d) s)"
  unfolding fetch_signature_old_def fetch_signature_def
  by (auto simp: fill_sig_alike [OF assms] split: prod.split)

lemma sign_with_device_alike:
  assumes "set0_ok E"
  shows "alike went_well E T sig (run_state (sign_with_device E sig ec pid d) s)
    (run_state (sign_with_device_old E T sig ec pid d) s)"
  unfolding sign_with_device_old_def sign_with_device_def
  by (auto simp: fetch_signature_alike [OF assms] split: prod.split)

text \<open>On a key of the engine the two tests agree: its first byte is not 0.\<close>

lemma isx08key_old_holds:
  assumes "bn_ok E" and "room_ok T" and "holds_key E (world s) ec k"
  shows "run_state (eccx08_eckey_isx08key_old E T ec) s =
    ((ENGINE_OPENSSL_SUCCESS, Some (password_id k)), s)"
proof -
  obtain p where p: "ext_EC_KEY_get0_private_key E ec (world s) = Some (p, key_num k)"
    and k: "key_wf k" "magic k = atecc_magic"
    using assms(3) by (auto simp: holds_key_def)
  have room: "ext_BN_room T (p, key_num k) \<le> 32"
    using assms(2) key_num_less [OF k(1)] by (simp add: room_ok_def)
  have "ext_BN_bn2bin E (p, key_num k) = (32, key_bytes k)"
    using assms(1) be_len_key_num [OF k] by (simp add: bn_ok_def be_pad_key_num [OF k(1)])
  with p k room show ?thesis
    by (simp add: eccx08_eckey_isx08key_old_def key_of_bytes_key_bytes) (simp add: key_bytes_def)
qed


text \<open>C17: On a key of the engine the OpenSSL 1.0.2 and 1.1 interfaces sign alike, for every digest
  and length: the function the 1.0.2 build compiles returns the same pointer, after the same
  chip commands. When it is null the states are equal, all references included. Otherwise the
  same two numbers went into the signature, by two stores instead
  of \<^verbatim>\<open>ECDSA_SIG_set0\<close>, and this is the only difference, which shows in the references: 1.0.2
  leaks the numbers the signature had from \<^verbatim>\<open>ECDSA_SIG_new\<close>, as nothing frees them. That
  build's shorter test for keys of the engine makes no difference for them.\<close>

theorem old_interface_signs_alike:
  assumes "bn_ok E" and "room_ok T" and "sig_new_ok E" and "set0_ok E"
    and "holds_key E (world s) ec k"
  shows "\<exists>sig t t'. run_state (eccx08_ecdsa_do_sign_sig E d len ec) s = (sig, t)
    \<and> run_state (eccx08_ecdsa_do_sign E T d len ec) s = (sig, t')
    \<and> (if sig = NULL then t' = t else stored_by_hand E T sig t t')"
proof -
  obtain sig w where new: "ext_ECDSA_SIG_new E (world s) = (sig, w)" by fastforce
  let ?t = "s\<lparr>world := w, trace := ev_new Sig sig @ trace s\<rparr>"
  have "ext_EC_KEY_get0_private_key E ec w = ext_EC_KEY_get0_private_key E ec (world s)"
    using assms(3) new unfolding sig_new_ok_def by (metis snd_conv)
  then have "holds_key E (world ?t) ec k" using assms(5) by (simp add: holds_key_def)
  note known = isx08key_holds [OF assms(1) this] isx08key_old_holds [OF assms(1,2) this]
  show ?thesis
  proof (cases "d = None \<or> len < int ATCA_BLOCK_SIZE \<or> sig = NULL")
    case True
    then show ?thesis
      by (auto simp: eccx08_ecdsa_do_sign_def eccx08_ecdsa_do_sign_sig_def call_def new
        split: option.split)
  next
    case False
    then obtain dg where d: "d = Some dg" and go: "\<not> len < int ATCA_BLOCK_SIZE" "sig \<noteq> NULL" by auto
    let ?new = "run_state (sign_with_device E sig ec (password_id k) dg) ?t"
    let ?old = "run_state (sign_with_device_old E T sig ec (password_id k) dg) ?t"
    obtain st u u' where "?new = (st, u)" "?old = (st, u')"
      and "if st = ATCA_SUCCESS then stored_by_hand E T sig u u' else u' = u"
      using sign_with_device_alike [OF assms(4), of T sig ec "password_id k" dg ?t]
      by (cases ?new; cases ?old) auto
    then show ?thesis
      using go by (auto simp: eccx08_ecdsa_do_sign_def eccx08_ecdsa_do_sign_sig_def call_def new known d
        split: prod.split)
  qed
qed

text \<open>A signature is made, and two numbers are left over.\<close>

theorem old_interface_signs_alike_witness:
  "\<exists>sig t t'. run_state (eccx08_ecdsa_do_sign_sig sim_env (Some (replicate 32 7)) 32 11)
       (with_key (sim_key 255) idle) = (sig, t)
    \<and> run_state (eccx08_ecdsa_do_sign sim_env sim_old (Some (replicate 32 7)) 32 11)
       (with_key (sim_key 255) idle) = (sig, t')
    \<and> (if sig = NULL then t' = t else stored_by_hand sim_env sim_old sig t t')"
  by (rule old_interface_signs_alike [where k = "sim_key 255"]) simp_all

section \<open>The test for keys of the engine\<close>

text \<open>The 1.0.2 test for keys of the engine reads the private number without its leading zero
  bytes: a number of fewer than 32 bytes that begins with the mark is taken for a key of the
  engine, while the test of the 1.1 build, which pads the number, rejects it; the missing
  bytes, and with them possibly the password number handed out, come from the stack.\<close>

theorem old_test_takes_short_numbers:
  assumes "bn_ok E" and "room_ok T" and "length rest < 24"
    and "ext_EC_KEY_get0_private_key E ec (world s) = Some (p, be_val (atecc_magic @ rest))"
  shows "run_state (eccx08_eckey_isx08key_old E T ec) s =
      ((ENGINE_OPENSSL_SUCCESS, Some (password_id (key_of_bytes
          (atecc_magic @ rest @ drop (length (atecc_magic @ rest)) (stack_content E 32 (world s)))))), s)
    \<and> run_state (eccx08_eckey_isx08key E ec) s = ((ENGINE_OPENSSL_FAILURE, None), s)"
proof
  let ?bs = "atecc_magic @ rest"
  have len: "length ?bs < 32" using assms(3) by simp
  then have "256 ^ length ?bs < (256 :: nat) ^ 32" by (intro power_strict_increasing) simp_all
  with be_val_less have small: "be_val ?bs < 256 ^ 32" by (rule less_trans)
  have short: "be_len (be_val ?bs) = length ?bs" by (rule be_len_be_val) simp_all
  have room: "ext_BN_room T (p, be_val ?bs) \<le> 32" using assms(2) small by (simp add: room_ok_def)
  have old: "ext_BN_bn2bin E (p, be_val ?bs) = (int (length ?bs), ?bs)"
    using assms(1) be_pad_be_val [of ?bs] by (simp add: bn_ok_def short del: append_Cons)
  show "run_state (eccx08_eckey_isx08key_old E T ec) s =
      ((ENGINE_OPENSSL_SUCCESS, Some (password_id (key_of_bytes
          (atecc_magic @ rest @ drop (length (atecc_magic @ rest)) (stack_content E 32 (world s)))))), s)"
    using assms(4) old room by (simp add: eccx08_eckey_isx08key_old_def Let_def)
  have "take 8 (be_pad 32 (be_val ?bs)) \<noteq> atecc_magic"
    using be_len_magic(1) [OF _ small] short len by linarith
  then show "run_state (eccx08_eckey_isx08key E ec) s = ((ENGINE_OPENSSL_FAILURE, None), s)"
    using assms(1,4) small by (simp add: bn_ok_def eccx08_eckey_isx08key_def Let_def)
qed

lemma sim_private_key [simp]: "ext_EC_KEY_get0_private_key sim_env k w = priv w k"
  by (simp add: sim_env_def)

text \<open>A key with a number of 10 bytes; 22 bytes of the buffer are the stack's.\<close>

definition short_key :: "sim eng" where
  "short_key = idle\<lparr>world := sim0\<lparr>priv := \<lambda>_. Some (5, be_val (atecc_magic @ [1, 2]))\<rparr>\<rparr>"

theorem old_test_takes_short_numbers_witness:
  "run_state (eccx08_eckey_isx08key_old sim_env sim_old 11) short_key =
      ((1, Some (password_id (key_of_bytes (atecc_magic @ [1, 2]
          @ drop (length (atecc_magic @ [1, 2 :: byte])) (stack_content sim_env 32 (world short_key)))))), short_key)
    \<and> run_state (eccx08_eckey_isx08key sim_env 11) short_key = ((0, None), short_key)"
  using old_test_takes_short_numbers
    [where E = sim_env and T = sim_old and ec = 11 and s = short_key and p = 5 and rest = "[1, 2]"]
  by (simp add: short_key_def del: append_Cons)

section \<open>Signing through the public-key method\<close>

text \<open>C25: Signing through the public-key method (the build that does not register ECDSA) takes no
  notice of a failure: when the caller's buffer is large enough and no signature could be
  made, for whatever reason, the chip's error included, it returns 1, success, with a
  signature of length 0.\<close>

theorem failed_signature_reported_as_success:
  assumes "sig \<noteq> NULL" and "siglen \<noteq> NULL"
    and "run_state (EVP_PKEY_get1_EC_KEY E (ext_EVP_PKEY_CTX_get0_pkey E ctx (world s))) s = (ec, s1)"
    and "of_int (ext_ECDSA_size T ec (world s1)) \<le> room"
    and "fst (run_state (eccx08_ecdsa_do_sign E T tbs tbslen ec) s1) = NULL"
  shows "fst (run_state (pkey_sign_with_key E T ctx sig siglen room tbs tbslen) s)
    = (ENGINE_OPENSSL_SUCCESS, 0, [])"
proof -
  obtain s2 where "run_state (eccx08_ecdsa_do_sign E T tbs tbslen ec) s1 = (NULL, s2)"
    using assms(5) by (metis prod.collapse)
  then show ?thesis
    using assms(1-4)
    by (simp add: pkey_sign_with_key_def sign_into_buffer_def not_less [symmetric] split: prod.split)
qed

text \<open>The digest is too short.\<close>

theorem failed_signature_reported_as_success_witness:
  "fst (run_state (pkey_sign_with_key sim_env sim_old 10 21 22 72 (Some (replicate 20 1)) 20)
    (with_key (sim_key 255) idle)) = (1, 0, [])"
proof (rule failed_signature_reported_as_success)
  let ?get = "run_state (EVP_PKEY_get1_EC_KEY sim_env (ext_EVP_PKEY_CTX_get0_pkey sim_env 10
    (world (with_key (sim_key 255) idle)))) (with_key (sim_key 255) idle)"
  show "?get = (11, snd ?get)"
    by (rule prod_eqI) (simp_all, simp add: sim_env_def with_key_def call_def)
  show "fst (run_state (eccx08_ecdsa_do_sign sim_env sim_old (Some (replicate 20 1)) 20 11) (snd ?get)) = NULL"
    by (simp add: eccx08_ecdsa_do_sign_def)
qed (simp_all add: sim_old_def)

section \<open>The method table\<close>

definition fill_table_events :: "ptr \<Rightarrow> ev list" where
  "fill_table_events p = [Obj_use Method p, Set_meth_sign p [Own_fn Eccx08_ecdsa_sign], Obj_use Method p]"

lemma fill_dead_table:
  "ref_mon tr = Some m \<Longrightarrow> dead m Method p \<Longrightarrow> ref_mon (fill_table_events p @ tr) = None"
  by (simp add: fill_table_events_def)

lemma wp_ecdsa_init_again:
  assumes "eccx08_ecdsa s = p" and "p \<noteq> NULL"
  shows "wp (eccx08_ecdsa_init T) (\<lambda>r t. eccx08_ecdsa t = p \<and> trace t = fill_table_events p @ trace s) s"
  using assms by (simp add: eccx08_ecdsa_init_def fill_table_events_def wp_call_eq split: prod.split)

lemma wp_ecdsa_init_first:
  assumes "eccx08_ecdsa s = NULL" and new: "\<And>d w. fst (ext_ECDSA_METHOD_new T d w) \<noteq> NULL"
  shows "wp (eccx08_ecdsa_init T) (\<lambda>r t. eccx08_ecdsa t \<noteq> NULL
    \<and> trace t = fill_table_events (eccx08_ecdsa t) @ Obj_new Method (eccx08_ecdsa t) # trace s) s"
proof -
  have "q \<noteq> NULL" if "ext_ECDSA_METHOD_new T d w = (q, w')" for d w q w'
    using new [of d w] that by simp
  then show ?thesis
    using assms(1)
    by (simp add: eccx08_ecdsa_init_def fill_table_events_def wp_call_eq ev_new_def split: prod.split)
qed

lemma wp_ecdsa_cleanup:
  assumes "eccx08_ecdsa s = p" and "p \<noteq> NULL"
  shows "wp (eccx08_ecdsa_cleanup T) (\<lambda>r t. eccx08_ecdsa t = p \<and> trace t = Obj_free Method p # trace s) s"
  using assms by (simp add: eccx08_ecdsa_cleanup_def wp_call_eq ev_free_def split: prod.split)

text \<open>C24: Finishing the engine in the 1.0.2 build frees the ECDSA table it made, and the references
  are balanced then, but keeps the table's address: binding the engine again in the same
  process, instead of making a new table, writes into the freed one.\<close>

theorem rebinding_uses_the_freed_table:
  assumes "holds_refs (trace s) f" and "\<forall>p. f Method p = 0" and "eccx08_ecdsa s = NULL"
    and "\<forall>d w. fst (ext_ECDSA_METHOD_new T d w) \<noteq> NULL"
  shows "wp (eccx08_ecdsa_init T) (\<lambda>_ t. wp (eccx08_ecdsa_cleanup T)
    (\<lambda>_ u. holds_refs (trace u) f \<and> wp (eccx08_ecdsa_init T) (\<lambda>_ v. ref_mon (trace v) = None) u) t) s"
proof -
  obtain m where m: "ref_mon (trace s) = Some m" "own m = f"
    using assms(1) by (auto simp: holds_refs_def split: option.splits)
  have free: "\<exists>m'. ref_mon (Obj_free Method p # fill_table_events p @ Obj_new Method p # trace s) = Some m'
      \<and> own m' = f \<and> dead m' Method p" for p
    using m assms(2) by (auto simp: fill_table_events_def fun_eq_iff)
  have again: "ref_mon (fill_table_events p @ Obj_free Method p # fill_table_events p
      @ Obj_new Method p # trace s) = None" for p
    using free [of p] fill_dead_table by blast
  have balanced: "holds_refs (Obj_free Method p # fill_table_events p @ Obj_new Method p # trace s) f" for p
    using free [of p] by (auto simp: holds_refs_def simp del: ref_mon.simps)
  show ?thesis
    by (rule wp_mono [OF wp_ecdsa_init_first [OF assms(3)]])
      (auto simp: assms(4) balanced again simp del: ref_mon.simps
        intro!: wp_mono [OF wp_ecdsa_cleanup] wp_mono [OF wp_ecdsa_init_again])
qed

theorem rebinding_uses_the_freed_table_witness:
  "wp (eccx08_ecdsa_init sim_old) (\<lambda>_ t. wp (eccx08_ecdsa_cleanup sim_old)
    (\<lambda>_ u. holds_refs (trace u) no_refs
      \<and> wp (eccx08_ecdsa_init sim_old) (\<lambda>_ v. ref_mon (trace v) = None) u) t) (idle :: sim eng)"
  by (rule rebinding_uses_the_freed_table)
    (simp_all add: idle_def engine_start_def sim_old_def sim_new_def holds_refs_def ref_init_def)

end
