(* ===== verification/Debug.thy ===== *)
theory Debug
  imports Legacy Balance
begin

text \<open>
  The parts of \<^verbatim>\<open>eccx08_eckey_meth.c\<close> that the usual build leaves out: printing keys, compiled
  with \<^verbatim>\<open>ECC_DEBUG\<close>, and the stand-in for \<^verbatim>\<open>EVP_PKEY_set1_engine\<close>.
\<close>

section \<open>Printing keys\<close>

record 'w print_lib =
  ext_BIO_new_fp :: "'w \<Rightarrow> ptr \<times> 'w"
  ext_BIO_free_fp :: "ptr \<Rightarrow> 'w \<Rightarrow> unit \<times> 'w"
  ext_EC_KEY_print :: "ptr \<Rightarrow> ptr \<Rightarrow> 'w \<Rightarrow> unit \<times> 'w"
  ext_EVP_PKEY_CTX_get0_peerkey :: "ptr \<Rightarrow> 'w \<Rightarrow> ptr"

definition with_bio :: "'w print_lib \<Rightarrow> ptr \<Rightarrow> (ptr \<Rightarrow> ('w, unit) prog) \<Rightarrow> ('w, unit) prog" where
  "with_bio B bio body = do {
     out \<leftarrow> (if bio \<noteq> NULL then ret bio else call (ext_BIO_new_fp B) (ev_new Bio));
     (if out = NULL then skip
      else do {
        body out;
        (if bio = NULL then call (ext_BIO_free_fp B out) (\<lambda>_. ev_free Bio out) else skip)
      })
   }"

definition eccx08_eckey_debug :: "'w print_lib \<Rightarrow> ptr \<Rightarrow> ptr \<Rightarrow> ('w, unit) prog" where
  "eccx08_eckey_debug B bio ec =
     with_bio B bio (\<lambda>out. call (ext_EC_KEY_print B out ec) (\<lambda>_. [Obj_use Bio out]))"

definition eccx08_pkey_debug :: "'w env \<Rightarrow> 'w print_lib \<Rightarrow> ptr \<Rightarrow> ptr \<Rightarrow> ('w, unit) prog" where
  "eccx08_pkey_debug E B bio pkey = do {
     ec \<leftarrow> EVP_PKEY_get1_EC_KEY E pkey;
     (if ec = NULL then skip
      else do {
        eccx08_eckey_debug B bio ec;
        EC_KEY_free E ec
      })
   }"

definition eccx08_pkey_ctx_debug :: "'w env \<Rightarrow> 'w print_lib \<Rightarrow> ptr \<Rightarrow> ptr \<Rightarrow> ('w, unit) prog" where
  "eccx08_pkey_ctx_debug E B bio ctx = with_bio B bio (\<lambda>out. do {
     pkey \<leftarrow> EVP_PKEY_CTX_get0_pkey E ctx;
     (if pkey \<noteq> NULL then eccx08_pkey_debug E B out pkey else skip);
     peer \<leftarrow> gets (\<lambda>s. ext_EVP_PKEY_CTX_get0_peerkey B ctx (world s));
     (if peer \<noteq> NULL then eccx08_pkey_debug E B out peer else skip)
   })"

text \<open>Printing concerns neither the chip nor the session, so it is safe in every callback.\<close>

lemma quiet_with_bio: "(\<And>out. keeping quiet (body out)) \<Longrightarrow> keeping quiet (with_bio B bio body)"
  unfolding with_bio_def by (intro quiet.keep quiet_call) auto

lemma quiet_eckey_debug: "keeping quiet (eccx08_eckey_debug B bio ec)"
  unfolding eccx08_eckey_debug_def by (intro quiet_with_bio quiet_call) auto

lemma quiet_pkey_debug: "keeping quiet (eccx08_pkey_debug E B bio pkey)"
  unfolding eccx08_pkey_debug_def by (intro quiet.keep quiet_call quiet_eckey_debug) auto

theorem printing_is_safe: "keeping safe (eccx08_pkey_ctx_debug E B bio ctx)"
  unfolding eccx08_pkey_ctx_debug_def
  by (intro quiet_safe quiet_with_bio quiet.keep quiet_pkey_debug)

section \<open>The engine of a key\<close>

text \<open>
  The two members of \<^verbatim>\<open>struct evp_pkey_st\<close> that the stand-in uses are read and written by
  functions of the world.
\<close>

record 'w set1_lib =
  ext_ENGINE_init' :: "ptr \<Rightarrow> 'w \<Rightarrow> int \<times> 'w"
  ext_ENGINE_get_pkey_meth :: "ptr \<Rightarrow> int \<Rightarrow> 'w \<Rightarrow> ptr"
  ext_ENGINE_finish :: "ptr \<Rightarrow> 'w \<Rightarrow> unit \<times> 'w"
  ext_pkey_type :: "ptr \<Rightarrow> 'w \<Rightarrow> int"
  ext_pmeth_engine :: "ptr \<Rightarrow> 'w \<Rightarrow> ptr"
  ext_store_pmeth_engine :: "ptr \<Rightarrow> ptr \<Rightarrow> 'w \<Rightarrow> 'w"

abbreviation "ENGINE_finish X e \<equiv> call (ext_ENGINE_finish X e) (\<lambda>_. ev_free Engine e)"

text \<open>What is checked of a new engine; the result says whether it can be used.\<close>

definition take_engine :: "'w set1_lib \<Rightarrow> ptr \<Rightarrow> ptr \<Rightarrow> ('w, bool) prog" where
  "take_engine X pkey e = do {
     started \<leftarrow> call (ext_ENGINE_init' X e) (\<lambda>r. if r \<noteq> 0 then ev_ref Engine e else []);
     (if started = 0 then ret False
      else do {
        meth \<leftarrow> gets (\<lambda>s. ext_ENGINE_get_pkey_meth X e (ext_pkey_type X pkey (world s)) (world s));
        (if meth = NULL then do { ENGINE_finish X e; ret False } else ret True)
      })
   }"

definition EVP_PKEY_set1_engine :: "'w set1_lib \<Rightarrow> ptr \<Rightarrow> ptr \<Rightarrow> ('w, int) prog" where
  "EVP_PKEY_set1_engine X pkey e = do {
     ok \<leftarrow> (if e \<noteq> NULL then take_engine X pkey e else ret True);
     (if \<not> ok then ret 0
      else do {
        old \<leftarrow> gets (\<lambda>s. ext_pmeth_engine X pkey (world s));
        ENGINE_finish X old;
        modify (\<lambda>s. s\<lparr>world := ext_store_pmeth_engine X pkey e (world s)\<rparr>);
        ret 1
      })
   }"

text \<open>
  The reference of the key moves: on success the new engine has gained exactly what the old
  one has lost, on failure nothing has changed. The key owns a reference to the engine it
  has, and using an engine changes no key.
\<close>

theorem set1_engine_moves_the_reference:
  assumes m: "ref_mon (trace s) = Some m" and alive: "e \<noteq> NULL \<longrightarrow> \<not> dead m Engine e"
    and old: "ext_pmeth_engine X pkey (world s) = old"
      "ext_pmeth_engine X pkey (snd (ext_ENGINE_init' X e (world s))) = old"
    and owned: "old \<noteq> NULL \<longrightarrow> 0 < own m Engine old"
  shows "wp (EVP_PKEY_set1_engine X pkey e) (\<lambda>r t. \<exists>m'. ref_mon (trace t) = Some m' \<and>
     (if r = 0 then own m' = own m else plus_ref (own m') Engine old = plus_ref (own m) Engine e)) s"
proof (cases "e = NULL")
  case True
  then show ?thesis
    using m old owned
    by (auto simp: EVP_PKEY_set1_engine_def wp_call_eq ev_free_def plus_ref_def split: prod.split)
next
  case False
  obtain r w where start: "ext_ENGINE_init' X e (world s) = (r, w)" by fastforce
  then show ?thesis
    using False m alive owned old(2)
    by (auto simp: EVP_PKEY_set1_engine_def take_engine_def wp_call_eq ev_free_def ev_ref_def plus_ref_def
        fun_eq_iff split: prod.split)
qed

end
