(* ===== verification/Tls.thy ===== *)
theory Tls
  imports CStdio Env
begin

text \<open>
  The functions that the TLS client and server of \<^verbatim>\<open>src/client-server\<close> share
  (\<^verbatim>\<open>tlsutil.c\<close>, \<^verbatim>\<open>tlsutil.h\<close>). Here every call of OpenSSL or of the operating system
  that the programs make is a value of the datatype \<open>os_call\<close>; a call gives an integer (a
  pointer is a number, \<^verbatim>\<open>NULL\<close> is 0), and the state keeps the list of all calls with their
  results, the last one first. Text for the standard error stream and pauses are left out.
\<close>

section \<open>Calls\<close>

text \<open>
  The second argument of \<open>SSL_connect\<close> and \<open>SSL_accept\<close> is what the verification callback
  decided during the handshake.
\<close>

datatype (plugins only: size code) os_call =
    ENGINE_load_builtin_engines | ENGINE_by_id string | ENGINE_set_default int | ENGINE_free int
  | ENGINE_load_private_key int string | ENGINE_ctrl int int int string
  | SSL_load_error_strings | OpenSSL_add_ssl_algorithms | EVP_cleanup
  | TLSv1_2_server_method | TLSv1_2_client_method | SSL_CTX_new int | SSL_CTX_free int
  | SSL_CTX_set_options int | SSL_CTX_set_cipher_list int "string option" | SSL_CTX_set_verify int int
  | SSL_CTX_load_verify_locations int string string | SSL_CTX_use_certificate_chain_file int string
  | SSL_CTX_use_certificate_file int string | SSL_CTX_set_default_verify_paths int
  | SSL_CTX_use_PrivateKey int int | SSL_CTX_use_PrivateKey_file int string | SSL_CTX_check_private_key int
  | Free_PKEY int
  | SSL_CONF_CTX_new | SSL_CONF_CTX_set_flags int int | SSL_CONF_CTX_set_ssl_ctx int int
  | SSL_CONF_cmd int string string | SSL_CONF_CTX_finish int | SSL_CONF_CTX_free int
  | X509_STORE_CTX_get_current_cert int | X509_STORE_CTX_get_error int | X509_STORE_CTX_get_error_depth int
  | X509_get_subject_name int | X509_get_issuer_name int | X509_NAME_oneline int | Free_text int | Free_X509 int
  | SSL_new int | SSL_free int | SSL_set_fd int int | SSL_set_connect_state int | SSL_set_accept_state int
  | SSL_connect int int | SSL_accept int int | SSL_get_peer_certificate int
  | SSL_write int string | SSL_read int nat | SSL_shutdown int
  | Sys_socket | Sys_setsockopt int | Sys_connect int string "16 word" | Sys_bind int "16 word" | Sys_listen int int
  | Sys_accept int | Sys_close int
  | Sys_fopen string | Sys_fclose int | PEM_write_PrivateKey int int | PEM_write_X509 int int
  | Printf string

text \<open>
  The outside: the result of every call; what the callback is told about the certificates of
  a handshake, in order (\<^verbatim>\<open>ok\<close> and the store context); the text in the command buffer after a
  control command; the current directory (\<^verbatim>\<open>None\<close>: \<^verbatim>\<open>getcwd\<close> fails); and two command numbers
  of \<^verbatim>\<open>engine_meth/ecc_meth.h\<close>, a file that is not part of the repository.
\<close>

record 'w os =
  os_result :: "os_call \<Rightarrow> 'w \<Rightarrow> int \<times> 'w"
  os_checks :: "int \<Rightarrow> 'w \<Rightarrow> (int \<times> int) list"
  os_buffer :: "'w \<Rightarrow> string"
  os_cwd :: "'w \<Rightarrow> string option"
  CMD_EXTRACT_ALL_CERTS :: int
  CMD_GET_VERSION :: int

text \<open>The state: the static variables of \<^verbatim>\<open>tlsutil.c\<close>, the calls so far, undefined behaviour.\<close>

record 'w tls =
  verify_depth :: int
  verify_quiet :: int
  verify_error :: int
  verify_return_error :: int
  t_world :: 'w
  t_calls :: "(os_call \<times> int) list"
  t_ub :: bool

type_synonym ('w, 'a) tprog = "('w tls, 'a) state"

definition invoke :: "'w os \<Rightarrow> os_call \<Rightarrow> ('w, int) tprog" where
  "invoke X c = State (\<lambda>s. case os_result X c (t_world s) of
      (r, w) \<Rightarrow> (r, s\<lparr>t_world := w, t_calls := (c, r) # t_calls s\<rparr>))"

definition undefined_if :: "bool \<Rightarrow> ('w, unit) tprog" where
  "undefined_if b = modify (\<lambda>s. if b then s\<lparr>t_ub := True\<rparr> else s)"

text \<open>How a piece of code ends: it goes on with a value, returns from the function, or the
  process exits.\<close>

datatype 'a flow = Go 'a | Return int | Exit int

definition andthen :: "('w, 'a flow) tprog \<Rightarrow> ('a \<Rightarrow> ('w, 'b flow) tprog) \<Rightarrow> ('w, 'b flow) tprog" where
  "andthen m f = do {
     r \<leftarrow> m;
     (case r of Go x \<Rightarrow> f x | Return c \<Rightarrow> ret (Return c) | Exit c \<Rightarrow> ret (Exit c))
   }"

text \<open>The macros of \<^verbatim>\<open>tlsutil.h\<close>.\<close>

definition CHK_NULL :: "int \<Rightarrow> ('w, unit flow) tprog" where
  "CHK_NULL x = ret (if x = 0 then Exit 1 else Go ())"

definition CHK_ERR :: "int \<Rightarrow> ('w, unit flow) tprog" where
  "CHK_ERR err = ret (if err = -1 then Exit 1 else Go ())"

definition CHK_SSL :: "int \<Rightarrow> ('w, unit flow) tprog" where
  "CHK_SSL err = ret (if err = -1 then Exit 2 else Go ())"

section \<open>Setting up\<close>

definition setup_engine :: "'w os \<Rightarrow> string option \<Rightarrow> ('w, int) tprog" where
  "setup_engine X engine_id =
     (case engine_id of
        None \<Rightarrow> ret 1
      | Some i \<Rightarrow> do {
          invoke X ENGINE_load_builtin_engines;
          e \<leftarrow> invoke X (ENGINE_by_id i);
          (if e = 0 then ret 0
           else do {
             r \<leftarrow> invoke X (ENGINE_set_default e);
             (if r = 0 then do { invoke X (ENGINE_free e); ret 0 } else ret 1)
           })
        })"

definition init_openssl :: "'w os \<Rightarrow> ('w, unit) tprog" where
  "init_openssl X = do { invoke X SSL_load_error_strings; invoke X OpenSSL_add_ssl_algorithms; skip }"

definition cleanup_openssl :: "'w os \<Rightarrow> ('w, unit) tprog" where
  "cleanup_openssl X = do { invoke X EVP_cleanup; skip }"

definition create_context :: "'w os \<Rightarrow> bool \<Rightarrow> ('w, int) tprog" where
  "create_context X is_server = do {
     meth \<leftarrow> invoke X (if is_server then TLSv1_2_server_method else TLSv1_2_client_method);
     (if meth = 0 then ret 0 else invoke X (SSL_CTX_new meth))
   }"

definition configure_context :: "'w os \<Rightarrow> int \<Rightarrow> string \<Rightarrow> string \<Rightarrow> string \<Rightarrow> ('w, int) tprog" where
  "configure_context X ctx ca_path chain_file cert_file = do {
     r \<leftarrow> invoke X (SSL_CTX_set_options ctx);
     (if r = 0 then ret 0 else do {
       r \<leftarrow> invoke X (SSL_CTX_load_verify_locations ctx chain_file ca_path);
       (if r \<le> 0 then ret 0 else do {
         r \<leftarrow> invoke X (SSL_CTX_use_certificate_chain_file ctx chain_file);
         (if r \<le> 0 then ret 0 else do {
           r \<leftarrow> invoke X (SSL_CTX_use_certificate_file ctx cert_file);
           (if r \<le> 0 then ret 0 else do {
             r \<leftarrow> invoke X (SSL_CTX_set_default_verify_paths ctx);
             ret (if r = 0 then 0 else 1)
           })
         })
       })
     })
   }"

text \<open>The result of \<^verbatim>\<open>SSL_CTX_use_PrivateKey\<close> is overwritten by the check at the end.\<close>

definition load_private_key :: "'w os \<Rightarrow> string option \<Rightarrow> int \<Rightarrow> string \<Rightarrow> ('w, int) tprog" where
  "load_private_key X engine_id ctx key_file = do {
     loaded \<leftarrow> (case engine_id of
         Some i \<Rightarrow> do {
           e \<leftarrow> invoke X (ENGINE_by_id i);
           pkey \<leftarrow> invoke X (ENGINE_load_private_key e key_file);
           (if pkey = 0 then ret False
            else do {
              invoke X (SSL_CTX_use_PrivateKey ctx pkey);
              invoke X (Free_PKEY pkey);
              ret True
            })
         }
       | None \<Rightarrow> do {
           r \<leftarrow> invoke X (SSL_CTX_use_PrivateKey_file ctx key_file);
           ret (0 < r)
         });
     (if loaded then invoke X (SSL_CTX_check_private_key ctx) else ret 0)
   }"

definition config_args_ssl_call :: "'w os \<Rightarrow> int \<Rightarrow> int \<Rightarrow> ('w, int) tprog" where
  "config_args_ssl_call X ctx cctx = do {
     invoke X (SSL_CONF_CTX_set_ssl_ctx cctx ctx);
     r \<leftarrow> invoke X (SSL_CONF_cmd cctx ''-named_curve'' ''P-256'');
     (if r \<le> 0 then ret 0
      else do {
        r \<leftarrow> invoke X (SSL_CONF_CTX_finish cctx);
        ret (if r = 0 then 0 else 1)
      })
   }"

section \<open>Verification of certificates\<close>

abbreviation (input) X509_V_OK :: int where "X509_V_OK \<equiv> 0"
abbreviation (input) X509_V_ERR_UNABLE_TO_GET_ISSUER_CERT :: int where
  "X509_V_ERR_UNABLE_TO_GET_ISSUER_CERT \<equiv> 2"
abbreviation (input) X509_V_ERR_CERT_CHAIN_TOO_LONG :: int where "X509_V_ERR_CERT_CHAIN_TOO_LONG \<equiv> 22"

text \<open>A name of a certificate in one line, printed and freed.\<close>

definition print_name :: "'w os \<Rightarrow> os_call \<Rightarrow> ('w, unit flow) tprog" where
  "print_name X get_name = do {
     name \<leftarrow> invoke X get_name;
     str \<leftarrow> invoke X (X509_NAME_oneline name);
     andthen (CHK_NULL str) (\<lambda>_. do { invoke X (Free_text str); ret (Go ()) })
   }"

text \<open>Lines 285-295: the verdict, and the error that is kept.\<close>

definition judge :: "int \<Rightarrow> int \<Rightarrow> ('w, int) tprog" where
  "judge ok depth =
     (if ok \<noteq> 0 then ret ok
      else do {
        limit \<leftarrow> gets verify_depth;
        strict \<leftarrow> gets verify_return_error;
        (if depth \<le> limit then do {
           modify (\<lambda>s. s\<lparr>verify_error := X509_V_OK\<rparr>);
           ret (if strict = 0 then 1 else ok)
         } else do {
           modify (\<lambda>s. s\<lparr>verify_error := X509_V_ERR_CERT_CHAIN_TOO_LONG\<rparr>);
           ret 0
         })
      })"

definition verify_callback :: "'w os \<Rightarrow> int \<Rightarrow> int \<Rightarrow> ('w, int flow) tprog" where
  "verify_callback X ok ctx = do {
     err_cert \<leftarrow> invoke X (X509_STORE_CTX_get_current_cert ctx);
     err \<leftarrow> invoke X (X509_STORE_CTX_get_error ctx);
     depth \<leftarrow> invoke X (X509_STORE_CTX_get_error_depth ctx);
     andthen (if ok = 0 \<and> err_cert \<noteq> 0 then print_name X (X509_get_subject_name err_cert) else ret (Go ()))
       (\<lambda>_. do {
         ok \<leftarrow> judge ok depth;
         andthen (if err = X509_V_ERR_UNABLE_TO_GET_ISSUER_CERT
                  then do {
                    undefined_if (err_cert = 0);
                    print_name X (X509_get_issuer_name err_cert)
                  } else ret (Go ()))
           (\<lambda>_. ret (Go ok))
       })
   }"

text \<open>Documented: the handshake calls the callback for each certificate until it returns 0.\<close>

fun run_checks :: "'w os \<Rightarrow> (int \<times> int) list \<Rightarrow> ('w, int flow) tprog" where
  "run_checks X [] = ret (Go 1)"
| "run_checks X ((ok, ctx) # cs) =
     andthen (verify_callback X ok ctx) (\<lambda>v. if v = 0 then ret (Go 0) else run_checks X cs)"

definition handshake :: "'w os \<Rightarrow> (int \<Rightarrow> os_call) \<Rightarrow> int \<Rightarrow> ('w, int flow) tprog" where
  "handshake X op ssl = do {
     cs \<leftarrow> gets (\<lambda>s. os_checks X ssl (t_world s));
     andthen (run_checks X cs) (\<lambda>v. do { err \<leftarrow> invoke X (op v); ret (Go err) })
   }"

section \<open>Files and commands\<close>

definition save_private_key :: "'w os \<Rightarrow> int \<Rightarrow> string \<Rightarrow> ('w, int) tprog" where
  "save_private_key X pkey privkey_fname = do {
     fd \<leftarrow> invoke X (Sys_fopen privkey_fname);
     (if fd = 0 then ret 0
      else do {
        rc \<leftarrow> invoke X (PEM_write_PrivateKey fd pkey);
        invoke X (Sys_fclose fd);
        ret rc
      })
   }"

definition save_x509_certificate :: "'w os \<Rightarrow> int \<Rightarrow> string \<Rightarrow> ('w, int) tprog" where
  "save_x509_certificate X x509 cert_fname = do {
     fd \<leftarrow> invoke X (Sys_fopen cert_fname);
     (if fd = 0 then ret 0
      else do {
        rc \<leftarrow> invoke X (PEM_write_X509 fd x509);
        invoke X (Sys_fclose fd);
        ret rc
      })
   }"

text \<open>The results are that of the function and the text in the buffer.\<close>

definition run_engine_cmds :: "'w os \<Rightarrow> string option \<Rightarrow> int \<Rightarrow> string \<Rightarrow> int \<Rightarrow> ('w, int \<times> string) tprog" where
  "run_engine_cmds X engine_id cmd buffer len =
     (case engine_id of
        None \<Rightarrow> ret (1, buffer)
      | Some i \<Rightarrow> do {
          e \<leftarrow> invoke X (ENGINE_by_id i);
          invoke X (ENGINE_ctrl e cmd len buffer);
          buffer \<leftarrow> gets (\<lambda>s. os_buffer X (t_world s));
          ret (1, buffer)
        })"

end
