(* ===== verification/Tls_Apps.thy ===== *)
theory Tls_Apps
  imports Tls
begin

text \<open>
  The TLS client (\<^verbatim>\<open>client-tls2.c\<close>), the TLS server (\<^verbatim>\<open>server-tls2.c\<close>) and the command line
  tool around them (\<^verbatim>\<open>exchange-tls12.c\<close>). What \<^verbatim>\<open>getopt\<close> gives is a list of option characters
  with their arguments; \<^verbatim>\<open>strdup\<close> is taken to succeed; the help text is left out.
\<close>

abbreviation (input) SSL_VERIFY_PEER :: int where "SSL_VERIFY_PEER \<equiv> 1"
abbreviation (input) SSL_VERIFY_CLIENT_ONCE :: int where "SSL_VERIFY_CLIENT_ONCE \<equiv> 4"
abbreviation (input) SSL_CONF_FLAG_CMDLINE :: int where "SSL_CONF_FLAG_CMDLINE \<equiv> 1"
abbreviation (input) SSL_CONF_FLAG_SERVER :: int where "SSL_CONF_FLAG_SERVER \<equiv> 8"

text \<open>The files of a program: where the authorities, the chain, the certificate and the key are.\<close>

record tls_files =
  ca_path :: string
  chain_file :: string
  cert_file :: string
  key_file :: string

section \<open>The client\<close>

text \<open>Lines 77-102: a context with cipher list, certificates and private key.\<close>

definition client_context :: "'w os \<Rightarrow> string option \<Rightarrow> tls_files \<Rightarrow> string option \<Rightarrow> ('w, int flow) tprog" where
  "client_context X engine_id F cipher_list = do {
     init_openssl X;
     ctx \<leftarrow> create_context X False;
     andthen (CHK_NULL ctx) (\<lambda>_. do {
       err \<leftarrow> setup_engine X engine_id;
       (if err = 0 then ret (Return 9) else do {
         err \<leftarrow> invoke X (SSL_CTX_set_cipher_list ctx cipher_list);
         (if err = 0 then ret (Return 10) else do {
           invoke X (SSL_CTX_set_verify ctx SSL_VERIFY_PEER);
           err \<leftarrow> configure_context X ctx (ca_path F) (chain_file F) (cert_file F);
           (if err = 0 then ret (Return 11) else do {
             err \<leftarrow> load_private_key X engine_id ctx (key_file F);
             ret (if err = 0 then Return 13 else Go ctx)
           })
         })
       })
     })
   }"

text \<open>Lines 106-118.\<close>

definition client_socket :: "'w os \<Rightarrow> string \<Rightarrow> 16 word \<Rightarrow> ('w, int flow) tprog" where
  "client_socket X ip_address port_number = do {
     sd \<leftarrow> invoke X Sys_socket;
     andthen (CHK_ERR sd) (\<lambda>_. do {
       err \<leftarrow> invoke X (Sys_connect sd ip_address port_number);
       andthen (CHK_ERR err) (\<lambda>_. ret (Go sd))
     })
   }"

text \<open>Both names of the peer's certificate, which is then released.\<close>

definition print_peer :: "'w os \<Rightarrow> int \<Rightarrow> ('w, unit flow) tprog" where
  "print_peer X cert =
     andthen (print_name X (X509_get_subject_name cert)) (\<lambda>_.
     andthen (print_name X (X509_get_issuer_name cert)) (\<lambda>_. do {
       invoke X (Free_X509 cert);
       ret (Go ())
     }))"

text \<open>A message is read into a buffer of 8192 bytes and terminated there.\<close>

definition receive :: "'w os \<Rightarrow> int \<Rightarrow> ('w, unit flow) tprog" where
  "receive X ssl = do {
     err \<leftarrow> invoke X (SSL_read ssl 8191);
     andthen (CHK_SSL err) (\<lambda>_. do {
       undefined_if (err < 0 \<or> 8192 \<le> err);
       ret (Go ())
     })
   }"

definition send :: "'w os \<Rightarrow> int \<Rightarrow> string \<Rightarrow> ('w, unit flow) tprog" where
  "send X ssl message = do {
     err \<leftarrow> invoke X (SSL_write ssl message);
     CHK_SSL err
   }"

text \<open>Lines 122-172.\<close>

definition client_session :: "'w os \<Rightarrow> int \<Rightarrow> int \<Rightarrow> ('w, unit flow) tprog" where
  "client_session X ctx sd = do {
     ssl \<leftarrow> invoke X (SSL_new ctx);
     andthen (CHK_NULL ssl) (\<lambda>_. do {
       invoke X (SSL_set_fd ssl sd);
       invoke X (SSL_set_connect_state ssl);
       andthen (handshake X (SSL_connect ssl) ssl) (\<lambda>err.
       andthen (CHK_SSL err) (\<lambda>_. do {
         server_cert \<leftarrow> invoke X (SSL_get_peer_certificate ssl);
         andthen (CHK_NULL server_cert) (\<lambda>_.
         andthen (print_peer X server_cert) (\<lambda>_.
         andthen (send X ssl ''Clent sends Hello to Server!'') (\<lambda>_.
         andthen (receive X ssl) (\<lambda>_. do {
           invoke X (SSL_shutdown ssl);
           invoke X (Sys_close sd);
           invoke X (SSL_free ssl);
           (if ctx \<noteq> 0 then do { invoke X (SSL_CTX_free ctx); skip } else skip);
           cleanup_openssl X;
           ret (Return 0)
         }))))
       }))
     })
   }"

definition connect_client ::
  "'w os \<Rightarrow> string option \<Rightarrow> tls_files \<Rightarrow> string option \<Rightarrow> string \<Rightarrow> 16 word \<Rightarrow> ('w, unit flow) tprog" where
  "connect_client X engine_id F cipher_list ip_address port_number =
     andthen (client_context X engine_id F cipher_list) (\<lambda>ctx.
     andthen (client_socket X ip_address port_number) (\<lambda>sd. client_session X ctx sd))"

section \<open>The server\<close>

text \<open>Lines 78-108; the result of \<open>config_args_ssl_call\<close> is never looked at.\<close>

definition server_context :: "'w os \<Rightarrow> string option \<Rightarrow> tls_files \<Rightarrow> ('w, (int \<times> int) flow) tprog" where
  "server_context X engine_id F = do {
     init_openssl X;
     ctx \<leftarrow> create_context X True;
     andthen (CHK_NULL ctx) (\<lambda>_. do {
       err \<leftarrow> setup_engine X engine_id;
       (if err = 0 then ret (Return 9) else do {
         invoke X (SSL_CTX_set_verify ctx (SSL_VERIFY_PEER + SSL_VERIFY_CLIENT_ONCE));
         err \<leftarrow> configure_context X ctx (ca_path F) (chain_file F) (cert_file F);
         (if err = 0 then ret (Return 11) else do {
           err \<leftarrow> load_private_key X engine_id ctx (key_file F);
           (if err = 0 then ret (Return 13) else do {
             cctx \<leftarrow> invoke X SSL_CONF_CTX_new;
             (if cctx = 0 then ret (Return 13) else do {
               invoke X (SSL_CONF_CTX_set_flags cctx SSL_CONF_FLAG_SERVER);
               invoke X (SSL_CONF_CTX_set_flags cctx SSL_CONF_FLAG_CMDLINE);
               config_args_ssl_call X ctx cctx;
               ret (Go (ctx, cctx))
             })
           })
         })
       })
     })
   }"

text \<open>Lines 112-140.\<close>

definition server_socket :: "'w os \<Rightarrow> 16 word \<Rightarrow> ('w, int flow) tprog" where
  "server_socket X port_number = do {
     listen_sd \<leftarrow> invoke X Sys_socket;
     andthen (CHK_ERR listen_sd) (\<lambda>_. do {
       invoke X (Sys_setsockopt listen_sd);
       err \<leftarrow> invoke X (Sys_bind listen_sd port_number);
       andthen (CHK_ERR err) (\<lambda>_. do {
         err \<leftarrow> invoke X (Sys_listen listen_sd 5);
         andthen (CHK_ERR err) (\<lambda>_. do {
           sd \<leftarrow> invoke X (Sys_accept listen_sd);
           andthen (CHK_ERR sd) (\<lambda>_. do {
             invoke X (Sys_close listen_sd);
             ret (Go sd)
           })
         })
       })
     })
   }"

text \<open>Lines 144-200.\<close>

definition server_session :: "'w os \<Rightarrow> int \<Rightarrow> int \<Rightarrow> int \<Rightarrow> ('w, unit flow) tprog" where
  "server_session X ctx cctx sd = do {
     ssl \<leftarrow> invoke X (SSL_new ctx);
     andthen (CHK_NULL ssl) (\<lambda>_. do {
       invoke X (SSL_set_fd ssl sd);
       invoke X (SSL_set_accept_state ssl);
       andthen (handshake X (SSL_accept ssl) ssl) (\<lambda>err.
       andthen (CHK_SSL err) (\<lambda>_. do {
         client_cert \<leftarrow> invoke X (SSL_get_peer_certificate ssl);
         andthen (if client_cert \<noteq> 0 then print_peer X client_cert else ret (Go ())) (\<lambda>_.
         andthen (receive X ssl) (\<lambda>_.
         andthen (send X ssl ''Thank you, my lovely Client!'') (\<lambda>_. do {
           invoke X (Sys_close sd);
           invoke X (SSL_free ssl);
           (if cctx \<noteq> 0 then do { invoke X (SSL_CONF_CTX_free cctx); skip } else skip);
           (if ctx \<noteq> 0 then do { invoke X (SSL_CTX_free ctx); skip } else skip);
           cleanup_openssl X;
           ret (Return 0)
         })))
       }))
     })
   }"

definition connect_server ::
  "'w os \<Rightarrow> string option \<Rightarrow> tls_files \<Rightarrow> string \<Rightarrow> 16 word \<Rightarrow> ('w, unit flow) tprog" where
  "connect_server X engine_id F ip_address port_number =
     andthen (server_context X engine_id F) (\<lambda>(ctx, cctx).
     andthen (server_socket X port_number) (\<lambda>sd. server_session X ctx cctx sd))"

section \<open>The command line\<close>

text \<open>
  \<^verbatim>\<open>strtol\<close> with base 0 and a 64-bit \<^verbatim>\<open>long\<close> (C standard 7.22.1.4): white space, a sign, then
  hexadecimal after \<^verbatim>\<open>0x\<close>, octal after \<^verbatim>\<open>0\<close>, otherwise decimal; out of range values saturate.
\<close>

definition strtol :: "string \<Rightarrow> int" where
  "strtol cs0 =
     (let cs = dropWhile isspace cs0;
          signed = (cs \<noteq> [] \<and> (hd cs = CHR ''-'' \<or> hd cs = CHR ''+''));
          ds = (if signed then tl cs else cs);
          hex = (3 \<le> length ds \<and> ds ! 0 = CHR ''0'' \<and> (ds ! 1 = CHR ''x'' \<or> ds ! 1 = CHR ''X'')
                   \<and> digit_val 16 (ds ! 2) \<noteq> None);
          base = (if hex then 16 else if ds \<noteq> [] \<and> hd ds = CHR ''0'' then 8 else 10);
          body = (if hex then drop 2 ds else ds);
          n = int (fst (scan_digits base (length body) 0 0 body))
      in max (- (2 ^ 63)) (min (2 ^ 63 - 1) (if cs \<noteq> [] \<and> hd cs = CHR ''-'' then - n else n)))"

definition to_int :: "int \<Rightarrow> int" where
  "to_int n = sint (word_of_int n :: 32 word)"

text \<open>The variables of \<^verbatim>\<open>main\<close> that the options set.\<close>

record options =
  o_cmd :: int
  is_server :: bool
  is_client :: bool
  o_ca_path :: "string option"
  o_chain_file :: "string option"
  o_cert_file :: "string option"
  o_key_file :: "string option"
  engine_id :: "string option"
  cipher_list :: "string option"
  ip_address :: string
  port_number :: "16 word"

definition default_options :: options where
  "default_options = \<lparr>o_cmd = -1, is_server = False, is_client = False, o_ca_path = None, o_chain_file = None,
     o_cert_file = None, o_key_file = None, engine_id = None, cipher_list = None,
     ip_address = ''127.0.0.1'', port_number = 49917\<rparr>"

definition usage :: "('w, 'a flow) tprog" where
  "usage = ret (Exit 1)"

definition one_option :: "'w os \<Rightarrow> char \<Rightarrow> string \<Rightarrow> options \<Rightarrow> ('w, options flow) tprog" where
  "one_option X ch optarg p =
     (if ch = CHR ''C'' then ret (Go (p\<lparr>o_cmd := to_int (strtol optarg)\<rparr>))
      else if ch = CHR ''E'' then ret (Go (p\<lparr>o_cmd := CMD_EXTRACT_ALL_CERTS X\<rparr>))
      else if ch = CHR ''c'' then ret (Go (p\<lparr>is_client := True, cipher_list := Some optarg\<rparr>))
      else if ch = CHR ''s'' then ret (Go (p\<lparr>is_server := True\<rparr>))
      else if ch = CHR ''p'' then ret (Go (p\<lparr>o_ca_path := Some optarg\<rparr>))
      else if ch = CHR ''b'' then ret (Go (p\<lparr>o_chain_file := Some optarg\<rparr>))
      else if ch = CHR ''f'' then ret (Go (p\<lparr>o_cert_file := Some optarg\<rparr>))
      else if ch = CHR ''k'' then ret (Go (p\<lparr>o_key_file := Some optarg\<rparr>))
      else if ch = CHR ''e'' then ret (Go (p\<lparr>engine_id := Some optarg\<rparr>))
      else if ch = CHR ''d'' then do {
        modify (\<lambda>s. s\<lparr>verify_depth := to_int (strtol optarg)\<rparr>);
        ret (Go p)
      }
      else if ch = CHR ''I'' then ret (Go (p\<lparr>ip_address := optarg\<rparr>))
      else if ch = CHR ''P'' then ret (Go (p\<lparr>port_number := word_of_int (strtol optarg)\<rparr>))
      else if ch = CHR ''v'' then do {
        invoke X (Printf (''Exchange version = 1.1.0'' @ [CHR 0x0A]));
        ret (Go (p\<lparr>o_cmd := CMD_GET_VERSION X\<rparr>))
      }
      else usage)"

fun all_options :: "'w os \<Rightarrow> (char \<times> string) list \<Rightarrow> options \<Rightarrow> ('w, options flow) tprog" where
  "all_options X [] p = ret (Go p)"
| "all_options X ((ch, optarg) # os) p = andthen (one_option X ch optarg p) (all_options X os)"

text \<open>Lines 194-213 and 253-256; the comparison of the buffer's address with 0 is always true.\<close>

definition command_main :: "'w os \<Rightarrow> options \<Rightarrow> string \<Rightarrow> ('w, unit flow) tprog" where
  "command_main X p cmd_buffer =
     (case engine_id p of
        None \<Rightarrow> ret (Return 10)
      | Some i \<Rightarrow> do {
          init_openssl X;
          err \<leftarrow> setup_engine X (Some i);
          code \<leftarrow> (if err = 0 then ret 19
            else do {
              (err, buffer) \<leftarrow> run_engine_cmds X (Some i) (o_cmd p) cmd_buffer 128;
              (if err = 0 then ret 20
               else do { invoke X (Printf (buffer @ [CHR 0x0A])); ret 0 })
            });
          cleanup_openssl X;
          ret (Return code)
        })"

text \<open>Lines 216-252.\<close>

definition connection_main :: "'w os \<Rightarrow> options \<Rightarrow> ('w, unit flow) tprog" where
  "connection_main X p =
     (if \<not> (is_server p \<or> is_client p) then usage
      else if is_server p \<and> is_client p then usage
      else case (o_ca_path p, o_chain_file p, o_cert_file p, o_key_file p) of
        (Some ca, Some chain, Some cert, Some key) \<Rightarrow>
          (let F = \<lparr>ca_path = ca, chain_file = chain, cert_file = cert, key_file = key\<rparr>
           in if is_server p then connect_server X (engine_id p) F (ip_address p) (port_number p)
              else connect_client X (engine_id p) F (cipher_list p) (ip_address p) (port_number p))
      | _ \<Rightarrow> usage)"

definition exchange_main :: "'w os \<Rightarrow> (char \<times> string) list \<Rightarrow> ('w, unit flow) tprog" where
  "exchange_main X opts = do {
     modify (\<lambda>s. s\<lparr>verify_depth := 0\<rparr>);
     cwd \<leftarrow> gets (\<lambda>s. os_cwd X (t_world s));
     (case cwd of
        None \<Rightarrow> ret (Return 100)
      | Some dir \<Rightarrow>
          andthen (all_options X opts default_options) (\<lambda>p.
            if o_cmd p \<noteq> -1 then command_main X p (snprintf 256 (dir @ ''/certstore''))
            else connection_main X p))
   }"

end
