(* ===== verification/Tls_Order.thy ===== *)
theory Tls_Order
  imports Tls_Apps
begin

text \<open>
  Rules for the programs over calls, and the order of the steps of a TLS connection as a
  protocol: a function of the calls so far, newest first.
\<close>

section \<open>Programs of calls\<close>

lemma wp_invoke_eq:
  "wp (invoke X c) Q s = (case os_result X c (t_world s) of
     (r, w) \<Rightarrow> Q r (s\<lparr>t_world := w, t_calls := (c, r) # t_calls s\<rparr>))"
  by (simp add: invoke_def wp_def split: prod.splits)

lemma wp_invoke [wp_intros]:
  "(\<And>r w. Q r (s\<lparr>t_world := w, t_calls := (c, r) # t_calls s\<rparr>)) \<Longrightarrow> wp (invoke X c) Q s"
  by (simp add: wp_invoke_eq split: prod.splits)

lemma wp_undefined_if [simp]:
  "wp (undefined_if b) Q s = Q () (if b then s\<lparr>t_ub := True\<rparr> else s)"
  by (simp add: undefined_if_def)

lemma wp_andthen:
  "wp (andthen m f) Q s =
     wp m (\<lambda>r t. case r of Go x \<Rightarrow> wp (f x) Q t | Return c \<Rightarrow> Q (Return c) t | Exit c \<Rightarrow> Q (Exit c) t) s"
  unfolding andthen_def wp_bind by (rule arg_cong [where f = "\<lambda>P. wp m P s"], intro ext) (auto split: flow.splits)

text \<open>The sequence rule: what holds when the first part goes on, and a way out for the rest.\<close>

lemma wp_andthenI:
  assumes "wp m (\<lambda>r t. case r of Go x \<Rightarrow> P x t | _ \<Rightarrow> Out t) s"
    and "\<And>x t. P x t \<Longrightarrow> wp (f x) Q t"
    and "\<And>t c. Out t \<Longrightarrow> Q (Return c) t \<and> Q (Exit c) t"
  shows "wp (andthen m f) Q s"
  unfolding wp_andthen by (rule wp_mono [OF assms(1)]) (auto split: flow.splits dest: assms(2,3))

lemma wp_CHK [simp]:
  "wp (CHK_NULL x) Q s = Q (if x = 0 then Exit 1 else Go ()) s"
  "wp (CHK_ERR x) Q s = Q (if x = -1 then Exit 1 else Go ()) s"
  "wp (CHK_SSL x) Q s = Q (if x = -1 then Exit 2 else Go ()) s"
  by (simp_all add: CHK_NULL_def CHK_ERR_def CHK_SSL_def)

section \<open>The order of steps\<close>

text \<open>
  The protocol of a connection: nothing is connected before the private key has been found to
  match the certificate, no handshake runs before the connection stands, and nothing is sent
  or received before a handshake that did not report a fatal error.
\<close>

datatype phase = Preparing | Keyed | Linked | Secured

fun phase_step :: "phase \<Rightarrow> os_call \<times> int \<Rightarrow> phase option" where
  "phase_step ph (SSL_CTX_check_private_key c, r) = Some (if r \<noteq> 0 \<and> ph = Preparing then Keyed else ph)"
| "phase_step ph (Sys_connect sd a p, r) = (if ph = Keyed then Some (if r = -1 then Keyed else Linked) else None)"
| "phase_step ph (Sys_accept sd, r) = (if ph = Keyed then Some (if r = -1 then Keyed else Linked) else None)"
| "phase_step ph (SSL_connect ssl v, r) = (if ph = Linked then Some (if r = -1 then Linked else Secured) else None)"
| "phase_step ph (SSL_accept ssl v, r) = (if ph = Linked then Some (if r = -1 then Linked else Secured) else None)"
| "phase_step ph (SSL_write ssl m, r) = (if ph = Secured then Some ph else None)"
| "phase_step ph (SSL_read ssl n, r) = (if ph = Secured then Some ph else None)"
| "phase_step ph (c, r) = Some ph"

fun phase_of :: "(os_call \<times> int) list \<Rightarrow> phase option" where
  "phase_of [] = Some Preparing"
| "phase_of (e # es) = Option.bind (phase_of es) (\<lambda>ph. phase_step ph e)"

text \<open>Calls the protocol does not look at, and programs that make only such calls.\<close>

fun plain_call :: "os_call \<Rightarrow> bool" where
  "plain_call (SSL_CTX_check_private_key c) = False"
| "plain_call (Sys_connect sd a p) = False"
| "plain_call (Sys_accept sd) = False"
| "plain_call (SSL_connect ssl v) = False"
| "plain_call (SSL_accept ssl v) = False"
| "plain_call (SSL_write ssl m) = False"
| "plain_call (SSL_read ssl n) = False"
| "plain_call c = True"

lemma phase_step_plain: "plain_call c \<Longrightarrow> phase_step ph (c, r) = Some ph"
  by (cases c) simp_all

text \<open>The other calls, for case distinctions.\<close>

lemma call_cases [consumes 1, case_names key link linked shake shaken write_to read_from]:
  assumes "\<not> plain_call c"
  obtains ctx where "c = SSL_CTX_check_private_key ctx" | sd a p where "c = Sys_connect sd a p"
    | sd where "c = Sys_accept sd" | ssl v where "c = SSL_connect ssl v" | ssl v where "c = SSL_accept ssl v"
    | ssl m where "c = SSL_write ssl m" | ssl n where "c = SSL_read ssl n"
  using assms by (cases c) simp_all

lemma phase_of_plain [simp]: "plain_call c \<Longrightarrow> phase_of ((c, r) # es) = phase_of es"
  by (cases "phase_of es") (simp_all add: phase_step_plain)

definition same_phase :: "'w tls \<Rightarrow> 'w tls \<Rightarrow> bool" where
  "same_phase s t \<longleftrightarrow> phase_of (t_calls t) = phase_of (t_calls s)"

interpretation plain: frame same_phase
  by unfold_locales (simp_all add: same_phase_def)

lemma plain_invoke: "plain_call c \<Longrightarrow> keeping same_phase (invoke X c)"
  by (rule keepingI) (auto simp: wp_invoke_eq same_phase_def split: prod.splits simp del: phase_of.simps)

lemma plain_undefined: "keeping same_phase (undefined_if b)"
  by (rule keepingI) (simp add: same_phase_def)

lemma plain_modify: "(\<And>s. t_calls (f s) = t_calls s) \<Longrightarrow> keeping same_phase (modify f)"
  by (rule keepingI) (simp add: same_phase_def)

lemma keeping_andthen:
  assumes "frame R" and "keeping R m" and "\<And>x. keeping R (f x)"
  shows "keeping R (andthen m f)"
  unfolding andthen_def
  by (intro frame.keep_bind [OF assms(1,2)])
    (auto split: flow.splits intro: assms(3) frame.keep_return [OF assms(1)])

lemma keeping_CHK:
  assumes "frame R"
  shows "keeping R (CHK_NULL x)" "keeping R (CHK_ERR x)" "keeping R (CHK_SSL x)"
  unfolding CHK_NULL_def CHK_ERR_def CHK_SSL_def by (intro frame.keep_return [OF assms])+

lemmas plain_andthen = keeping_andthen [OF plain.frame_axioms]
lemmas plain_CHK = keeping_CHK [OF plain.frame_axioms]

lemmas plain_basic = plain_invoke plain_undefined plain_modify plain_andthen plain_CHK plain.keep

lemma plain_parts:
  "keeping same_phase (setup_engine X i)" "keeping same_phase (init_openssl X)"
  "keeping same_phase (cleanup_openssl X)" "keeping same_phase (create_context X b)"
  "keeping same_phase (configure_context X ctx p q r)" "keeping same_phase (config_args_ssl_call X ctx cctx)"
  unfolding setup_engine_def init_openssl_def cleanup_openssl_def create_context_def
    configure_context_def config_args_ssl_call_def
  by (intro plain_basic; simp)+

lemma plain_print_name: "plain_call c \<Longrightarrow> keeping same_phase (print_name X c)"
  unfolding print_name_def by (intro plain_basic; simp)

lemma plain_callback: "keeping same_phase (verify_callback X ok ctx)"
  unfolding verify_callback_def judge_def by (intro plain_basic plain_print_name; simp)

lemma plain_checks: "keeping same_phase (run_checks X cs)"
  by (induction cs rule: run_checks.induct [of "\<lambda>X cs. keeping same_phase (run_checks X cs)" for X])
    (auto intro!: plain_basic plain_callback)

lemma plain_peer: "keeping same_phase (print_peer X c)"
  unfolding print_peer_def by (intro plain_basic plain_print_name; simp)

text \<open>The parts that do change the phase.\<close>

lemma wp_plain:
  assumes "keeping same_phase m" and "phase_of (t_calls s) = ph"
  shows "wp m (\<lambda>_ t. phase_of (t_calls t) = ph) s"
  by (rule keeping_rule [OF assms(1)]) (simp add: same_phase_def assms(2))

definition at :: "phase \<Rightarrow> 'a flow \<Rightarrow> 'w tls \<Rightarrow> bool" where
  "at ph r t \<longleftrightarrow> (case r of Go _ \<Rightarrow> phase_of (t_calls t) = Some ph | _ \<Rightarrow> phase_of (t_calls t) \<noteq> None)"

lemma at_simps [simp]:
  "at ph (Go x) t = (phase_of (t_calls t) = Some ph)"
  "at ph (Return c) t = (phase_of (t_calls t) \<noteq> None)"
  "at ph (Exit c) t = (phase_of (t_calls t) \<noteq> None)"
  by (simp_all add: at_def)

lemma at_any: "phase_of (t_calls t) = Some ph \<Longrightarrow> at ph r t"
  by (cases r) simp_all

lemma wp_at_plain:
  "keeping same_phase m \<Longrightarrow> phase_of (t_calls s) = Some ph \<Longrightarrow> wp m (at ph) s"
  by (rule wp_mono [OF wp_plain]) (auto intro: at_any)

lemma wp_at_andthen:
  assumes "wp m (at ph) s" and "\<And>x t. phase_of (t_calls t) = Some ph \<Longrightarrow> wp (f x) (at ph') t"
  shows "wp (andthen m f) (at ph') s"
  unfolding wp_andthen by (rule wp_mono [OF assms(1)]) (auto split: flow.splits dest: assms(2))

lemma wp_at_bind:
  assumes "keeping same_phase m" and "phase_of (t_calls s) = Some ph"
    and "\<And>x t. phase_of (t_calls t) = Some ph \<Longrightarrow> wp (f x) (at ph') t"
  shows "wp (State_Monad.bind m f) (at ph') s"
  by (rule wp_bindI, rule wp_mono [OF wp_plain [OF assms(1,2)]]) (rule assms(3))

lemma wp_load_private_key:
  assumes "phase_of (t_calls s) = Some Preparing"
  shows "wp (load_private_key X i ctx key) (\<lambda>r t. phase_of (t_calls t) = Some (if r = 0 then Preparing else Keyed)) s"
proof -
  have load: "keeping same_phase (case i of
      Some i \<Rightarrow> do {
        e \<leftarrow> invoke X (ENGINE_by_id i);
        pkey \<leftarrow> invoke X (ENGINE_load_private_key e key);
        (if pkey = 0 then ret False
         else do { invoke X (SSL_CTX_use_PrivateKey ctx pkey); invoke X (Free_PKEY pkey); ret True })
      }
    | None \<Rightarrow> do { r \<leftarrow> invoke X (SSL_CTX_use_PrivateKey_file ctx key); ret (0 < r) })"
    by (intro plain_basic; simp)
  show ?thesis
    unfolding load_private_key_def
    by (rule wp_bindI, rule wp_mono [OF wp_plain [OF load assms]])
      (auto simp: wp_invoke_eq split: prod.splits)
qed

lemma wp_at_load_private_key:
  assumes "phase_of (t_calls s) = Some Preparing"
    and "\<And>t. phase_of (t_calls t) = Some Preparing \<Longrightarrow> wp (f 0) (at Keyed) t"
    and "\<And>r t. r \<noteq> 0 \<Longrightarrow> phase_of (t_calls t) = Some Keyed \<Longrightarrow> wp (f r) (at Keyed) t"
  shows "wp (State_Monad.bind (load_private_key X i ctx key) f) (at Keyed) s"
  by (rule wp_bindI, rule wp_mono [OF wp_load_private_key [OF assms(1)]]) (auto intro: assms(2,3) split: if_splits)

lemma wp_at_if: "(b \<Longrightarrow> wp m (at ph) s) \<Longrightarrow> (\<not> b \<Longrightarrow> wp n (at ph) s) \<Longrightarrow> wp (if b then m else n) (at ph) s"
  by simp

lemma wp_at_out: "phase_of (t_calls s) = Some ph \<Longrightarrow> wp (ret (Return c)) (at ph') s"
  by simp

lemmas at_parts = wp_at_load_private_key wp_at_if wp_at_out
  wp_at_bind [OF plain_parts(1)] wp_at_bind [OF plain_parts(2)] wp_at_bind [OF plain_parts(4)]
  wp_at_bind [OF plain_parts(5)] wp_at_bind [OF plain_parts(6)] wp_at_bind [OF plain_invoke]
  wp_at_andthen [OF wp_at_plain [OF plain_CHK(1)]]

lemma wp_client_context:
  assumes "phase_of (t_calls s) = Some Preparing"
  shows "wp (client_context X i F cl) (at Keyed) s"
  unfolding client_context_def using assms
  by - (assumption | rule at_parts | simp)+

lemma wp_server_context:
  assumes "phase_of (t_calls s) = Some Preparing"
  shows "wp (server_context X i F) (at Keyed) s"
  unfolding server_context_def using assms
  by - (assumption | rule at_parts | simp)+

lemma wp_client_socket:
  assumes "phase_of (t_calls s) = Some Keyed"
  shows "wp (client_socket X ip port) (at Linked) s"
proof -
  have linked: "wp (do {
      err \<leftarrow> invoke X (Sys_connect sd ip port);
      andthen (CHK_ERR err) (\<lambda>_. ret (Go sd)) }) (at Linked) t"
    if "phase_of (t_calls t) = Some Keyed" for t :: "'a tls" and sd
    using that by (auto simp: wp_invoke_eq wp_andthen split: prod.splits)
  show ?thesis
    unfolding client_socket_def
    by (intro wp_at_bind [OF plain_invoke assms] wp_at_andthen [OF wp_at_plain [OF plain_CHK(2)]] linked) simp_all
qed

lemma wp_server_socket:
  assumes "phase_of (t_calls s) = Some Keyed"
  shows "wp (server_socket X port) (at Linked) s"
proof -
  have linked: "wp (do {
      sd \<leftarrow> invoke X (Sys_accept l);
      andthen (CHK_ERR sd) (\<lambda>_. do { invoke X (Sys_close l); ret (Go sd) }) }) (at Linked) t"
    if "phase_of (t_calls t) = Some Keyed" for t :: "'a tls" and l
    using that by (auto simp: wp_invoke_eq wp_andthen split: prod.splits)
  show ?thesis
    unfolding server_socket_def
    by (intro wp_at_bind [OF plain_invoke assms] wp_at_bind [OF plain_invoke]
        wp_at_andthen [OF wp_at_plain [OF plain_CHK(2)]] linked) simp_all
qed

text \<open>A handshake whose result is looked at, for either side.\<close>

lemma wp_at_handshake:
  assumes "phase_of (t_calls s) = Some Linked"
    and op: "\<And>v r. phase_step Linked (op v, r) = Some (if r = -1 then Linked else Secured)"
    and m: "\<And>t. phase_of (t_calls t) = Some Secured \<Longrightarrow> wp m (at ph) t"
  shows "wp (andthen (handshake X op ssl) (\<lambda>err. andthen (CHK_SSL err) (\<lambda>_. m))) (at ph) s"
proof -
  have checked: "wp (run_checks X cs) (at Linked) s" for cs
    by (rule wp_at_plain [OF plain_checks assms(1)])
  have shaken: "wp (invoke X (op v)) (\<lambda>r. at (if r = -1 then Linked else Secured) (Go r)) t"
    if "phase_of (t_calls t) = Some Linked" for v t
    using that by (auto simp: wp_invoke_eq op split: prod.splits)
  have "wp (handshake X op ssl) (\<lambda>r t. case r of
      Go err \<Rightarrow> phase_of (t_calls t) = Some (if err = -1 then Linked else Secured)
    | _ \<Rightarrow> phase_of (t_calls t) \<noteq> None) s"
    unfolding handshake_def
    by (simp add: wp_andthen, rule wp_mono [OF checked])
      (auto split: flow.splits intro!: wp_mono [OF shaken])
  then show ?thesis
    unfolding wp_andthen
    by (rule wp_mono) (auto simp: wp_andthen split: flow.splits intro: m)
qed

lemma wp_at_send: "phase_of (t_calls s) = Some Secured \<Longrightarrow> wp (send X ssl m) (at Secured) s"
  by (auto simp: send_def wp_invoke_eq intro!: at_any split: prod.splits)

lemma wp_at_receive: "phase_of (t_calls s) = Some Secured \<Longrightarrow> wp (receive X ssl) (at Secured) s"
  by (auto simp: receive_def wp_invoke_eq wp_andthen intro!: at_any split: prod.splits)

lemma plain_ends:
  "keeping same_phase (do {
     invoke X (SSL_shutdown ssl);
     invoke X (Sys_close sd);
     invoke X (SSL_free ssl);
     (if ctx \<noteq> 0 then do { invoke X (SSL_CTX_free ctx); skip } else skip);
     cleanup_openssl X;
     ret r })"
  "keeping same_phase (do {
     invoke X (Sys_close sd);
     invoke X (SSL_free ssl);
     (if cctx \<noteq> 0 then do { invoke X (SSL_CONF_CTX_free cctx); skip } else skip);
     (if ctx \<noteq> 0 then do { invoke X (SSL_CTX_free ctx); skip } else skip);
     cleanup_openssl X;
     ret r })"
  by (intro plain_basic plain_parts; simp)+

lemma plain_maybe_peer: "keeping same_phase (if c \<noteq> 0 then print_peer X c else ret (Go ()))"
  by (intro plain.keep plain_peer)

lemmas session_parts = wp_at_handshake [where op = "SSL_connect ssl" for ssl]
  wp_at_handshake [where op = "SSL_accept ssl" for ssl] wp_at_bind [OF plain_invoke]
  wp_at_andthen [OF wp_at_plain [OF plain_CHK(1)]] wp_at_andthen [OF wp_at_plain [OF plain_peer]]
  wp_at_andthen [OF wp_at_plain [OF plain_maybe_peer]]
  wp_at_andthen [OF wp_at_send] wp_at_andthen [OF wp_at_receive]
  wp_at_plain [OF plain_ends(1)] wp_at_plain [OF plain_ends(2)]

lemma wp_client_session:
  assumes "phase_of (t_calls s) = Some Linked"
  shows "wp (client_session X ctx sd) (at Secured) s"
  unfolding client_session_def using assms
  by - (assumption | rule session_parts | simp)+

lemma wp_server_session:
  assumes "phase_of (t_calls s) = Some Linked"
  shows "wp (server_session X ctx cctx sd) (at Secured) s"
  unfolding server_session_def using assms
  by - (assumption | rule session_parts | simp)+

lemma plain_option: "keeping same_phase (one_option X ch arg p)"
  unfolding one_option_def usage_def by (intro plain_basic; simp)

lemma plain_options: "keeping same_phase (all_options X os p)"
  by (induction os arbitrary: p) (auto intro!: plain_basic plain_option)

lemma plain_command: "keeping same_phase (command_main X p buf)"
  unfolding command_main_def run_engine_cmds_def
  by (intro plain_basic plain_parts; simp)

lemma wp_connection_main:
  assumes "phase_of (t_calls s) = Some Preparing"
  shows "wp (connection_main X p) (at Secured) s"
proof -
  have client: "wp (connect_client X i F cl ip port) (at Secured) s" for i F cl ip port
    unfolding connect_client_def
    by (intro wp_at_andthen [OF wp_client_context [OF assms]] wp_at_andthen [OF wp_client_socket] wp_client_session)
  have server: "wp (connect_server X i F ip port) (at Secured) s" for i F ip port
    unfolding connect_server_def
    by (rule wp_at_andthen [OF wp_server_context [OF assms]])
      (auto intro!: wp_at_andthen [OF wp_server_socket] wp_server_session)
  show ?thesis
    using assms by (auto simp: connection_main_def usage_def client server Let_def split: option.splits)
qed

lemma wp_exchange_main:
  assumes "t_calls s = []"
  shows "wp (exchange_main X opts) (\<lambda>_ t. phase_of (t_calls t) \<noteq> None) s"
proof -
  let ?s = "s\<lparr>verify_depth := 0\<rparr>"
  have prep: "phase_of (t_calls ?s) = Some Preparing" using assms by simp
  have ran: "wp (command_main X p b) (\<lambda>_ t. phase_of (t_calls t) \<noteq> None) t"
      "wp (connection_main X p) (\<lambda>_ t. phase_of (t_calls t) \<noteq> None) t"
    if "phase_of (t_calls t) = Some Preparing" for p b t
    by (rule wp_mono [OF wp_plain [OF plain_command that]], simp)
      (rule wp_mono [OF wp_connection_main [OF that]], auto simp: at_def split: flow.splits)
  have "wp (andthen (all_options X opts default_options) (\<lambda>p.
      if o_cmd p \<noteq> -1 then command_main X p b else connection_main X p)) (\<lambda>_ t. phase_of (t_calls t) \<noteq> None) ?s" for b
    unfolding wp_andthen
    by (rule wp_mono [OF wp_plain [OF plain_options prep]]) (simp add: ran split: flow.splits del: wp_if not_None_eq)
  note run = wp_mono [OF this]
  show ?thesis
    unfolding exchange_main_def using assms
    by (simp split: option.splits del: not_None_eq) (simp add: run del: not_None_eq)
qed

end
