(* ===== verification/Tls_Spec.thy ===== *)
theory Tls_Spec
  imports Tls_Order Cmds_Spec
begin

text \<open>
  What the TLS programs promise: the order of their steps, whom their verification lets
  through, and what a command line does, down to the engine's control function.
\<close>

section \<open>Nothing is sent too early\<close>

fun transfers :: "os_call \<Rightarrow> bool" where
  "transfers (SSL_write ssl m) = True"
| "transfers (SSL_read ssl n) = True"
| "transfers c = False"

fun key_matches :: "os_call \<times> int \<Rightarrow> bool" where
  "key_matches (SSL_CTX_check_private_key ctx, r) = (r \<noteq> 0)"
| "key_matches e = False"

fun link_made :: "os_call \<times> int \<Rightarrow> bool" where
  "link_made (Sys_connect sd a p, r) = (r \<noteq> -1)"
| "link_made (Sys_accept sd, r) = (r \<noteq> -1)"
| "link_made e = False"

fun hands_shaken :: "os_call \<times> int \<Rightarrow> bool" where
  "hands_shaken (SSL_connect ssl v, r) = (r \<noteq> -1)"
| "hands_shaken (SSL_accept ssl v, r) = (r \<noteq> -1)"
| "hands_shaken e = False"

text \<open>What has happened when a phase is reached.\<close>

definition reached :: "phase \<Rightarrow> (os_call \<times> int) list \<Rightarrow> bool" where
  "reached ph es \<longleftrightarrow> (case ph of
     Preparing \<Rightarrow> True
   | Keyed \<Rightarrow> list_ex key_matches es
   | Linked \<Rightarrow> list_ex key_matches es \<and> list_ex link_made es
   | Secured \<Rightarrow> list_ex key_matches es \<and> list_ex link_made es \<and> list_ex hands_shaken es)"

lemma reached_mono: "reached ph es \<Longrightarrow> reached ph (e # es)"
  by (auto simp: reached_def split: phase.splits)

lemma reached_step:
  assumes "reached ph es" and "phase_step ph (c, r) = Some ph'"
  shows "reached ph' ((c, r) # es)"
proof (cases "plain_call c")
  case True
  then show ?thesis using assms(2) reached_mono [OF assms(1)] by (simp add: phase_step_plain)
next
  case False
  then show ?thesis using assms
    by (cases rule: call_cases) (auto simp: reached_def split: if_splits phase.splits)
qed

lemma transfers_cases: "transfers c \<Longrightarrow> \<not> plain_call c \<and> (\<forall>ph. phase_step ph (c, r) \<noteq> None \<longrightarrow> ph = Secured)"
  by (cases c) (simp_all split: if_splits)

lemma phase_of_reached: "phase_of es = Some ph \<Longrightarrow> reached ph es"
proof (induction es arbitrary: ph)
  case Nil
  then show ?case by (simp add: reached_def)
next
  case (Cons e es)
  then obtain ph' where "phase_of es = Some ph'" "phase_step ph' e = Some ph"
    by (auto simp: bind_eq_Some_conv)
  with Cons.IH show ?case by (cases e) (auto intro: reached_step)
qed

lemma phase_of_append: "phase_of (es @ es') \<noteq> None \<Longrightarrow> phase_of es' \<noteq> None"
  by (induction es) (auto split: bind_splits)

lemma transfer_secured:
  assumes "phase_of (es @ (c, r) # es') \<noteq> None" and "transfers c"
  shows "list_ex key_matches es' \<and> list_ex link_made es' \<and> list_ex hands_shaken es'"
proof -
  have "phase_of ((c, r) # es') \<noteq> None" using phase_of_append [OF assms(1)] .
  then obtain ph where "phase_of es' = Some ph" "phase_step ph (c, r) \<noteq> None"
    by (auto simp: bind_eq_Some_conv split: bind_splits)
  with transfers_cases [OF assms(2)] have "phase_of es' = Some Secured" by blast
  from phase_of_reached [OF this] show ?thesis by (simp add: reached_def)
qed

text \<open>C9: No data is exchanged too early: in every run of the tool, for every command line and
  whatever OpenSSL, the network and the peer answer, the calls follow the protocol of a
  connection; so before anything is written to or read from the TLS connection, the private
  key was found to match the certificate, the connection stood, and a handshake was made that
  did not report a fatal error.\<close>

theorem exchange_follows_the_protocol:
  assumes "t_calls s = []"
  shows "wp (exchange_main X opts) (\<lambda>_ t. phase_of (t_calls t) \<noteq> None
    \<and> (\<forall>es c r es'. t_calls t = es @ (c, r) # es' \<and> transfers c \<longrightarrow>
         list_ex key_matches es' \<and> list_ex link_made es' \<and> list_ex hands_shaken es')) s"
  by (rule wp_mono [OF wp_exchange_main [OF assms]]) (metis transfer_secured)

text \<open>An outside where everything goes well; the first check of a certificate fails.\<close>

definition sim_os :: "nat os" where
  "sim_os = \<lparr>os_result = \<lambda>c w. (case c of X509_STORE_CTX_get_error_depth d \<Rightarrow> (d, w) | _ \<Rightarrow> (1, w)),
     os_checks = \<lambda>ssl w. [(0, 0)], os_buffer = \<lambda>w. ''ok'', os_cwd = \<lambda>w. Some ''/home'',
     CMD_EXTRACT_ALL_CERTS = 300, CMD_GET_VERSION = 200\<rparr>"

definition tls_start :: "'w \<Rightarrow> 'w tls" where
  "tls_start w = \<lparr>verify_depth = 0, verify_quiet = 0, verify_error = 0, verify_return_error = 0,
     t_world = w, t_calls = [], t_ub = False\<rparr>"

definition sim_tls :: "nat tls" where
  "sim_tls = tls_start 0"

theorem exchange_follows_the_protocol_witness:
  "wp (exchange_main sim_os [(CHR ''c'', ''ECDH-ECDSA-AES128-SHA256''), (CHR ''p'', ''ca''), (CHR ''b'', ''chain''), (CHR ''f'', ''cert''), (CHR ''k'', ''key'')])
    (\<lambda>_ t. phase_of (t_calls t) \<noteq> None
    \<and> (\<forall>es c r es'. t_calls t = es @ (c, r) # es' \<and> transfers c \<longrightarrow>
         list_ex key_matches es' \<and> list_ex link_made es' \<and> list_ex hands_shaken es')) sim_tls"
  by (rule exchange_follows_the_protocol) (simp add: sim_tls_def tls_start_def)

section \<open>Whom the verification lets through\<close>

text \<open>Names of certificates can be printed; the depth of a check is a fact about its context.\<close>

definition names_ok :: "'w os \<Rightarrow> bool" where
  "names_ok X \<longleftrightarrow> (\<forall>n w. fst (os_result X (X509_NAME_oneline n) w) \<noteq> 0)"

definition depth_is :: "'w os \<Rightarrow> (int \<Rightarrow> int) \<Rightarrow> bool" where
  "depth_is X depth \<longleftrightarrow> (\<forall>c w. fst (os_result X (X509_STORE_CTX_get_error_depth c) w) = depth c)"

definition tolerated :: "int \<Rightarrow> (int \<Rightarrow> int) \<Rightarrow> int \<times> int \<Rightarrow> bool" where
  "tolerated limit depth check \<longleftrightarrow> fst check \<noteq> 0 \<or> depth (snd check) \<le> limit"

definition settings_same :: "'w tls \<Rightarrow> 'w tls \<Rightarrow> bool" where
  "settings_same s t \<longleftrightarrow> verify_depth t = verify_depth s \<and> verify_return_error t = verify_return_error s"

lemma wp_print_name:
  assumes "names_ok X"
  shows "wp (print_name X c) (\<lambda>r t. r = Go () \<and> settings_same s t \<and> verify_error t = verify_error s) s"
  using assms unfolding print_name_def
  by (auto simp: wp_invoke_eq wp_andthen names_ok_def settings_same_def split_beta)

lemma wp_verify_callback:
  assumes "names_ok X" and "depth_is X depth" and "verify_return_error s = 0"
  shows "wp (verify_callback X ok c) (\<lambda>r t. settings_same s t \<and>
    (if ok \<noteq> 0 then r = Go ok \<and> verify_error t = verify_error s
     else if depth c \<le> verify_depth s then r = Go 1 \<and> verify_error t = X509_V_OK
     else r = Go 0 \<and> verify_error t = X509_V_ERR_CERT_CHAIN_TOO_LONG)) s"
proof -
  have depth: "fst (os_result X (X509_STORE_CTX_get_error_depth c) w) = depth c" for w
    using assms(2) by (simp add: depth_is_def)
  note name = wp_mono [OF wp_print_name [OF assms(1)]]
  show ?thesis
    using assms(3) unfolding verify_callback_def judge_def
    by (auto simp: wp_invoke_eq wp_andthen depth split_beta settings_same_def intro!: name)
qed

text \<open>
  What the calls for one chain leave in the static variable: its old value when no certificate
  was at fault, otherwise what the last fault put there.
\<close>

definition error_left :: "int \<Rightarrow> (int \<Rightarrow> int) \<Rightarrow> (int \<times> int) list \<Rightarrow> int \<Rightarrow> int" where
  "error_left limit depth cs old =
     (if \<not> list_all (tolerated limit depth) cs then X509_V_ERR_CERT_CHAIN_TOO_LONG
      else if list_ex (\<lambda>c. fst c = 0) cs then X509_V_OK
      else old)"

text \<open>C16: The peer is judged by the position of its certificates alone: a handshake's checks are
  passed exactly when every certificate that OpenSSL found at fault is within the configured
  depth, whatever the fault is. So with the default depth of 0 a server certificate that is
  self-signed, expired or issued by a stranger is accepted. And the static variable that is to
  keep the error never keeps it: after a fault that was accepted it is cleared (X509_V_OK), after
  one that was refused it says that the chain is too long, whatever the fault was.\<close>

theorem peers_judged_by_depth_alone:
  assumes "names_ok X" and "depth_is X depth" and "verify_return_error s = 0"
  shows "wp (run_checks X cs) (\<lambda>r t. settings_same s t
    \<and> r = Go (if list_all (tolerated (verify_depth s) depth) cs then 1 else 0)
    \<and> verify_error t = error_left (verify_depth s) depth cs (verify_error s)) s"
  using assms(3)
proof (induction cs arbitrary: s)
  case Nil
  then show ?case by (simp add: settings_same_def error_left_def)
next
  case (Cons check cs)
  obtain ok c where check: "check = (ok, c)" by (cases check)
  show ?case
    unfolding check run_checks.simps wp_andthen
  proof (rule wp_mono [OF wp_verify_callback [OF assms(1,2) Cons.prems]], goal_cases)
    case (1 r t)
    show ?case
    proof (cases "tolerated (verify_depth s) depth (ok, c)")
      case True
      then have "\<exists>v. r = Go v \<and> v \<noteq> 0" and same: "settings_same s t"
        and err: "verify_error t = (if ok = 0 then X509_V_OK else verify_error s)"
        using 1 by (auto simp: tolerated_def split: if_splits)
      moreover have "verify_return_error t = 0" using same Cons.prems by (simp add: settings_same_def)
      ultimately show ?thesis
        using True by (auto simp: settings_same_def error_left_def intro!: wp_mono [OF Cons.IH])
    next
      case False
      with 1 show ?thesis by (auto simp: tolerated_def error_left_def)
    qed
  qed
qed

lemma sim_os_ok [simp]: "names_ok sim_os" "depth_is sim_os (\<lambda>c. c)"
  by (simp_all add: names_ok_def depth_is_def sim_os_def)

theorem peers_judged_by_depth_alone_witness:
  "wp (run_checks sim_os [(0, 0), (1, 5)]) (\<lambda>r t. settings_same sim_tls t
    \<and> r = Go (if list_all (tolerated (verify_depth sim_tls) (\<lambda>c. c)) [(0, 0), (1, 5)] then 1 else 0)
    \<and> verify_error t = error_left (verify_depth sim_tls) (\<lambda>c. c) [(0, 0), (1, 5)] (verify_error sim_tls)) sim_tls
   \<and> list_all (tolerated (verify_depth sim_tls) (\<lambda>c. c)) [(0, 0), (1, 5)]"
proof
  have "verify_return_error sim_tls = 0" by (simp add: sim_tls_def tls_start_def)
  note all = peers_judged_by_depth_alone [OF sim_os_ok this, of "[(0, 0), (1, 5)]"]
  show "wp (run_checks sim_os [(0, 0), (1, 5)]) (\<lambda>r t. settings_same sim_tls t
    \<and> r = Go (if list_all (tolerated (verify_depth sim_tls) (\<lambda>c. c)) [(0, 0), (1, 5)] then 1 else 0)
    \<and> verify_error t = error_left (verify_depth sim_tls) (\<lambda>c. c) [(0, 0), (1, 5)] (verify_error sim_tls)) sim_tls"
    by (rule all)
qed (simp add: sim_tls_def tls_start_def tolerated_def)

section \<open>A handshake that failed\<close>

lemma wp_print_peer: "names_ok X \<Longrightarrow> wp (print_peer X c) (\<lambda>r t. r = Go ()) s"
  unfolding print_peer_def wp_andthen
  by (rule wp_mono [OF wp_print_name]) (auto simp: wp_andthen wp_invoke_eq split_beta intro!: wp_mono [OF wp_print_name])

lemma wp_run_checks_go:
  assumes "names_ok X"
  shows "wp (run_checks X cs) (\<lambda>r t. \<exists>v. r = Go v) s"
proof (induction cs arbitrary: s)
  case Nil
  then show ?case by simp
next
  case (Cons check cs)
  obtain ok c where check: "check = (ok, c)" by (cases check)
  note name = wp_mono [OF wp_print_name [OF assms]]
  have "wp (verify_callback X ok c) (\<lambda>r t. \<exists>v. r = Go v) s"
    unfolding verify_callback_def judge_def
    by (auto simp: wp_invoke_eq wp_andthen split_beta intro!: name)
  then show ?case
    unfolding check run_checks.simps wp_andthen
    by (rule wp_mono) (auto intro: Cons.IH)
qed

text \<open>The list of calls only grows.\<close>

definition later :: "'w tls \<Rightarrow> 'w tls \<Rightarrow> bool" where
  "later s t \<longleftrightarrow> set (t_calls s) \<subseteq> set (t_calls t)"

interpretation later: frame later
  by unfold_locales (auto simp: later_def)

lemma later_invoke: "keeping later (invoke X c)"
  by (rule keepingI) (auto simp: wp_invoke_eq later_def split_beta)

lemma later_undefined: "keeping later (undefined_if b)"
  by (rule keepingI) (simp add: later_def)

lemmas later_basic = later_invoke later_undefined keeping_andthen [OF later.frame_axioms]
  keeping_CHK [OF later.frame_axioms] later.keep

lemma wp_client_message:
  assumes "names_ok X" and "\<And>w. fst (os_result X (SSL_get_peer_certificate ssl) w) \<noteq> 0"
    and "keeping later rest"
  shows "wp (do {
       server_cert \<leftarrow> invoke X (SSL_get_peer_certificate ssl);
       andthen (CHK_NULL server_cert) (\<lambda>_.
       andthen (print_peer X server_cert) (\<lambda>_.
       andthen (send X ssl m) (\<lambda>_. rest)))
     }) (\<lambda>_ t. SSL_write ssl m \<in> fst ` set (t_calls t)) s"
proof -
  have "wp rest (\<lambda>_ t. SSL_write ssl m \<in> fst ` set (t_calls t)) t"
    if "SSL_write ssl m \<in> fst ` set (t_calls t)" for t
    by (rule keeping_rule [OF assms(3)]) (use that in \<open>auto simp: later_def\<close>)
  then show ?thesis
    using assms(2)
    by (auto simp: wp_invoke_eq wp_andthen split_beta send_def intro!: wp_mono [OF wp_print_peer [OF assms(1)]])
qed

text \<open>C23: The result 0 of a handshake, by which OpenSSL reports that it failed and was shut down,
  is not noticed: the client only looks for -1, goes on, and hands its message to the TLS
  library although every handshake failed, as long as a peer certificate can be shown.\<close>

theorem failed_handshake_ignored:
  assumes "names_ok X"
    and "\<And>ssl v w. fst (os_result X (SSL_connect ssl v) w) = 0"
    and "\<And>w. fst (os_result X (SSL_new ctx) w) \<noteq> 0"
    and "\<And>ssl w. fst (os_result X (SSL_get_peer_certificate ssl) w) \<noteq> 0"
  shows "wp (client_session X ctx sd) (\<lambda>_ t. \<exists>ssl.
    SSL_write ssl ''Clent sends Hello to Server!'' \<in> fst ` set (t_calls t)) s"
proof -
  have message: "wp (do {
       server_cert \<leftarrow> invoke X (SSL_get_peer_certificate ssl);
       andthen (CHK_NULL server_cert) (\<lambda>_.
       andthen (print_peer X server_cert) (\<lambda>_.
       andthen (send X ssl ''Clent sends Hello to Server!'') (\<lambda>_.
       andthen (receive X ssl) (\<lambda>_. do {
         invoke X (SSL_shutdown ssl);
         invoke X (Sys_close sd);
         invoke X (SSL_free ssl);
         (if ctx \<noteq> 0 then do { invoke X (SSL_CTX_free ctx); skip } else skip);
         cleanup_openssl X;
         ret (Return 0)
       }))))
     }) (\<lambda>_ t. \<exists>ssl. SSL_write ssl ''Clent sends Hello to Server!'' \<in> fst ` set (t_calls t)) t" for ssl and t :: "'a tls"
    by (rule wp_mono [OF wp_client_message [OF assms(1,4)]], unfold receive_def cleanup_openssl_def)
      (intro later_basic, blast)
  have shaken: "wp (handshake X (SSL_connect ssl) ssl) (\<lambda>r _. r = Go 0) t" for ssl and t :: "'a tls"
    unfolding handshake_def
    by (auto simp: wp_andthen wp_invoke_eq split_beta assms(2) intro!: wp_mono [OF wp_run_checks_go [OF assms(1)]])
  show ?thesis
    unfolding client_session_def
    by (rule wp_bindI, simp only: wp_invoke_eq split_beta, simp only: wp_andthen wp_CHK assms(3) if_False flow.case,
        intro wp_bindI wp_invoke, simp only: wp_andthen, rule wp_mono [OF shaken],
        simp only: flow.case wp_andthen wp_CHK zero_neq_neg_one if_False, rule message)
qed

definition failing_os :: "nat os" where
  "failing_os = sim_os\<lparr>os_result := \<lambda>c w. (case c of SSL_connect ssl v \<Rightarrow> (0, w) | _ \<Rightarrow> os_result sim_os c w)\<rparr>"

theorem failed_handshake_ignored_witness:
  "wp (client_session failing_os 1 3) (\<lambda>_ t. \<exists>ssl.
    SSL_write ssl ''Clent sends Hello to Server!'' \<in> fst ` set (t_calls t)) sim_tls"
  by (rule failed_handshake_ignored) (simp_all add: names_ok_def failing_os_def sim_os_def)

section \<open>Commands\<close>

lemma strtol_205: "to_int (strtol ''205'') = 205"
  by code_simp

text \<open>C26: The tool cannot choose the key slot of the engine, and does not say so: run with the
  command number of the slot command, it passes the length of its buffer, 128, as the slot.
  The engine's control function refuses that, but the tool ignores the answer and exits with
  0. This is stated of the engine's own control function behind
  OpenSSL's dispatcher.\<close>

theorem refused_command_reported_as_success:
  assumes "\<And>i w. fst (os_result X (ENGINE_by_id i) w) \<noteq> 0"
    and "\<And>e w. fst (os_result X (ENGINE_set_default e) w) \<noteq> 0"
    and "os_cwd X (t_world s) = Some dir"
    and "\<And>e i buf w. os_result X (ENGINE_ctrl e 205 i buf) w =
           run_state (eccx08_cmd_ctrl b E L B (nat e) 205 i (arg buf)) w"
  shows "wp (exchange_main X [(CHR ''e'', name), (CHR ''C'', ''205'')]) (\<lambda>r t. r = Return 0
    \<and> (\<exists>e buf. (ENGINE_ctrl e 205 128 buf, ENGINE_OPENSSL_FAILURE) \<in> set (t_calls t))) s"
proof -
  have refused: "os_result X (ENGINE_ctrl e 205 128 buf) w = (ENGINE_OPENSSL_FAILURE, w)" for e buf w
    by (simp add: assms(4) key_slot_command)
  have run: "wp (run_engine_cmds X (Some name) 205 buf 128) (\<lambda>r t. fst r = 1
      \<and> (\<exists>e buf. (ENGINE_ctrl e 205 128 buf, ENGINE_OPENSSL_FAILURE) \<in> set (t_calls t))) t" for t buf
    unfolding run_engine_cmds_def by (auto simp: wp_invoke_eq refused split_beta)
  have set_up: "wp (setup_engine X (Some name)) (\<lambda>r _. r = 1) t" for t
    unfolding setup_engine_def by (simp add: wp_invoke_eq split_beta assms(1,2))
  have "wp (command_main X (default_options\<lparr>engine_id := Some name, o_cmd := 205\<rparr>) buf) (\<lambda>r t. r = Return 0
      \<and> (\<exists>e buf. (ENGINE_ctrl e 205 128 buf, ENGINE_OPENSSL_FAILURE) \<in> set (t_calls t))) t" for buf t
    unfolding command_main_def init_openssl_def cleanup_openssl_def
    by (auto simp: wp_invoke_eq split_beta intro!: wp_mono [OF set_up] wp_mono [OF run])
  then show ?thesis
    using assms(3) by (simp add: exchange_main_def wp_andthen one_option_def strtol_205)
qed

text \<open>The concrete engine behind the tool.\<close>

definition engine_os :: "sim eng os" where
  "engine_os = \<lparr>os_result = \<lambda>c w. (case c of
       ENGINE_ctrl e cmd i buf \<Rightarrow> run_state (eccx08_cmd_ctrl default_build sim_env sim_cert sim_bio (nat e) cmd i
         \<lparr>as_string = Some buf, as_cert_params = None, as_bytes = None\<rparr>) w
     | _ \<Rightarrow> (1, w)),
     os_checks = \<lambda>ssl w. [], os_buffer = \<lambda>w. '''', os_cwd = \<lambda>w. Some ''/home'',
     CMD_EXTRACT_ALL_CERTS = 300, CMD_GET_VERSION = 200\<rparr>"

theorem refused_command_reported_as_success_witness:
  "wp (exchange_main engine_os [(CHR ''e'', ''ateccx08''), (CHR ''C'', ''205'')]) (\<lambda>r t. r = Return 0
    \<and> (\<exists>e buf. (ENGINE_ctrl e 205 128 buf, ENGINE_OPENSSL_FAILURE) \<in> set (t_calls t))) (tls_start idle)"
  by (rule refused_command_reported_as_success [where dir = "''/home''"
        and arg = "\<lambda>buf. \<lparr>as_string = Some buf, as_cert_params = None, as_bytes = None\<rparr>"])
    (simp_all add: engine_os_def)

section \<open>Numbers on the command line\<close>

fun decimal :: "nat \<Rightarrow> string" where
  "decimal n = (if n < 10 then [hexchar n] else decimal (n div 10) @ [hexchar (n mod 10)])"

declare decimal.simps [simp del]

lemma digit_val_10: "d < 10 \<Longrightarrow> digit_val 10 (hexchar d) = Some d"
proof -
  assume "d < 10"
  then have "d \<in> {0,1,2,3,4,5,6,7,8,9}" unfolding insert_iff empty_iff by presburger
  moreover have "\<forall>d \<in> {0,1,2,3,4,5,6,7,8,9 :: nat}. digit_val 10 (hexchar d) = Some d"
    by (simp add: digit_val_def hexchar_def Let_def)
  ultimately show ?thesis by blast
qed

lemma scan_digits_append:
  "scan_digits 10 (length xs + k) acc j (xs @ ys) =
     (case scan_digits 10 (length xs) acc j xs of (n, i, []) \<Rightarrow> scan_digits 10 k n i ys
        | (n, i, r) \<Rightarrow> (n, i, r @ ys))"
  by (induction xs arbitrary: acc j) (auto split: option.splits prod.splits list.splits)

lemma scan_decimal: "\<exists>i. scan_digits 10 (length (decimal n)) 0 0 (decimal n) = (n, i, [])"
proof (induction n rule: decimal.induct)
  case (1 n)
  show ?case
  proof (cases "n < 10")
    case True
    then show ?thesis by (simp add: decimal.simps [of n] digit_val_10)
  next
    case False
    then obtain i where "scan_digits 10 (length (decimal (n div 10))) 0 0 (decimal (n div 10)) = (n div 10, i, [])"
      using 1 by blast
    with False scan_digits_append [of "decimal (n div 10)" 1 0 0 "[hexchar (n mod 10)]"] show ?thesis
      by (simp add: decimal.simps [of n] digit_val_10)
  qed
qed

lemma decimal_hd: "\<exists>d cs. decimal n = hexchar d # cs \<and> d < 10 \<and> (d = 0 \<longrightarrow> n = 0)"
proof (induction n rule: decimal.induct)
  case (1 n)
  show ?case
  proof (cases "n < 10")
    case True
    then show ?thesis by (auto simp: decimal.simps [of n])
  next
    case False
    then obtain d cs where "decimal (n div 10) = hexchar d # cs" "d < 10" "d = 0 \<longrightarrow> n div 10 = 0"
      using 1 by blast
    with False show ?thesis by (auto simp: decimal.simps [of n])
  qed
qed

lemma strtol_decimal:
  assumes "n < 2 ^ 63"
  shows "strtol (decimal n) = int n"
proof -
  obtain d cs where dec: "decimal n = hexchar d # cs" "d < 10" "d = 0 \<longrightarrow> n = 0"
    using decimal_hd by blast
  have zero: "hexchar d = CHR ''0'' \<Longrightarrow> d = 0"
    using dec(2) digit_val_10 [of d] by (auto simp: digit_val_def Let_def split: if_splits)
  have short: "d = 0 \<Longrightarrow> decimal n = [CHR ''0'']"
    using dec(3) by (simp add: decimal.simps [of 0] hexchar_def)
  have plain: "dropWhile isspace (decimal n) = decimal n"
    "hexchar d \<noteq> CHR ''-''" "hexchar d \<noteq> CHR ''+''"
    using dec(1,2) by simp_all
  obtain i where scan: "scan_digits 10 (length (decimal n)) 0 0 (decimal n) = (n, i, [])"
    using scan_decimal by blast
  show ?thesis
  proof (cases "d = 0")
    case True
    with dec(3) have "n = 0" by simp
    with short [OF True] show ?thesis by simp code_simp
  next
    case False
    with zero have "hexchar d \<noteq> CHR ''0''" by blast
    with plain scan dec(1) assms show ?thesis
      by (simp add: strtol_def Let_def min_def max_def)
  qed
qed

text \<open>A port number is reduced modulo 65536 without notice: for a decimal number that fits a
  \<^verbatim>\<open>long\<close>, the port the client connects to is that number when it is below 65536 and otherwise
  its remainder, and no other option changes; with 65537 it connects to port 1.\<close>

theorem port_number_reduced:
  assumes "n < 2 ^ 63"
  shows "run_state (one_option X CHR ''P'' (decimal n) p) s = (Go (p\<lparr>port_number := of_nat n\<rparr>), s)
    \<and> unat (of_nat n :: 16 word) = n mod 65536"
  using strtol_decimal [OF assms] by (simp add: one_option_def unat_of_nat)

theorem port_number_reduced_witness:
  "run_state (one_option sim_os CHR ''P'' (decimal 65537) default_options) sim_tls
     = (Go (default_options\<lparr>port_number := of_nat 65537\<rparr>), sim_tls)
    \<and> unat (of_nat 65537 :: 16 word) = 65537 mod 65536
    \<and> decimal 65537 = ''65537''"
proof -
  have dec: "decimal 65537 = ''65537''" by (simp add: decimal.simps hexchar_def)
  have "(65537 :: nat) < 2 ^ 63" by simp
  note reduced = port_number_reduced [OF this, of sim_os default_options sim_tls]
  show ?thesis by (rule conjI [OF conjunct1 [OF reduced] conjI [OF conjunct2 [OF reduced] dec]])
qed

end
