(* ===== verification/Spec2Isabelle.thy ===== *)
theory Spec2Isabelle
  imports Processes Session_Spec Keys_Spec Auth_Spec Loading_Spec Named_Key_Spec Ownership_Spec Certs_Spec Cmds_Spec Ecdh_Spec Legacy_Spec Debug Tls_Spec
begin

text \<open>
  A model of the ATECCX08 engine for OpenSSL (\<^verbatim>\<open>src/ateccssl\<close>), a plug-in that lets OpenSSL
  use the keys of an ATECC508A crypto chip: it signs with private keys that never leave the
  chip, draws random numbers, hashes, and reads certificates from it. The
  theories model the code as it is for the OpenSSL 1.1 interface (\<^verbatim>\<open>ATCA_OPENSSL_OLD_API\<close>
  off); theory Legacy has what OpenSSL 1.0.2 makes different.

  \<^bold>\<open>How the program works.\<close> OpenSSL calls \<open>bind_helper\<close>, which registers the engine's methods,
  and \<open>eccx08_init\<close>, which makes the system-wide mutex. A private key is named by a string such
  as \<^verbatim>\<open>ATECCx08:00:01:C0:02\<close> (bus type, bus, device address, slot); loading it reads the
  public key from the chip and stores a 32-byte descriptor, the \<open>eccx08_engine_key_t\<close>, as the
  number of the private key, so that later calls recognise the key and find its device. Every
  use of the chip is bracketed by \<open>atcab_init_safe\<close> (take the mutex, open the device, wake
  the chip after another process died) and \<open>atcab_release_safe\<close>. Keys with a password are
  authorised first by a CheckMAC exchange.

  \<^bold>\<open>The model.\<close> A program that runs in the engine is a \<open>('w, 'a) prog\<close>, a total state monad over
  the record \<open>eng\<close> (theory Env): the static variables of the C files under their own names,
  a ghost trace of events, a ghost flag \<open>ub\<close> that records the first undefined behaviour, and
  \<open>world\<close>, the state of everything else. cryptoauthlib, the mutex, the heap and OpenSSL are
  functions of the records \<open>env\<close>, \<open>cert_lib\<close>, \<open>bio_lib\<close>, \<open>meth_lib\<close>, \<open>engine_lib\<close>,
  \<open>verify_lib\<close>, \<open>ecdh_lib\<close>, called with \<open>call\<close>; they may do anything to the world. What they
  are documented to do is a named hypothesis where it is needed (\<open>mutex_ok\<close>, \<open>bn_ok\<close>,
  \<open>random_ok\<close>, \<open>sha_ok\<close>, \<open>sig_new_ok\<close>, \<open>counts_refs\<close> and others), and theory Sim has a concrete
  world that satisfies all of them, on which the witnesses run. Integers are words of their C width where
  they can wrap, bytes are \<open>8 word\<close>, a C buffer is a list of bytes with its old content given.

  \<^bold>\<open>The theories.\<close> In the order of imports; the model of a file comes first, its lemmas in the
  same theory, the properties in the theory \<^verbatim>\<open>..._Spec\<close>.
    \<^item> Prelude: the state monad, weakest preconditions \<open>wp\<close> (total correctness), relations that a
      program keeps (\<open>keeping\<close>), big-endian numbers. CStdio: \<^verbatim>\<open>sscanf\<close> and
      \<^verbatim>\<open>snprintf\<close>. Env: state and environment. Monitor: the two abstract specifications, as
      monitors over the trace: \<open>chip_mon\<close>, the protocol of the chip, and \<open>ref_mon\<close>, ownership of
      OpenSSL's objects.
    \<^item> Platform, Errors: \<^verbatim>\<open>eccx08_platform.c\<close>, \<^verbatim>\<open>eccx08_err.c\<close>.
    \<^item> Session: the mutex and the device session, \<^verbatim>\<open>eccx08_engine.c\<close> lines 65 to 294; the relation
      \<open>safe\<close> that every operation keeps. Session_Spec: the contract of opening, recovery from a
      dead owner, nesting, key-specific opening.
    \<^item> Keys: the descriptor, its text and number forms, and the test for the engine's own keys, of
      \<^verbatim>\<open>eccx08_eckey_meth.c\<close> and \<^verbatim>\<open>eccx08_cmd_defns.c\<close>. Keys_Spec: round trips,
      exactness, and the device that a descriptor opens.
    \<^item> Auth, Auth_Spec: passwords (\<^verbatim>\<open>eccx08_auth.c\<close>), their table, their parser and the exchange.
    \<^item> Eckey: key objects, loading and the public-key callbacks, \<^verbatim>\<open>eccx08_eckey_meth.c\<close>.
      Loading_Spec, Ownership_Spec: which commands they send, who owns the new objects. Balance:
      reference counts through loading and signing.
    \<^item> Ecdsa, Signing_Spec: signing, \<^verbatim>\<open>eccx08_ecdsa_sign.c\<close>. Verify, Verify_Spec: verification by
      the chip, of the same file. Named_Key_Spec: loading by name and signing put together, and
      what a new key stores and gives back, over OpenSSL's reference-counted keys.
    \<^item> Cert_Defs: the three \<^verbatim>\<open>cert_def_*.c\<close>, byte for byte, a reader of DER, and the places that
      the standards give in a certificate and a request. Certs, Certs_Spec: \<^verbatim>\<open>eccx08_cert.c\<close>
      and the certificate commands. Cmds: \<^verbatim>\<open>eccx08_cmd_defns.c\<close>. Methods: the method tables.
    \<^item> Rand, Rand_Spec: \<^verbatim>\<open>eccx08_rand.c\<close>. Sha256, Digest_Spec: \<^verbatim>\<open>eccx08_sha256.c\<close>.
      Ecdh, Ecdh_Spec: \<^verbatim>\<open>eccx08_ecdh.c\<close>.
    \<^item> Engine: binding, initialisation, finishing. Run: calls of OpenSSL as a step relation with
      reachable states and an invariant; all entry points that change the state but the digest
      callbacks, which keep the device between calls, and the generator that only seeds, which
      may leave it open. Cmds_Spec: commands, tables and binding. Processes: interleavings of
      several processes under a robust mutex.
    \<^item> Legacy: the branches for OpenSSL 1.0.2 of the key test, new keys, signing, method tables,
      binding and finishing, under the names of the C functions or with the suffix \<open>_old\<close>, over
      one more library record, \<open>old_lib\<close>. Legacy_Spec: signing is the same on keys of the
      engine but for two numbers it leaks; where the old branches go wrong.
      Debug: printing of keys, and the stand-in for \<^verbatim>\<open>EVP_PKEY_set1_engine\<close>.
    \<^item> Tls, Tls_Apps: the TLS client, server and exchange tool of \<^verbatim>\<open>src/client-server\<close>, programs
      of their own that use the engine through OpenSSL. Their state is \<open>tls\<close>, the variables of
      \<^verbatim>\<open>tlsutil.c\<close> with the list of all calls; every call is a value of \<open>os_call\<close> and the outside
      is an \<open>os\<close>. Tls_Order: rules for them, and the protocol of a connection as a function of
      the calls. Tls_Spec: the protocol is followed, what verification lets through, and the tool
      run against the engine's own control function.

  \<^bold>\<open>What is shown.\<close> The whole engine: whatever OpenSSL calls and the environment answers, the
  chip protocol holds (C1), and no two live processes use the chip at once (C2). A key loaded by
  its name signs with the slot in the name (C4), and does sign when nothing stands in the way
  (C6). The data: a signature, random bytes, a digest and a verdict are the chip's. The order: no
  signature before authorisation. The formats: a key name and a descriptor survive the round trip, and
  a key that was made is recognised and opens the device in its name. The
  objects: signing leaks no reference, a loaded key belongs to the caller. And where the code
  goes wrong, theorems say exactly how: use of a freed key, authorisation that fails open,
  writes past a password, a secret that is printed and does not depend on the peer, a TLS
  client that accepts any certificate and takes a failed handshake for a good one.

  \<^bold>\<open>Interfaces.\<close> \<open>frame\<close> (Prelude) is the contract of a relation that programs keep; it is
  interpreted for the safety relation, the configuration, the commands sent, the references
  and others. \<open>device_session\<close> and its extension \<open>chip_command\<close> (Session) are what signing and
  loading rely on; \<open>codec\<close> and \<open>codec_pair\<close> (Keys) state the round trips of the descriptor. All
  are interpreted on the model's own definitions.

  \<^bold>\<open>Termination and bounds.\<close> There is no fuel. The loops are the retries of at most one more
  attempt (written out), the loops over tables (structural) and the loop over the random
  buffer, whose measure is the number of bytes left.

  \<^bold>\<open>Not modelled.\<close> The branches for Windows path separators; the macros that export the engine;
  the output of \<^verbatim>\<open>DEBUG_ENGINE\<close> and \<^verbatim>\<open>DIAG_ENGINE\<close>; \<^verbatim>\<open>eccx08_cipher.c\<close>, which does not compile
  when it is switched on; the text that the TLS programs write to the standard error stream and
  their help; the scripts and the build files. Functions that only call one whose 1.0.2 branch is in Legacy (loading a key, opening
  the device of a key) are given for OpenSSL 1.1 alone. Threads of one process are not
  modelled: the engine has no lock of its own for its static variables.
\<close>

section \<open>Runs of the engine\<close>

text \<open>C1: Whatever sequence of calls OpenSSL makes into the engine (all its entry points that change
  its state, but the digest callbacks and the generator that only seeds), and whatever the chip,
  the mutex, the heap and OpenSSL answer: between two calls no session is open, the engine's
  record of the mutex agrees with the chip protocol, the configured slots are slots of the
  chip, and, as long as nothing undefined has happened, the password table is well-formed;
  and every chip command in the past was issued inside a session with the mutex held.\<close>

theorem every_run_obeys_the_chip_protocol:
  assumes "mutex_ok (S_env S)" and "reachable S s"
  shows "chip_mon (trace s) = Some \<lparr>held = (lock_state (global_lock s) = 1), opened = False\<rparr>
    \<and> ifacecfg s = None
    \<and> unat (device_key_slot (eccx08_engine_config s)) < 16
    \<and> unat (ecdh_key_slot (eccx08_engine_config s)) < 16
    \<and> unat (ecdh_key_count (eccx08_engine_config s)) < 16
    \<and> (ub s = None \<longrightarrow> passwords_wf s)
    \<and> (\<forall>es c st es'. trace s = es @ Dev_cmd c st # es' \<longrightarrow>
         chip_mon es' = Some \<lparr>held = True, opened = True\<rparr>)"
proof -
  have "invariant s" using reachable_inv [OF assms(2,1)] .
  moreover from this have "chip_mon (trace s) \<noteq> None" by (simp add: invariant_def sess_defs)
  then have "chip_mon es' = Some \<lparr>held = True, opened = True\<rparr>"
    if "trace s = es @ Dev_cmd c st # es'" for es c st es'
    by (rule chip_mon_cmd_locked) (rule that)
  ultimately show ?thesis
    by (intro conjI allI impI)
      (simp_all add: invariant_def tame_state_def config_wf_def no_session_def synced_def chip_of_def)
qed

theorem every_run_obeys_the_chip_protocol_witness:
  "(let s = run_api sim_sys (Api_load_pubkey 1 (Some (key_id_string 0 1 0xC0 2)) None) idle in
    chip_mon (trace s) = Some \<lparr>held = (lock_state (global_lock s) = 1), opened = False\<rparr>
    \<and> ifacecfg s = None
    \<and> unat (device_key_slot (eccx08_engine_config s)) < 16
    \<and> unat (ecdh_key_slot (eccx08_engine_config s)) < 16
    \<and> unat (ecdh_key_count (eccx08_engine_config s)) < 16
    \<and> (ub s = None \<longrightarrow> passwords_wf s)
    \<and> (\<forall>es c st es'. trace s = es @ Dev_cmd c st # es' \<longrightarrow>
         chip_mon es' = Some \<lparr>held = True, opened = True\<rparr>))"
proof -
  have "reachable sim_sys idle" unfolding idle_def by (rule reachable.Start)
  then have "reachable sim_sys (run_api sim_sys (Api_load_pubkey 1 (Some (key_id_string 0 1 0xC0 2)) None) idle)"
    by (rule reachable.Step) (rule step.Call)
  from every_run_obeys_the_chip_protocol [OF _ this] show ?thesis
    unfolding Let_def by simp
qed

section \<open>Several processes\<close>

text \<open>C2: Processes that share the chip never get in each other's way: in every interleaving of
  the events of any number of engine processes, each somewhere in a run of its own (in the
  middle of a call, or dead), that is possible with a robust system-wide mutex, at the moment
  one process sends a command to the chip no other live process holds the mutex or has the
  device open. This covers processes that take the mutex over from one that died.\<close>

theorem chip_used_by_one_process_at_a_time:
  assumes "kernel_mon (post @ Ev i (Dev_cmd c st) # pre) \<noteq> None"
    and "\<forall>l. \<exists>later s. reachable (sys l) s \<and> mutex_ok (S_env (sys l))
       \<and> trace s = later @ events_of l (post @ Ev i (Dev_cmd c st) # pre)"
    and "kernel_mon pre = Some k" and "j \<noteq> i" and "j \<notin> gone k"
  shows "\<exists>m. chip_mon (events_of j pre) = Some m \<and> \<not> held m \<and> \<not> opened m"
proof (rule exclusive_use [OF assms(1) _ assms(4,3,5)])
  fix l
  from assms(2) obtain later s where "reachable (sys l) s" "mutex_ok (S_env (sys l))"
    "trace s = later @ events_of l (post @ Ev i (Dev_cmd c st) # pre)" by blast
  then show "part_of_run (events_of l (post @ Ev i (Dev_cmd c st) # pre))" by (rule part_of_runI)
qed

text \<open>A run of the engine in the concrete world: initialise, then generate a key.\<close>

definition keygen_before :: "ev list" where
  "keygen_before = [Dev_init sim_i2c 0, Cfg_malloc True, Mutex_lock 0, Obj_use Pkey 10, Obj_give Eckey 101,
     Obj_use Pkey 10, Obj_new Eckey 101, Mutex_create 0]"

definition keygen_after :: "ev list" where
  "keygen_after = [Obj_free Point 103, Set_public_key 101, Obj_new Point 103, Obj_free Group 102,
     Obj_new Group 102, Mutex_unlock 0, Cfg_free, Dev_release 0, Dev_sleep 0, Dev_wakeup 0]"

lemma keygen_trace:
  "trace (run_api sim_sys (Api_pkey_keygen 10 10) (run_api sim_sys Api_init idle)) =
     keygen_after @ Dev_cmd (Genkey 0) 0 # keygen_before"
  by (simp add: exec_def sim_sys_def sim_env_def sim_new_def sim_new_key_def idle_def engine_start_def sim0_def
      eccx08_init_def eccx08_err_load_strings_def init_mutex_def eccx08_platform_init_def default_build_def
      set_lock_handle_def set_lock_state_def eccx08_pkey_ec_keygen_def keygen_device_def genkey_or_pubkey_def
      atcab_init_safe_def eccx08_global_lock_def lock_if_not_ours_def init_locked_def copy_ifacecfg_def
      resync_recovered_def atcab_release_safe_def eccx08_global_unlock_def free_ifacecfg_def
      eccx08_eckey_convert_def ensure_group_def byte_at_def ev_new_def ev_ref_def ev_free_def
      keygen_before_def keygen_after_def)

theorem chip_used_by_one_process_at_a_time_witness:
  "\<exists>m. chip_mon (events_of 1 (map (Ev 0) keygen_before)) = Some m \<and> \<not> held m \<and> \<not> opened m"
proof (rule chip_used_by_one_process_at_a_time [where post = "[]" and i = 0 and c = "Genkey 0" and st = 0
      and k = "\<lparr>owner = Some 0, gone = {}\<rparr>" and sys = "\<lambda>_. sim_sys"])
  have own: "events_of 0 (map (Ev 0) es) = es" "l \<noteq> 0 \<Longrightarrow> events_of l (map (Ev 0) es) = []" for l es
    by (induction es) simp_all
  have start: "reachable sim_sys idle" unfolding idle_def by (rule reachable.Start)
  have keygen: "reachable sim_sys (run_api sim_sys (Api_pkey_keygen 10 10) (run_api sim_sys Api_init idle))"
    by (rule reachable.Step [OF reachable.Step [OF start step.Call] step.Call])
  show "\<forall>l. \<exists>later s. reachable sim_sys s \<and> mutex_ok (S_env sim_sys)
     \<and> trace s = later @ events_of l ([] @ Ev 0 (Dev_cmd (Genkey 0) 0) # map (Ev 0) keygen_before)"
  proof
    fix l
    show "\<exists>later s. reachable sim_sys s \<and> mutex_ok (S_env sim_sys)
     \<and> trace s = later @ events_of l ([] @ Ev 0 (Dev_cmd (Genkey 0) 0) # map (Ev 0) keygen_before)"
    proof (cases "l = 0")
      case True
      with keygen keygen_trace show ?thesis by (auto simp: own)
    next
      case False
      with start show ?thesis by (intro exI [of _ "[]"] exI [of _ idle]) (simp add: own)
    qed
  qed
qed (simp_all add: keygen_before_def)

end
